(* ===== verification/Go_Prelude.thy ===== *)
theory Go_Prelude
  imports
    Complex_Main
    "HOL-Library.Word"
    "HOL-Library.Char_ord"
    "HOL-Library.List_Lexorder"
    "HOL-Library.Multiset"
    "HOL-Library.Code_Target_Nat"
begin

text \<open>
  What the components share of Go: errors as options, machine integers, float64 with its
  comparisons, time stamps, and \<open>sort.Slice\<close>. The strings are in \<open>Go_Strings\<close> and the
  address parsers of package net in \<open>Go_Net\<close>.

  Conventions of the development:
  \<^item> a Go \<open>string\<close> is a sequence of bytes, so it is a \<^typ>\<open>string\<close> (a list of 8-bit characters);
    its order \<open><\<close> is bytewise lexicographic, the order of \<open>List_Lexorder\<close> over \<open>Char_ord\<close>;
  \<^item> \<open>uint64\<close> is \<open>64 word\<close>; a signed \<open>int\<close> is an \<^typ>\<open>int\<close>, with the wrap-around written out
    (\<open>int_add\<close>) where the code adds two of them;
  \<^item> a pointer that may be nil is an \<open>option\<close>; a returned \<open>error\<close> is an \<open>option\<close> whose
    \<^const>\<open>None\<close> is nil; a pair (value, error) is a sum with the error on the left;
  \<^item> a slice is a list (the code never distinguishes a nil slice from an empty one where it is
    modelled), a \<open>map[string]T\<close> is a map or, where its iteration order matters, a list.
\<close>

named_theorems go_err \<open>when a sequence of error checks returns nil\<close>
named_theorems go_str \<open>facts about the string functions\<close>
named_theorems go_num \<open>facts about machine integers and floats\<close>

section \<open>Errors\<close>

text \<open>\<open>if err := f(); err != nil { return err }\<close> followed by the rest of the body.\<close>

definition err_then :: "'e option \<Rightarrow> 'e option \<Rightarrow> 'e option" where
  "err_then e k = (case e of None \<Rightarrow> k | Some x \<Rightarrow> Some x)"

text \<open>\<open>if cond { return err }\<close>.\<close>

definition fail_if :: "bool \<Rightarrow> 'e \<Rightarrow> 'e option" where
  "fail_if c e = (if c then Some e else None)"

text \<open>A loop over a slice whose body may return an error.\<close>

fun err_for :: "('a \<Rightarrow> 'e option) \<Rightarrow> 'a list \<Rightarrow> 'e option" where
  "err_for f [] = None"
| "err_for f (x # xs) = err_then (f x) (err_for f xs)"

text \<open>A block of checks in the order of the source.\<close>

fun checks :: "'e option list \<Rightarrow> 'e option" where
  "checks [] = None"
| "checks (e # es) = err_then e (checks es)"

lemma err_then_None [simp, go_err]: "err_then e k = None \<longleftrightarrow> e = None \<and> k = None"
  by (simp add: err_then_def split: option.splits)

lemma err_then_simps [simp]: "err_then None k = k" "err_then (Some x) k = Some x"
  by (simp_all add: err_then_def)

lemma err_then_Some:
  "err_then e k = Some x \<longleftrightarrow> e = Some x \<or> (e = None \<and> k = Some x)"
  by (cases e) auto

lemma fail_if_None [simp, go_err]: "fail_if c e = None \<longleftrightarrow> \<not> c"
  by (simp add: fail_if_def)

lemma fail_if_Some [simp]: "fail_if c e = Some x \<longleftrightarrow> c \<and> x = e"
  by (auto simp: fail_if_def)

lemma err_for_None [go_err]: "err_for f xs = None \<longleftrightarrow> (\<forall>x \<in> set xs. f x = None)"
  by (induction xs) auto

lemma err_for_Some:
  "err_for f xs = Some e \<Longrightarrow> \<exists>x \<in> set xs. f x = Some e"
  by (induction xs) (auto simp: err_then_Some)

lemma err_for_first:
  "err_for f xs = Some e \<longleftrightarrow>
     (\<exists>ys x zs. xs = ys @ x # zs \<and> f x = Some e \<and> (\<forall>y \<in> set ys. f y = None))"
proof (induction xs)
  case (Cons a xs)
  show ?case
  proof (cases "f a")
    case None
    then have "err_for f (a # xs) = Some e \<longleftrightarrow> err_for f xs = Some e"
      by simp
    also have "\<dots> \<longleftrightarrow> (\<exists>ys x zs. a # xs = ys @ x # zs \<and> f x = Some e \<and> (\<forall>y \<in> set ys. f y = None))"
      (is "_ \<longleftrightarrow> ?R")
    proof
      assume "err_for f xs = Some e"
      then obtain ys x zs where "xs = ys @ x # zs" "f x = Some e" "\<forall>y \<in> set ys. f y = None"
        using Cons.IH by blast
      with None have "a # xs = (a # ys) @ x # zs \<and> f x = Some e \<and> (\<forall>y \<in> set (a # ys). f y = None)"
        by simp
      then show ?R by blast
    next
      assume ?R
      then obtain ys x zs where *: "a # xs = ys @ x # zs" "f x = Some e" "\<forall>y \<in> set ys. f y = None"
        by blast
      with None obtain ys' where "ys = a # ys'"
        by (cases ys) auto
      with * have "xs = ys' @ x # zs \<and> f x = Some e \<and> (\<forall>y \<in> set ys'. f y = None)"
        by simp
      then show "err_for f xs = Some e"
        using Cons.IH by blast
    qed
    finally show ?thesis .
  next
    case (Some b)
    then show ?thesis
      by (auto simp: Cons_eq_append_conv intro: exI [where x = "[]"])
  qed
qed simp

lemma checks_None [go_err]: "checks es = None \<longleftrightarrow> (\<forall>e \<in> set es. e = None)"
  by (induction es) auto

section \<open>Machine integers\<close>

type_synonym u64 = "64 word"
type_synonym u8 = "8 word"

definition MaxInt64 :: u64 where
  "MaxInt64 = 0x7FFFFFFFFFFFFFFF"

text \<open>\<open>int64(value)\<close> of an \<open>uint64\<close>: the same bits read as two's complement.\<close>

definition int64_of :: "u64 \<Rightarrow> int" where
  "int64_of w = sint w"

text \<open>Addition of two Go \<open>int\<close> values (64 bits, wrapping).\<close>

definition int_wrap :: "int \<Rightarrow> int" where
  "int_wrap x = (x + 2 ^ 63) mod 2 ^ 64 - 2 ^ 63"

definition int_add :: "int \<Rightarrow> int \<Rightarrow> int" where
  "int_add a b = int_wrap (a + b)"

definition in_int :: "int \<Rightarrow> bool" where
  "in_int x \<longleftrightarrow> - (2 ^ 63) \<le> x \<and> x < 2 ^ 63"

lemma int_wrap_id [go_num]: "in_int x \<Longrightarrow> int_wrap x = x"
  by (simp add: int_wrap_def in_int_def)

lemma int_wrap_in_int: "in_int (int_wrap x)"
  by (simp add: int_wrap_def in_int_def)

text \<open>
  A sum of two non-negative ints that overflows is negative: it can never be mistaken for a
  small count.
\<close>

lemma int_add_overflow_neg:
  assumes "in_int a" "in_int b" "0 \<le> a" "0 \<le> b" "\<not> in_int (a + b)"
  shows "int_add a b < 0"
proof -
  have "2 ^ 63 \<le> a + b" and "a + b < 2 ^ 64"
    using assms by (auto simp: in_int_def)
  then have "(a + b + 2 ^ 63) mod 2 ^ 64 = a + b + 2 ^ 63 - 2 ^ 64"
    by (subst minus_mod_self2 [symmetric]) (simp add: mod_pos_pos_trivial)
  then show ?thesis
    using \<open>a + b < 2 ^ 64\<close> by (simp add: int_add_def int_wrap_def)
qed

lemma int_add_nonneg [go_num]:
  assumes "in_int a" "in_int b" "0 \<le> a" "0 \<le> b" "0 \<le> int_add a b"
  shows "int_add a b = a + b"
  using assms int_add_overflow_neg [of a b] int_wrap_id [of "a + b"]
  by (auto simp: int_add_def)

lemma unat_MaxInt64 [simp]: "unat MaxInt64 = 9223372036854775807"
  by (simp add: MaxInt64_def)

lemma le_MaxInt64_iff: "w \<le> MaxInt64 \<longleftrightarrow> unat w < 9223372036854775808"
  by (simp add: word_le_nat_alt) linarith

lemma le_MaxInt64_uint: "w \<le> MaxInt64 \<longleftrightarrow> uint w < 9223372036854775808"
  by (simp add: MaxInt64_def word_le_def) linarith

lemma int64_of_small [go_num]: "w \<le> MaxInt64 \<Longrightarrow> int64_of w = uint w"
  using order_trans [OF _ uint_ge_0, of "- 9223372036854775808" w]
  by (simp add: int64_of_def sint_uint signed_take_bit_int_eq_self le_MaxInt64_uint)

lemma int64_of_nonneg_iff: "0 \<le> int64_of w \<longleftrightarrow> w \<le> MaxInt64"
proof
  assume *: "0 \<le> int64_of w"
  have "sint w < 2 ^ 63" using sint_lt [of w] by simp
  have "uint w = sint w mod 2 ^ 64"
    using uint_sint [of w] by (simp add: take_bit_eq_mod)
  with * \<open>sint w < 2 ^ 63\<close> have "uint w < 2 ^ 63"
    by (simp add: int64_of_def)
  then show "w \<le> MaxInt64"
    by (simp add: le_MaxInt64_uint)
qed (simp add: int64_of_small)

text \<open>Unsigned subtraction that does not wrap.\<close>

lemma unat_minus_le [go_num]: "(b :: u64) \<le> a \<Longrightarrow> unat (a - b) = unat a - unat b"
  by (rule unat_sub)

section \<open>Float64\<close>

text \<open>
  A float64 is a rational number, an infinity or NaN. The code only compares floats (its few
  arithmetic operations are parameters where they occur); the comparisons are those of IEEE
  754, false whenever an operand is NaN. Negative zero compares equal to zero and is not told apart.
\<close>

datatype f64 = Fin rat | PInf | NInf | NaN

instantiation f64 :: ord
begin

fun less_f64 :: "f64 \<Rightarrow> f64 \<Rightarrow> bool" where
  "less_f64 (Fin x) (Fin y) = (x < y)"
| "less_f64 (Fin x) PInf = True"
| "less_f64 NInf (Fin y) = True"
| "less_f64 NInf PInf = True"
| "less_f64 _ _ = False"

fun less_eq_f64 :: "f64 \<Rightarrow> f64 \<Rightarrow> bool" where
  "less_eq_f64 (Fin x) (Fin y) = (x \<le> y)"
| "less_eq_f64 (Fin x) PInf = True"
| "less_eq_f64 NInf (Fin y) = True"
| "less_eq_f64 NInf PInf = True"
| "less_eq_f64 PInf PInf = True"
| "less_eq_f64 NInf NInf = True"
| "less_eq_f64 _ _ = False"

instance ..

end

definition f64_finite :: "f64 \<Rightarrow> bool" where
  "f64_finite x \<longleftrightarrow> (case x of Fin _ \<Rightarrow> True | _ \<Rightarrow> False)"

text \<open>\<open>x == c\<close> for a float: never true of NaN.\<close>

definition f64_eq :: "f64 \<Rightarrow> f64 \<Rightarrow> bool" where
  "f64_eq x y \<longleftrightarrow> x = y \<and> x \<noteq> NaN"

lemma f64_NaN_compare [simp]:
  "\<not> (NaN < x)" "\<not> (x < NaN)" "\<not> (NaN \<le> x)" "\<not> (x \<le> NaN)"
  by (cases x; simp)+

text \<open>The value of the Go constant \<open>-273.15\<close> once it is converted to float64.\<close>

definition absolute_zero :: f64 where
  "absolute_zero = Fin (- 2402652809016115 / 8796093022208)"

lemma f64_range_finite: "Fin a \<le> x \<Longrightarrow> x \<le> Fin b \<Longrightarrow> \<exists>q. x = Fin q \<and> a \<le> q \<and> q \<le> b"
  by (cases x) auto

section \<open>Time\<close>

text \<open>A \<open>time.Time\<close> is its instant in nanoseconds since the Unix epoch; a \<open>time.Duration\<close> likewise.\<close>

type_synonym Time = int
type_synonym Duration = int

definition Second :: Duration where "Second = 1000000000"
definition Minute :: Duration where "Minute = 60 * Second"
definition Hour :: Duration where "Hour = 60 * Minute"

text \<open>The zero \<open>time.Time\<close> is January 1, year 1, 00:00 UTC.\<close>

definition zeroTime :: Time where
  "zeroTime = - 62135596800 * Second"

definition IsZero :: "Time \<Rightarrow> bool" where
  "IsZero t \<longleftrightarrow> t = zeroTime"

text \<open>\<open>Truncate(d)\<close> rounds down to a multiple of \<open>d\<close> since the zero time.\<close>

definition Truncate :: "Time \<Rightarrow> Duration \<Rightarrow> Time" where
  "Truncate t d = t - (t - zeroTime) mod d"

lemmas time_defs = Second_def Minute_def Hour_def zeroTime_def

lemma Truncate_le: "0 < d \<Longrightarrow> Truncate t d \<le> t"
  by (simp add: Truncate_def)

lemma Truncate_gt: "0 < d \<Longrightarrow> t - d < Truncate t d"
  by (simp add: Truncate_def)

lemma Truncate_idem: "0 < d \<Longrightarrow> Truncate (Truncate t d) d = Truncate t d"
proof -
  assume "0 < d"
  have "Truncate t d - zeroTime = (t - zeroTime) - (t - zeroTime) mod d"
    by (simp add: Truncate_def)
  then have "(Truncate t d - zeroTime) mod d = 0"
    by (simp add: minus_mod_eq_mult_div)
  then show ?thesis by (simp add: Truncate_def [of "Truncate t d"])
qed

lemma Truncate_mono: "0 < d \<Longrightarrow> s \<le> t \<Longrightarrow> Truncate s d \<le> Truncate t d"
proof -
  assume d: "0 < d" and "s \<le> t"
  then have "(s - zeroTime) div d \<le> (t - zeroTime) div d"
    by (simp add: zdiv_mono1)
  then have "d * ((s - zeroTime) div d) \<le> d * ((t - zeroTime) div d)"
    using d by simp
  moreover have "Truncate x d = zeroTime + d * ((x - zeroTime) div d)" for x
    by (simp add: Truncate_def minus_mod_eq_mult_div [symmetric])
  ultimately show ?thesis by simp
qed

section \<open>sort.Slice\<close>

text \<open>
  \<open>sort.Slice(xs, less)\<close> with a \<open>less\<close> that compares a key. The model is the stable sort
  \<^const>\<open>sort_key\<close>; Go only promises a sorted permutation, which is the same list whenever the
  keys are distinct (\<open>sort_slice_unique\<close>), as they are in every validated report.
\<close>

definition sort_slice :: "('a \<Rightarrow> 'k :: linorder) \<Rightarrow> 'a list \<Rightarrow> 'a list" where
  "sort_slice key xs = sort_key key xs"

lemma set_sort_slice [simp]: "set (sort_slice key xs) = set xs"
  by (simp add: sort_slice_def)

lemma mset_sort_slice [simp]: "mset (sort_slice key xs) = mset xs"
  by (simp add: sort_slice_def)

lemma length_sort_slice [simp]: "length (sort_slice key xs) = length xs"
  by (simp add: sort_slice_def)

lemma sorted_sort_slice [simp]: "sorted (map key (sort_slice key xs))"
  by (simp add: sort_slice_def)

lemma sort_slice_Nil [simp]: "sort_slice key [] = []"
  by (simp add: sort_slice_def)

lemma sort_slice_single [simp]: "sort_slice key [x] = [x]"
  by (simp add: sort_slice_def)

lemma sort_slice_sorted: "sorted (map key xs) \<Longrightarrow> sort_slice key xs = xs"
  by (simp add: sort_slice_def sorted_sort_id sort_key_id_if_sorted)

lemma sort_slice_idem [simp]: "sort_slice key (sort_slice key xs) = sort_slice key xs"
  by (rule sort_slice_sorted) simp

lemma distinct_map_mset: "distinct (map f xs) \<longleftrightarrow> distinct (map f ys)" if "mset xs = mset ys"
proof -
  from that have "mset (map f xs) = mset (map f ys)" by simp
  then show ?thesis by (rule mset_eq_imp_distinct_iff)
qed

lemma distinct_map_sort_slice [simp]: "distinct (map f (sort_slice key xs)) \<longleftrightarrow> distinct (map f xs)"
  by (rule distinct_map_mset) simp

lemma distinct_filter_single: "distinct xs \<Longrightarrow> k \<in> set xs \<Longrightarrow> filter (\<lambda>x. x = k) xs = [k]"
  by (induction xs) (auto simp: filter_empty_conv)

lemma sort_slice_unique:
  assumes "distinct (map key xs)" and "mset ys = mset xs" and "sorted (map key ys)"
  shows "ys = sort_slice key xs"
proof -
  have inj: "inj_on key (set xs)" and dx: "distinct xs"
    using assms(1) by (auto simp: distinct_map)
  have "sort_key key xs = ys"
  proof (rule properties_for_sort_key)
    show "mset ys = mset xs" by (rule assms(2))
    show "sorted (map key ys)" by (rule assms(3))
    fix k
    assume "k \<in> set ys"
    have "set ys = set xs" using assms(2) by (rule mset_eq_setD)
    have "distinct ys" using assms(2) dx by (metis mset_eq_imp_distinct_iff)
    have "\<forall>x \<in> set xs. key k = key x \<longleftrightarrow> x = k"
      using inj \<open>k \<in> set ys\<close> \<open>set ys = set xs\<close> by (auto simp: inj_on_def)
    then have "filter (\<lambda>x. key k = key x) ys = filter (\<lambda>x. x = k) ys"
      and "filter (\<lambda>x. key k = key x) xs = filter (\<lambda>x. x = k) xs"
      using \<open>set ys = set xs\<close> by (auto intro!: filter_cong)
    moreover have "filter (\<lambda>x. x = k) ys = [k]" "filter (\<lambda>x. x = k) xs = [k]"
      using dx \<open>distinct ys\<close> \<open>k \<in> set ys\<close> \<open>set ys = set xs\<close>
      by (simp_all add: distinct_filter_single)
    ultimately show "filter (\<lambda>x. key k = key x) ys = filter (\<lambda>x. key k = key x) xs"
      by simp
  qed
  then show ?thesis by (simp add: sort_slice_def)
qed

end
