(* ===== verification/Report_Types.thy ===== *)
theory Report_Types
  imports Go_Prelude
begin

text \<open>
  The wire format of a report (src/internal/report/types.go): one record per Go struct, with the
  fields in the order of the source. Field names carry a prefix for their struct, since Isabelle's
  record selectors are global. Pointers are options, \<open>uint64\<close> is \<^typ>\<open>u64\<close>, \<open>int\<close> is
  \<^typ>\<open>int\<close>, \<open>float64\<close> is \<^typ>\<open>f64\<close> and \<open>map[string]string\<close> is a map.
\<close>

definition Version :: int where
  "Version = 1"

record AgentInfo =
  ai_ID :: string
  ai_Hostname :: string
  ai_OSName :: string
  ai_OSVersion :: string
  ai_KernelVersion :: string
  ai_Architecture :: string
  ai_AgentVersion :: string
  ai_MachineType :: string
  ai_SystemModel :: string
  ai_PrimaryIP :: string
  ai_Labels :: "string \<rightharpoonup> string"

record GPU =
  gpu_Key :: string
  gpu_Index :: int
  gpu_UUID :: string
  gpu_ModelName :: string
  gpu_MemoryTotalBytes :: u64

record CPUPackage =
  cpu_Key :: string
  cpu_PackageIndex :: int
  cpu_Vendor :: string
  cpu_ModelName :: string
  cpu_PhysicalCores :: int
  cpu_LogicalThreads :: int
  cpu_PerformanceCores :: int
  cpu_EfficiencyCores :: int
  cpu_MaxFrequencyMHz :: f64

record MemoryModule =
  mm_Key :: string
  mm_SlotName :: string
  mm_Manufacturer :: string
  mm_ModelName :: string
  mm_PartNumber :: string
  mm_SerialNumber :: string
  mm_MemoryType :: string
  mm_SizeBytes :: u64
  mm_SpeedMTs :: int

record BlockDevice =
  bd_Key :: string
  bd_DeviceName :: string
  bd_DeviceKind :: string
  bd_Vendor :: string
  bd_ModelName :: string
  bd_SerialNumber :: string
  bd_WWN :: string
  bd_SizeBytes :: u64
  bd_Rotational :: "bool option"
  bd_Protocol :: string
  bd_SMARTDeviceType :: string
  bd_RAIDPassthrough :: bool

record Filesystem =
  fs_Key :: string
  fs_UUID :: string
  fs_DeviceName :: string
  fs_FilesystemType :: string
  fs_MountPoint :: string
  fs_MountOptions :: "string list"

record NetworkAddress =
  na_Address :: string
  na_Scope :: string

record NetworkInterface =
  ni_Key :: string
  ni_Name :: string
  ni_MACAddress :: string
  ni_MTU :: int
  ni_LinkSpeedMbps :: int
  ni_Addresses :: "NetworkAddress list"

record Inventory =
  inv_CPUPackages :: "CPUPackage list"
  inv_MemoryModules :: "MemoryModule list"
  inv_BlockDevices :: "BlockDevice list"
  inv_Filesystems :: "Filesystem list"
  inv_NetworkInterfaces :: "NetworkInterface list"
  inv_GPUs :: "GPU list"

record TemperatureMetrics =
  tm_Key :: string
  tm_Component :: string
  tm_Label :: string
  tm_TemperatureCelsius :: f64
  tm_HighCelsius :: "f64 option"
  tm_CriticalCelsius :: "f64 option"

record StorageHealth =
  sh_BlockDeviceKey :: string
  sh_SMARTAvailable :: bool
  sh_SMARTEnabled :: bool
  sh_SMARTStatus :: string
  sh_RiskLevel :: string
  sh_RiskReasons :: "string list"
  sh_TemperatureCelsius :: "f64 option"
  sh_PowerOnHours :: "u64 option"
  sh_ErrorCount :: "u64 option"
  sh_ReadErrorRateNormalized :: "u64 option"
  sh_ReadErrorRateRaw :: "u64 option"
  sh_ReallocatedSectors :: "u64 option"
  sh_PendingSectors :: "u64 option"
  sh_UncorrectableSectors :: "u64 option"
  sh_PercentageUsed :: "f64 option"

record GPUMetrics =
  gm_GPUKey :: string
  gm_UtilizationPercent :: f64
  gm_MemoryUsedBytes :: u64
  gm_TemperatureCelsius :: "f64 option"

record CPUMetrics =
  cm_UsagePercent :: f64
  cm_Load1 :: f64
  cm_Load5 :: f64
  cm_Load15 :: f64

record MemoryMetrics =
  me_TotalBytes :: u64
  me_UsedBytes :: u64
  me_AvailableBytes :: u64
  me_CachedBytes :: u64
  me_BuffersBytes :: u64
  me_SwapTotalBytes :: u64
  me_SwapUsedBytes :: u64
  me_UptimeSeconds :: u64

record DiskMetrics =
  dm_ReadBytesTotal :: u64
  dm_WriteBytesTotal :: u64
  dm_ReadBytesDelta :: u64
  dm_WriteBytesDelta :: u64
  dm_ReadOpsDelta :: u64
  dm_WriteOpsDelta :: u64

record FilesystemMetrics =
  fm_FilesystemKey :: string
  fm_TotalBytes :: u64
  fm_UsedBytes :: u64
  fm_AvailableBytes :: u64
  fm_TotalInodes :: u64
  fm_UsedInodes :: u64

record NetworkMetrics =
  nm_InterfaceKey :: string
  nm_LinkUp :: bool
  nm_RXBytesTotal :: u64
  nm_TXBytesTotal :: u64
  nm_RXBytesDelta :: u64
  nm_TXBytesDelta :: u64
  nm_RXPacketsDelta :: u64
  nm_TXPacketsDelta :: u64
  nm_RXErrorsDelta :: u64
  nm_TXErrorsDelta :: u64
  nm_RXDroppedDelta :: u64
  nm_TXDroppedDelta :: u64

record Metrics =
  m_CPU :: CPUMetrics
  m_Memory :: MemoryMetrics
  m_Disk :: DiskMetrics
  m_Filesystems :: "FilesystemMetrics list"
  m_Network :: "NetworkMetrics list"
  m_GPUs :: "GPUMetrics list"
  m_Temperatures :: "TemperatureMetrics list"
  m_StorageHealth :: "StorageHealth list"

record Report =
  r_Version :: int
  r_CollectedAt :: Time
  r_IntervalSeconds :: int
  r_InventoryFingerprint :: string
  r_Agent :: AgentInfo
  r_Inventory :: Inventory
  r_Metrics :: Metrics

record AgentUpdate =
  au_Version :: string

record ReportReceipt =
  rr_Status :: string
  rr_BucketAt :: Time
  rr_AgentUpdate :: "AgentUpdate option"

end
