(* ===== verification/Go_Strings.thy ===== *)
theory Go_Strings
  imports Go_Prelude "HOL-Library.Sublist"
begin

text \<open>
  The functions of Go's packages strings, strconv, encoding/hex and bufio that the program
  calls, on byte strings, with the lemmas the components use. \<open>strings.HasPrefix(s, p)\<close> is
  \<open>prefix p s\<close>, \<open>strings.HasSuffix\<close> is \<open>suffix\<close> and \<open>strings.Contains(s, t)\<close> is
  \<open>sublist t s\<close> of the library theory Sublist.
\<close>

section \<open>White space\<close>

text \<open>
  The UTF-8 encodings of the runes for which \<open>unicode.IsSpace\<close> holds. An encoding starts with
  an ASCII byte or a lead byte and continues with continuation bytes, so a byte string starts (ends)
  with a space rune iff one of these is its prefix (suffix), whether or not the rest is valid UTF-8.
\<close>

definition spaceRunes :: "string list" where
  "spaceRunes =
     [[CHR 0x09], [CHR 0x0A], [CHR 0x0B], [CHR 0x0C], [CHR 0x0D], [CHR 0x20],
      [CHR 0xC2, CHR 0x85], [CHR 0xC2, CHR 0xA0], [CHR 0xE1, CHR 0x9A, CHR 0x80],
      [CHR 0xE2, CHR 0x80, CHR 0x80], [CHR 0xE2, CHR 0x80, CHR 0x81],
      [CHR 0xE2, CHR 0x80, CHR 0x82], [CHR 0xE2, CHR 0x80, CHR 0x83],
      [CHR 0xE2, CHR 0x80, CHR 0x84], [CHR 0xE2, CHR 0x80, CHR 0x85],
      [CHR 0xE2, CHR 0x80, CHR 0x86], [CHR 0xE2, CHR 0x80, CHR 0x87],
      [CHR 0xE2, CHR 0x80, CHR 0x88], [CHR 0xE2, CHR 0x80, CHR 0x89],
      [CHR 0xE2, CHR 0x80, CHR 0x8A], [CHR 0xE2, CHR 0x80, CHR 0xA8],
      [CHR 0xE2, CHR 0x80, CHR 0xA9], [CHR 0xE2, CHR 0x80, CHR 0xAF],
      [CHR 0xE2, CHR 0x81, CHR 0x9F], [CHR 0xE3, CHR 0x80, CHR 0x80]]"

text \<open>Strips the strings of \<open>ws\<close> off the front as long as one of them is a prefix.\<close>

function strip :: "string list \<Rightarrow> string \<Rightarrow> string" where
  "strip ws s = (case find (\<lambda>w. w \<noteq> [] \<and> prefix w s) ws of
                   None \<Rightarrow> s
                 | Some w \<Rightarrow> strip ws (drop (length w) s))"
  by pat_completeness auto
termination
  by (relation "measure (\<lambda>(ws, s). length s)") (auto simp: find_Some_iff prefix_def)

declare strip.simps [simp del]

definition TrimLeft_space :: "string \<Rightarrow> string" where
  "TrimLeft_space s = strip spaceRunes s"

definition TrimRight_space :: "string \<Rightarrow> string" where
  "TrimRight_space s = rev (strip (map rev spaceRunes) (rev s))"

definition TrimSpace :: "string \<Rightarrow> string" where
  "TrimSpace s = TrimRight_space (TrimLeft_space s)"

definition starts_with_any :: "string list \<Rightarrow> string \<Rightarrow> bool" where
  "starts_with_any ws s \<longleftrightarrow> (\<exists>w \<in> set ws. w \<noteq> [] \<and> prefix w s)"

lemma strip_noop: "\<not> starts_with_any ws s \<Longrightarrow> strip ws s = s"
  using find_None_iff [of "\<lambda>w. w \<noteq> [] \<and> prefix w s" ws]
  by (subst strip.simps) (auto simp: starts_with_any_def)

lemma strip_suffix: "suffix (strip ws s) s"
proof (induction ws s rule: strip.induct)
  case (1 ws s)
  show ?case
    using 1 suffix_drop suffix_order.trans
    by (subst strip.simps) (fastforce split: option.splits)
qed

lemma strip_done: "\<not> starts_with_any ws (strip ws s)"
proof (induction ws s rule: strip.induct)
  case (1 ws s)
  show ?case
    using 1
    by (subst strip.simps) (auto simp: starts_with_any_def find_None_iff split: option.splits)
qed

lemma starts_with_any_prefix: "prefix s t \<Longrightarrow> starts_with_any ws s \<Longrightarrow> starts_with_any ws t"
  by (auto simp: starts_with_any_def intro: prefix_order.trans)

lemma TrimRight_space_prefix: "prefix (TrimRight_space s) s"
  using strip_suffix [of "map rev spaceRunes" "rev s"]
  by (simp add: TrimRight_space_def suffix_to_prefix)

text \<open>A trimmed string neither starts nor ends with a space, so trimming is idempotent.\<close>

lemma TrimSpace_start: "\<not> starts_with_any spaceRunes (TrimSpace s)"
  using strip_done [of spaceRunes s] starts_with_any_prefix [OF TrimRight_space_prefix]
  by (auto simp: TrimSpace_def TrimLeft_space_def)

lemma TrimSpace_end: "\<not> starts_with_any (map rev spaceRunes) (rev (TrimSpace s))"
  by (simp add: TrimSpace_def TrimRight_space_def strip_done)

lemma TrimSpace_fixed:
  assumes "\<not> starts_with_any spaceRunes s" and "\<not> starts_with_any (map rev spaceRunes) (rev s)"
  shows "TrimSpace s = s"
  using assms by (simp add: TrimSpace_def TrimRight_space_def TrimLeft_space_def strip_noop)

lemma TrimSpace_idem [simp, go_str]: "TrimSpace (TrimSpace s) = TrimSpace s"
  by (rule TrimSpace_fixed) (rule TrimSpace_start, rule TrimSpace_end)

lemma TrimSpace_Nil [simp]: "TrimSpace [] = []"
  by (rule TrimSpace_fixed) (auto simp: starts_with_any_def)

lemma TrimSpace_sublist: "sublist (TrimSpace s) s"
  using TrimRight_space_prefix strip_suffix
  unfolding TrimSpace_def TrimLeft_space_def
  by (meson prefix_imp_sublist sublist_order.order_trans suffix_imp_sublist)

lemma set_TrimSpace: "set (TrimSpace s) \<subseteq> set s"
  using TrimSpace_sublist set_mono_sublist by blast

text \<open>A string without a byte that starts a space and without one that ends a space is trimmed.\<close>

definition spaceEdge :: "char \<Rightarrow> bool" where
  "spaceEdge c \<longleftrightarrow> (\<exists>w \<in> set spaceRunes. c = hd w \<or> c = last w)"

lemma spaceRunes_nonempty: "w \<in> set spaceRunes \<Longrightarrow> w \<noteq> []"
  by (auto simp: spaceRunes_def)

lemma TrimSpace_no_edge:
  assumes "s \<noteq> [] \<Longrightarrow> \<not> spaceEdge (hd s) \<and> \<not> spaceEdge (last s)"
  shows "TrimSpace s = s"
proof (rule TrimSpace_fixed)
  show "\<not> starts_with_any spaceRunes s"
    using assms by (auto simp: starts_with_any_def spaceEdge_def prefix_def)
  show "\<not> starts_with_any (map rev spaceRunes) (rev s)"
  proof
    assume "starts_with_any (map rev spaceRunes) (rev s)"
    then obtain w where w: "w \<in> set spaceRunes" "w \<noteq> []" "prefix (rev w) (rev s)"
      by (auto simp: starts_with_any_def)
    then have "suffix w s" by (simp add: suffix_to_prefix)
    then have "s \<noteq> []" and "last s = last w"
      using w(2) by (auto simp: suffix_def)
    then show False using assms w(1) by (auto simp: spaceEdge_def)
  qed
qed

text \<open>\<open>strings.Fields\<close>: the maximal runs of non-space runes.\<close>

function fields_acc :: "string \<Rightarrow> string \<Rightarrow> string list" where
  "fields_acc acc s = (case s of
       [] \<Rightarrow> (if acc = [] then [] else [rev acc])
     | c # cs \<Rightarrow> (case find (\<lambda>w. w \<noteq> [] \<and> prefix w s) spaceRunes of
           Some w \<Rightarrow> (if acc = [] then [] else [rev acc]) @ fields_acc [] (drop (length w) s)
         | None \<Rightarrow> fields_acc (c # acc) cs))"
  by pat_completeness auto
termination
  by (relation "measure (\<lambda>(acc, s). length s)") (auto simp: find_Some_iff prefix_def)

declare fields_acc.simps [simp del]

definition Fields :: "string \<Rightarrow> string list" where
  "Fields s = fields_acc [] s"

section \<open>Case, splitting, prefixes\<close>

definition is_ascii :: "string \<Rightarrow> bool" where
  "is_ascii s \<longleftrightarrow> (\<forall>c \<in> set s. c < CHR 0x80)"

definition lower_byte :: "char \<Rightarrow> char" where
  "lower_byte c = (if CHR ''A'' \<le> c \<and> c \<le> CHR ''Z'' then char_of (of_char c + 32 :: nat) else c)"

text \<open>
  \<open>strings.ToLower\<close> on an ASCII string maps its letters; on a string with another byte it maps
  runes by the tables of package unicode, which are the parameter \<open>uni\<close>.
\<close>

definition ToLower :: "(string \<Rightarrow> string) \<Rightarrow> string \<Rightarrow> string" where
  "ToLower uni s = (if is_ascii s then map lower_byte s else uni s)"

text \<open>
  \<open>strings.EqualFold(s, t)\<close> for an ASCII \<open>t\<close>: beside the two cases of a letter, simple case
  folding identifies the Kelvin sign U+212A with k and the long s U+017F with s, and no other
  non-ASCII rune with an ASCII one.
\<close>

fun fold_ascii :: "string \<Rightarrow> string" where
  "fold_ascii [] = []"
| "fold_ascii (a # s) =
     (if prefix [CHR 0xC5, CHR 0xBF] (a # s) then CHR ''s'' # fold_ascii (tl s)
      else if prefix [CHR 0xE2, CHR 0x84, CHR 0xAA] (a # s) then CHR ''k'' # fold_ascii (tl (tl s))
      else lower_byte a # fold_ascii s)"

definition EqualFold :: "string \<Rightarrow> string \<Rightarrow> bool" where
  "EqualFold s t \<longleftrightarrow> fold_ascii s = map lower_byte t"

text \<open>\<open>strings.Split\<close> at a one-byte separator.\<close>

fun splitc :: "char \<Rightarrow> string \<Rightarrow> string list" where
  "splitc d [] = [[]]"
| "splitc d (c # cs) =
     (if c = d then [] # splitc d cs
      else case splitc d cs of [] \<Rightarrow> [[c]] | x # xs \<Rightarrow> (c # x) # xs)"

fun joinc :: "char \<Rightarrow> string list \<Rightarrow> string" where
  "joinc d [] = []"
| "joinc d [x] = x"
| "joinc d (x # y # xs) = x @ d # joinc d (y # xs)"

lemma splitc_nonempty [simp]: "splitc d s \<noteq> []"
  by (induction s) (auto split: list.splits)

lemma joinc_splitc [simp, go_str]: "joinc d (splitc d s) = s"
proof (induction s)
  case (Cons c s)
  obtain x xs where "splitc d s = x # xs"
    by (cases "splitc d s") auto
  with Cons show ?case
    by (cases xs) auto
qed simp

lemma splitc_no_sep: "x \<in> set (splitc d s) \<Longrightarrow> d \<notin> set x"
  by (induction s arbitrary: x) (auto split: list.splits if_splits)

lemma set_splitc: "x \<in> set (splitc d s) \<Longrightarrow> set x \<subseteq> set s"
proof (induction s arbitrary: x)
  case (Cons c s)
  then show ?case
    by (cases "splitc d s") (auto split: if_splits, (metis subset_iff set_ConsD list.set_intros)+)
qed simp

text \<open>\<open>strings.Split\<close> at a longer separator: its leftmost non-overlapping occurrences.\<close>

function split_acc :: "string \<Rightarrow> string \<Rightarrow> string \<Rightarrow> string list" where
  "split_acc sep acc s =
     (case s of [] \<Rightarrow> [rev acc]
      | c # cs \<Rightarrow> if sep \<noteq> [] \<and> prefix sep s then rev acc # split_acc sep [] (drop (length sep) s)
                  else split_acc sep (c # acc) cs)"
  by pat_completeness auto
termination
  by (relation "measure (\<lambda>(sep, acc, s). length s)") auto

declare split_acc.simps [simp del]

definition Split :: "string \<Rightarrow> string \<Rightarrow> string list" where
  "Split sep s = split_acc sep [] s"

text \<open>\<open>strings.Cut\<close> at a one-byte separator: \<open>None\<close> when it does not occur.\<close>

fun Cut :: "char \<Rightarrow> string \<Rightarrow> (string \<times> string) option" where
  "Cut d [] = None"
| "Cut d (c # cs) = (if c = d then Some ([], cs) else map_option (\<lambda>(a, b). (c # a, b)) (Cut d cs))"

lemma Cut_Some: "Cut d s = Some (a, b) \<Longrightarrow> s = a @ d # b \<and> d \<notin> set a"
  by (induction s arbitrary: a) (auto split: if_splits)

lemma Cut_None: "Cut d s = None \<longleftrightarrow> d \<notin> set s"
  by (induction s) auto

definition TrimPrefix :: "string \<Rightarrow> string \<Rightarrow> string" where
  "TrimPrefix s p = (if prefix p s then drop (length p) s else s)"

definition TrimSuffix :: "string \<Rightarrow> string \<Rightarrow> string" where
  "TrimSuffix s p = (if suffix p s then take (length s - length p) s else s)"

text \<open>\<open>strings.TrimRight(s, "/")\<close>.\<close>

definition TrimRightByte :: "string \<Rightarrow> char \<Rightarrow> string" where
  "TrimRightByte s c = rev (dropWhile (\<lambda>x. x = c) (rev s))"

definition Contains :: "string \<Rightarrow> string \<Rightarrow> bool" where
  "Contains s t \<longleftrightarrow> sublist t s"

section \<open>Numbers\<close>

definition is_digit :: "char \<Rightarrow> bool" where
  "is_digit c \<longleftrightarrow> CHR ''0'' \<le> c \<and> c \<le> CHR ''9''"

definition digit_val :: "char \<Rightarrow> nat" where
  "digit_val c = of_char c - 48"

definition decimal :: "string \<Rightarrow> nat" where
  "decimal s = foldl (\<lambda>n c. 10 * n + digit_val c) 0 s"

text \<open>\<open>strconv.ParseUint(s, 10, 64)\<close>: \<open>None\<close> on a syntax or range error.\<close>

definition ParseUint :: "string \<Rightarrow> u64 option" where
  "ParseUint s = (if s \<noteq> [] \<and> list_all is_digit s \<and> decimal s < 2 ^ 64
                  then Some (of_nat (decimal s)) else None)"

text \<open>The value that \<open>ParseUint\<close> returns with or without an error.\<close>

definition ParseUint_value :: "string \<Rightarrow> u64" where
  "ParseUint_value s =
     (case ParseUint s of
        Some n \<Rightarrow> n
      | None \<Rightarrow> if decimal (takeWhile is_digit s) \<ge> 2 ^ 64 then - 1 else 0)"

text \<open>
  \<open>strconv.Atoi\<close>: the value and whether the error is nil. A syntax error gives 0, a range error
  the nearest int; the digits are read from the left, so that a number out of range is
  reported before a later byte that is no digit.
\<close>

definition Atoi :: "string \<Rightarrow> int \<times> bool" where
  "Atoi s =
     (let neg = (s \<noteq> [] \<and> hd s = CHR ''-'');
          body = (if s \<noteq> [] \<and> (hd s = CHR ''-'' \<or> hd s = CHR ''+'') then tl s else s);
          digits = takeWhile is_digit body
      in if body = [] \<or> digits \<noteq> body \<and> decimal digits < 2 ^ 64 then (0, False)
         else let v = (if neg then - int (decimal digits) else int (decimal digits))
              in if in_int v then (v, True)
                 else (if neg then - (2 ^ 63) else 2 ^ 63 - 1, False))"

text \<open>\<open>strconv.Itoa\<close> (and \<open>%d\<close>) of a non-negative number.\<close>

fun Itoa :: "nat \<Rightarrow> string" where
  "Itoa n = (if n < 10 then [char_of (48 + n)] else Itoa (n div 10) @ [char_of (48 + n mod 10)])"

declare Itoa.simps [simp del]

lemma is_digit_of_char: "is_digit c \<longleftrightarrow> 48 \<le> (of_char c :: nat) \<and> (of_char c :: nat) \<le> 57"
  by (simp add: is_digit_def less_eq_char_def)

lemma digit_char: "k < 10 \<Longrightarrow> is_digit (char_of (48 + k)) \<and> digit_val (char_of (48 + k)) = k" for k :: nat
  by (simp add: is_digit_of_char digit_val_def)

lemma decimal_snoc: "decimal (s @ [c]) = 10 * decimal s + digit_val c"
  by (simp add: decimal_def)

lemma decimal_Nil [simp]: "decimal [] = 0"
  by (simp add: decimal_def)

lemma Itoa_digits: "Itoa n \<noteq> [] \<and> list_all is_digit (Itoa n)"
proof (induction n rule: Itoa.induct)
  case (1 n)
  then show ?case
    by (subst (1 2) Itoa.simps) (auto simp: digit_char)
qed

lemma decimal_Itoa [simp]: "decimal (Itoa n) = n"
proof (induction n rule: Itoa.induct)
  case (1 n)
  then show ?case
    by (subst Itoa.simps) (auto simp: decimal_snoc digit_char decimal_snoc [of "[]", simplified])
qed

lemma ParseUint_Itoa: "n < 2 ^ 64 \<Longrightarrow> ParseUint (Itoa n) = Some (of_nat n)"
  using Itoa_digits [of n] by (simp add: ParseUint_def)

lemma ParseUint_Some: "ParseUint s = Some n \<Longrightarrow> s \<noteq> [] \<and> list_all is_digit s \<and> unat n = decimal s"
  by (auto simp: ParseUint_def unat_of_nat take_bit_eq_mod split: if_splits)

section \<open>Hexadecimal\<close>

definition is_lower_hex :: "char \<Rightarrow> bool" where
  "is_lower_hex c \<longleftrightarrow> is_digit c \<or> CHR ''a'' \<le> c \<and> c \<le> CHR ''f''"

definition is_hex :: "char \<Rightarrow> bool" where
  "is_hex c \<longleftrightarrow> is_lower_hex c \<or> CHR ''A'' \<le> c \<and> c \<le> CHR ''F''"

text \<open>\<open>hex.DecodeString(s)\<close> returns a nil error.\<close>

definition hex_decodes :: "string \<Rightarrow> bool" where
  "hex_decodes s \<longleftrightarrow> even (length s) \<and> list_all is_hex s"

definition hex_digit :: "nat \<Rightarrow> char" where
  "hex_digit n = char_of (if n < 10 then 48 + n else 87 + n)"

definition hex_byte :: "u8 \<Rightarrow> string" where
  "hex_byte b = [hex_digit (unat b div 16), hex_digit (unat b mod 16)]"

text \<open>\<open>hex.EncodeToString\<close>.\<close>

definition hex_encode :: "u8 list \<Rightarrow> string" where
  "hex_encode bs = concat (map hex_byte bs)"

lemma hex_digit_lower: "n < 16 \<Longrightarrow> is_lower_hex (hex_digit n)"
  by (auto simp: is_lower_hex_def hex_digit_def is_digit_of_char less_eq_char_def)

lemma is_lower_hex_hex: "is_lower_hex c \<Longrightarrow> is_hex c"
  by (simp add: is_hex_def)

lemma unat_u8_less: "unat (b :: u8) < 256"
  using unsigned_less [of b] by simp

lemma hex_byte_lower: "list_all is_lower_hex (hex_byte b)"
  using unat_u8_less [of b] by (auto simp: hex_byte_def intro!: hex_digit_lower)

lemma length_hex_byte [simp]: "length (hex_byte b) = 2"
  by (simp add: hex_byte_def)

lemma length_hex_encode [simp]: "length (hex_encode bs) = 2 * length bs"
  by (induction bs) (auto simp: hex_encode_def)

lemma hex_encode_lower: "list_all is_lower_hex (hex_encode bs)"
  by (induction bs) (use hex_byte_lower in \<open>auto simp: hex_encode_def\<close>)

lemma hex_encode_decodes: "hex_decodes (hex_encode bs)"
  using hex_encode_lower [of bs] is_lower_hex_hex
  by (auto simp: hex_decodes_def list_all_iff)

section \<open>Lines\<close>

text \<open>
  A \<open>bufio.Scanner\<close> that splits into lines: the lines it yields and whether it stopped with
  \<open>ErrTooLong\<close>, which happens at a line of 64 KiB or more.
\<close>

definition drop_cr :: "string \<Rightarrow> string" where
  "drop_cr s = (if s \<noteq> [] \<and> last s = CHR 0x0D then butlast s else s)"

definition raw_lines :: "string \<Rightarrow> string list" where
  "raw_lines s = (let ls = splitc (CHR 0x0A) s in if last ls = [] then butlast ls else ls)"

definition scan_lines :: "string \<Rightarrow> string list \<times> bool" where
  "scan_lines s =
     (let ls = raw_lines s; ok = takeWhile (\<lambda>l. int (length l) < 65536) ls
      in (map drop_cr ok, length ok < length ls))"

end
