(* ===== verification/Report_Inventory.thy ===== *)
theory Report_Inventory
  imports Report_Types Go_Strings
begin

text \<open>
  Normalisation and fingerprint of an inventory (src/internal/report/inventory.go). The SHA-256
  digest and the JSON encoder of the standard library are the parameters \<open>sha256\<close> and
  \<open>marshal\<close>; \<open>marshal\<close> gives \<^const>\<open>None\<close> where \<open>json.Marshal\<close> returns an error.

  \<open>InventoryFingerprint\<close> receives the inventory by value, but a Go slice shares its array with
  the caller's, so the sorting of \<open>NormalizeInventory\<close> is visible there. The model therefore
  returns the reordered inventory beside the digest.
\<close>

type_synonym digest_fun = "string \<Rightarrow> u8 list"
type_synonym inventory_encoder = "Inventory \<Rightarrow> string option"

definition sortMountOptions :: "Filesystem \<Rightarrow> Filesystem" where
  "sortMountOptions fs = fs\<lparr>fs_MountOptions := sort_slice id (fs_MountOptions fs)\<rparr>"

definition sortAddresses :: "NetworkInterface \<Rightarrow> NetworkInterface" where
  "sortAddresses ni = ni\<lparr>ni_Addresses := sort_slice na_Address (ni_Addresses ni)\<rparr>"

definition NormalizeInventory :: "Inventory \<Rightarrow> Inventory" where
  "NormalizeInventory iv =
     \<lparr>inv_CPUPackages = sort_slice cpu_Key (inv_CPUPackages iv),
      inv_MemoryModules = sort_slice mm_Key (inv_MemoryModules iv),
      inv_BlockDevices = sort_slice bd_Key (inv_BlockDevices iv),
      inv_Filesystems = map sortMountOptions (sort_slice fs_Key (inv_Filesystems iv)),
      inv_NetworkInterfaces = map sortAddresses (sort_slice ni_Key (inv_NetworkInterfaces iv)),
      inv_GPUs = sort_slice gpu_Key (inv_GPUs iv)\<rparr>"

datatype fingerprint_error = MarshalError

definition InventoryFingerprint ::
  "digest_fun \<Rightarrow> inventory_encoder \<Rightarrow> Inventory \<Rightarrow> (fingerprint_error + string) \<times> Inventory" where
  "InventoryFingerprint sha256 marshal inventory =
     (let n = NormalizeInventory inventory in
      (case marshal n of
         None \<Rightarrow> Inl MarshalError
       | Some encoded \<Rightarrow> Inr (hex_encode (sha256 encoded)), n))"

section \<open>Normalisation is idempotent and forgets the order\<close>

lemma key_sortMountOptions [simp]: "fs_Key (sortMountOptions f) = fs_Key f"
  by (simp add: sortMountOptions_def)

lemma key_sortAddresses [simp]: "ni_Key (sortAddresses n) = ni_Key n"
  by (simp add: sortAddresses_def)

lemma sortMountOptions_idem [simp]: "sortMountOptions (sortMountOptions f) = sortMountOptions f"
  by (simp add: sortMountOptions_def)

lemma sortAddresses_idem [simp]: "sortAddresses (sortAddresses n) = sortAddresses n"
  by (simp add: sortAddresses_def)

lemma map_key_comp [simp]:
  "fs_Key \<circ> sortMountOptions = fs_Key" "ni_Key \<circ> sortAddresses = ni_Key"
  by auto

lemma insort_key_map: "(\<And>x. key (f x) = key x) \<Longrightarrow>
    insort_key key (f x) (map f xs) = map f (insort_key key x xs)"
  by (induction xs) auto

lemma sort_slice_map:
  assumes "\<And>x. key (f x) = key x"
  shows "sort_slice key (map f xs) = map f (sort_slice key xs)"
  unfolding sort_slice_def
  by (induction xs) (auto simp: insort_key_map assms)

lemma NormalizeInventory_idem_aux: "NormalizeInventory (NormalizeInventory iv) = NormalizeInventory iv"
  by (simp add: NormalizeInventory_def sort_slice_map comp_def)

text \<open>Two resources that differ at most in the order of their inner list.\<close>

definition fs_equiv :: "Filesystem \<Rightarrow> Filesystem \<Rightarrow> bool" where
  "fs_equiv f g \<longleftrightarrow> mset (fs_MountOptions f) = mset (fs_MountOptions g) \<and>
     f\<lparr>fs_MountOptions := []\<rparr> = g\<lparr>fs_MountOptions := []\<rparr>"

definition ni_equiv :: "NetworkInterface \<Rightarrow> NetworkInterface \<Rightarrow> bool" where
  "ni_equiv f g \<longleftrightarrow> mset (ni_Addresses f) = mset (ni_Addresses g) \<and>
     f\<lparr>ni_Addresses := []\<rparr> = g\<lparr>ni_Addresses := []\<rparr>"

text \<open>Two lists that agree up to a permutation and \<open>R\<close>.\<close>

definition perm_rel :: "('a \<Rightarrow> 'a \<Rightarrow> bool) \<Rightarrow> 'a list \<Rightarrow> 'a list \<Rightarrow> bool" where
  "perm_rel R xs ys \<longleftrightarrow> (\<exists>zs. mset zs = mset ys \<and> list_all2 R xs zs)"

definition same_resources :: "Inventory \<Rightarrow> Inventory \<Rightarrow> bool" where
  "same_resources a b \<longleftrightarrow>
     mset (inv_CPUPackages a) = mset (inv_CPUPackages b) \<and>
     mset (inv_MemoryModules a) = mset (inv_MemoryModules b) \<and>
     mset (inv_BlockDevices a) = mset (inv_BlockDevices b) \<and>
     perm_rel fs_equiv (inv_Filesystems a) (inv_Filesystems b) \<and>
     perm_rel ni_equiv (inv_NetworkInterfaces a) (inv_NetworkInterfaces b) \<and>
     mset (inv_GPUs a) = mset (inv_GPUs b)"

text \<open>The keys that make the order after sorting unique.\<close>

definition distinct_keys :: "Inventory \<Rightarrow> bool" where
  "distinct_keys iv \<longleftrightarrow>
     distinct (map cpu_Key (inv_CPUPackages iv)) \<and>
     distinct (map mm_Key (inv_MemoryModules iv)) \<and>
     distinct (map bd_Key (inv_BlockDevices iv)) \<and>
     distinct (map fs_Key (inv_Filesystems iv)) \<and>
     distinct (map ni_Key (inv_NetworkInterfaces iv)) \<and>
     (\<forall>ni \<in> set (inv_NetworkInterfaces iv). distinct (map na_Address (ni_Addresses ni))) \<and>
     distinct (map gpu_Key (inv_GPUs iv))"

lemma sort_slice_mset_eq:
  assumes "mset xs = mset ys" and "distinct (map key ys)"
  shows "sort_slice key xs = sort_slice key ys"
  by (rule sort_slice_unique) (use assms in simp_all)

lemma sort_strings_mset_eq:
  fixes xs ys :: "string list"
  assumes "mset xs = mset ys"
  shows "sort_slice id xs = sort_slice id ys"
proof -
  have "sort xs = sort ys" using assms by (metis properties_for_sort sorted_sort mset_sort)
  then show ?thesis by (simp add: sort_slice_def sort_key_def id_def)
qed

lemma fs_equiv_sorted: "fs_equiv f g \<Longrightarrow> sortMountOptions f = sortMountOptions g"
  unfolding fs_equiv_def sortMountOptions_def
  by (cases f; cases g) (auto dest: sort_strings_mset_eq)

lemma ni_equiv_sorted:
  "ni_equiv f g \<Longrightarrow> distinct (map na_Address (ni_Addresses g)) \<Longrightarrow> sortAddresses f = sortAddresses g"
  unfolding ni_equiv_def sortAddresses_def
  by (cases f; cases g) (auto dest: sort_slice_mset_eq)

lemma perm_rel_normal:
  assumes "perm_rel R xs ys"
    and "\<And>x y. y \<in> set ys \<Longrightarrow> R x y \<Longrightarrow> f x = f y"
    and "\<And>x. key (f x) = key x" and "distinct (map key ys)"
  shows "map f (sort_slice key xs) = map f (sort_slice key ys)"
proof -
  obtain zs where zs: "mset zs = mset ys" "list_all2 R xs zs"
    using assms(1) by (auto simp: perm_rel_def)
  then have "set zs = set ys" by (metis set_mset_mset)
  with zs(2) assms(2) have "map f xs = map f zs"
    by (simp add: list_all2_conv_all_nth list_eq_iff_nth_eq) (metis nth_mem)
  moreover have "sort_slice key zs = sort_slice key ys"
    using zs(1) assms(4) by (rule sort_slice_mset_eq)
  ultimately have "sort_slice key (map f xs) = sort_slice key (map f ys)"
    by (simp add: sort_slice_map [where key = key and f = f, OF assms(3)])
  then show ?thesis by (simp add: sort_slice_map [where key = key and f = f, OF assms(3)])
qed

lemma NormalizeInventory_same:
  assumes "same_resources a b" and "distinct_keys b"
  shows "NormalizeInventory a = NormalizeInventory b"
proof -
  have "map sortMountOptions (sort_slice fs_Key (inv_Filesystems a)) =
        map sortMountOptions (sort_slice fs_Key (inv_Filesystems b))"
    using assms by (intro perm_rel_normal [where R = fs_equiv])
      (auto simp: same_resources_def distinct_keys_def intro: fs_equiv_sorted)
  moreover have "map sortAddresses (sort_slice ni_Key (inv_NetworkInterfaces a)) =
        map sortAddresses (sort_slice ni_Key (inv_NetworkInterfaces b))"
    using assms by (intro perm_rel_normal [where R = ni_equiv])
      (auto simp: same_resources_def distinct_keys_def intro: ni_equiv_sorted)
  ultimately show ?thesis
    using assms
    by (auto simp: NormalizeInventory_def same_resources_def distinct_keys_def
        intro: sort_slice_mset_eq)
qed

section \<open>The fields a normalisation keeps\<close>

lemma NormalizeInventory_sel [simp]:
  "inv_CPUPackages (NormalizeInventory iv) = sort_slice cpu_Key (inv_CPUPackages iv)"
  "inv_MemoryModules (NormalizeInventory iv) = sort_slice mm_Key (inv_MemoryModules iv)"
  "inv_BlockDevices (NormalizeInventory iv) = sort_slice bd_Key (inv_BlockDevices iv)"
  "inv_Filesystems (NormalizeInventory iv) = map sortMountOptions (sort_slice fs_Key (inv_Filesystems iv))"
  "inv_NetworkInterfaces (NormalizeInventory iv) =
     map sortAddresses (sort_slice ni_Key (inv_NetworkInterfaces iv))"
  "inv_GPUs (NormalizeInventory iv) = sort_slice gpu_Key (inv_GPUs iv)"
  by (simp_all add: NormalizeInventory_def)

lemma snd_InventoryFingerprint [simp]:
  "snd (InventoryFingerprint sha256 marshal iv) = NormalizeInventory iv"
  by (simp add: InventoryFingerprint_def Let_def)

lemma InventoryFingerprint_normalized [simp]:
  "InventoryFingerprint sha256 marshal (NormalizeInventory iv) = InventoryFingerprint sha256 marshal iv"
  by (simp add: InventoryFingerprint_def NormalizeInventory_idem_aux)

lemma InventoryFingerprint_hex:
  assumes "fst (InventoryFingerprint sha256 marshal iv) = Inr fp"
  shows "list_all is_lower_hex fp \<and> (\<exists>enc. length fp = 2 * length (sha256 enc))"
  using assms hex_encode_lower
  by (auto simp: InventoryFingerprint_def Let_def split: option.splits)

end
