(* ===== verification/Go_Net.thy ===== *)
theory Go_Net
  imports Go_Strings
begin

text \<open>
  The address parsers of packages net and net/netip that the program calls: \<open>ParseIP\<close>,
  \<open>ParseCIDR\<close>, \<open>ParsePrefix\<close>, \<open>ParseMAC\<close>, and the classification of addresses. An address is
  the list of its 4 or 16 octets, as numbers below 256.
\<close>

datatype ipaddr = V4 "nat list" | V6 "nat list" string

text \<open>\<open>parseIPv4Fields\<close>: the current value, its digits so far, the finished fields, the rest.\<close>

fun ipv4_fields :: "nat \<Rightarrow> nat \<Rightarrow> nat list \<Rightarrow> string \<Rightarrow> nat list option" where
  "ipv4_fields val dl acc [] = (if length acc < 3 then None else Some (acc @ [val]))"
| "ipv4_fields val dl acc (c # s) =
     (if is_digit c
      then if dl = 1 \<and> val = 0 then None
           else let v = 10 * val + digit_val c
                in if v > 255 then None else ipv4_fields v (Suc dl) acc s
      else if c = CHR ''.''
      then if dl = 0 \<or> s = [] then None
           else if length acc = 3 then None
           else ipv4_fields 0 0 (acc @ [val]) s
      else None)"

definition parseIPv4 :: "string \<Rightarrow> ipaddr option" where
  "parseIPv4 s = map_option V4 (ipv4_fields 0 0 [] s)"

definition hex_val :: "char \<Rightarrow> nat" where
  "hex_val c = (if is_digit c then of_char c - 48
                else if CHR ''a'' \<le> c then of_char c - 87 else of_char c - 55)"

definition hex_num :: "string \<Rightarrow> nat" where
  "hex_num s = foldl (\<lambda>n c. 16 * n + hex_val c) 0 s"

text \<open>The loop of \<open>parseIPv6\<close>: the octets so far, the place of the ellipsis, the rest.\<close>

function ipv6_loop :: "nat list \<Rightarrow> nat option \<Rightarrow> string \<Rightarrow> (nat list \<times> nat option \<times> string) option" where
  "ipv6_loop ip ell s =
     (if length ip \<ge> 16 then Some (ip, ell, s)
      else let digits = takeWhile is_hex s; rest = drop (length digits) s in
        if digits = [] \<or> length digits > 4 then None
        else if rest \<noteq> [] \<and> hd rest = CHR ''.''
        then if ell = None \<and> length ip \<noteq> 12 then None
             else if length ip + 4 > 16 then None
             else map_option (\<lambda>f. (ip @ f, ell, [])) (ipv4_fields 0 0 [] s)
        else let v = hex_num digits; ip' = ip @ [v div 256, v mod 256] in
          if rest = [] then Some (ip', ell, [])
          else if hd rest \<noteq> CHR '':'' \<or> length rest = 1 then None
          else if hd (tl rest) = CHR '':''
          then if ell \<noteq> None then None
               else if tl (tl rest) = [] then Some (ip', Some (length ip'), [])
               else ipv6_loop ip' (Some (length ip')) (tl (tl rest))
          else ipv6_loop ip' ell (tl rest))"
  by pat_completeness auto
termination
  by (relation "measure (\<lambda>(ip, ell, s). 16 - length ip)") auto

declare ipv6_loop.simps [simp del]

definition expand_ellipsis :: "nat list \<Rightarrow> nat option \<Rightarrow> nat list option" where
  "expand_ellipsis ip ell =
     (if length ip < 16
      then map_option (\<lambda>e. take e ip @ replicate (16 - length ip) 0 @ drop e ip) ell
      else if ell = None then Some ip else None)"

definition parseIPv6 :: "string \<Rightarrow> ipaddr option" where
  "parseIPv6 inp =
     (let (s, zone, zoned) = (case Cut (CHR ''%'') inp of
            None \<Rightarrow> (inp, [], False) | Some (a, z) \<Rightarrow> (a, z, True)) in
      if zoned \<and> zone = [] then None
      else let lead = prefix ''::'' s; s1 = (if lead then drop 2 s else s) in
        if lead \<and> s1 = [] then Some (V6 (replicate 16 0) zone)
        else case ipv6_loop [] (if lead then Some 0 else None) s1 of
            None \<Rightarrow> None
          | Some (ip, ell, rest) \<Rightarrow>
              if rest \<noteq> [] then None
              else map_option (\<lambda>b. V6 b zone) (expand_ellipsis ip ell))"

text \<open>\<open>netip.ParseAddr\<close>: the first of the bytes \<open>.\<close>, \<open>:\<close> and \<open>%\<close> decides.\<close>

definition ParseAddr :: "string \<Rightarrow> ipaddr option" where
  "ParseAddr s =
     (case find (\<lambda>c. c = CHR ''.'' \<or> c = CHR '':'' \<or> c = CHR ''%'') s of
        None \<Rightarrow> None
      | Some c \<Rightarrow> if c = CHR ''.'' then parseIPv4 s
                  else if c = CHR '':'' then parseIPv6 s else None)"

fun zone_of :: "ipaddr \<Rightarrow> string" where
  "zone_of (V4 _) = []"
| "zone_of (V6 _ z) = z"

fun As16 :: "ipaddr \<Rightarrow> nat list" where
  "As16 (V4 b) = replicate 10 0 @ [255, 255] @ b"
| "As16 (V6 b _) = b"

fun BitLen :: "ipaddr \<Rightarrow> nat" where
  "BitLen (V4 _) = 32"
| "BitLen (V6 _ _) = 128"

text \<open>\<open>net.ParseIP\<close>: the 16 octets, \<^const>\<open>None\<close> for nil.\<close>

definition ParseIP :: "string \<Rightarrow> nat list option" where
  "ParseIP s = (case ParseAddr s of
      None \<Rightarrow> None | Some a \<Rightarrow> if zone_of a \<noteq> [] then None else Some (As16 a))"

text \<open>\<open>dtoi\<close> on the whole mask: digits only, at least one, below \<open>0xFFFFFF\<close>.\<close>

definition dtoi :: "string \<Rightarrow> nat option" where
  "dtoi s = (if s \<noteq> [] \<and> list_all is_digit s \<and> int (decimal s) < 0xFFFFFF then Some (decimal s) else None)"

text \<open>\<open>net.ParseCIDR\<close>: the address and the prefix length.\<close>

definition ParseCIDR :: "string \<Rightarrow> (nat list \<times> nat) option" where
  "ParseCIDR s =
     (case Cut (CHR ''/'') s of
        None \<Rightarrow> None
      | Some (addr, bits) \<Rightarrow>
          (case ParseAddr addr of
             None \<Rightarrow> None
           | Some a \<Rightarrow>
               if zone_of a \<noteq> [] then None
               else (case dtoi bits of
                       None \<Rightarrow> None
                     | Some n \<Rightarrow> if n > BitLen a then None else Some (As16 a, n))))"

text \<open>\<open>netip.ParsePrefix\<close>: cut at the last slash, no zone, no sign and no leading zero.\<close>

definition ParsePrefix :: "string \<Rightarrow> (ipaddr \<times> nat) option" where
  "ParsePrefix s =
     (case Cut (CHR ''/'') (rev s) of
        None \<Rightarrow> None
      | Some (rbits, raddr) \<Rightarrow>
          (case ParseAddr (rev raddr) of
             None \<Rightarrow> None
           | Some a \<Rightarrow>
               let bits = rev rbits in
               if zone_of a \<noteq> [] then None
               else if length bits > 1 \<and> \<not> (CHR ''1'' \<le> hd bits \<and> hd bits \<le> CHR ''9'') then None
               else (case Atoi bits of (n, ok) \<Rightarrow>
                      if \<not> ok \<or> n < 0 \<or> int (BitLen a) < n then None else Some (a, nat n))))"

definition is4in6 :: "nat list \<Rightarrow> bool" where
  "is4in6 b \<longleftrightarrow> take 12 b = replicate 10 0 @ [255, 255]"

definition Unmap :: "ipaddr \<Rightarrow> ipaddr" where
  "Unmap a = (case a of V4 b \<Rightarrow> V4 b | V6 b z \<Rightarrow> if is4in6 b then V4 (drop 12 b) else V6 b z)"

fun Is4 :: "ipaddr \<Rightarrow> bool" where
  "Is4 (V4 _) = True"
| "Is4 (V6 _ _) = False"

fun octets :: "ipaddr \<Rightarrow> nat list" where
  "octets (V4 b) = b"
| "octets (V6 b _) = b"

text \<open>The \<open>String\<close> method of an IPv4 address.\<close>

definition ipv4_string :: "nat list \<Rightarrow> string" where
  "ipv4_string b = joinc (CHR ''.'') (map Itoa b)"

subsection \<open>Classes of addresses\<close>

text \<open>The methods of \<open>net.IP\<close> on the 16 octets that the parsers return.\<close>

definition To4 :: "nat list \<Rightarrow> nat list option" where
  "To4 ip = (if is4in6 ip then Some (drop 12 ip) else None)"

definition IsLoopback :: "nat list \<Rightarrow> bool" where
  "IsLoopback ip = (case To4 ip of Some q \<Rightarrow> q ! 0 = 127 | None \<Rightarrow> ip = replicate 15 0 @ [1])"

definition IsLinkLocalUnicast :: "nat list \<Rightarrow> bool" where
  "IsLinkLocalUnicast ip = (case To4 ip of
      Some q \<Rightarrow> q ! 0 = 169 \<and> q ! 1 = 254
    | None \<Rightarrow> ip ! 0 = 254 \<and> ip ! 1 div 64 = 2)"

definition IsLinkLocalMulticast :: "nat list \<Rightarrow> bool" where
  "IsLinkLocalMulticast ip = (case To4 ip of
      Some q \<Rightarrow> q ! 0 = 224 \<and> q ! 1 = 0 \<and> q ! 2 = 0
    | None \<Rightarrow> ip ! 0 = 255 \<and> ip ! 1 mod 16 = 2)"

definition IsPrivate :: "nat list \<Rightarrow> bool" where
  "IsPrivate ip = (case To4 ip of
      Some q \<Rightarrow> q ! 0 = 10 \<or> (q ! 0 = 172 \<and> q ! 1 div 16 = 1) \<or> (q ! 0 = 192 \<and> q ! 1 = 168)
    | None \<Rightarrow> ip ! 0 div 2 = 126)"

definition IsMulticast :: "nat list \<Rightarrow> bool" where
  "IsMulticast ip = (case To4 ip of Some q \<Rightarrow> q ! 0 div 16 = 14 | None \<Rightarrow> ip ! 0 = 255)"

definition IsUnspecified :: "nat list \<Rightarrow> bool" where
  "IsUnspecified ip \<longleftrightarrow> ip = As16 (V4 [0, 0, 0, 0]) \<or> ip = replicate 16 0"

definition IsGlobalUnicast :: "nat list \<Rightarrow> bool" where
  "IsGlobalUnicast ip \<longleftrightarrow>
     ip \<noteq> As16 (V4 [255, 255, 255, 255]) \<and> \<not> IsUnspecified ip \<and> \<not> IsLoopback ip \<and>
     \<not> IsMulticast ip \<and> \<not> IsLinkLocalUnicast ip"

subsection \<open>Hardware addresses\<close>

text \<open>Groups of \<open>n\<close> hexadecimal digits separated by \<open>sep\<close>.\<close>

definition mac_groups :: "char \<Rightarrow> nat \<Rightarrow> string \<Rightarrow> string list option" where
  "mac_groups sep n s =
     (let gs = splitc sep s in
      if list_all (\<lambda>g. length g = n \<and> list_all is_hex g) gs then Some gs else None)"

text \<open>\<open>net.ParseMAC\<close>: the octets of an address of 6, 8 or 20 octets.\<close>

definition ParseMAC :: "string \<Rightarrow> nat list option" where
  "ParseMAC s =
     (if length s < 14 then None
      else if s ! 2 = CHR '':'' \<or> s ! 2 = CHR ''-''
      then (case mac_groups (s ! 2) 2 s of
              None \<Rightarrow> None
            | Some gs \<Rightarrow> if length gs \<in> {6, 8, 20} then Some (map hex_num gs) else None)
      else if s ! 4 = CHR ''.''
      then (case mac_groups (CHR ''.'') 4 s of
              None \<Rightarrow> None
            | Some gs \<Rightarrow> if 2 * length gs \<in> {6, 8, 20}
                then Some (concat (map (\<lambda>g. [hex_num (take 2 g), hex_num (drop 2 g)]) gs)) else None)
      else None)"

text \<open>The \<open>String\<close> method of a hardware address.\<close>

definition mac_string :: "nat list \<Rightarrow> string" where
  "mac_string b = joinc (CHR '':'') (map (\<lambda>n. [hex_digit (n div 16), hex_digit (n mod 16)]) b)"

subsection \<open>The parsers return octets\<close>

definition octet_list :: "nat \<Rightarrow> nat list \<Rightarrow> bool" where
  "octet_list n b \<longleftrightarrow> length b = n \<and> list_all (\<lambda>x. x < 256) b"

lemma list_all_replicate [simp]: "list_all P (replicate n x) \<longleftrightarrow> n = 0 \<or> P x"
  by (auto simp: list_all_iff)

lemma ipv4_fields_octets:
  assumes "ipv4_fields val dl acc s = Some b" "val < 256" "length acc \<le> 3" "list_all (\<lambda>x. x < 256) acc"
  shows "octet_list 4 b"
  using assms
  by (induction val dl acc s arbitrary: b rule: ipv4_fields.induct)
    (auto simp: octet_list_def Let_def split: if_splits)

lemma hex_val_less: "is_hex c \<Longrightarrow> hex_val c < 16"
  by (auto simp: is_hex_def is_lower_hex_def hex_val_def is_digit_of_char less_eq_char_def)

lemma hex_num_less: "list_all is_hex s \<Longrightarrow> hex_num s < 16 ^ length s"
proof (induction s rule: rev_induct)
  case (snoc c s)
  then have "hex_num s + 1 \<le> 16 ^ length s" "hex_val c < 16"
    by (auto simp: hex_val_less)
  then show ?case by (simp add: hex_num_def)
qed (simp add: hex_num_def)

lemma list_all_takeWhile: "list_all P (takeWhile P xs)"
  by (simp add: list_all_iff) (metis set_takeWhileD)

lemma hex_group_small:
  assumes "length (takeWhile is_hex s) \<le> 4"
  shows "hex_num (takeWhile is_hex s) < 65536"
proof -
  have "hex_num (takeWhile is_hex s) < 16 ^ length (takeWhile is_hex s)"
    by (rule hex_num_less) (rule list_all_takeWhile)
  also have "(16 :: nat) ^ length (takeWhile is_hex s) \<le> 16 ^ 4"
    using assms by (intro power_increasing) simp_all
  finally show ?thesis by simp
qed

lemma ipv6_loop_octets:
  assumes "ipv6_loop ip ell s = Some (b, ell', rest)"
    and "list_all (\<lambda>x. x < 256) ip" "even (length ip)" "length ip \<le> 16"
    and "\<forall>e. ell = Some e \<longrightarrow> e \<le> length ip"
  shows "list_all (\<lambda>x. x < 256) b \<and> length b \<le> 16 \<and> (\<forall>e. ell' = Some e \<longrightarrow> e \<le> length b)"
  using assms
proof (induction ip ell s arbitrary: b rule: ipv6_loop.induct)
  case (1 ip ell s)
  define digits where "digits = takeWhile is_hex s"
  define rest0 where "rest0 = drop (length digits) s"
  define v where "v = hex_num digits"
  define ip' where "ip' = ip @ [v div 256, v mod 256]"
  note unf = ipv6_loop.simps [of ip ell s, folded digits_def, unfolded Let_def,
      folded digits_def rest0_def v_def ip'_def]
  show ?case
  proof (cases "length ip \<ge> 16")
    case True
    with "1.prems" show ?thesis by (auto simp: unf)
  next
    case False
    then have len: "length ip \<le> 14" using "1.prems"(3) by presburger
    have dg: "\<not> (digits = [] \<or> length digits > 4)"
      using "1.prems"(1) False by (auto simp: unf)
    then have "v < 65536"
      using hex_group_small [of s] by (simp add: v_def digits_def)
    then have ip': "list_all (\<lambda>x. x < 256) ip'" "even (length ip')" "length ip' \<le> 16"
      using "1.prems"(2,3) len by (auto simp: ip'_def)
    show ?thesis
    proof (cases "rest0 \<noteq> [] \<and> hd rest0 = CHR ''.''")
      case True
      with "1.prems" False dg show ?thesis
        using ipv4_fields_octets [of 0 0 "[]" s]
        by (auto simp: unf octet_list_def split: if_splits)
    next
      case F2: False
      have "\<forall>e. ell = Some e \<longrightarrow> e \<le> Suc (Suc (length ip))"
        using "1.prems"(5) by auto
      then show ?thesis
        using "1.prems" False dg F2 ip' "1.IH" [OF False digits_def rest0_def dg F2 v_def ip'_def]
        by (auto simp: unf ip'_def split: if_splits)
    qed
  qed
qed

lemma expand_ellipsis_octets:
  assumes "expand_ellipsis ip ell = Some b" "list_all (\<lambda>x. x < 256) ip" "length ip \<le> 16"
    "\<forall>e. ell = Some e \<longrightarrow> e \<le> length ip"
  shows "octet_list 16 b"
proof (cases "length ip < 16")
  case True
  with assms obtain e where "ell = Some e" "b = take e ip @ replicate (16 - length ip) 0 @ drop e ip"
    by (auto simp: expand_ellipsis_def)
  moreover have "list_all (\<lambda>x. x < 256) (take e ip)" "list_all (\<lambda>x. x < 256) (drop e ip)"
    using assms(2) by (auto simp: list_all_iff dest: in_set_takeD in_set_dropD)
  ultimately show ?thesis
    using assms(3,4) by (auto simp: octet_list_def)
next
  case False
  with assms show ?thesis
    by (auto simp: expand_ellipsis_def octet_list_def split: if_splits)
qed

lemma ParseAddr_octets:
  "ParseAddr s = Some a \<Longrightarrow> (case a of V4 b \<Rightarrow> octet_list 4 b | V6 b _ \<Rightarrow> octet_list 16 b)"
  unfolding ParseAddr_def parseIPv4_def parseIPv6_def
  by (auto simp: Let_def octet_list_def split: option.splits if_splits prod.splits
      dest!: ipv4_fields_octets ipv6_loop_octets expand_ellipsis_octets)

lemma As16_octets: "ParseAddr s = Some a \<Longrightarrow> octet_list 16 (As16 a)"
  using ParseAddr_octets [of s a] by (cases a) (auto simp: octet_list_def)

lemma ParseIP_octets: "ParseIP s = Some b \<Longrightarrow> octet_list 16 b"
  by (auto simp: ParseIP_def As16_octets split: option.splits if_splits)

lemma BitLen_le: "BitLen a \<le> 128"
  by (cases a) auto

lemma ParseCIDR_octets: "ParseCIDR s = Some (b, n) \<Longrightarrow> octet_list 16 b \<and> n \<le> 128"
  by (auto simp: ParseCIDR_def As16_octets not_less intro: le_trans [OF _ BitLen_le]
      split: option.splits if_splits prod.splits)

end
