(* ===== verification/Report_Validate.thy ===== *)
theory Report_Validate
  imports Report_Inventory Go_Net
begin

text \<open>
  Validation of a report (src/internal/report/validate.go). Each message the Go code formats is a
  constructor of \<open>report_error\<close>, with the values the message interpolates. A function that
  returns an \<open>error\<close> is an option; the checks stand in the order of the source, so the model
  reports the same first error.
\<close>

datatype bigint_error = ExceedsBigint

datatype (plugins only: code) report_error =
    UnsupportedVersion int
  | BadAgentID
  | MissingAgentFields
  | BadMachineType
  | BadPrimaryIP
  | MissingCollectedAt
  | CollectedInFuture
  | CollectedTooOld
  | BadInterval
  | BadCPUUsage
  | NegativeLoad
  | FingerprintError fingerprint_error
  | FingerprintMismatch
  | TooManyResources
  | EmptyKey string
  | DuplicateKey string string
  | InvalidCPUPackage string
  | InvalidMemoryModule string
  | InvalidBlockDevice string
  | InvalidBlockDeviceKind string
  | InvalidFilesystem string
  | InvalidNetworkInterface string
  | InvalidAddress string string
  | DuplicateAddress string string
  | InvalidAddressScope string
  | InvalidGPU string
  | MemoryBigint bigint_error
  | MemoryExceedsTotals
  | DiskBigint bigint_error
  | UnknownFilesystemKey string
  | FilesystemBigint string bigint_error
  | FilesystemExceedsTotal string
  | UnknownInterfaceKey string
  | NetworkBigint string bigint_error
  | UnknownGPUKey string
  | BadGPUUtilization string
  | BadGPUTemperature string
  | GPUBigint string bigint_error
  | GPUMemoryExceedsTotal string
  | TooManyHealthResources
  | BadTemperatureComponent string string
  | InvalidTemperature string
  | UnknownBlockDeviceKey string
  | BadSMARTStatus string string
  | BadRiskLevel string string
  | InvalidStorageHealth string
  | TooManyRiskReasons string
  | InvalidRiskReason string
  | DuplicateRiskReason string string
  | StorageBigint string bigint_error

section \<open>Helpers\<close>

text \<open>The regular expression \<open>uuidPattern\<close>, byte by byte.\<close>

definition uuidPattern :: "(char \<Rightarrow> bool) list" where
  "uuidPattern =
     replicate 8 is_hex @ [\<lambda>c. c = CHR ''-''] @ replicate 4 is_hex @ [\<lambda>c. c = CHR ''-''] @
     [\<lambda>c. CHR ''1'' \<le> c \<and> c \<le> CHR ''5''] @ replicate 3 is_hex @ [\<lambda>c. c = CHR ''-''] @
     [\<lambda>c. c \<in> set ''89abAB''] @ replicate 3 is_hex @ [\<lambda>c. c = CHR ''-''] @ replicate 12 is_hex"

definition ValidUUID :: "string \<Rightarrow> bool" where
  "ValidUUID value = list_all2 (\<lambda>p c. p c) uuidPattern value"

definition ValidFingerprint :: "string \<Rightarrow> bool" where
  "ValidFingerprint value \<longleftrightarrow> hex_decodes value \<and> length value div 2 = 32"

fun uniqueKeys_loop :: "string \<Rightarrow> string list \<Rightarrow> string list \<Rightarrow> report_error option" where
  "uniqueKeys_loop kind seen [] = None"
| "uniqueKeys_loop kind seen (k # ks) =
     (let value = TrimSpace k in
      if value = [] then Some (EmptyKey kind)
      else if value \<in> set seen then Some (DuplicateKey kind value)
      else uniqueKeys_loop kind (value # seen) ks)"

definition uniqueKeys :: "string \<Rightarrow> string list \<Rightarrow> report_error option" where
  "uniqueKeys kind keys = uniqueKeys_loop kind [] keys"

fun validateUnsignedBigints :: "u64 list \<Rightarrow> bigint_error option" where
  "validateUnsignedBigints [] = None"
| "validateUnsignedBigints (v # vs) =
     (if v > MaxInt64 then Some ExceedsBigint else validateUnsignedBigints vs)"

fun validateOptionalUnsignedBigints :: "u64 option list \<Rightarrow> bigint_error option" where
  "validateOptionalUnsignedBigints [] = None"
| "validateOptionalUnsignedBigints (v # vs) =
     err_then (case v of None \<Rightarrow> None | Some x \<Rightarrow> validateUnsignedBigints [x])
       (validateOptionalUnsignedBigints vs)"

definition validTemperature :: "f64 \<Rightarrow> bool" where
  "validTemperature v \<longleftrightarrow> v \<noteq> NaN \<and> v \<noteq> PInf \<and> v \<noteq> NInf \<and> absolute_zero \<le> v \<and> v \<le> Fin 1000"

text \<open>A pointer to a temperature that is nil or valid.\<close>

definition optTemperatureOK :: "f64 option \<Rightarrow> bool" where
  "optTemperatureOK t = (case t of None \<Rightarrow> True | Some v \<Rightarrow> validTemperature v)"

definition blank :: "string \<Rightarrow> bool" where
  "blank s \<longleftrightarrow> TrimSpace s = []"

section \<open>Inventory\<close>

definition checkCPUPackage :: "CPUPackage \<Rightarrow> report_error option" where
  "checkCPUPackage item =
     (let classifiedCores = int_add (cpu_PerformanceCores item) (cpu_EfficiencyCores item) in
      fail_if (blank (cpu_ModelName item) \<or> cpu_PhysicalCores item < 1 \<or>
               cpu_LogicalThreads item < cpu_PhysicalCores item \<or> cpu_PackageIndex item < 0 \<or>
               cpu_PerformanceCores item < 0 \<or> cpu_EfficiencyCores item < 0 \<or>
               cpu_MaxFrequencyMHz item < Fin 0 \<or>
               (classifiedCores \<noteq> 0 \<and> classifiedCores \<noteq> cpu_PhysicalCores item))
        (InvalidCPUPackage (cpu_Key item)))"

definition checkMemoryModule :: "MemoryModule \<Rightarrow> report_error option" where
  "checkMemoryModule item =
     fail_if (mm_SizeBytes item = 0 \<or> mm_SizeBytes item > MaxInt64 \<or> mm_SpeedMTs item < 0)
       (InvalidMemoryModule (mm_Key item))"

definition checkBlockDevice :: "BlockDevice \<Rightarrow> report_error option" where
  "checkBlockDevice item = checks
     [fail_if (blank (bd_DeviceName item) \<or> bd_SizeBytes item > MaxInt64)
        (InvalidBlockDevice (bd_Key item)),
      fail_if (bd_DeviceKind item \<notin> {''disk'', ''raid'', ''multipath'', ''virtual''})
        (InvalidBlockDeviceKind (bd_DeviceKind item))]"

definition checkFilesystem :: "Filesystem \<Rightarrow> report_error option" where
  "checkFilesystem item =
     fail_if (blank (fs_DeviceName item) \<or> blank (fs_FilesystemType item) \<or> blank (fs_MountPoint item))
       (InvalidFilesystem (fs_Key item))"

definition addressScopes :: "string set" where
  "addressScopes = {''host'', ''link'', ''private'', ''global'', ''multicast'', ''unknown''}"

text \<open>The loop over the addresses of an interface, with the addresses seen so far.\<close>

fun checkAddresses :: "string \<Rightarrow> string list \<Rightarrow> NetworkAddress list \<Rightarrow> report_error option" where
  "checkAddresses key seen [] = None"
| "checkAddresses key seen (a # as) =
     (if ParseCIDR (na_Address a) = None then Some (InvalidAddress (na_Address a) key)
      else if na_Address a \<in> set seen then Some (DuplicateAddress (na_Address a) key)
      else if na_Scope a \<notin> addressScopes then Some (InvalidAddressScope (na_Scope a))
      else checkAddresses key (na_Address a # seen) as)"

definition checkNetworkInterface :: "NetworkInterface \<Rightarrow> report_error option" where
  "checkNetworkInterface item = checks
     [fail_if (blank (ni_Name item) \<or> ni_MTU item < 0 \<or> ni_LinkSpeedMbps item < 0)
        (InvalidNetworkInterface (ni_Key item)),
      checkAddresses (ni_Key item) [] (ni_Addresses item)]"

definition checkGPU :: "GPU \<Rightarrow> report_error option" where
  "checkGPU item =
     fail_if (gpu_Index item < 0 \<or> blank (gpu_UUID item) \<or> blank (gpu_ModelName item) \<or>
              gpu_MemoryTotalBytes item = 0 \<or> gpu_MemoryTotalBytes item > MaxInt64)
       (InvalidGPU (gpu_Key item))"

definition validateInventory :: "Inventory \<Rightarrow> report_error option" where
  "validateInventory iv = checks
     [fail_if (length (inv_CPUPackages iv) > 1024 \<or> length (inv_MemoryModules iv) > 4096 \<or>
               length (inv_BlockDevices iv) > 4096 \<or> length (inv_Filesystems iv) > 4096 \<or>
               length (inv_NetworkInterfaces iv) > 4096 \<or> length (inv_GPUs iv) > 1024)
        TooManyResources,
      uniqueKeys ''CPU package'' (map cpu_Key (inv_CPUPackages iv)),
      err_for checkCPUPackage (inv_CPUPackages iv),
      uniqueKeys ''memory module'' (map mm_Key (inv_MemoryModules iv)),
      err_for checkMemoryModule (inv_MemoryModules iv),
      uniqueKeys ''block device'' (map bd_Key (inv_BlockDevices iv)),
      err_for checkBlockDevice (inv_BlockDevices iv),
      uniqueKeys ''filesystem'' (map fs_Key (inv_Filesystems iv)),
      err_for checkFilesystem (inv_Filesystems iv),
      uniqueKeys ''network interface'' (map ni_Key (inv_NetworkInterfaces iv)),
      err_for checkNetworkInterface (inv_NetworkInterfaces iv),
      uniqueKeys ''GPU'' (map gpu_Key (inv_GPUs iv)),
      err_for checkGPU (inv_GPUs iv)]"

section \<open>Metrics\<close>

definition wrap_bigint :: "(bigint_error \<Rightarrow> report_error) \<Rightarrow> bigint_error option \<Rightarrow> report_error option" where
  "wrap_bigint f e = map_option f e"

definition checkMemoryMetrics :: "MemoryMetrics \<Rightarrow> report_error option" where
  "checkMemoryMetrics m = checks
     [wrap_bigint MemoryBigint (validateUnsignedBigints
        [me_TotalBytes m, me_UsedBytes m, me_AvailableBytes m, me_CachedBytes m,
         me_BuffersBytes m, me_SwapTotalBytes m, me_SwapUsedBytes m, me_UptimeSeconds m]),
      fail_if (me_UsedBytes m > me_TotalBytes m \<or> me_AvailableBytes m > me_TotalBytes m \<or>
               me_CachedBytes m > me_TotalBytes m \<or> me_BuffersBytes m > me_TotalBytes m \<or>
               me_SwapUsedBytes m > me_SwapTotalBytes m)
        MemoryExceedsTotals]"

definition checkDiskMetrics :: "DiskMetrics \<Rightarrow> report_error option" where
  "checkDiskMetrics d = wrap_bigint DiskBigint (validateUnsignedBigints
     [dm_ReadBytesTotal d, dm_WriteBytesTotal d, dm_ReadBytesDelta d, dm_WriteBytesDelta d,
      dm_ReadOpsDelta d, dm_WriteOpsDelta d])"

definition checkFilesystemMetric :: "string set \<Rightarrow> FilesystemMetrics \<Rightarrow> report_error option" where
  "checkFilesystemMetric filesystemKeys item = checks
     [fail_if (fm_FilesystemKey item \<notin> filesystemKeys) (UnknownFilesystemKey (fm_FilesystemKey item)),
      wrap_bigint (FilesystemBigint (fm_FilesystemKey item)) (validateUnsignedBigints
        [fm_TotalBytes item, fm_UsedBytes item, fm_AvailableBytes item, fm_TotalInodes item,
         fm_UsedInodes item]),
      fail_if (fm_UsedBytes item > fm_TotalBytes item \<or> fm_AvailableBytes item > fm_TotalBytes item \<or>
               (fm_UsedInodes item > fm_TotalInodes item \<and> fm_TotalInodes item \<noteq> 0))
        (FilesystemExceedsTotal (fm_FilesystemKey item))]"

definition checkNetworkMetric :: "string set \<Rightarrow> NetworkMetrics \<Rightarrow> report_error option" where
  "checkNetworkMetric interfaceKeys item = checks
     [fail_if (nm_InterfaceKey item \<notin> interfaceKeys) (UnknownInterfaceKey (nm_InterfaceKey item)),
      wrap_bigint (NetworkBigint (nm_InterfaceKey item)) (validateUnsignedBigints
        [nm_RXBytesTotal item, nm_TXBytesTotal item, nm_RXBytesDelta item, nm_TXBytesDelta item,
         nm_RXPacketsDelta item, nm_TXPacketsDelta item, nm_RXErrorsDelta item,
         nm_TXErrorsDelta item, nm_RXDroppedDelta item, nm_TXDroppedDelta item])]"

definition gpuMemoryByKey :: "GPU list \<Rightarrow> string \<rightharpoonup> u64" where
  "gpuMemoryByKey gpus = foldl (\<lambda>m g. m(gpu_Key g \<mapsto> gpu_MemoryTotalBytes g)) Map.empty gpus"

definition checkGPUMetric :: "(string \<rightharpoonup> u64) \<Rightarrow> GPUMetrics \<Rightarrow> report_error option" where
  "checkGPUMetric memoryByKey item =
     (case memoryByKey (gm_GPUKey item) of
        None \<Rightarrow> Some (UnknownGPUKey (gm_GPUKey item))
      | Some memoryTotal \<Rightarrow> checks
          [fail_if (gm_UtilizationPercent item < Fin 0 \<or> gm_UtilizationPercent item > Fin 100)
             (BadGPUUtilization (gm_GPUKey item)),
           fail_if (\<not> optTemperatureOK (gm_TemperatureCelsius item)) (BadGPUTemperature (gm_GPUKey item)),
           wrap_bigint (GPUBigint (gm_GPUKey item)) (validateUnsignedBigints [gm_MemoryUsedBytes item]),
           fail_if (gm_MemoryUsedBytes item > memoryTotal) (GPUMemoryExceedsTotal (gm_GPUKey item))])"

definition checkTemperature :: "TemperatureMetrics \<Rightarrow> report_error option" where
  "checkTemperature item = checks
     [fail_if (tm_Component item \<notin> {''cpu'', ''motherboard'', ''gpu'', ''storage'', ''other''})
        (BadTemperatureComponent (tm_Key item) (tm_Component item)),
      fail_if (blank (tm_Label item) \<or> \<not> validTemperature (tm_TemperatureCelsius item) \<or>
               \<not> optTemperatureOK (tm_HighCelsius item) \<or> \<not> optTemperatureOK (tm_CriticalCelsius item))
        (InvalidTemperature (tm_Key item))]"

definition knownRiskReasons :: "string set" where
  "knownRiskReasons =
     {''smart_failed'', ''prefail_attribute'', ''nvme_critical_warning'', ''pending_sectors'',
      ''uncorrectable_sectors'', ''reallocated_sectors'', ''device_errors'', ''age_attribute'',
      ''device_error_log'', ''self_test_errors'', ''wear_exhausted'', ''wear_high''}"

text \<open>The loop over the risk reasons, with the reasons seen so far.\<close>

fun checkRiskReasons :: "string \<Rightarrow> string list \<Rightarrow> string list \<Rightarrow> report_error option" where
  "checkRiskReasons key seen [] = None"
| "checkRiskReasons key seen (r # rs) =
     (if r \<notin> knownRiskReasons then Some (InvalidRiskReason key)
      else if r \<in> set seen then Some (DuplicateRiskReason key r)
      else checkRiskReasons key (r # seen) rs)"

definition percentageUsedOK :: "f64 option \<Rightarrow> bool" where
  "percentageUsedOK p = (case p of None \<Rightarrow> True | Some v \<Rightarrow> \<not> (v < Fin 0 \<or> v > Fin 255))"

definition checkStorageHealth :: "string set \<Rightarrow> StorageHealth \<Rightarrow> report_error option" where
  "checkStorageHealth blockDeviceKeys item =
     (let key = sh_BlockDeviceKey item in checks
     [fail_if (key \<notin> blockDeviceKeys) (UnknownBlockDeviceKey key),
      fail_if (sh_SMARTStatus item \<notin> {''passed'', ''failed'', ''unknown''})
        (BadSMARTStatus key (sh_SMARTStatus item)),
      fail_if (sh_RiskLevel item \<notin> {''healthy'', ''warning'', ''critical'', ''unknown''})
        (BadRiskLevel key (sh_RiskLevel item)),
      fail_if (\<not> optTemperatureOK (sh_TemperatureCelsius item) \<or> \<not> percentageUsedOK (sh_PercentageUsed item))
        (InvalidStorageHealth key),
      fail_if (length (sh_RiskReasons item) > 32) (TooManyRiskReasons key),
      checkRiskReasons key [] (sh_RiskReasons item),
      wrap_bigint (StorageBigint key) (validateOptionalUnsignedBigints
        [sh_PowerOnHours item, sh_ErrorCount item, sh_ReadErrorRateNormalized item,
         sh_ReadErrorRateRaw item, sh_ReallocatedSectors item, sh_PendingSectors item,
         sh_UncorrectableSectors item])])"

definition validateMetrics :: "Inventory \<Rightarrow> Metrics \<Rightarrow> report_error option" where
  "validateMetrics iv metrics = checks
     [checkMemoryMetrics (m_Memory metrics),
      checkDiskMetrics (m_Disk metrics),
      uniqueKeys ''filesystem metric'' (map fm_FilesystemKey (m_Filesystems metrics)),
      err_for (checkFilesystemMetric (set (map fs_Key (inv_Filesystems iv)))) (m_Filesystems metrics),
      uniqueKeys ''network metric'' (map nm_InterfaceKey (m_Network metrics)),
      err_for (checkNetworkMetric (set (map ni_Key (inv_NetworkInterfaces iv)))) (m_Network metrics),
      uniqueKeys ''GPU metric'' (map gm_GPUKey (m_GPUs metrics)),
      err_for (checkGPUMetric (gpuMemoryByKey (inv_GPUs iv))) (m_GPUs metrics),
      fail_if (length (m_Temperatures metrics) > 4096 \<or> length (m_StorageHealth metrics) > 4096)
        TooManyHealthResources,
      uniqueKeys ''temperature metric'' (map tm_Key (m_Temperatures metrics)),
      err_for checkTemperature (m_Temperatures metrics),
      uniqueKeys ''storage health metric'' (map sh_BlockDeviceKey (m_StorageHealth metrics)),
      err_for (checkStorageHealth (set (map bd_Key (inv_BlockDevices iv)))) (m_StorageHealth metrics)]"

section \<open>The whole report\<close>

text \<open>
  The checks before the fingerprint. The method \<open>Validate\<close> has a pointer receiver and the
  fingerprint sorts the inventory in place, so it returns the report as it is afterwards.
\<close>

definition validateHeader :: "Time \<Rightarrow> Report \<Rightarrow> report_error option" where
  "validateHeader now r =
     (let ag = r_Agent r; cpu = m_CPU (r_Metrics r) in checks
     [fail_if (r_Version r \<noteq> Version) (UnsupportedVersion (r_Version r)),
      fail_if (\<not> ValidUUID (ai_ID ag)) BadAgentID,
      fail_if (blank (ai_Hostname ag) \<or> blank (ai_OSName ag) \<or> blank (ai_Architecture ag) \<or>
               blank (ai_AgentVersion ag)) MissingAgentFields,
      fail_if (ai_MachineType ag \<notin> {[], ''physical'', ''virtual''}) BadMachineType,
      fail_if (ai_PrimaryIP ag \<noteq> [] \<and> ParseIP (ai_PrimaryIP ag) = None) BadPrimaryIP,
      fail_if (IsZero (r_CollectedAt r)) MissingCollectedAt,
      fail_if (r_CollectedAt r > now + 5 * Minute) CollectedInFuture,
      fail_if (r_CollectedAt r < now - 24 * Hour) CollectedTooOld,
      fail_if (r_IntervalSeconds r < 1 \<or> r_IntervalSeconds r > 3600) BadInterval,
      fail_if (cm_UsagePercent cpu < Fin 0 \<or> cm_UsagePercent cpu > Fin 100) BadCPUUsage,
      fail_if (cm_Load1 cpu < Fin 0 \<or> cm_Load5 cpu < Fin 0 \<or> cm_Load15 cpu < Fin 0) NegativeLoad])"

definition Validate ::
  "digest_fun \<Rightarrow> inventory_encoder \<Rightarrow> Time \<Rightarrow> Report \<Rightarrow> report_error option \<times> Report" where
  "Validate sha256 marshal now r =
     (case checks [validateHeader now r, validateInventory (r_Inventory r),
                   validateMetrics (r_Inventory r) (r_Metrics r)] of
        Some e \<Rightarrow> (Some e, r)
      | None \<Rightarrow>
          (let (fp, normalized) = InventoryFingerprint sha256 marshal (r_Inventory r);
               r' = r\<lparr>r_Inventory := normalized\<rparr>
           in case fp of
                Inl e \<Rightarrow> (Some (FingerprintError e), r')
              | Inr fingerprint \<Rightarrow>
                  (fail_if (r_InventoryFingerprint r \<noteq> fingerprint) FingerprintMismatch, r')))"

section \<open>What the helper loops decide\<close>

lemma uniqueKeys_loop_None:
  "uniqueKeys_loop kind seen ks = None \<longleftrightarrow>
     (\<forall>k \<in> set ks. TrimSpace k \<noteq> [] \<and> TrimSpace k \<notin> set seen) \<and> distinct (map TrimSpace ks)"
proof (induction ks arbitrary: seen)
  case (Cons k ks)
  show ?case
    by (simp add: Let_def Cons.IH) (metis (no_types, lifting) image_iff)
qed simp

lemma uniqueKeys_None [go_err]:
  "uniqueKeys kind ks = None \<longleftrightarrow> (\<forall>k \<in> set ks. \<not> blank k) \<and> distinct (map TrimSpace ks)"
  by (auto simp: uniqueKeys_def uniqueKeys_loop_None blank_def)

lemma uniqueKeys_distinct: "uniqueKeys kind ks = None \<Longrightarrow> distinct ks"
  by (simp add: uniqueKeys_None distinct_map)

lemma validateUnsignedBigints_None [go_err]:
  "validateUnsignedBigints vs = None \<longleftrightarrow> (\<forall>v \<in> set vs. v \<le> MaxInt64)"
  by (induction vs) auto

declare validateUnsignedBigints.simps [simp del]

lemma validateOptionalUnsignedBigints_None [go_err]:
  "validateOptionalUnsignedBigints vs = None \<longleftrightarrow> (\<forall>v. Some v \<in> set vs \<longrightarrow> v \<le> MaxInt64)"
  by (induction vs) (auto simp: validateUnsignedBigints_None split: option.splits)

declare validateOptionalUnsignedBigints.simps [simp del]

lemma wrap_bigint_None [simp, go_err]: "wrap_bigint f e = None \<longleftrightarrow> e = None"
  by (simp add: wrap_bigint_def)

definition address_ok :: "NetworkAddress \<Rightarrow> bool" where
  "address_ok a \<longleftrightarrow> ParseCIDR (na_Address a) \<noteq> None \<and> na_Scope a \<in> addressScopes"

lemma checkAddresses_None [go_err]:
  "checkAddresses key seen as = None \<longleftrightarrow>
     (\<forall>a \<in> set as. address_ok a \<and> na_Address a \<notin> set seen) \<and> distinct (map na_Address as)"
proof (induction as arbitrary: seen)
  case (Cons a as)
  show ?case
    by (simp add: Cons.IH address_ok_def) (metis (no_types, lifting) image_iff)
qed simp

lemma checkRiskReasons_None [go_err]:
  "checkRiskReasons key seen rs = None \<longleftrightarrow>
     set rs \<subseteq> knownRiskReasons \<and> set rs \<inter> set seen = {} \<and> distinct rs"
  by (induction rs arbitrary: seen) auto

lemma gpuMemoryByKey_foldl:
  "distinct (map gpu_Key gpus) \<Longrightarrow>
   foldl (\<lambda>m g. m(gpu_Key g \<mapsto> gpu_MemoryTotalBytes g)) m gpus k =
     (case map_of (map (\<lambda>g. (gpu_Key g, gpu_MemoryTotalBytes g)) gpus) k of None \<Rightarrow> m k | Some v \<Rightarrow> Some v)"
  by (induction gpus arbitrary: m)
    (auto split: option.splits simp: map_of_eq_None_iff image_image dest!: map_of_SomeD)

lemma gpuMemoryByKey_eq:
  "distinct (map gpu_Key gpus) \<Longrightarrow>
   gpuMemoryByKey gpus = map_of (map (\<lambda>g. (gpu_Key g, gpu_MemoryTotalBytes g)) gpus)"
  by (rule ext) (simp add: gpuMemoryByKey_def gpuMemoryByKey_foldl split: option.splits)

lemma gpuMemoryByKey_Some:
  "distinct (map gpu_Key gpus) \<Longrightarrow>
   gpuMemoryByKey gpus k = Some t \<longleftrightarrow> (\<exists>g \<in> set gpus. gpu_Key g = k \<and> gpu_MemoryTotalBytes g = t)"
  by (auto simp: gpuMemoryByKey_eq map_of_eq_Some_iff distinct_map comp_def inj_on_def)

section \<open>The contract of validation\<close>

text \<open>
  What an accepted report promises, stated over sets instead of loops: keys are non-blank and
  distinct after trimming, counters fit PostgreSQL's bigint, every metric refers to a
  resource of the inventory, and no usage exceeds its total.
\<close>

definition keys_ok :: "string list \<Rightarrow> bool" where
  "keys_ok ks \<longleftrightarrow> (\<forall>k \<in> set ks. \<not> blank k) \<and> distinct (map TrimSpace ks)"

definition fits :: "u64 \<Rightarrow> bool" where
  "fits v \<longleftrightarrow> v \<le> MaxInt64"

definition inventory_ok :: "Inventory \<Rightarrow> bool" where
  "inventory_ok iv \<longleftrightarrow>
     length (inv_CPUPackages iv) \<le> 1024 \<and> length (inv_MemoryModules iv) \<le> 4096 \<and>
     length (inv_BlockDevices iv) \<le> 4096 \<and> length (inv_Filesystems iv) \<le> 4096 \<and>
     length (inv_NetworkInterfaces iv) \<le> 4096 \<and> length (inv_GPUs iv) \<le> 1024 \<and>
     keys_ok (map cpu_Key (inv_CPUPackages iv)) \<and> keys_ok (map mm_Key (inv_MemoryModules iv)) \<and>
     keys_ok (map bd_Key (inv_BlockDevices iv)) \<and> keys_ok (map fs_Key (inv_Filesystems iv)) \<and>
     keys_ok (map ni_Key (inv_NetworkInterfaces iv)) \<and> keys_ok (map gpu_Key (inv_GPUs iv)) \<and>
     (\<forall>x \<in> set (inv_CPUPackages iv). checkCPUPackage x = None) \<and>
     (\<forall>x \<in> set (inv_MemoryModules iv). mm_SizeBytes x \<noteq> 0 \<and> fits (mm_SizeBytes x) \<and> 0 \<le> mm_SpeedMTs x) \<and>
     (\<forall>x \<in> set (inv_BlockDevices iv). \<not> blank (bd_DeviceName x) \<and> fits (bd_SizeBytes x) \<and>
        bd_DeviceKind x \<in> {''disk'', ''raid'', ''multipath'', ''virtual''}) \<and>
     (\<forall>x \<in> set (inv_Filesystems iv). \<not> blank (fs_DeviceName x) \<and> \<not> blank (fs_FilesystemType x) \<and>
        \<not> blank (fs_MountPoint x)) \<and>
     (\<forall>x \<in> set (inv_NetworkInterfaces iv). \<not> blank (ni_Name x) \<and> 0 \<le> ni_MTU x \<and> 0 \<le> ni_LinkSpeedMbps x \<and>
        distinct (map na_Address (ni_Addresses x)) \<and> (\<forall>a \<in> set (ni_Addresses x). address_ok a)) \<and>
     (\<forall>x \<in> set (inv_GPUs iv). 0 \<le> gpu_Index x \<and> \<not> blank (gpu_UUID x) \<and> \<not> blank (gpu_ModelName x) \<and>
        gpu_MemoryTotalBytes x \<noteq> 0 \<and> fits (gpu_MemoryTotalBytes x))"

lemma validateInventory_iff: "validateInventory iv = None \<longleftrightarrow> inventory_ok iv"
  unfolding validateInventory_def inventory_ok_def keys_ok_def fits_def
  by (auto simp: go_err checkMemoryModule_def checkBlockDevice_def checkFilesystem_def
      checkNetworkInterface_def checkGPU_def not_less)

definition memory_metrics_ok :: "MemoryMetrics \<Rightarrow> bool" where
  "memory_metrics_ok m \<longleftrightarrow>
     fits (me_TotalBytes m) \<and> fits (me_SwapTotalBytes m) \<and> fits (me_UptimeSeconds m) \<and>
     me_UsedBytes m \<le> me_TotalBytes m \<and> me_AvailableBytes m \<le> me_TotalBytes m \<and>
     me_CachedBytes m \<le> me_TotalBytes m \<and> me_BuffersBytes m \<le> me_TotalBytes m \<and>
     me_SwapUsedBytes m \<le> me_SwapTotalBytes m"

definition disk_metrics_ok :: "DiskMetrics \<Rightarrow> bool" where
  "disk_metrics_ok d \<longleftrightarrow> list_all fits
     [dm_ReadBytesTotal d, dm_WriteBytesTotal d, dm_ReadBytesDelta d, dm_WriteBytesDelta d,
      dm_ReadOpsDelta d, dm_WriteOpsDelta d]"

definition filesystem_metric_ok :: "Inventory \<Rightarrow> FilesystemMetrics \<Rightarrow> bool" where
  "filesystem_metric_ok iv x \<longleftrightarrow>
     fm_FilesystemKey x \<in> fs_Key ` set (inv_Filesystems iv) \<and>
     fits (fm_TotalBytes x) \<and> fits (fm_TotalInodes x) \<and> fits (fm_UsedInodes x) \<and>
     fm_UsedBytes x \<le> fm_TotalBytes x \<and> fm_AvailableBytes x \<le> fm_TotalBytes x \<and>
     (fm_TotalInodes x = 0 \<or> fm_UsedInodes x \<le> fm_TotalInodes x)"

definition network_metric_ok :: "Inventory \<Rightarrow> NetworkMetrics \<Rightarrow> bool" where
  "network_metric_ok iv x \<longleftrightarrow>
     nm_InterfaceKey x \<in> ni_Key ` set (inv_NetworkInterfaces iv) \<and> list_all fits
     [nm_RXBytesTotal x, nm_TXBytesTotal x, nm_RXBytesDelta x, nm_TXBytesDelta x,
      nm_RXPacketsDelta x, nm_TXPacketsDelta x, nm_RXErrorsDelta x, nm_TXErrorsDelta x,
      nm_RXDroppedDelta x, nm_TXDroppedDelta x]"

definition gpu_metric_ok :: "Inventory \<Rightarrow> GPUMetrics \<Rightarrow> bool" where
  "gpu_metric_ok iv x \<longleftrightarrow>
     (\<exists>g \<in> set (inv_GPUs iv). gpu_Key g = gm_GPUKey x \<and> gm_MemoryUsedBytes x \<le> gpu_MemoryTotalBytes g) \<and>
     \<not> gm_UtilizationPercent x < Fin 0 \<and> \<not> gm_UtilizationPercent x > Fin 100 \<and>
     optTemperatureOK (gm_TemperatureCelsius x) \<and> fits (gm_MemoryUsedBytes x)"

definition storage_health_ok :: "Inventory \<Rightarrow> StorageHealth \<Rightarrow> bool" where
  "storage_health_ok iv x \<longleftrightarrow>
     sh_BlockDeviceKey x \<in> bd_Key ` set (inv_BlockDevices iv) \<and>
     sh_SMARTStatus x \<in> {''passed'', ''failed'', ''unknown''} \<and>
     sh_RiskLevel x \<in> {''healthy'', ''warning'', ''critical'', ''unknown''} \<and>
     optTemperatureOK (sh_TemperatureCelsius x) \<and> percentageUsedOK (sh_PercentageUsed x) \<and>
     set (sh_RiskReasons x) \<subseteq> knownRiskReasons \<and> distinct (sh_RiskReasons x) \<and>
     (\<forall>v. Some v \<in> set [sh_PowerOnHours x, sh_ErrorCount x, sh_ReadErrorRateNormalized x,
         sh_ReadErrorRateRaw x, sh_ReallocatedSectors x, sh_PendingSectors x,
         sh_UncorrectableSectors x] \<longrightarrow> fits v)"

definition metrics_ok :: "Inventory \<Rightarrow> Metrics \<Rightarrow> bool" where
  "metrics_ok iv m \<longleftrightarrow>
     memory_metrics_ok (m_Memory m) \<and> disk_metrics_ok (m_Disk m) \<and>
     keys_ok (map fm_FilesystemKey (m_Filesystems m)) \<and> keys_ok (map nm_InterfaceKey (m_Network m)) \<and>
     keys_ok (map gm_GPUKey (m_GPUs m)) \<and> keys_ok (map tm_Key (m_Temperatures m)) \<and>
     keys_ok (map sh_BlockDeviceKey (m_StorageHealth m)) \<and>
     length (m_Temperatures m) \<le> 4096 \<and> length (m_StorageHealth m) \<le> 4096 \<and>
     (\<forall>x \<in> set (m_Filesystems m). filesystem_metric_ok iv x) \<and>
     (\<forall>x \<in> set (m_Network m). network_metric_ok iv x) \<and>
     (\<forall>x \<in> set (m_GPUs m). gpu_metric_ok iv x) \<and>
     (\<forall>x \<in> set (m_Temperatures m). checkTemperature x = None) \<and>
     (\<forall>x \<in> set (m_StorageHealth m). storage_health_ok iv x)"

lemma fits_mono: "a \<le> b \<Longrightarrow> fits b \<Longrightarrow> fits a"
  unfolding fits_def by (rule order_trans)

lemma checkMemoryMetrics_iff: "checkMemoryMetrics m = None \<longleftrightarrow> memory_metrics_ok m"
  by (auto simp: checkMemoryMetrics_def memory_metrics_ok_def go_err not_less fits_def
      intro: order_trans)

lemma checkDiskMetrics_iff: "checkDiskMetrics d = None \<longleftrightarrow> disk_metrics_ok d"
  by (simp add: checkDiskMetrics_def disk_metrics_ok_def go_err fits_def)

lemma checkFilesystemMetric_iff:
  "checkFilesystemMetric (set (map fs_Key (inv_Filesystems iv))) x = None \<longleftrightarrow> filesystem_metric_ok iv x"
  by (auto simp: checkFilesystemMetric_def filesystem_metric_ok_def go_err not_less fits_def
      intro: order_trans)

lemma checkNetworkMetric_iff:
  "checkNetworkMetric (set (map ni_Key (inv_NetworkInterfaces iv))) x = None \<longleftrightarrow> network_metric_ok iv x"
  by (auto simp: checkNetworkMetric_def network_metric_ok_def go_err fits_def)

lemma checkGPUMetric_iff:
  assumes "distinct (map gpu_Key (inv_GPUs iv))"
  shows "checkGPUMetric (gpuMemoryByKey (inv_GPUs iv)) x = None \<longleftrightarrow> gpu_metric_ok iv x"
proof (cases "gpuMemoryByKey (inv_GPUs iv) (gm_GPUKey x)")
  case None
  then have "\<forall>g \<in> set (inv_GPUs iv). gpu_Key g \<noteq> gm_GPUKey x"
    using gpuMemoryByKey_Some [OF assms, of "gm_GPUKey x"] by auto
  with None show ?thesis
    by (auto simp: checkGPUMetric_def gpu_metric_ok_def)
next
  case (Some t)
  then have "(\<exists>g \<in> set (inv_GPUs iv). gpu_Key g = gm_GPUKey x \<and> u \<le> gpu_MemoryTotalBytes g) \<longleftrightarrow> u \<le> t"
    for u using gpuMemoryByKey_Some [OF assms] by (metis option.inject)
  with Some show ?thesis
    by (auto simp: checkGPUMetric_def gpu_metric_ok_def go_err not_less fits_def)
qed

lemma card_knownRiskReasons: "card knownRiskReasons = 12"
  by (simp add: knownRiskReasons_def)

lemma known_reasons_short:
  assumes "set rs \<subseteq> knownRiskReasons" "distinct rs"
  shows "length rs \<le> 12"
proof -
  have "card (set rs) \<le> card knownRiskReasons"
    using assms(1) by (intro card_mono) (simp_all add: knownRiskReasons_def)
  then show ?thesis using assms(2) by (simp add: distinct_card card_knownRiskReasons)
qed

lemma checkStorageHealth_iff:
  "checkStorageHealth (set (map bd_Key (inv_BlockDevices iv))) x = None \<longleftrightarrow> storage_health_ok iv x"
  using known_reasons_short [of "sh_RiskReasons x"]
  unfolding checkStorageHealth_def storage_health_ok_def Let_def
  by (auto simp: go_err fits_def)

lemma validateMetrics_iff:
  assumes "distinct (map gpu_Key (inv_GPUs iv))"
  shows "validateMetrics iv m = None \<longleftrightarrow> metrics_ok iv m"
  unfolding validateMetrics_def metrics_ok_def keys_ok_def
  by (simp add: go_err checkMemoryMetrics_iff checkDiskMetrics_iff checkFilesystemMetric_iff
      checkNetworkMetric_iff checkGPUMetric_iff [OF assms] checkStorageHealth_iff not_less
      del: set_map) blast

section \<open>Validation does not depend on the order of the inventory\<close>

lemma checkNetworkInterface_sorted [simp]:
  "checkNetworkInterface (sortAddresses n) = None \<longleftrightarrow> checkNetworkInterface n = None"
  by (simp add: checkNetworkInterface_def sortAddresses_def go_err)

lemma checkFilesystem_sorted [simp]: "checkFilesystem (sortMountOptions f) = checkFilesystem f"
  by (simp add: checkFilesystem_def sortMountOptions_def)

lemma keys_ok_sort [simp]: "keys_ok (map f (sort_slice key xs)) \<longleftrightarrow> keys_ok (map f xs)"
proof -
  have "distinct (map TrimSpace (map f (sort_slice key xs))) \<longleftrightarrow> distinct (map TrimSpace (map f xs))"
    unfolding map_map by (rule distinct_map_sort_slice)
  then show ?thesis by (simp add: keys_ok_def)
qed

lemma inventory_ok_normalize [simp]: "inventory_ok (NormalizeInventory iv) \<longleftrightarrow> inventory_ok iv"
  unfolding inventory_ok_def
  by (simp add: sortMountOptions_def sortAddresses_def comp_def)

lemma metrics_ok_normalize [simp]: "metrics_ok (NormalizeInventory iv) m \<longleftrightarrow> metrics_ok iv m"
  unfolding metrics_ok_def filesystem_metric_ok_def network_metric_ok_def gpu_metric_ok_def
    storage_health_ok_def
  by (simp add: image_image)

lemma keys_ok_distinct: "keys_ok ks \<Longrightarrow> distinct ks"
  by (simp add: keys_ok_def distinct_map)

lemma inventory_ok_distinct_keys: "inventory_ok iv \<Longrightarrow> distinct_keys iv"
  by (simp add: inventory_ok_def distinct_keys_def keys_ok_distinct)

section \<open>What an accepted report satisfies\<close>

definition header_ok :: "Time \<Rightarrow> Report \<Rightarrow> bool" where
  "header_ok now r \<longleftrightarrow>
     (let ag = r_Agent r; cpu = m_CPU (r_Metrics r) in
      r_Version r = 1 \<and> ValidUUID (ai_ID ag) \<and>
      (\<forall>s \<in> {ai_Hostname ag, ai_OSName ag, ai_Architecture ag, ai_AgentVersion ag}. \<not> blank s) \<and>
      ai_MachineType ag \<in> {[], ''physical'', ''virtual''} \<and>
      (ai_PrimaryIP ag = [] \<or> ParseIP (ai_PrimaryIP ag) \<noteq> None) \<and>
      r_CollectedAt r \<noteq> zeroTime \<and>
      now - 24 * Hour \<le> r_CollectedAt r \<and> r_CollectedAt r \<le> now + 5 * Minute \<and>
      1 \<le> r_IntervalSeconds r \<and> r_IntervalSeconds r \<le> 3600 \<and>
      \<not> cm_UsagePercent cpu < Fin 0 \<and> \<not> cm_UsagePercent cpu > Fin 100 \<and>
      \<not> cm_Load1 cpu < Fin 0 \<and> \<not> cm_Load5 cpu < Fin 0 \<and> \<not> cm_Load15 cpu < Fin 0)"

lemma validateHeader_iff: "validateHeader now r = None \<longleftrightarrow> header_ok now r"
  by (auto simp: validateHeader_def header_ok_def Let_def go_err IsZero_def Version_def not_less)

lemma inventory_ok_gpu_distinct: "inventory_ok iv \<Longrightarrow> distinct (map gpu_Key (inv_GPUs iv))"
  by (simp add: inventory_ok_def keys_ok_distinct)

lemma body_checks_iff:
  "checks [validateHeader now r, validateInventory (r_Inventory r),
     validateMetrics (r_Inventory r) (r_Metrics r)] = None \<longleftrightarrow>
   header_ok now r \<and> inventory_ok (r_Inventory r) \<and> metrics_ok (r_Inventory r) (r_Metrics r)"
  using validateMetrics_iff [OF inventory_ok_gpu_distinct]
  by (auto simp: go_err validateHeader_iff validateInventory_iff)

text \<open>The report a handler goes on with: normalised when the checks before the fingerprint pass.\<close>

lemma Validate_None:
  "fst (Validate sha256 marshal now r) = None \<longleftrightarrow>
     header_ok now r \<and> inventory_ok (r_Inventory r) \<and> metrics_ok (r_Inventory r) (r_Metrics r) \<and>
     fst (InventoryFingerprint sha256 marshal (r_Inventory r)) = Inr (r_InventoryFingerprint r)"
  using body_checks_iff [of now r]
  by (cases "checks [validateHeader now r, validateInventory (r_Inventory r),
        validateMetrics (r_Inventory r) (r_Metrics r)]")
    (auto simp: Validate_def Let_def simp del: checks.simps split: sum.splits prod.splits)

lemma InventoryFingerprint_snd: "InventoryFingerprint sha256 marshal iv = (x, n) \<Longrightarrow> n = NormalizeInventory iv"
  by (simp add: InventoryFingerprint_def Let_def)

lemma Validate_snd:
  "fst (Validate sha256 marshal now r) = None \<Longrightarrow>
   snd (Validate sha256 marshal now r) = r\<lparr>r_Inventory := NormalizeInventory (r_Inventory r)\<rparr>"
  by (auto simp: Validate_def Let_def simp del: checks.simps dest: InventoryFingerprint_snd
      split: option.splits sum.splits prod.splits)

lemma header_ok_normalize [simp]:
  "header_ok now (r\<lparr>r_Inventory := iv\<rparr>) \<longleftrightarrow> header_ok now r"
  by (simp add: header_ok_def)

section \<open>A concrete report\<close>

text \<open>A small report that exercises the checks; the digest is a constant function of 32 bytes.\<close>

definition sampleInventory :: Inventory where
  "sampleInventory =
     \<lparr>inv_CPUPackages = [\<lparr>cpu_Key = ''cpu0'', cpu_PackageIndex = 0, cpu_Vendor = ''GenuineIntel'',
        cpu_ModelName = ''Xeon'', cpu_PhysicalCores = 8, cpu_LogicalThreads = 16,
        cpu_PerformanceCores = 6, cpu_EfficiencyCores = 2, cpu_MaxFrequencyMHz = Fin 3600\<rparr>],
      inv_MemoryModules = [],
      inv_BlockDevices = [\<lparr>bd_Key = ''sda'', bd_DeviceName = ''sda'', bd_DeviceKind = ''disk'',
        bd_Vendor = [], bd_ModelName = [], bd_SerialNumber = [], bd_WWN = [], bd_SizeBytes = 1000,
        bd_Rotational = None, bd_Protocol = [], bd_SMARTDeviceType = [], bd_RAIDPassthrough = False\<rparr>],
      inv_Filesystems = [\<lparr>fs_Key = ''root'', fs_UUID = [], fs_DeviceName = ''/dev/sda1'',
        fs_FilesystemType = ''ext4'', fs_MountPoint = ''/'', fs_MountOptions = [''rw'', ''noatime'']\<rparr>],
      inv_NetworkInterfaces = [\<lparr>ni_Key = ''eth1'', ni_Name = ''eth1'', ni_MACAddress = [], ni_MTU = 1500,
        ni_LinkSpeedMbps = 0, ni_Addresses = []\<rparr>,
        \<lparr>ni_Key = ''eth0'', ni_Name = ''eth0'', ni_MACAddress = [], ni_MTU = 1500, ni_LinkSpeedMbps = 0,
         ni_Addresses = [\<lparr>na_Address = ''10.0.0.5/24'', na_Scope = ''private''\<rparr>]\<rparr>],
      inv_GPUs = []\<rparr>"

definition sampleMetrics :: Metrics where
  "sampleMetrics =
     \<lparr>m_CPU = \<lparr>cm_UsagePercent = Fin 12, cm_Load1 = Fin 1, cm_Load5 = Fin 1, cm_Load15 = Fin 0\<rparr>,
      m_Memory = \<lparr>me_TotalBytes = 100, me_UsedBytes = 50, me_AvailableBytes = 50, me_CachedBytes = 0,
        me_BuffersBytes = 0, me_SwapTotalBytes = 0, me_SwapUsedBytes = 0, me_UptimeSeconds = 7\<rparr>,
      m_Disk = \<lparr>dm_ReadBytesTotal = 9, dm_WriteBytesTotal = 8, dm_ReadBytesDelta = 1,
        dm_WriteBytesDelta = 1, dm_ReadOpsDelta = 1, dm_WriteOpsDelta = 1\<rparr>,
      m_Filesystems = [\<lparr>fm_FilesystemKey = ''root'', fm_TotalBytes = 10, fm_UsedBytes = 4,
        fm_AvailableBytes = 6, fm_TotalInodes = 0, fm_UsedInodes = 0\<rparr>],
      m_Network = [], m_GPUs = [],
      m_Temperatures = [\<lparr>tm_Key = ''t'', tm_Component = ''cpu'', tm_Label = ''Package'',
        tm_TemperatureCelsius = Fin 40, tm_HighCelsius = None, tm_CriticalCelsius = None\<rparr>],
      m_StorageHealth = [\<lparr>sh_BlockDeviceKey = ''sda'', sh_SMARTAvailable = True, sh_SMARTEnabled = True,
        sh_SMARTStatus = ''passed'', sh_RiskLevel = ''warning'', sh_RiskReasons = [''wear_high''],
        sh_TemperatureCelsius = None, sh_PowerOnHours = Some 5, sh_ErrorCount = None,
        sh_ReadErrorRateNormalized = None, sh_ReadErrorRateRaw = None, sh_ReallocatedSectors = None,
        sh_PendingSectors = None, sh_UncorrectableSectors = None, sh_PercentageUsed = Some (Fin 85)\<rparr>]\<rparr>"

definition sampleDigest :: digest_fun where
  "sampleDigest enc = replicate 32 (of_nat (length enc))"

definition sampleMarshal :: inventory_encoder where
  "sampleMarshal iv = Some (concat (map ni_Key (inv_NetworkInterfaces iv)))"

definition sampleNow :: Time where
  "sampleNow = 1700000000 * Second"

definition sampleReport :: Report where
  "sampleReport =
     \<lparr>r_Version = 1, r_CollectedAt = sampleNow - 30 * Second, r_IntervalSeconds = 60,
      r_InventoryFingerprint = hex_encode (replicate 32 8),
      r_Agent = \<lparr>ai_ID = ''123e4567-e89b-42d3-a456-426614174000'', ai_Hostname = ''web-1'',
        ai_OSName = ''Debian'', ai_OSVersion = ''12'', ai_KernelVersion = [], ai_Architecture = ''x86_64'',
        ai_AgentVersion = ''v1.2.3'', ai_MachineType = ''physical'', ai_SystemModel = [],
        ai_PrimaryIP = ''10.0.0.5'', ai_Labels = Map.empty\<rparr>,
      r_Inventory = sampleInventory, r_Metrics = sampleMetrics\<rparr>"

lemma sampleReport_sel [simp]: "r_Inventory sampleReport = sampleInventory"
  by (simp add: sampleReport_def)

lemma sampleReport_accepted: "fst (Validate sampleDigest sampleMarshal sampleNow sampleReport) = None"
  by code_simp

section \<open>Properties\<close>


text \<open>
  C23: Validation is stable: the report that an accepting run leaves behind, with its inventory
  sorted in place, is accepted again and is not changed any more.
\<close>

theorem Validate_stable:
  assumes "Validate sha256 marshal now r = (None, r')"
  shows "Validate sha256 marshal now r' = (None, r')"
proof -
  have r': "r' = r\<lparr>r_Inventory := NormalizeInventory (r_Inventory r)\<rparr>"
    using Validate_snd [of sha256 marshal now r] assms by simp
  have "fst (Validate sha256 marshal now r') = None"
    using assms Validate_None [of sha256 marshal now r] by (simp add: r' Validate_None)
  with Validate_snd [OF this] show ?thesis
    by (simp add: r' NormalizeInventory_idem_aux prod_eq_iff)
qed

theorem Validate_stable_witness:
  "\<exists>r'. Validate sampleDigest sampleMarshal sampleNow sampleReport = (None, r') \<and>
        Validate sampleDigest sampleMarshal sampleNow r' = (None, r') \<and>
        map ni_Key (inv_NetworkInterfaces (r_Inventory r')) = [''eth0'', ''eth1'']"
proof -
  let ?r = "snd (Validate sampleDigest sampleMarshal sampleNow sampleReport)"
  have "Validate sampleDigest sampleMarshal sampleNow sampleReport = (None, ?r)"
    using sampleReport_accepted by (simp add: prod_eq_iff)
  moreover from Validate_stable [OF this]
  have "Validate sampleDigest sampleMarshal sampleNow ?r = (None, ?r)" .
  moreover have "map ni_Key (inv_NetworkInterfaces (NormalizeInventory sampleInventory)) = [''eth0'', ''eth1'']"
    by code_simp
  then have "map ni_Key (inv_NetworkInterfaces (r_Inventory ?r)) = [''eth0'', ''eth1'']"
    by (simp add: Validate_snd [OF sampleReport_accepted])
  ultimately show ?thesis by (intro exI [of _ ?r] conjI)
qed

text \<open>
  C24: The fingerprint does not depend on the order in which a collector lists the resources, the
  mount options of a filesystem or the addresses of an interface, as long as keys are distinct:
  a sender and the server that validates agree on it.
\<close>

theorem InventoryFingerprint_order:
  assumes "same_resources a b" and "distinct_keys b"
  shows "InventoryFingerprint sha256 marshal a = InventoryFingerprint sha256 marshal b"
  using NormalizeInventory_same [OF assms] by (simp add: InventoryFingerprint_def)

theorem InventoryFingerprint_order_witness:
  "InventoryFingerprint sampleDigest sampleMarshal
     (sampleInventory\<lparr>inv_NetworkInterfaces := rev (inv_NetworkInterfaces sampleInventory)\<rparr>) =
   InventoryFingerprint sampleDigest sampleMarshal sampleInventory"
proof (rule InventoryFingerprint_order)
  have refl: "perm_rel fs_equiv xs xs" for xs
    by (auto simp: perm_rel_def fs_equiv_def intro!: exI [of _ xs] list_all2_refl)
  have "perm_rel ni_equiv (rev xs) xs" for xs
    by (auto simp: perm_rel_def ni_equiv_def intro!: exI [of _ "rev xs"] list_all2_refl)
  with refl show "same_resources
     (sampleInventory\<lparr>inv_NetworkInterfaces := rev (inv_NetworkInterfaces sampleInventory)\<rparr>) sampleInventory"
    by (simp add: same_resources_def)
  show "distinct_keys sampleInventory" by code_simp
qed

text \<open>
  An accepted CPU package has consistent core counts even though the sum of its performance and
  efficiency cores may wrap around: when the fields are Go ints, the mathematical sum is 0 or the
  number of physical cores.
\<close>

theorem checkCPUPackage_cores:
  assumes "checkCPUPackage p = None" "in_int (cpu_PerformanceCores p)" "in_int (cpu_EfficiencyCores p)"
  shows "cpu_PerformanceCores p + cpu_EfficiencyCores p \<in> {0, cpu_PhysicalCores p} \<and>
         1 \<le> cpu_PhysicalCores p \<and> cpu_PhysicalCores p \<le> cpu_LogicalThreads p"
proof -
  let ?s = "int_add (cpu_PerformanceCores p) (cpu_EfficiencyCores p)"
  have *: "0 \<le> cpu_PerformanceCores p" "0 \<le> cpu_EfficiencyCores p" "?s = 0 \<or> ?s = cpu_PhysicalCores p"
    "1 \<le> cpu_PhysicalCores p" "cpu_PhysicalCores p \<le> cpu_LogicalThreads p"
    using assms(1) by (auto simp: checkCPUPackage_def Let_def not_less)
  then have "0 \<le> ?s" by auto
  then have "?s = cpu_PerformanceCores p + cpu_EfficiencyCores p"
    using * assms(2,3) by (intro int_add_nonneg)
  with * show ?thesis by auto
qed

theorem checkCPUPackage_cores_witness:
  "let p = hd (inv_CPUPackages sampleInventory) in
   checkCPUPackage p = None \<and> cpu_PerformanceCores p + cpu_EfficiencyCores p = 8"
proof -
  let ?p = "hd (inv_CPUPackages sampleInventory)"
  have *: "checkCPUPackage ?p = None" by code_simp
  have "cpu_PerformanceCores ?p + cpu_EfficiencyCores ?p \<in> {0, cpu_PhysicalCores ?p}"
    using checkCPUPackage_cores [OF *] by (simp add: sampleInventory_def in_int_def)
  with * show ?thesis by (simp add: sampleInventory_def)
qed

end
