(* ===== verification/App_Version.thy ===== *)
theory App_Version
  imports Go_Strings "HOL-Library.Product_Lexorder"
begin

text \<open>
  Versions of agents and releases (src/internal/version/version.go). The regular expression is a
  scanner on bytes; it is deterministic, because each of its parts ends at the first byte the part
  does not accept. The pair \<open>(value, ok)\<close> that \<open>Normalize\<close>, \<open>Compare\<close> and \<open>parse\<close> return is
  an option, whose \<^const>\<open>None\<close> is \<open>ok = false\<close>.
\<close>

record parsed =
  numbers :: "u64 list"
  prerelease :: "string list"

definition is_ident_byte :: "char \<Rightarrow> bool" where
  "is_ident_byte c \<longleftrightarrow> is_digit c \<or> CHR ''A'' \<le> c \<and> c \<le> CHR ''Z'' \<or> CHR ''a'' \<le> c \<and> c \<le> CHR ''z'' \<or>
     c = CHR ''.'' \<or> c = CHR ''-''"

text \<open>One group \<open>([0-9]+)\<close>: the digits and the rest of the input.\<close>

definition scan_number :: "string \<Rightarrow> (string \<times> string) option" where
  "scan_number s =
     (let d = takeWhile is_digit s in if d = [] then None else Some (d, dropWhile is_digit s))"

definition scan_dot :: "string \<Rightarrow> string option" where
  "scan_dot s = (case s of c # cs \<Rightarrow> if c = CHR ''.'' then Some cs else None | [] \<Rightarrow> None)"

text \<open>The optional group \<open>(?:[.-]([0-9A-Za-z.-]+))?$\<close>: the submatch, empty when it is absent.\<close>

definition scan_suffix :: "string \<Rightarrow> string option" where
  "scan_suffix s =
     (case s of [] \<Rightarrow> Some []
      | c # cs \<Rightarrow> if c \<in> {CHR ''.'', CHR ''-''} \<and> cs \<noteq> [] \<and> list_all is_ident_byte cs
                  then Some cs else None)"

text \<open>\<open>pattern.FindStringSubmatch\<close>: the four groups.\<close>

definition pattern_match :: "string \<Rightarrow> (string list \<times> string) option" where
  "pattern_match value =
     Option.bind (scan_number (TrimPrefix value ''v'')) (\<lambda>(a, s1).
     Option.bind (scan_dot s1) (\<lambda>s2.
     Option.bind (scan_number s2) (\<lambda>(b, s3).
     Option.bind (scan_dot s3) (\<lambda>s4.
     Option.bind (scan_number s4) (\<lambda>(c, s5).
     map_option (\<lambda>p. ([a, b, c], p)) (scan_suffix s5))))))"

fun parse_numbers :: "string list \<Rightarrow> u64 list option" where
  "parse_numbers [] = Some []"
| "parse_numbers (m # ms) =
     (case ParseUint m of None \<Rightarrow> None | Some n \<Rightarrow> map_option ((#) n) (parse_numbers ms))"

definition parse :: "string \<Rightarrow> parsed option" where
  "parse value =
     (case pattern_match value of
        None \<Rightarrow> None
      | Some (ms, pre) \<Rightarrow>
          (case parse_numbers ms of
             None \<Rightarrow> None
           | Some ns \<Rightarrow> Some \<lparr>numbers = ns, prerelease = (if pre \<noteq> [] then splitc (CHR ''.'') pre else [])\<rparr>))"

definition Normalize :: "string \<Rightarrow> string option" where
  "Normalize value =
     (let value = TrimSpace value in
      case parse value of None \<Rightarrow> None | Some _ \<Rightarrow> Some (TrimPrefix value ''v''))"

definition numericIdentifier :: "string \<Rightarrow> u64 option" where
  "numericIdentifier value =
     (if value = [] then None else if \<not> list_all is_digit value then None else ParseUint value)"

text \<open>The loop over the common length of two identifier lists: None when it falls through.\<close>

fun compareIdentifiers :: "string list \<Rightarrow> string list \<Rightarrow> int option" where
  "compareIdentifiers (l # ls) (r # rs) =
     (case (numericIdentifier l, numericIdentifier r) of
        (Some a, Some b) \<Rightarrow>
          if a < b then Some (-1) else if a > b then Some 1
          else if l < r then Some (-1) else if l > r then Some 1 else compareIdentifiers ls rs
      | (Some _, None) \<Rightarrow> Some (-1)
      | (None, Some _) \<Rightarrow> Some 1
      | (None, None) \<Rightarrow>
          if l < r then Some (-1) else if l > r then Some 1 else compareIdentifiers ls rs)"
| "compareIdentifiers _ _ = None"

definition comparePrerelease :: "string list \<Rightarrow> string list \<Rightarrow> int" where
  "comparePrerelease left right =
     (if length left = 0 \<and> length right = 0 then 0
      else if length left = 0 then 1
      else if length right = 0 then -1
      else case compareIdentifiers left right of
             Some c \<Rightarrow> c
           | None \<Rightarrow> if length left < length right then -1 else if length left > length right then 1 else 0)"

text \<open>The loop over \<open>numbers\<close>: None when all are equal.\<close>

fun compareNumbers :: "u64 list \<Rightarrow> u64 list \<Rightarrow> int option" where
  "compareNumbers (l # ls) (r # rs) =
     (if l < r then Some (-1) else if l > r then Some 1 else compareNumbers ls rs)"
| "compareNumbers _ _ = None"

definition Compare :: "string \<Rightarrow> string \<Rightarrow> int option" where
  "Compare left right =
     (case (parse (TrimSpace left), parse (TrimSpace right)) of
        (Some l, Some r) \<Rightarrow>
          Some (case compareNumbers (numbers l) (numbers r) of
                  Some c \<Rightarrow> c
                | None \<Rightarrow> comparePrerelease (prerelease l) (prerelease r))
      | _ \<Rightarrow> None)"

section \<open>Compare is the order of a key\<close>

text \<open>
  The order the comparison implements, on a linearly ordered type: the three numbers, then releases
  above pre-releases, then the identifiers, numeric ones first and by value.
\<close>

definition ident_key :: "string \<Rightarrow> nat \<times> nat \<times> string" where
  "ident_key s = (case numericIdentifier s of Some n \<Rightarrow> (0, unat n, s) | None \<Rightarrow> (1, 0, s))"

definition version_key :: "parsed \<Rightarrow> nat list \<times> nat \<times> (nat \<times> nat \<times> string) list" where
  "version_key v =
     (map unat (numbers v), if prerelease v = [] then 1 else 0, map ident_key (prerelease v))"

definition cmp :: "'a :: linorder \<Rightarrow> 'a \<Rightarrow> int" where
  "cmp a b = (if a < b then -1 else if b < a then 1 else 0)"

lemma cmp_simps [simp]: "cmp a a = 0" "cmp a b = 0 \<longleftrightarrow> a = b" "cmp a b = -1 \<longleftrightarrow> a < b" "cmp a b = 1 \<longleftrightarrow> b < a"
  by (auto simp: cmp_def)

lemma cmp_swap: "cmp b a = - cmp a b"
  by (auto simp: cmp_def)

lemma cmp_Cons:
  "cmp (x # xs) (y # ys) = (if x < y then -1 else if y < x then 1 else cmp xs ys)"
  by (auto simp: cmp_def)

lemma cmp_Nil: "cmp [] (y # ys) = -1" "cmp (x # xs) [] = 1"
  by (simp_all add: cmp_def)

lemma cmp_Pair: "cmp (a, b) (c, d) = (if a < c then -1 else if c < a then 1 else cmp b d)"
  by (auto simp: cmp_def)

lemma compareIdentifiers_key:
  "(case compareIdentifiers ls rs of
      Some c \<Rightarrow> c
    | None \<Rightarrow> if length ls < length rs then -1 else if length ls > length rs then 1 else 0) =
   cmp (map ident_key ls) (map ident_key rs)"
proof (induction ls rs rule: compareIdentifiers.induct)
  case (1 l ls r rs)
  then show ?case
    by (auto simp: cmp_Cons ident_key_def word_less_nat_alt split: option.splits if_splits)
next
  fix r
  show "(case compareIdentifiers [] r of
      Some c \<Rightarrow> c
    | None \<Rightarrow> if length [] < length r then -1 else if length [] > length r then 1 else 0) =
   cmp (map ident_key []) (map ident_key r)"
    by (cases r) (simp_all add: cmp_Nil)
next
  fix l
  show "(case compareIdentifiers l [] of
      Some c \<Rightarrow> c
    | None \<Rightarrow> if length l < length [] then -1 else if length l > length [] then 1 else 0) =
   cmp (map ident_key l) (map ident_key [])"
    by (cases l) (simp_all add: cmp_Nil)
qed

lemma comparePrerelease_key:
  "comparePrerelease l r =
   cmp (if l = [] then 1 else 0 :: nat, map ident_key l) (if r = [] then 1 else 0, map ident_key r)"
  by (simp add: comparePrerelease_def compareIdentifiers_key cmp_Pair)

lemma compareNumbers_key:
  "length ls = length rs \<Longrightarrow>
   (case compareNumbers ls rs of Some c \<Rightarrow> c | None \<Rightarrow> k) =
   (if map unat ls < map unat rs then -1 else if map unat rs < map unat ls then 1 else k)"
  by (induction ls rs rule: compareNumbers.induct) (auto simp: word_less_nat_alt word_unat_eq_iff)

lemma parse_numbers_length: "parse_numbers ms = Some ns \<Longrightarrow> length ns = length ms"
  by (induction ms arbitrary: ns) (auto split: option.splits)

lemma pattern_match_length: "pattern_match s = Some (ms, pre) \<Longrightarrow> length ms = 3"
  by (auto simp: pattern_match_def bind_eq_Some_conv split: prod.splits)

lemma parse_length: "parse s = Some v \<Longrightarrow> length (numbers v) = 3"
  by (auto simp: parse_def split: option.splits dest!: parse_numbers_length pattern_match_length)

lemma Compare_key:
  "Compare left right =
     (case (parse (TrimSpace left), parse (TrimSpace right)) of
        (Some l, Some r) \<Rightarrow> Some (cmp (version_key l) (version_key r)) | _ \<Rightarrow> None)"
  by (auto simp: Compare_def version_key_def compareNumbers_key comparePrerelease_key cmp_Pair parse_length
      split: option.splits)

lemma ident_key_inj: "ident_key a = ident_key b \<Longrightarrow> a = b"
  by (auto simp: ident_key_def split: option.splits)

lemma map_unat_inj: "map unat xs = map unat ys \<Longrightarrow> xs = ys"
  by (erule injD [OF inj_mapI, rotated]) (simp add: inj_def word_unat_eq_iff)

lemma version_key_inj: "version_key l = version_key r \<longleftrightarrow> l = r"
proof
  assume *: "version_key l = version_key r"
  then have "numbers l = numbers r"
    by (simp add: version_key_def map_unat_inj)
  moreover have "prerelease l = prerelease r"
    using * injD [OF inj_mapI, of ident_key] ident_key_inj by (auto simp: version_key_def inj_def)
  ultimately show "l = r" by simp
qed simp

section \<open>Normalize keeps a version\<close>

lemma scan_number_Some:
  "scan_number s = Some (d, r) \<Longrightarrow> s = d @ r \<and> d \<noteq> [] \<and> list_all is_digit d"
  using set_takeWhileD [of _ is_digit s] by (auto simp: scan_number_def Let_def list_all_iff split: if_splits)

lemma scan_dot_Some: "scan_dot s = Some r \<Longrightarrow> s = CHR ''.'' # r"
  by (auto simp: scan_dot_def split: list.splits if_splits)

lemma scan_suffix_bytes: "scan_suffix s = Some p \<Longrightarrow> list_all is_ident_byte s"
  by (auto simp: scan_suffix_def is_ident_byte_def split: list.splits if_splits)

lemma pattern_match_bytes:
  assumes "pattern_match s = Some m"
  shows "list_all is_ident_byte (TrimPrefix s ''v'') \<and> TrimPrefix s ''v'' \<noteq> [] \<and> is_digit (hd (TrimPrefix s ''v''))"
proof -
  obtain a b c s1 s2 s3 s4 s5 p where
    "scan_number (TrimPrefix s ''v'') = Some (a, s1)" "scan_dot s1 = Some s2" "scan_number s2 = Some (b, s3)"
    "scan_dot s3 = Some s4" "scan_number s4 = Some (c, s5)" "scan_suffix s5 = Some p"
    using assms by (auto simp: pattern_match_def bind_eq_Some_conv split: prod.splits)
  then show ?thesis
    by (auto dest!: scan_number_Some scan_dot_Some scan_suffix_bytes
        simp: is_ident_byte_def hd_append list_all_iff)
qed

lemma pattern_match_stripped:
  assumes "pattern_match s = Some m"
  shows "pattern_match (TrimPrefix s ''v'') = Some m"
proof -
  have "TrimPrefix (TrimPrefix s ''v'') ''v'' = TrimPrefix s ''v''"
    using pattern_match_bytes [OF assms]
    by (cases "TrimPrefix s ''v''") (auto simp: TrimPrefix_def [of "_ # _"] is_digit_def)
  then show ?thesis using assms by (simp add: pattern_match_def)
qed

lemma ident_byte_no_edge: "is_ident_byte c \<Longrightarrow> \<not> spaceEdge c"
  by (auto simp: spaceEdge_def spaceRunes_def is_ident_byte_def is_digit_def)

lemma parse_stripped:
  assumes "parse s = Some v"
  shows "parse (TrimPrefix s ''v'') = Some v" "TrimSpace (TrimPrefix s ''v'') = TrimPrefix s ''v''"
proof -
  obtain m where m: "pattern_match s = Some m"
    using assms by (auto simp: parse_def split: option.splits)
  then show "parse (TrimPrefix s ''v'') = Some v"
    using assms by (simp add: parse_def pattern_match_stripped)
  show "TrimSpace (TrimPrefix s ''v'') = TrimPrefix s ''v''"
    using pattern_match_bytes [OF m]
    by (intro TrimSpace_no_edge) (auto simp: list_all_iff intro!: ident_byte_no_edge)
qed

lemma TrimPrefix_v_idem: "parse s = Some v \<Longrightarrow> TrimPrefix (TrimPrefix s ''v'') ''v'' = TrimPrefix s ''v''"
  using pattern_match_bytes [of s]
  by (cases "TrimPrefix s ''v''")
    (auto simp: TrimPrefix_def [of "_ # _"] is_digit_def parse_def split: option.splits)

section \<open>Properties\<close>

text \<open>
  The comparison of versions is antisymmetric, fails exactly when one of the two strings is not
  a version, and gives 0 exactly when both parse to the same numbers and pre-release identifiers.
\<close>

theorem Compare_antisym:
  "Compare b a = map_option uminus (Compare a b) \<and>
   (Compare a b = None \<longleftrightarrow> parse (TrimSpace a) = None \<or> parse (TrimSpace b) = None) \<and>
   (Compare a b = Some 0 \<longleftrightarrow> (\<exists>v. parse (TrimSpace a) = Some v \<and> parse (TrimSpace b) = Some v))"
proof (cases "parse (TrimSpace a) = None \<or> parse (TrimSpace b) = None")
  case False
  then obtain u v where "parse (TrimSpace a) = Some u" "parse (TrimSpace b) = Some v"
    by auto
  moreover have "cmp (version_key v) (version_key u) = - cmp (version_key u) (version_key v)"
    by (rule cmp_swap)
  ultimately show ?thesis by (auto simp: Compare_key version_key_inj)
qed (auto simp: Compare_key split: option.splits)

text \<open>
  C37: The comparison of versions is transitive, and strict as soon as one of the steps is strict, so
  that it orders all versions linearly although identifiers mix numbers and text.
\<close>

theorem Compare_trans:
  assumes "Compare a b = Some x" "Compare b c = Some y" "x \<le> 0" "y \<le> 0"
  shows "\<exists>z. Compare a c = Some z \<and> z \<le> 0 \<and> (z = 0 \<longleftrightarrow> x = 0 \<and> y = 0)"
proof -
  obtain u v w where p: "parse (TrimSpace a) = Some u" "parse (TrimSpace b) = Some v" "parse (TrimSpace c) = Some w"
    and x: "x = cmp (version_key u) (version_key v)" and y: "y = cmp (version_key v) (version_key w)"
    using assms(1,2) by (auto simp: Compare_key split: option.splits)
  have le: "cmp k l \<le> 0 \<longleftrightarrow> k \<le> l" for k l :: "nat list \<times> nat \<times> (nat \<times> nat \<times> string) list"
    by (auto simp: cmp_def)
  have "version_key u \<le> version_key v" "version_key v \<le> version_key w"
    using assms(3,4) x y le by auto
  then have "cmp (version_key u) (version_key w) \<le> 0 \<and>
      (cmp (version_key u) (version_key w) = 0 \<longleftrightarrow> x = 0 \<and> y = 0)"
    unfolding x y le by auto
  then show ?thesis by (simp add: Compare_key p)
qed

theorem Compare_trans_witness:
  "\<exists>z. Compare ''v1.2.0-rc.2'' ''1.3.0'' = Some z \<and> z \<le> 0 \<and> (z = 0 \<longleftrightarrow> (-1 :: int) = 0 \<and> (-1 :: int) = 0)"
proof (rule Compare_trans)
  show "Compare ''v1.2.0-rc.2'' ''1.2.0-rc.10'' = Some (-1)" by code_simp
  show "Compare ''1.2.0-rc.10'' ''1.3.0'' = Some (-1)" by code_simp
qed simp_all

text \<open>
  Normalisation of a version is idempotent and does not change which version the string
  denotes: the result has no leading v and no surrounding space and compares equal to the input.
\<close>

theorem Normalize_version:
  assumes "Normalize s = Some t"
  shows "Normalize t = Some t \<and> TrimSpace t = t \<and> Compare s t = Some 0"
proof -
  obtain v where v: "parse (TrimSpace s) = Some v" and t: "t = TrimPrefix (TrimSpace s) ''v''"
    using assms by (auto simp: Normalize_def Let_def split: option.splits)
  note * = parse_stripped [OF v, folded t]
  have "TrimPrefix t ''v'' = t" using TrimPrefix_v_idem [OF v] by (simp add: t)
  with * v show ?thesis by (simp add: Normalize_def Let_def Compare_key)
qed

theorem Normalize_version_witness:
  "Normalize '' v1.4.2-beta.1 '' = Some ''1.4.2-beta.1'' \<and> Normalize ''1.4.2-beta.1'' = Some ''1.4.2-beta.1''"
proof -
  have *: "Normalize '' v1.4.2-beta.1 '' = Some ''1.4.2-beta.1''" by code_simp
  with Normalize_version [OF *] show ?thesis by simp
qed

end
