(* ===== verification/Uuid.thy ===== *)
theory Uuid
  imports Report_Validate
begin

text \<open>
  Random identifiers (src/internal/id/uuid.go). The 16 bytes that \<open>rand.Read\<close> fills in are the
  argument \<open>random\<close>, \<^const>\<open>None\<close> when the read fails.
\<close>

unbundle bit_operations_syntax

datatype uuid_error = RandomReadError

definition NewUUID :: "u8 list option \<Rightarrow> uuid_error + string" where
  "NewUUID random =
     (case random of
        None \<Rightarrow> Inl RandomReadError
      | Some raw \<Rightarrow>
          (let raw = raw[6 := (raw ! 6 AND 0x0f) OR 0x40];
               raw = raw[8 := (raw ! 8 AND 0x3f) OR 0x80];
               encoded = hex_encode raw
           in Inr (take 8 encoded @ ''-'' @ take 4 (drop 8 encoded) @ ''-'' @ take 4 (drop 12 encoded) @ ''-'' @
                   take 4 (drop 16 encoded) @ ''-'' @ take 12 (drop 20 encoded))))"

text \<open>The two masked bytes: the version nibble is 4, the variant nibble is 8, 9, a or b.\<close>

lemma and_low: "(b AND 0x0f :: u8) = take_bit 4 b" "(b AND 0x3f :: u8) = take_bit 6 b"
  by (simp_all add: take_bit_eq_mask mask_numeral)

lemma version_nibble: "unat ((b AND 0x0f) OR 0x40 :: u8) div 16 = 4"
proof -
  have "drop_bit 4 (unat (take_bit 4 b OR 0x40 :: u8)) = 4"
    by (simp add: unsigned_or_eq unsigned_take_bit_eq drop_bit_take_bit)
  then show ?thesis unfolding and_low by (simp add: drop_bit_eq_div)
qed

lemma variant_nibble: "unat ((b AND 0x3f) OR 0x80 :: u8) div 16 \<in> {8, 9, 10, 11}"
proof -
  have "drop_bit 4 (unat (take_bit 6 b OR 0x80 :: u8)) = take_bit 2 (drop_bit 4 (unat b)) OR 8"
    by (simp add: unsigned_or_eq unsigned_take_bit_eq drop_bit_take_bit)
  moreover have "take_bit 2 (drop_bit 4 (unat b)) \<in> {0, 1, 2, 3}"
    using take_bit_nat_less_exp [of 2 "drop_bit 4 (unat b)"] by auto
  ultimately have "drop_bit 4 (unat (take_bit 6 b OR 0x80 :: u8)) \<in> {8, 9, 10, 11}"
    by auto
  then show ?thesis unfolding and_low by (simp add: drop_bit_eq_div)
qed

lemma variant_digits: "\<forall>n \<in> {8, 9, 10, 11}. hex_digit n \<in> set ''89abAB''"
  by code_simp

lemma version_digit: "hex_digit 4 = CHR ''4''"
  by code_simp

lemma uuidPattern_list:
  "uuidPattern =
     [is_hex, is_hex, is_hex, is_hex, is_hex, is_hex, is_hex, is_hex,
      \<lambda>c. c = CHR ''-'', is_hex, is_hex, is_hex, is_hex,
      \<lambda>c. c = CHR ''-'',
      \<lambda>c. CHR ''1'' \<le> c \<and> c \<le> CHR ''5'', is_hex, is_hex, is_hex,
      \<lambda>c. c = CHR ''-'',
      \<lambda>c. c \<in> set ''89abAB'', is_hex, is_hex, is_hex,
      \<lambda>c. c = CHR ''-'', is_hex, is_hex, is_hex, is_hex, is_hex, is_hex, is_hex, is_hex, is_hex, is_hex, is_hex, is_hex]"
  by (simp add: uuidPattern_def numeral_eq_Suc del: list.set)

lemma list16:
  assumes "length xs = 16"
  shows "\<exists>a b c d e f g h i j k l m n p q. xs = [a, b, c, d, e, f, g, h, i, j, k, l, m, n, p, q]"
  using assms by (auto simp: numeral_eq_Suc length_Suc_conv)

lemma hex_digit_hex: "n < 16 \<Longrightarrow> is_hex (hex_digit n)"
  by (simp add: hex_digit_lower is_lower_hex_hex)

lemma nibbles: "unat (b :: u8) div 16 < 16" "unat b mod 16 < 16"
  using unat_u8_less [of b] by auto

lemma hex_nibble: "is_hex (hex_digit (unat (b :: u8) div 16))" "is_hex (hex_digit (unat b mod 16))"
  by (simp_all add: hex_digit_hex nibbles)

section \<open>Properties\<close>

text \<open>
  Whatever bytes the random source yields, the identifier that NewUUID builds from them is one
  that report validation accepts as an agent id, with version digit 4; and it fails only when the
  read fails.
\<close>

theorem NewUUID_valid:
  assumes "length raw = 16"
  shows "\<exists>s. NewUUID (Some raw) = Inr s \<and> ValidUUID s \<and> s ! 14 = CHR ''4''"
proof -
  obtain a b c d e f g h i j k l m n p q
    where raw: "raw = [a, b, c, d, e, f, g, h, i, j, k, l, m, n, p, q]"
    using list16 [OF assms] by blast
  define g' i' where g': "g' = (g AND 0x0f) OR 0x40" and i': "i' = (i AND 0x3f) OR 0x80"
  have v: "hex_digit (unat g' div 16) = CHR ''4''"
    by (simp add: g' version_nibble version_digit)
  have w: "hex_digit (unat i' div 16) \<in> set ''89abAB''"
    using variant_nibble [of i] variant_digits unfolding i' by blast
  let ?s = "hex_byte a @ hex_byte b @ hex_byte c @ hex_byte d @ ''-'' @ hex_byte e @ hex_byte f @ ''-'' @
    hex_byte g' @ hex_byte h @ ''-'' @ hex_byte i' @ hex_byte j @ ''-'' @
    hex_byte k @ hex_byte l @ hex_byte m @ hex_byte n @ hex_byte p @ hex_byte q"
  have "NewUUID (Some raw) = Inr ?s"
    by (simp add: NewUUID_def raw hex_encode_def hex_byte_def flip: g' i')
  moreover have "?s ! 14 = CHR ''4''"
    by (simp add: hex_byte_def v)
  moreover have "ValidUUID ?s"
    using w by (simp add: ValidUUID_def uuidPattern_list hex_byte_def v hex_nibble del: list.set)
  ultimately show ?thesis by blast
qed

theorem NewUUID_valid_witness:
  "\<exists>s. NewUUID (Some (replicate 16 0xff)) = Inr s \<and> ValidUUID s \<and> s ! 14 = CHR ''4''"
  by (rule NewUUID_valid) simp

end
