(* ===== verification/Store_Database.thy ===== *)
theory Store_Database
  imports Report_Validate
begin

text \<open>
  The database behind src/internal/store: its tables as lists of rows, and the transactions the
  Go code runs on it. The tables and columns are those of src/db/migrations that the Go code reads
  or writes; a nullable column is an option.

  \<^item> A statement may fail for a reason outside the model (a lost connection, a deadline, a
    constraint). The schedule \<open>tx_fault\<close> says which statements of a transaction do; every theorem
    about a transaction holds for an arbitrary schedule.
  \<^item> \<open>gen_random_uuid()\<close> draws identifiers from a supply \<open>gen\<close> at the position \<open>db_next\<close>.
  \<^item> \<open>timestamptz\<close> keeps microseconds; \<open>real\<close> and \<open>numeric(10, 2)\<close> round a float64 with the
    functions of the argument \<open>pg\<close>; \<open>inet\<close> compares the values its input function gives.
\<close>

section \<open>Tables\<close>

record node_row =
  nd_id :: string
  nd_agent_id :: string
  nd_hostname :: string
  nd_display_name :: "string option"
  nd_os_name :: string
  nd_os_version :: "string option"
  nd_kernel_version :: "string option"
  nd_architecture :: string
  nd_agent_version :: string
  nd_inventory_fingerprint :: "string option"
  nd_labels :: "string \<rightharpoonup> string"
  nd_tags :: "string list"
  nd_first_seen_at :: Time
  nd_last_seen_at :: Time
  nd_created_at :: Time
  nd_updated_at :: Time
  nd_disabled_at :: "Time option"

record token_row =
  tk_id :: string
  tk_node_id :: string
  tk_token_prefix :: string
  tk_token_digest :: "u8 list"
  tk_label :: string
  tk_created_at :: Time
  tk_expires_at :: "Time option"
  tk_revoked_at :: "Time option"
  tk_last_used_at :: "Time option"

text \<open>
  The inventory tables share their shape: an identifier, the node, the key, the columns of the
  resource, and the times the row was first seen, last seen and removed.
\<close>

record 'd resource =
  rs_id :: string
  rs_node_id :: string
  rs_key :: string
  rs_data :: 'd
  rs_first_seen_at :: Time
  rs_last_seen_at :: Time
  rs_removed_at :: "Time option"

record cpu_columns =
  cc_package_index :: int
  cc_vendor :: "string option"
  cc_model_name :: string
  cc_physical_cores :: int
  cc_logical_threads :: int
  cc_performance_cores :: int
  cc_efficiency_cores :: int
  cc_max_frequency_mhz :: "f64 option"

record memory_columns =
  mc_slot_name :: "string option"
  mc_manufacturer :: "string option"
  mc_model_name :: "string option"
  mc_part_number :: "string option"
  mc_serial_number :: "string option"
  mc_memory_type :: "string option"
  mc_size_bytes :: int
  mc_speed_mts :: "int option"

record block_columns =
  bc_device_name :: string
  bc_device_kind :: string
  bc_vendor :: "string option"
  bc_model_name :: "string option"
  bc_serial_number :: "string option"
  bc_wwn :: "string option"
  bc_size_bytes :: int
  bc_rotational :: "bool option"
  bc_protocol :: "string option"
  bc_smart_device_type :: "string option"
  bc_raid_passthrough :: bool

record filesystem_columns =
  fc_filesystem_uuid :: "string option"
  fc_device_name :: string
  fc_filesystem_type :: string
  fc_mount_point :: string
  fc_mount_options :: "string list"

record interface_columns =
  ic_interface_name :: string
  ic_mac_address :: "string option"
  ic_mtu :: "int option"
  ic_link_speed_mbps :: "int option"

record gpu_columns =
  gc_device_index :: int
  gc_gpu_uuid :: string
  gc_model_name :: string
  gc_memory_total_bytes :: int

record address_row =
  ad_id :: string
  ad_node_id :: string
  ad_interface_id :: string
  ad_address :: string
  ad_scope :: string
  ad_first_seen_at :: Time
  ad_last_seen_at :: Time
  ad_removed_at :: "Time option"

record node_sample =
  ns_bucket_at :: Time
  ns_node_id :: string
  ns_collected_at :: Time
  ns_received_at :: Time
  ns_interval_seconds :: int
  ns_cpu_usage_percent :: f64
  ns_load_1 :: f64
  ns_load_5 :: f64
  ns_load_15 :: f64
  ns_memory_total_bytes :: int
  ns_memory_used_bytes :: int
  ns_memory_available_bytes :: int
  ns_memory_cached_bytes :: int
  ns_memory_buffers_bytes :: int
  ns_swap_total_bytes :: int
  ns_swap_used_bytes :: int
  ns_uptime_seconds :: int
  ns_disk_read_bytes_total :: int
  ns_disk_write_bytes_total :: int
  ns_disk_read_bytes_delta :: int
  ns_disk_write_bytes_delta :: int
  ns_disk_read_ops_delta :: int
  ns_disk_write_ops_delta :: int

record filesystem_sample =
  fsm_bucket_at :: Time
  fsm_node_id :: string
  fsm_filesystem_id :: string
  fsm_total_bytes :: int
  fsm_used_bytes :: int
  fsm_available_bytes :: int
  fsm_total_inodes :: "int option"
  fsm_used_inodes :: "int option"

record network_sample =
  nsm_bucket_at :: Time
  nsm_node_id :: string
  nsm_interface_id :: string
  nsm_link_up :: bool
  nsm_rx_bytes_total :: int
  nsm_tx_bytes_total :: int
  nsm_rx_bytes_delta :: int
  nsm_tx_bytes_delta :: int
  nsm_rx_packets_delta :: int
  nsm_tx_packets_delta :: int
  nsm_rx_errors_delta :: int
  nsm_tx_errors_delta :: int
  nsm_rx_dropped_delta :: int
  nsm_tx_dropped_delta :: int

record gpu_sample =
  gsm_bucket_at :: Time
  gsm_node_id :: string
  gsm_gpu_id :: string
  gsm_utilization_percent :: f64
  gsm_memory_total_bytes :: int
  gsm_memory_used_bytes :: int

record temperature_row =
  tr_node_id :: string
  tr_sensor_key :: string
  tr_component :: string
  tr_label :: string
  tr_bucket_at :: Time
  tr_collected_at :: Time
  tr_received_at :: Time
  tr_temperature_celsius :: f64
  tr_high_celsius :: "f64 option"
  tr_critical_celsius :: "f64 option"

record storage_health_row =
  sr_node_id :: string
  sr_block_device_id :: string
  sr_bucket_at :: Time
  sr_collected_at :: Time
  sr_received_at :: Time
  sr_smart_available :: bool
  sr_smart_enabled :: bool
  sr_smart_status :: string
  sr_risk_level :: string
  sr_risk_reasons :: "string list"
  sr_temperature_celsius :: "f64 option"
  sr_power_on_hours :: "int option"
  sr_error_count :: "int option"
  sr_read_error_rate_normalized :: "int option"
  sr_read_error_rate_raw :: "int option"
  sr_reallocated_sectors :: "int option"
  sr_pending_sectors :: "int option"
  sr_uncorrectable_sectors :: "int option"
  sr_percentage_used :: "f64 option"

record preference_row =
  pf_node_id :: string
  pf_interface_id :: string
  pf_updated_at :: Time

record database =
  db_nodes :: "node_row list"
  db_tokens :: "token_row list"
  db_cpu_packages :: "cpu_columns resource list"
  db_memory_modules :: "memory_columns resource list"
  db_block_devices :: "block_columns resource list"
  db_filesystems :: "filesystem_columns resource list"
  db_network_interfaces :: "interface_columns resource list"
  db_network_addresses :: "address_row list"
  db_gpu_devices :: "gpu_columns resource list"
  db_node_samples :: "node_sample list"
  db_filesystem_samples :: "filesystem_sample list"
  db_network_samples :: "network_sample list"
  db_gpu_samples :: "gpu_sample list"
  db_temperatures :: "temperature_row list"
  db_storage_health :: "storage_health_row list"
  db_preferences :: "preference_row list"
  db_migrations :: "string list"
  db_next :: nat

text \<open>Conversions the database applies to a parameter.\<close>

record postgres =
  pg_gen :: "nat \<Rightarrow> string"
  pg_inet :: "string \<Rightarrow> string"
  pg_real :: "f64 \<Rightarrow> f64"
  pg_numeric :: "f64 \<Rightarrow> f64"

definition timestamptz :: "Time \<Rightarrow> Time" where
  "timestamptz t = t - t mod 1000"

text \<open>\<open>NULLIF(x, '')\<close> and \<open>NULLIF(x, 0)\<close>.\<close>

definition nullif_empty :: "string \<Rightarrow> string option" where
  "nullif_empty s = (if s = [] then None else Some s)"

definition nullif_zero :: "int \<Rightarrow> int option" where
  "nullif_zero n = (if n = 0 then None else Some n)"

definition nullif_zero_f :: "f64 \<Rightarrow> f64 option" where
  "nullif_zero_f x = (if f64_eq x (Fin 0) then None else Some x)"

text \<open>A \<open>uuid\<close> is printed in lower case.\<close>

definition uuid_text :: "string \<Rightarrow> string" where
  "uuid_text s = map lower_byte s"

section \<open>Transactions\<close>

datatype store_error =
    ErrUnauthorized
  | ErrNotFound
  | ErrInvalidResource string string
  | DbFailed string string
  | NoRows
  | RandomFailed

record txs =
  tx_db :: database
  tx_step :: nat
  tx_fault :: "nat \<Rightarrow> bool"

type_synonym 'a tx = "txs \<Rightarrow> store_error + ('a \<times> txs)"

definition tx_return :: "'a \<Rightarrow> 'a tx" where
  "tx_return x s = Inr (x, s)"

definition tx_fail :: "store_error \<Rightarrow> 'a tx" where
  "tx_fail e s = Inl e"

definition tx_bind :: "'a tx \<Rightarrow> ('a \<Rightarrow> 'b tx) \<Rightarrow> 'b tx" where
  "tx_bind m f s = (case m s of Inl e \<Rightarrow> Inl e | Inr (x, s') \<Rightarrow> f x s')"

definition tx_then :: "unit tx \<Rightarrow> 'b tx \<Rightarrow> 'b tx" where
  "tx_then m k = tx_bind m (\<lambda>_. k)"

text \<open>One statement: it fails when the schedule says so, and otherwise reads and changes the tables.\<close>

definition tx_exec :: "string \<Rightarrow> string \<Rightarrow> (database \<Rightarrow> 'a \<times> database) \<Rightarrow> 'a tx" where
  "tx_exec what key f s =
     (if tx_fault s (tx_step s) then Inl (DbFailed what key)
      else let (x, d) = f (tx_db s) in Inr (x, s\<lparr>tx_db := d, tx_step := Suc (tx_step s)\<rparr>))"

fun tx_for :: "'a list \<Rightarrow> ('a \<Rightarrow> unit tx) \<Rightarrow> unit tx" where
  "tx_for [] f = tx_return ()"
| "tx_for (x # xs) f = tx_then (f x) (tx_for xs f)"

fun tx_map :: "'a list \<Rightarrow> ('a \<Rightarrow> 'b tx) \<Rightarrow> 'b list tx" where
  "tx_map [] f = tx_return []"
| "tx_map (x # xs) f = tx_bind (f x) (\<lambda>y. tx_bind (tx_map xs f) (\<lambda>ys. tx_return (y # ys)))"

text \<open>
  \<open>BeginTx\<close>, the body, \<open>Commit\<close>; the deferred \<open>Rollback\<close> undoes everything when the body or the
  commit fails.
\<close>

definition run_tx ::
  "string \<Rightarrow> string \<Rightarrow> (nat \<Rightarrow> bool) \<Rightarrow> 'a tx \<Rightarrow> database \<Rightarrow> (store_error + 'a) \<times> database" where
  "run_tx begin_what commit_what fault m d =
     (if fault 0 then (Inl (DbFailed begin_what []), d)
      else case m \<lparr>tx_db = d, tx_step = 1, tx_fault = fault\<rparr> of
             Inl e \<Rightarrow> (Inl e, d)
           | Inr (x, s) \<Rightarrow>
               if fault (tx_step s) then (Inl (DbFailed commit_what []), d) else (Inr x, tx_db s))"

section \<open>Reasoning about transactions\<close>

text \<open>
  A transaction that ends without an error acts on the tables like a function: \<open>tx_runs m f\<close> says
  that whenever \<open>m\<close> succeeds, its result and its tables are those of \<open>f\<close>, and that it does
  succeed when no statement fails. The rules below give a function for every combinator.
\<close>

definition tx_runs :: "'a tx \<Rightarrow> (database \<Rightarrow> ('a \<times> database) option) \<Rightarrow> bool" where
  "tx_runs m f \<longleftrightarrow>
     (\<forall>s x s'. m s = Inr (x, s') \<longrightarrow> tx_fault s' = tx_fault s \<and> f (tx_db s) = Some (x, tx_db s')) \<and>
     (\<forall>s. (\<forall>n. \<not> tx_fault s n) \<longrightarrow> f (tx_db s) \<noteq> None \<longrightarrow> (\<exists>r. m s = Inr r))"

named_theorems tx_rules \<open>which function a transaction computes\<close>

lemma tx_runs_return [tx_rules]: "tx_runs (tx_return x) (\<lambda>d. Some (x, d))"
  by (simp add: tx_runs_def tx_return_def)

lemma tx_runs_fail [tx_rules]: "tx_runs (tx_fail e) (\<lambda>d. None)"
  by (simp add: tx_runs_def tx_fail_def)

lemma tx_runs_exec [tx_rules]: "tx_runs (tx_exec what key f) (\<lambda>d. Some (f d))"
  by (auto simp: tx_runs_def tx_exec_def split: prod.splits if_splits)

lemma tx_runs_bind [tx_rules]:
  assumes "tx_runs m f" and "\<And>x. tx_runs (k x) (g x)"
  shows "tx_runs (tx_bind m k) (\<lambda>d. Option.bind (f d) (\<lambda>r. g (fst r) (snd r)))"
  unfolding tx_runs_def
proof (intro conjI allI impI)
  fix s y s'
  assume "tx_bind m k s = Inr (y, s')"
  then obtain x t where "m s = Inr (x, t)" "k x t = Inr (y, s')"
    by (auto simp: tx_bind_def split: sum.splits)
  then show "tx_fault s' = tx_fault s"
    and "Option.bind (f (tx_db s)) (\<lambda>r. g (fst r) (snd r)) = Some (y, tx_db s')"
    using assms unfolding tx_runs_def by (fastforce, fastforce)
next
  fix s :: txs
  assume nf: "\<forall>n. \<not> tx_fault s n"
    and "Option.bind (f (tx_db s)) (\<lambda>r. g (fst r) (snd r)) \<noteq> None"
  then obtain x d' where f: "f (tx_db s) = Some (x, d')" and g: "g x d' \<noteq> None"
    by (auto simp: bind_eq_None_conv)
  then obtain r where r: "m s = Inr r" using assms(1) nf unfolding tx_runs_def by blast
  obtain z t where "r = (z, t)" by fastforce
  with r f have "m s = Inr (x, t)" "tx_db t = d'" "tx_fault t = tx_fault s"
    using assms(1) unfolding tx_runs_def by fastforce+
  moreover then obtain q where "k x t = Inr q"
    using assms(2) [of x] g nf unfolding tx_runs_def by metis
  ultimately show "\<exists>r. tx_bind m k s = Inr r" by (simp add: tx_bind_def)
qed

lemma tx_runs_then [tx_rules]:
  "tx_runs m f \<Longrightarrow> tx_runs k g \<Longrightarrow> tx_runs (tx_then m k) (\<lambda>d. Option.bind (f d) (\<lambda>r. g (snd r)))"
  unfolding tx_then_def by (rule tx_runs_bind)

lemma tx_runs_if [tx_rules]:
  "tx_runs m f \<Longrightarrow> tx_runs n g \<Longrightarrow> tx_runs (if b then m else n) (\<lambda>d. if b then f d else g d)"
  by simp

lemma tx_runs_option [tx_rules]:
  "tx_runs m f \<Longrightarrow> (\<And>x. tx_runs (k x) (g x)) \<Longrightarrow>
   tx_runs (case v of None \<Rightarrow> m | Some x \<Rightarrow> k x) (\<lambda>d. case v of None \<Rightarrow> f d | Some x \<Rightarrow> g x d)"
  by (cases v) simp_all

text \<open>The function a loop computes.\<close>

fun db_for :: "'a list \<Rightarrow> ('a \<Rightarrow> database \<Rightarrow> (unit \<times> database) option) \<Rightarrow> database \<Rightarrow> (unit \<times> database) option" where
  "db_for [] f d = Some ((), d)"
| "db_for (x # xs) f d = Option.bind (f x d) (\<lambda>r. db_for xs f (snd r))"

fun db_map :: "'a list \<Rightarrow> ('a \<Rightarrow> database \<Rightarrow> ('b \<times> database) option) \<Rightarrow> database \<Rightarrow> ('b list \<times> database) option" where
  "db_map [] f d = Some ([], d)"
| "db_map (x # xs) f d =
     Option.bind (f x d) (\<lambda>r. Option.bind (db_map xs f (snd r)) (\<lambda>q. Some (fst r # fst q, snd q)))"

lemma tx_runs_for [tx_rules]:
  assumes "\<And>x. tx_runs (m x) (f x)"
  shows "tx_runs (tx_for xs m) (db_for xs f)"
proof (induction xs)
  case Nil
  then show ?case using tx_runs_return [of "()"] by (simp add: tx_runs_def)
next
  case (Cons x xs)
  have "db_for (x # xs) f = (\<lambda>d. Option.bind (f x d) (\<lambda>r. db_for xs f (snd r)))" by auto
  then show ?case using tx_runs_then [OF assms Cons.IH] by simp
qed

lemma tx_runs_map [tx_rules]:
  assumes "\<And>x. tx_runs (m x) (f x)"
  shows "tx_runs (tx_map xs m) (db_map xs f)"
proof (induction xs)
  case Nil
  then show ?case using tx_runs_return [of "[]"] by (simp add: tx_runs_def)
next
  case (Cons x xs)
  have "db_map (x # xs) f = (\<lambda>d. Option.bind (f x d) (\<lambda>r. Option.bind (db_map xs f (snd r))
      (\<lambda>q. Some (fst r # fst q, snd q))))" by auto
  then show ?case
    using tx_runs_bind [OF assms tx_runs_bind [OF Cons.IH tx_runs_return]] by simp
qed

lemma tx_runs_cong: "tx_runs m f \<Longrightarrow> (\<And>d. f d = g d) \<Longrightarrow> tx_runs m g"
  by (metis ext)

text \<open>What a transaction does to the database: nothing on any error, its function on success.\<close>

lemma run_tx_atomic:
  "run_tx b c fault m d = (Inl e, d') \<Longrightarrow> d' = d"
  by (auto simp: run_tx_def split: if_splits sum.splits)

lemma run_tx_success:
  assumes "tx_runs m f" and "run_tx b c fault m d = (Inr x, d')"
  shows "f d = Some (x, d')"
proof -
  obtain s where "m \<lparr>tx_db = d, tx_step = 1, tx_fault = fault\<rparr> = Inr (x, s)" "d' = tx_db s"
    using assms(2) by (auto simp: run_tx_def split: if_splits sum.splits)
  then show ?thesis using assms(1) unfolding tx_runs_def by fastforce
qed

lemma run_tx_no_fault:
  assumes "tx_runs m f" and "f d = Some (x, d')"
  shows "run_tx b c (\<lambda>_. False) m d = (Inr x, d')"
proof -
  let ?s = "\<lparr>tx_db = d, tx_step = 1, tx_fault = \<lambda>_. False\<rparr>"
  obtain r where r: "m ?s = Inr r"
    using assms unfolding tx_runs_def by (metis option.distinct(1) select_convs(1,3))
  obtain y s where "r = (y, s)" by fastforce
  moreover from this r assms have "y = x \<and> tx_db s = d'"
    unfolding tx_runs_def by fastforce
  ultimately show ?thesis using r by (simp add: run_tx_def)
qed

end
