(* ===== verification/Store_Sync.thy ===== *)
theory Store_Sync
  imports Store_Database
begin

text \<open>
  Synchronising the inventory of a node (the functions sync\<open>...\<close> of src/internal/store/ingest.go).
  Five of them run the same three statements on their own table: an update of the active row with
  the key, an insert when no row was affected, and at the end a removal of the active rows whose key
  the report does not list. The model writes that loop once, over the description \<open>table_ops\<close> of a
  table, and gives each function its description with the columns it sets. The sixth function, for
  network interfaces, also maintains the addresses and is written out.
\<close>

section \<open>Statements on a resource table\<close>

definition rs_active :: "string \<Rightarrow> 'd resource \<Rightarrow> bool" where
  "rs_active node r \<longleftrightarrow> rs_node_id r = node \<and> rs_removed_at r = None"

text \<open>\<open>UPDATE ... WHERE node_id = $1 AND key = $2 AND removed_at IS NULL\<close>, with the rows affected.\<close>

definition update_resource ::
  "string \<Rightarrow> string \<Rightarrow> 'd \<Rightarrow> Time \<Rightarrow> 'd resource list \<Rightarrow> nat \<times> 'd resource list" where
  "update_resource node key x seenAt t =
     (length (filter (\<lambda>r. rs_active node r \<and> rs_key r = key) t),
      map (\<lambda>r. if rs_active node r \<and> rs_key r = key then r\<lparr>rs_data := x, rs_last_seen_at := seenAt\<rparr> else r) t)"

definition new_resource :: "string \<Rightarrow> string \<Rightarrow> string \<Rightarrow> 'd \<Rightarrow> Time \<Rightarrow> 'd resource" where
  "new_resource rid node key x seenAt =
     \<lparr>rs_id = rid, rs_node_id = node, rs_key = key, rs_data = x, rs_first_seen_at = seenAt,
      rs_last_seen_at = seenAt, rs_removed_at = None\<rparr>"

text \<open>\<open>UPDATE ... SET removed_at = $3 WHERE ... AND NOT (key = ANY($2))\<close>.\<close>

definition remove_missing :: "string \<Rightarrow> string list \<Rightarrow> Time \<Rightarrow> 'd resource list \<Rightarrow> 'd resource list" where
  "remove_missing node keys seenAt t =
     map (\<lambda>r. if rs_active node r \<and> rs_key r \<notin> set keys then r\<lparr>rs_removed_at := Some seenAt\<rparr> else r) t"

record ('i, 'd) table_ops =
  to_kind :: string
  to_get :: "database \<Rightarrow> 'd resource list"
  to_put :: "'d resource list \<Rightarrow> database \<Rightarrow> database"
  to_key :: "'i \<Rightarrow> string"
  to_data :: "'i \<Rightarrow> 'd"

definition upsert_resource :: "('i, 'd) table_ops \<Rightarrow> postgres \<Rightarrow> string \<Rightarrow> Time \<Rightarrow> 'i \<Rightarrow> unit tx" where
  "upsert_resource T pg nodeID seenAt item =
     tx_bind
       (tx_exec (''update '' @ to_kind T) (to_key T item) (\<lambda>d.
          let (n, t) = update_resource nodeID (to_key T item) (to_data T item) seenAt (to_get T d)
          in (n, to_put T t d)))
       (\<lambda>affected.
          if affected = 0 then
            tx_exec (''insert '' @ to_kind T) (to_key T item) (\<lambda>d.
              ((), (to_put T (to_get T d @
                      [new_resource (pg_gen pg (db_next d)) nodeID (to_key T item) (to_data T item) seenAt]) d)
                   \<lparr>db_next := Suc (db_next d)\<rparr>))
          else tx_return ())"

definition sync_resources :: "('i, 'd) table_ops \<Rightarrow> postgres \<Rightarrow> string \<Rightarrow> 'i list \<Rightarrow> Time \<Rightarrow> unit tx" where
  "sync_resources T pg nodeID items seenAt =
     tx_then (tx_for items (upsert_resource T pg nodeID seenAt))
       (tx_exec (''remove missing '' @ to_kind T) [] (\<lambda>d.
          ((), to_put T (remove_missing nodeID (map (to_key T) items) seenAt (to_get T d)) d)))"

section \<open>The functions of the source\<close>

definition i64 :: "u64 \<Rightarrow> int" where
  "i64 value = int64_of value"

definition nullableI64 :: "u64 option \<Rightarrow> int option" where
  "nullableI64 value = (case value of None \<Rightarrow> None | Some v \<Rightarrow> Some (int64_of v))"

definition nonNilStrings :: "string list \<Rightarrow> string list" where
  "nonNilStrings values = values"

definition postgresMACAddress :: "string \<Rightarrow> string" where
  "postgresMACAddress value =
     (case ParseMAC value of
        None \<Rightarrow> []
      | Some address \<Rightarrow> if length address \<noteq> 6 then [] else mac_string address)"

definition cpu_table :: "postgres \<Rightarrow> (CPUPackage, cpu_columns) table_ops" where
  "cpu_table pg =
     \<lparr>to_kind = ''CPU package'', to_get = db_cpu_packages,
      to_put = (\<lambda>t d. d\<lparr>db_cpu_packages := t\<rparr>), to_key = cpu_Key,
      to_data = (\<lambda>item.
        \<lparr>cc_package_index = cpu_PackageIndex item, cc_vendor = nullif_empty (cpu_Vendor item),
         cc_model_name = cpu_ModelName item, cc_physical_cores = cpu_PhysicalCores item,
         cc_logical_threads = cpu_LogicalThreads item, cc_performance_cores = cpu_PerformanceCores item,
         cc_efficiency_cores = cpu_EfficiencyCores item,
         cc_max_frequency_mhz = map_option (pg_numeric pg) (nullif_zero_f (cpu_MaxFrequencyMHz item))\<rparr>)\<rparr>"

definition syncCPUPackages :: "postgres \<Rightarrow> string \<Rightarrow> CPUPackage list \<Rightarrow> Time \<Rightarrow> unit tx" where
  "syncCPUPackages pg nodeID items seenAt = sync_resources (cpu_table pg) pg nodeID items seenAt"

definition memory_table :: "(MemoryModule, memory_columns) table_ops" where
  "memory_table =
     \<lparr>to_kind = ''memory module'', to_get = db_memory_modules,
      to_put = (\<lambda>t d. d\<lparr>db_memory_modules := t\<rparr>), to_key = mm_Key,
      to_data = (\<lambda>item.
        \<lparr>mc_slot_name = nullif_empty (mm_SlotName item), mc_manufacturer = nullif_empty (mm_Manufacturer item),
         mc_model_name = nullif_empty (mm_ModelName item), mc_part_number = nullif_empty (mm_PartNumber item),
         mc_serial_number = nullif_empty (mm_SerialNumber item),
         mc_memory_type = nullif_empty (mm_MemoryType item), mc_size_bytes = i64 (mm_SizeBytes item),
         mc_speed_mts = nullif_zero (mm_SpeedMTs item)\<rparr>)\<rparr>"

definition syncMemoryModules :: "postgres \<Rightarrow> string \<Rightarrow> MemoryModule list \<Rightarrow> Time \<Rightarrow> unit tx" where
  "syncMemoryModules pg nodeID items seenAt = sync_resources memory_table pg nodeID items seenAt"

definition block_table :: "(BlockDevice, block_columns) table_ops" where
  "block_table =
     \<lparr>to_kind = ''block device'', to_get = db_block_devices,
      to_put = (\<lambda>t d. d\<lparr>db_block_devices := t\<rparr>), to_key = bd_Key,
      to_data = (\<lambda>item.
        \<lparr>bc_device_name = bd_DeviceName item, bc_device_kind = bd_DeviceKind item,
         bc_vendor = nullif_empty (bd_Vendor item), bc_model_name = nullif_empty (bd_ModelName item),
         bc_serial_number = nullif_empty (bd_SerialNumber item), bc_wwn = nullif_empty (bd_WWN item),
         bc_size_bytes = i64 (bd_SizeBytes item), bc_rotational = bd_Rotational item,
         bc_protocol = nullif_empty (bd_Protocol item),
         bc_smart_device_type = nullif_empty (bd_SMARTDeviceType item),
         bc_raid_passthrough = bd_RAIDPassthrough item\<rparr>)\<rparr>"

definition syncBlockDevices :: "postgres \<Rightarrow> string \<Rightarrow> BlockDevice list \<Rightarrow> Time \<Rightarrow> unit tx" where
  "syncBlockDevices pg nodeID items seenAt = sync_resources block_table pg nodeID items seenAt"

definition filesystem_table :: "(Filesystem, filesystem_columns) table_ops" where
  "filesystem_table =
     \<lparr>to_kind = ''filesystem'', to_get = db_filesystems,
      to_put = (\<lambda>t d. d\<lparr>db_filesystems := t\<rparr>), to_key = fs_Key,
      to_data = (\<lambda>item.
        \<lparr>fc_filesystem_uuid = nullif_empty (fs_UUID item), fc_device_name = fs_DeviceName item,
         fc_filesystem_type = fs_FilesystemType item, fc_mount_point = fs_MountPoint item,
         fc_mount_options = nonNilStrings (fs_MountOptions item)\<rparr>)\<rparr>"

definition syncFilesystems :: "postgres \<Rightarrow> string \<Rightarrow> Filesystem list \<Rightarrow> Time \<Rightarrow> unit tx" where
  "syncFilesystems pg nodeID items seenAt = sync_resources filesystem_table pg nodeID items seenAt"

definition gpu_table :: "(GPU, gpu_columns) table_ops" where
  "gpu_table =
     \<lparr>to_kind = ''GPU'', to_get = db_gpu_devices,
      to_put = (\<lambda>t d. d\<lparr>db_gpu_devices := t\<rparr>), to_key = gpu_Key,
      to_data = (\<lambda>item.
        \<lparr>gc_device_index = gpu_Index item, gc_gpu_uuid = gpu_UUID item, gc_model_name = gpu_ModelName item,
         gc_memory_total_bytes = i64 (gpu_MemoryTotalBytes item)\<rparr>)\<rparr>"

definition syncGPUs :: "postgres \<Rightarrow> string \<Rightarrow> GPU list \<Rightarrow> Time \<Rightarrow> unit tx" where
  "syncGPUs pg nodeID items seenAt = sync_resources gpu_table pg nodeID items seenAt"

section \<open>What a synchronisation does to its table\<close>

text \<open>The same statements as a function on one table and the identifier supply.\<close>

definition upsert_row ::
  "(nat \<Rightarrow> string) \<Rightarrow> string \<Rightarrow> Time \<Rightarrow> string \<times> 'd \<Rightarrow> 'd resource list \<times> nat \<Rightarrow> 'd resource list \<times> nat" where
  "upsert_row gen node seenAt = (\<lambda>(k, x) (t, n).
     (let (c, t') = update_resource node k x seenAt t
      in if c = 0 then (t' @ [new_resource (gen n) node k x seenAt], Suc n) else (t', n)))"

definition sync_table ::
  "(nat \<Rightarrow> string) \<Rightarrow> string \<Rightarrow> (string \<times> 'd) list \<Rightarrow> Time \<Rightarrow> 'd resource list \<times> nat \<Rightarrow> 'd resource list \<times> nat" where
  "sync_table gen node items seenAt tn =
     (let (t, n) = fold (upsert_row gen node seenAt) items tn in (remove_missing node (map fst items) seenAt t, n))"

text \<open>The abstraction: for each node, the active resources by key.\<close>

definition active_rows :: "string \<Rightarrow> 'd resource list \<Rightarrow> 'd resource list" where
  "active_rows node t = filter (rs_active node) t"

definition abs_table :: "'d resource list \<Rightarrow> string \<Rightarrow> string \<rightharpoonup> 'd" where
  "abs_table t node = map_of (map (\<lambda>r. (rs_key r, rs_data r)) (active_rows node t))"

lemma rs_active_update [simp]:
  "rs_active node (r\<lparr>rs_data := x, rs_last_seen_at := seenAt\<rparr>) \<longleftrightarrow> rs_active node r"
  "\<not> rs_active node (r\<lparr>rs_removed_at := Some seenAt\<rparr>)"
  by (simp_all add: rs_active_def)

lemma rs_active_new [simp]: "rs_active m (new_resource i node k x seenAt) \<longleftrightarrow> m = node"
  by (auto simp: rs_active_def new_resource_def)

lemma new_resource_sel [simp]:
  "rs_id (new_resource i node k x seenAt) = i" "rs_key (new_resource i node k x seenAt) = k"
  "rs_data (new_resource i node k x seenAt) = x" "rs_node_id (new_resource i node k x seenAt) = node"
  "rs_last_seen_at (new_resource i node k x seenAt) = seenAt"
  by (simp_all add: new_resource_def)

lemma abs_table_Nil [simp]: "abs_table [] node = Map.empty"
  by (simp add: abs_table_def active_rows_def)

lemma abs_table_Cons [simp]:
  "abs_table (r # t) node = (if rs_active node r then (abs_table t node)(rs_key r \<mapsto> rs_data r) else abs_table t node)"
  by (simp add: abs_table_def active_rows_def)

lemma abs_table_append [simp]: "abs_table (t @ u) node = abs_table u node ++ abs_table t node"
  by (simp add: abs_table_def active_rows_def)

lemma rs_active_unique: "rs_active a r \<Longrightarrow> rs_active b r \<longleftrightarrow> a = b"
  by (auto simp: rs_active_def)

lemma abs_table_update:
  "abs_table (snd (update_resource node k x seenAt t)) m =
     (if m = node \<and> k \<in> dom (abs_table t node) then (abs_table t node)(k \<mapsto> x) else abs_table t m)"
  by (induction t) (auto simp: update_resource_def rs_active_def fun_eq_iff)

lemma update_affected: "fst (update_resource node k x seenAt t) = 0 \<longleftrightarrow> k \<notin> dom (abs_table t node)"
  by (induction t) (auto simp: update_resource_def)

lemma abs_table_upsert:
  "abs_table (fst (upsert_row gen node seenAt (k, x) tn)) m =
     (if m = node then (abs_table (fst tn) node)(k \<mapsto> x) else abs_table (fst tn) m)"
  using update_affected [of node k x seenAt "fst tn"] abs_table_update [of node k x seenAt "fst tn"]
  by (auto simp: upsert_row_def map_add_def split: prod.splits option.splits intro!: ext)

lemma abs_table_remove_missing:
  "abs_table (remove_missing node keys seenAt t) m =
     (if m = node then abs_table t node |` set keys else abs_table t m)"
  by (induction t) (auto simp: remove_missing_def rs_active_def restrict_map_def fun_eq_iff)

lemma abs_table_upserts:
  "distinct (map fst items) \<Longrightarrow>
   abs_table (fst (fold (upsert_row gen node seenAt) items tn)) m =
     (if m = node then abs_table (fst tn) node ++ map_of items else abs_table (fst tn) m)"
proof (induction items arbitrary: tn)
  case (Cons i items)
  obtain k x where i: "i = (k, x)" by fastforce
  have "map_of items k = None" using Cons.prems by (auto simp: i map_of_eq_None_iff)
  then have eq: "f(k \<mapsto> x) ++ map_of items = f ++ map_of ((k, x) # items)" for f
    by (auto simp: map_add_def fun_eq_iff split: option.splits)
  have "abs_table (fst (fold (upsert_row gen node seenAt) (i # items) tn)) m =
      (if m = node then abs_table (fst (upsert_row gen node seenAt (k, x) tn)) node ++ map_of items
       else abs_table (fst (upsert_row gen node seenAt (k, x) tn)) m)"
    using Cons by (simp add: i)
  also have "\<dots> = (if m = node then (abs_table (fst tn) node)(k \<mapsto> x) ++ map_of items else abs_table (fst tn) m)"
    unfolding abs_table_upsert by simp
  finally show ?case unfolding eq i .
qed simp

lemma abs_table_sync:
  assumes "distinct (map fst items)"
  shows "abs_table (fst (sync_table gen node items seenAt tn)) = (abs_table (fst tn))(node := map_of items)"
proof
  fix m
  have "(f ++ map_of items) |` set (map fst items) = map_of items" for f
  proof
    fix y
    show "((f ++ map_of items) |` set (map fst items)) y = map_of items y"
      using map_of_eq_None_iff [of items y]
      by (cases "map_of items y") (auto simp: restrict_map_def map_add_def)
  qed
  moreover have "fst (sync_table gen node items seenAt tn) =
      remove_missing node (map fst items) seenAt (fst (fold (upsert_row gen node seenAt) items tn))"
    by (simp add: sync_table_def split: prod.splits)
  ultimately show "abs_table (fst (sync_table gen node items seenAt tn)) m = ((abs_table (fst tn))(node := map_of items)) m"
    by (simp add: abs_table_remove_missing abs_table_upserts [OF assms])
qed

text \<open>
  History: no row is ever deleted; a row keeps its identity, and once removed it does not change.
\<close>

definition row_kept :: "'d resource \<Rightarrow> 'd resource \<Rightarrow> bool" where
  "row_kept r r' \<longleftrightarrow>
     rs_id r' = rs_id r \<and> rs_node_id r' = rs_node_id r \<and> rs_key r' = rs_key r \<and>
     rs_first_seen_at r' = rs_first_seen_at r \<and> (rs_removed_at r \<noteq> None \<longrightarrow> r' = r)"

definition history_kept :: "'d resource list \<Rightarrow> 'd resource list \<Rightarrow> bool" where
  "history_kept t t' \<longleftrightarrow> (\<exists>u v. t' = u @ v \<and> list_all2 row_kept t u)"

lemma row_kept_refl [simp]: "row_kept r r"
  by (simp add: row_kept_def)

lemma row_kept_trans: "row_kept a b \<Longrightarrow> row_kept b c \<Longrightarrow> row_kept a c"
  by (auto simp: row_kept_def)

lemma history_kept_map: "(\<And>r. row_kept r (f r)) \<Longrightarrow> history_kept t (map f t)"
  unfolding history_kept_def
  by (intro exI [of _ "map f t"] exI [of _ "[]"]) (simp add: list_all2_conv_all_nth)

lemma history_kept_append: "history_kept t u \<Longrightarrow> history_kept t (u @ v)"
  unfolding history_kept_def by (metis append_assoc)

lemma history_kept_refl [simp]: "history_kept t t"
  using history_kept_map [of "\<lambda>r. r" t] by simp

lemma history_kept_trans:
  assumes "history_kept a b" and "history_kept b c"
  shows "history_kept a c"
proof -
  obtain u v where b: "b = u @ v" and u: "list_all2 row_kept a u"
    using assms(1) by (auto simp: history_kept_def)
  obtain w z where c: "c = w @ z" and w: "list_all2 row_kept (u @ v) w"
    using assms(2) by (auto simp: history_kept_def b)
  obtain w1 w2 where "w = w1 @ w2" "list_all2 row_kept u w1"
    using w by (auto simp: list_all2_append1)
  moreover from u this(2) have "list_all2 row_kept a w1"
    by (rule list_all2_trans [rotated]) (rule row_kept_trans)
  ultimately show ?thesis by (auto simp: history_kept_def c)
qed

lemma history_kept_update: "history_kept t (snd (update_resource node k x seenAt t))"
  unfolding update_resource_def
  by (simp, rule history_kept_map) (auto simp: row_kept_def rs_active_def)

lemma history_kept_upsert: "history_kept (fst tn) (fst (upsert_row gen node seenAt i tn))"
  using history_kept_update [of "fst tn" node "fst i" "snd i" seenAt]
  by (auto simp: upsert_row_def split: prod.splits intro: history_kept_append)

lemma history_kept_fold: "history_kept (fst tn) (fst (fold (upsert_row gen node seenAt) items tn))"
proof (induction items arbitrary: tn)
  case (Cons i items)
  show ?case
    using history_kept_trans [OF history_kept_upsert Cons.IH] by (simp del: fold_simps add: fold_simps(2))
qed simp

lemma history_kept_sync: "history_kept (fst tn) (fst (sync_table gen node items seenAt tn))"
proof -
  obtain t n where f: "fold (upsert_row gen node seenAt) items tn = (t, n)" by fastforce
  have "history_kept t (remove_missing node (map fst items) seenAt t)"
    unfolding remove_missing_def by (rule history_kept_map) (auto simp: row_kept_def rs_active_def)
  with history_kept_fold [of tn gen node seenAt items] show ?thesis
    by (auto simp: sync_table_def f intro: history_kept_trans)
qed

text \<open>
  Well-formedness of a table: identifiers are distinct and drawn from the supply, and no node has
  two active rows with one key (the unique index of the schema).
\<close>

definition active_keys :: "string \<Rightarrow> 'd resource list \<Rightarrow> string list" where
  "active_keys node t = map rs_key (active_rows node t)"

definition table_wf :: "(nat \<Rightarrow> string) \<Rightarrow> nat \<Rightarrow> 'd resource list \<Rightarrow> bool" where
  "table_wf gen n t \<longleftrightarrow>
     distinct (map rs_id t) \<and> rs_id ` set t \<subseteq> gen ` {..<n} \<and> (\<forall>node. distinct (active_keys node t))"

lemma active_keys_abs: "set (active_keys node t) = dom (abs_table t node)"
  by (auto simp: active_keys_def abs_table_def dom_map_of_conv_image_fst image_image)

lemma active_keys_update [simp]: "active_keys m (snd (update_resource node k x seenAt t)) = active_keys m t"
  by (induction t) (auto simp: active_keys_def active_rows_def update_resource_def)

lemma active_keys_append [simp]: "active_keys m (t @ u) = active_keys m t @ active_keys m u"
  by (simp add: active_keys_def active_rows_def)

lemma active_keys_remove:
  "active_keys m (remove_missing node ks seenAt t) =
     (if m = node then filter (\<lambda>k. k \<in> set ks) (active_keys m t) else active_keys m t)"
proof (induction t)
  case (Cons r t)
  have "remove_missing node ks seenAt (r # t) =
      (if rs_active node r \<and> rs_key r \<notin> set ks then r\<lparr>rs_removed_at := Some seenAt\<rparr> else r) # remove_missing node ks seenAt t"
    by (simp add: remove_missing_def)
  then show ?case using Cons
    by (cases "m = node"; cases "rs_active node r \<and> rs_key r \<notin> set ks") (simp_all add: active_keys_def active_rows_def rs_active_def)
qed (simp add: active_keys_def active_rows_def remove_missing_def)

lemma active_keys_new [simp]:
  "active_keys m [new_resource i node k x seenAt] = (if m = node then [k] else [])"
  by (simp add: active_keys_def active_rows_def)

lemma rs_id_update [simp]:
  "map rs_id (snd (update_resource node k x seenAt t)) = map rs_id t"
  "map rs_id (remove_missing node ks seenAt t) = map rs_id t"
  by (simp_all add: update_resource_def remove_missing_def)

lemma set_rs_id_eq: "map rs_id t = map rs_id u \<Longrightarrow> rs_id ` set t = rs_id ` set u"
  by (metis set_map)

lemma table_wf_upsert:
  assumes "inj gen" "table_wf gen (snd tn) (fst tn)" "upsert_row gen node seenAt (k, x) tn = (t', n')"
  shows "table_wf gen n' t' \<and> snd tn \<le> n'"
proof -
  obtain t n where tn: "tn = (t, n)" by fastforce
  let ?u = "snd (update_resource node k x seenAt t)"
  have ids: "rs_id ` set ?u = rs_id ` set t" by (rule set_rs_id_eq) simp
  show ?thesis
  proof (cases "fst (update_resource node k x seenAt t) = 0")
    case True
    then have "t' = ?u @ [new_resource (gen n) node k x seenAt]" "n' = Suc n"
      using assms(3) by (auto simp: upsert_row_def tn split: prod.splits)
    moreover have "gen n \<notin> rs_id ` set t"
    proof
      assume "gen n \<in> rs_id ` set t"
      then have "gen n \<in> gen ` {..<n}" using assms(2) by (auto simp: table_wf_def tn)
      then show False using assms(1) by (auto dest: injD)
    qed
    moreover have "k \<notin> set (active_keys node t)"
      using True update_affected [of node k x seenAt t] by (simp add: active_keys_abs)
    ultimately show ?thesis
      using assms(2) by (auto simp: table_wf_def tn ids)
  next
    case False
    then have "t' = ?u" "n' = n"
      using assms(3) by (auto simp: upsert_row_def tn split: prod.splits if_splits)
    then show ?thesis using assms(2) by (simp add: table_wf_def tn ids)
  qed
qed

lemma table_wf_fold:
  assumes "inj gen" "table_wf gen (snd tn) (fst tn)" "fold (upsert_row gen node seenAt) items tn = (t', n')"
  shows "table_wf gen n' t' \<and> snd tn \<le> n'"
  using assms(2,3)
proof (induction items arbitrary: tn)
  case (Cons i items)
  obtain k x where i: "i = (k, x)" by fastforce
  obtain t1 n1 where up: "upsert_row gen node seenAt (k, x) tn = (t1, n1)" by fastforce
  have "table_wf gen n1 t1 \<and> snd tn \<le> n1"
    using table_wf_upsert [OF assms(1) Cons.prems(1) up] .
  then show ?case using Cons.IH [of "(t1, n1)"] Cons.prems(2) by (simp add: i up)
qed auto

lemma table_wf_sync:
  assumes "inj gen" "table_wf gen (snd tn) (fst tn)" "sync_table gen node items seenAt tn = (t', n')"
  shows "table_wf gen n' t' \<and> snd tn \<le> n'"
proof -
  obtain t where f: "fold (upsert_row gen node seenAt) items tn = (t, n')"
    and t': "t' = remove_missing node (map fst items) seenAt t"
    using assms(3) by (auto simp: sync_table_def split: prod.splits)
  have "rs_id ` set t' = rs_id ` set t" unfolding t' by (rule set_rs_id_eq) simp
  with table_wf_fold [OF assms(1,2) f] show ?thesis
    by (simp add: table_wf_def t' active_keys_remove)
qed

lemma table_wf_mono: "table_wf gen n t \<Longrightarrow> n \<le> m \<Longrightarrow> table_wf gen m t"
  unfolding table_wf_def by (meson image_mono lessThan_subset_iff order_trans)

section \<open>The interface of a synchronised table\<close>

text \<open>
  What the loop needs of the description of a table: that reading and writing the table are
  independent of the identifier supply and undo each other.
\<close>

locale resource_table =
  fixes T :: "('i, 'd) table_ops"
  assumes get_put [simp]: "to_get T (to_put T t d) = t"
    and put_put [simp]: "to_put T t (to_put T u d) = to_put T t d"
    and put_get [simp]: "to_put T (to_get T d) d = d"
    and get_next [simp]: "to_get T (d\<lparr>db_next := n\<rparr>) = to_get T d"
    and put_next [simp]: "to_put T t (d\<lparr>db_next := n\<rparr>) = (to_put T t d)\<lparr>db_next := n\<rparr>"
    and next_put [simp]: "db_next (to_put T t d) = db_next d"
begin

definition lift_table :: "('d resource list \<times> nat \<Rightarrow> 'd resource list \<times> nat) \<Rightarrow> database \<Rightarrow> database" where
  "lift_table f d = (case f (to_get T d, db_next d) of (t, n) \<Rightarrow> (to_put T t d)\<lparr>db_next := n\<rparr>)"

lemma get_lift [simp]: "to_get T (lift_table f d) = fst (f (to_get T d, db_next d))"
  by (simp add: lift_table_def split: prod.splits)

lemma next_lift [simp]: "db_next (lift_table f d) = snd (f (to_get T d, db_next d))"
  by (simp add: lift_table_def split: prod.splits)

lemma lift_lift: "lift_table g (lift_table f d) = lift_table (g \<circ> f) d"
  by (simp add: lift_table_def split: prod.splits)

lemma lift_id [simp]: "lift_table id d = d"
  by (simp add: lift_table_def)

lemma upsert_runs:
  "tx_runs (upsert_resource T pg node seenAt i)
     (\<lambda>d. Some ((), lift_table (upsert_row (pg_gen pg) node seenAt (to_key T i, to_data T i)) d))"
  unfolding upsert_resource_def
  by (rule tx_runs_cong, (rule tx_rules)+)
    (auto simp: lift_table_def upsert_row_def split: prod.splits)

lemma upserts_run:
  "db_for items (\<lambda>i d. Some ((), lift_table (upsert_row gen node seenAt (to_key T i, to_data T i)) d)) d =
   Some ((), lift_table (fold (upsert_row gen node seenAt) (map (\<lambda>i. (to_key T i, to_data T i)) items)) d)"
  by (induction items arbitrary: d) (simp_all add: lift_lift)

lemma sync_runs:
  "tx_runs (sync_resources T pg node items seenAt)
     (\<lambda>d. Some ((), lift_table
        (sync_table (pg_gen pg) node (map (\<lambda>i. (to_key T i, to_data T i)) items) seenAt) d))"
  unfolding sync_resources_def
  by (rule tx_runs_cong, rule tx_runs_then, rule tx_runs_for, rule upsert_runs, rule tx_runs_exec)
    (simp add: upserts_run, simp add: lift_table_def sync_table_def comp_def split: prod.splits)

lemma sync_abs:
  assumes "distinct (map (to_key T) items)"
    and "d' = lift_table (sync_table gen node (map (\<lambda>i. (to_key T i, to_data T i)) items) seenAt) d"
  shows "abs_table (to_get T d') =
    (abs_table (to_get T d))(node := map_of (map (\<lambda>i. (to_key T i, to_data T i)) items))"
  using assms abs_table_sync [of "map (\<lambda>i. (to_key T i, to_data T i)) items"] by (simp add: comp_def)

end

interpretation cpu: resource_table "cpu_table pg" for pg
  by unfold_locales (simp_all add: cpu_table_def)

interpretation mem: resource_table memory_table
  by unfold_locales (simp_all add: memory_table_def)

interpretation blk: resource_table block_table
  by unfold_locales (simp_all add: block_table_def)

interpretation fsy: resource_table filesystem_table
  by unfold_locales (simp_all add: filesystem_table_def)

interpretation gpu: resource_table gpu_table
  by unfold_locales (simp_all add: gpu_table_def)

end
