(* ===== verification/Store_Network.thy ===== *)
theory Store_Network
  imports Store_Sync
begin

text \<open>
  Synchronising the network interfaces of a node and their addresses (\<open>syncNetworkInterfaces\<close> of
  src/internal/store/ingest.go). The statements return the identifier of the row they touched, so
  an interface and an address are each upserted by an update and, when it returns no row, an insert.
\<close>

definition interface_table :: "(NetworkInterface, interface_columns) table_ops" where
  "interface_table =
     \<lparr>to_kind = ''network interface'', to_get = db_network_interfaces,
      to_put = (\<lambda>t d. d\<lparr>db_network_interfaces := t\<rparr>), to_key = ni_Key,
      to_data = (\<lambda>item.
        \<lparr>ic_interface_name = ni_Name item,
         ic_mac_address = nullif_empty (postgresMACAddress (ni_MACAddress item)),
         ic_mtu = nullif_zero (ni_MTU item), ic_link_speed_mbps = nullif_zero (ni_LinkSpeedMbps item)\<rparr>)\<rparr>"

interpretation ifc: resource_table interface_table
  by unfold_locales (simp_all add: interface_table_def)

definition upsertInterface :: "postgres \<Rightarrow> string \<Rightarrow> Time \<Rightarrow> NetworkInterface \<Rightarrow> string tx" where
  "upsertInterface pg nodeID seenAt item =
     tx_bind
       (tx_exec ''upsert network interface'' (ni_Key item) (\<lambda>d.
          let (n, t) = update_resource nodeID (ni_Key item) (to_data interface_table item) seenAt
                (db_network_interfaces d)
          in (map_option rs_id (find (\<lambda>r. rs_active nodeID r \<and> rs_key r = ni_Key item) t),
              d\<lparr>db_network_interfaces := t\<rparr>)))
       (\<lambda>found. case found of
          Some interfaceID \<Rightarrow> tx_return interfaceID
        | None \<Rightarrow>
            tx_exec ''upsert network interface'' (ni_Key item) (\<lambda>d.
              let interfaceID = pg_gen pg (db_next d)
              in (interfaceID,
                  d\<lparr>db_network_interfaces := db_network_interfaces d @
                      [new_resource interfaceID nodeID (ni_Key item) (to_data interface_table item) seenAt],
                    db_next := Suc (db_next d)\<rparr>)))"

definition ad_matches :: "string \<Rightarrow> string \<Rightarrow> string \<Rightarrow> address_row \<Rightarrow> bool" where
  "ad_matches node ifid inet r \<longleftrightarrow>
     ad_node_id r = node \<and> ad_interface_id r = ifid \<and> ad_address r = inet \<and> ad_removed_at r = None"

definition upsertAddress :: "postgres \<Rightarrow> string \<Rightarrow> string \<Rightarrow> Time \<Rightarrow> NetworkAddress \<Rightarrow> string tx" where
  "upsertAddress pg nodeID interfaceID seenAt address =
     (let inet = pg_inet pg (na_Address address) in
      tx_bind
        (tx_exec ''upsert address'' (na_Address address) (\<lambda>d.
           (map_option ad_id (find (ad_matches nodeID interfaceID inet) (db_network_addresses d)),
            d\<lparr>db_network_addresses := map (\<lambda>r. if ad_matches nodeID interfaceID inet r
                 then r\<lparr>ad_scope := na_Scope address, ad_last_seen_at := seenAt\<rparr> else r)
               (db_network_addresses d)\<rparr>)))
        (\<lambda>found. case found of
           Some addressID \<Rightarrow> tx_return addressID
         | None \<Rightarrow>
             tx_exec ''upsert address'' (na_Address address) (\<lambda>d.
               let addressID = pg_gen pg (db_next d)
               in (addressID,
                   d\<lparr>db_network_addresses := db_network_addresses d @
                       [\<lparr>ad_id = addressID, ad_node_id = nodeID, ad_interface_id = interfaceID,
                         ad_address = inet, ad_scope = na_Scope address, ad_first_seen_at = seenAt,
                         ad_last_seen_at = seenAt, ad_removed_at = None\<rparr>],
                     db_next := Suc (db_next d)\<rparr>))))"

definition remove_addresses :: "(address_row \<Rightarrow> bool) \<Rightarrow> Time \<Rightarrow> address_row list \<Rightarrow> address_row list" where
  "remove_addresses P seenAt t =
     map (\<lambda>r. if ad_removed_at r = None \<and> P r then r\<lparr>ad_removed_at := Some seenAt\<rparr> else r) t"

definition syncInterface :: "postgres \<Rightarrow> string \<Rightarrow> Time \<Rightarrow> NetworkInterface \<Rightarrow> unit tx" where
  "syncInterface pg nodeID seenAt item =
     tx_bind (upsertInterface pg nodeID seenAt item) (\<lambda>interfaceID.
     tx_bind (tx_map (ni_Addresses item) (upsertAddress pg nodeID interfaceID seenAt)) (\<lambda>addressIDs.
     tx_exec ''remove missing addresses on'' (ni_Key item) (\<lambda>d.
       ((), d\<lparr>db_network_addresses := remove_addresses
              (\<lambda>r. ad_node_id r = nodeID \<and> ad_interface_id r = interfaceID \<and> ad_id r \<notin> set addressIDs)
              seenAt (db_network_addresses d)\<rparr>))))"

definition interface_active :: "database \<Rightarrow> string \<Rightarrow> bool" where
  "interface_active d ifid \<longleftrightarrow>
     list_ex (\<lambda>r. rs_id r = ifid \<and> rs_removed_at r = None) (db_network_interfaces d)"

definition syncNetworkInterfaces :: "postgres \<Rightarrow> string \<Rightarrow> NetworkInterface list \<Rightarrow> Time \<Rightarrow> unit tx" where
  "syncNetworkInterfaces pg nodeID items seenAt =
     tx_then (tx_for items (syncInterface pg nodeID seenAt))
     (tx_then
       (tx_exec ''remove missing network interfaces'' [] (\<lambda>d.
          ((), d\<lparr>db_network_interfaces :=
                 remove_missing nodeID (map ni_Key items) seenAt (db_network_interfaces d)\<rparr>)))
       (tx_exec ''remove addresses on missing interfaces'' [] (\<lambda>d.
          ((), d\<lparr>db_network_addresses := remove_addresses
                 (\<lambda>r. ad_node_id r = nodeID \<and> \<not> interface_active d (ad_interface_id r))
                 seenAt (db_network_addresses d)\<rparr>))))"

section \<open>The functions the statements compute\<close>

definition upsert_interface_db :: "postgres \<Rightarrow> string \<Rightarrow> Time \<Rightarrow> NetworkInterface \<Rightarrow> database \<Rightarrow> string \<times> database" where
  "upsert_interface_db pg node seenAt item d =
     (let d' = ifc.lift_table (upsert_row (pg_gen pg) node seenAt (ni_Key item, to_data interface_table item)) d
      in case find (\<lambda>r. rs_active node r \<and> rs_key r = ni_Key item) (db_network_interfaces d) of
           Some r \<Rightarrow> (rs_id r, d') | None \<Rightarrow> (pg_gen pg (db_next d), d'))"

lemma find_update_resource:
  "map_option rs_id (find (\<lambda>r. rs_active node r \<and> rs_key r = k) (snd (update_resource node k x seenAt t))) =
   map_option rs_id (find (\<lambda>r. rs_active node r \<and> rs_key r = k) t)"
  by (induction t) (auto simp: update_resource_def)

lemma update_resource_fst:
  "fst (update_resource node k x seenAt t) = 0 \<longleftrightarrow> find (\<lambda>r. rs_active node r \<and> rs_key r = k) t = None"
  by (auto simp: update_resource_def find_None_iff filter_empty_conv)

lemma interface_table_sel [simp]:
  "to_get interface_table = db_network_interfaces" "to_key interface_table = ni_Key"
  "to_put interface_table t d = d\<lparr>db_network_interfaces := t\<rparr>"
  by (simp_all add: interface_table_def)

lemma upsertInterface_runs [tx_rules]:
  "tx_runs (upsertInterface pg node seenAt item) (\<lambda>d. Some (upsert_interface_db pg node seenAt item d))"
  unfolding upsertInterface_def
proof (rule tx_runs_cong, (rule tx_rules)+)
  fix d :: database
  let ?k = "ni_Key item" and ?x = "to_data interface_table item" and ?t = "db_network_interfaces d"
  obtain n u where u: "update_resource node ?k ?x seenAt ?t = (n, u)" by fastforce
  then show "Option.bind (Some (let (n, t) = update_resource node ?k ?x seenAt ?t in
        (map_option rs_id (find (\<lambda>r. rs_active node r \<and> rs_key r = ?k) t), d\<lparr>db_network_interfaces := t\<rparr>)))
      (\<lambda>r. case fst r of
         None \<Rightarrow> Some (let interfaceID = pg_gen pg (db_next (snd r)) in
           (interfaceID, (snd r)\<lparr>db_network_interfaces := db_network_interfaces (snd r) @
              [new_resource interfaceID node ?k ?x seenAt], db_next := Suc (db_next (snd r))\<rparr>))
       | Some y \<Rightarrow> Some (y, snd r)) = Some (upsert_interface_db pg node seenAt item d)"
    using find_update_resource [of node ?k ?x seenAt ?t] update_resource_fst [of node ?k ?x seenAt ?t]
    by (auto simp: upsert_interface_db_def ifc.lift_table_def upsert_row_def Let_def split: option.splits)
qed

definition upsert_address_db :: "postgres \<Rightarrow> string \<Rightarrow> string \<Rightarrow> Time \<Rightarrow> NetworkAddress \<Rightarrow> database \<Rightarrow> string \<times> database" where
  "upsert_address_db pg node ifid seenAt a d =
     (let inet = pg_inet pg (na_Address a);
          t = map (\<lambda>r. if ad_matches node ifid inet r
                 then r\<lparr>ad_scope := na_Scope a, ad_last_seen_at := seenAt\<rparr> else r) (db_network_addresses d)
      in case find (ad_matches node ifid inet) (db_network_addresses d) of
           Some r \<Rightarrow> (ad_id r, d\<lparr>db_network_addresses := t\<rparr>)
         | None \<Rightarrow> (pg_gen pg (db_next d),
             d\<lparr>db_network_addresses := t @
                 [\<lparr>ad_id = pg_gen pg (db_next d), ad_node_id = node, ad_interface_id = ifid, ad_address = inet,
                   ad_scope = na_Scope a, ad_first_seen_at = seenAt, ad_last_seen_at = seenAt,
                   ad_removed_at = None\<rparr>], db_next := Suc (db_next d)\<rparr>))"

lemma upsertAddress_runs [tx_rules]:
  "tx_runs (upsertAddress pg node ifid seenAt a) (\<lambda>d. Some (upsert_address_db pg node ifid seenAt a d))"
  unfolding upsertAddress_def Let_def
  by (rule tx_runs_cong, (rule tx_rules)+)
    (simp add: upsert_address_db_def Let_def split: option.splits)

fun upsert_addresses_db ::
  "postgres \<Rightarrow> string \<Rightarrow> string \<Rightarrow> Time \<Rightarrow> NetworkAddress list \<Rightarrow> database \<Rightarrow> string list \<times> database" where
  "upsert_addresses_db pg node ifid seenAt [] d = ([], d)"
| "upsert_addresses_db pg node ifid seenAt (a # as) d =
     (let (i, d') = upsert_address_db pg node ifid seenAt a d;
          (is, d'') = upsert_addresses_db pg node ifid seenAt as d'
      in (i # is, d''))"

lemma db_map_addresses:
  "db_map as (\<lambda>a d. Some (upsert_address_db pg node ifid seenAt a d)) d =
   Some (upsert_addresses_db pg node ifid seenAt as d)"
  by (induction as arbitrary: d) (auto split: prod.splits)

definition sync_interface_db :: "postgres \<Rightarrow> string \<Rightarrow> Time \<Rightarrow> NetworkInterface \<Rightarrow> database \<Rightarrow> database" where
  "sync_interface_db pg node seenAt item d =
     (let (ifid, d1) = upsert_interface_db pg node seenAt item d;
          (ids, d2) = upsert_addresses_db pg node ifid seenAt (ni_Addresses item) d1
      in d2\<lparr>db_network_addresses := remove_addresses
           (\<lambda>r. ad_node_id r = node \<and> ad_interface_id r = ifid \<and> ad_id r \<notin> set ids)
           seenAt (db_network_addresses d2)\<rparr>)"

lemma syncInterface_runs [tx_rules]:
  "tx_runs (syncInterface pg node seenAt item) (\<lambda>d. Some ((), sync_interface_db pg node seenAt item d))"
  unfolding syncInterface_def
  by (rule tx_runs_cong, (rule tx_rules)+)
    (auto simp: sync_interface_db_def db_map_addresses split: prod.splits)

definition sync_network_db :: "postgres \<Rightarrow> string \<Rightarrow> NetworkInterface list \<Rightarrow> Time \<Rightarrow> database \<Rightarrow> database" where
  "sync_network_db pg node items seenAt d =
     (let d1 = fold (sync_interface_db pg node seenAt) items d;
          d2 = d1\<lparr>db_network_interfaces := remove_missing node (map ni_Key items) seenAt (db_network_interfaces d1)\<rparr>
      in d2\<lparr>db_network_addresses := remove_addresses
              (\<lambda>r. ad_node_id r = node \<and> \<not> interface_active d2 (ad_interface_id r))
              seenAt (db_network_addresses d2)\<rparr>)"

lemma db_for_total: "db_for xs (\<lambda>x d. Some ((), f x d)) d = Some ((), fold f xs d)"
  by (induction xs arbitrary: d) simp_all

lemma syncNetworkInterfaces_runs [tx_rules]:
  "tx_runs (syncNetworkInterfaces pg node items seenAt) (\<lambda>d. Some ((), sync_network_db pg node items seenAt d))"
  unfolding syncNetworkInterfaces_def
  by (rule tx_runs_cong, (rule tx_rules)+) (simp add: db_for_total sync_network_db_def Let_def)

section \<open>What a synchronisation of the network changes\<close>

text \<open>All tables but the interfaces and the addresses; the identifier supply only grows.\<close>

definition net_frame :: "database \<Rightarrow> database \<Rightarrow> bool" where
  "net_frame d d' \<longleftrightarrow> db_next d \<le> db_next d' \<and>
     d\<lparr>db_network_interfaces := [], db_network_addresses := [], db_next := 0\<rparr> =
     d'\<lparr>db_network_interfaces := [], db_network_addresses := [], db_next := 0\<rparr>"

lemma net_frame_refl [simp]: "net_frame d d"
  by (simp add: net_frame_def)

lemma net_frame_trans [trans]: "net_frame a b \<Longrightarrow> net_frame b c \<Longrightarrow> net_frame a c"
  by (auto simp: net_frame_def)

lemma net_frame_update [simp]:
  "net_frame d (d'\<lparr>db_network_interfaces := t\<rparr>) \<longleftrightarrow> net_frame d d'"
  "net_frame d (d'\<lparr>db_network_addresses := a\<rparr>) \<longleftrightarrow> net_frame d d'"
  by (simp_all add: net_frame_def)

lemma upsert_row_next: "snd tn \<le> snd (upsert_row gen node seenAt i tn)"
  by (auto simp: upsert_row_def split: prod.splits)

lemma upsert_interface_db_sel:
  "snd (upsert_interface_db pg node seenAt item d) =
   ifc.lift_table (upsert_row (pg_gen pg) node seenAt (ni_Key item, to_data interface_table item)) d"
  by (simp add: upsert_interface_db_def Let_def split: option.splits)

lemma net_frame_lift:
  assumes "\<And>tn. snd tn \<le> snd (f tn)"
  shows "net_frame d (ifc.lift_table f d)"
  using assms [of "(db_network_interfaces d, db_next d)"]
  by (auto simp: ifc.lift_table_def net_frame_def split: prod.splits)

lemma upsert_address_frame:
  "net_frame d (snd (upsert_address_db pg node ifid seenAt a d)) \<and>
   db_network_interfaces (snd (upsert_address_db pg node ifid seenAt a d)) = db_network_interfaces d"
  by (simp add: upsert_address_db_def Let_def net_frame_def split: option.splits)

lemma upsert_addresses_frame:
  "net_frame d (snd (upsert_addresses_db pg node ifid seenAt as d)) \<and>
   db_network_interfaces (snd (upsert_addresses_db pg node ifid seenAt as d)) = db_network_interfaces d"
proof (induction as arbitrary: d)
  case (Cons a as)
  obtain i d' where "upsert_address_db pg node ifid seenAt a d = (i, d')" by fastforce
  with Cons.IH [of d'] upsert_address_frame [of d pg node ifid seenAt a] show ?case
    by (auto split: prod.splits intro: net_frame_trans)
qed simp

text \<open>One iteration of the loop: its effect on the interfaces is that of a single upsert.\<close>

lemma sync_interface_db_effect:
  fixes pg :: postgres and node :: string and seenAt :: Time and item :: NetworkInterface and d :: database
  defines "up \<equiv> upsert_row (pg_gen pg) node seenAt (ni_Key item, to_data interface_table item)
    (db_network_interfaces d, db_next d)"
  shows "db_network_interfaces (sync_interface_db pg node seenAt item d) = fst up"
    and "snd up \<le> db_next (sync_interface_db pg node seenAt item d)"
    and "net_frame d (sync_interface_db pg node seenAt item d)"
proof -
  obtain ifid d1 where u: "upsert_interface_db pg node seenAt item d = (ifid, d1)" by fastforce
  then have d1: "d1 = ifc.lift_table (upsert_row (pg_gen pg) node seenAt (ni_Key item, to_data interface_table item)) d"
    using upsert_interface_db_sel [of pg node seenAt item d] by simp
  obtain ids d2 where a: "upsert_addresses_db pg node ifid seenAt (ni_Addresses item) d1 = (ids, d2)" by fastforce
  have "net_frame d1 d2" "db_network_interfaces d2 = db_network_interfaces d1"
    using upsert_addresses_frame [of d1 pg node ifid seenAt "ni_Addresses item"] a by auto
  moreover have "net_frame d d1" unfolding d1 by (rule net_frame_lift) (rule upsert_row_next)
  moreover have "db_network_interfaces d1 = fst up" "db_next d1 = snd up"
    using ifc.get_lift ifc.next_lift by (simp_all add: d1 up_def)
  ultimately show "db_network_interfaces (sync_interface_db pg node seenAt item d) = fst up"
    and "snd up \<le> db_next (sync_interface_db pg node seenAt item d)"
    and "net_frame d (sync_interface_db pg node seenAt item d)"
    by (auto simp: sync_interface_db_def u a net_frame_def)
qed

lemma fold_sync_interface_abs:
  "distinct (map ni_Key items) \<Longrightarrow>
   abs_table (db_network_interfaces (fold (sync_interface_db pg node seenAt) items d)) m =
     (if m = node then abs_table (db_network_interfaces d) node ++
          map_of (map (\<lambda>i. (ni_Key i, to_data interface_table i)) items)
      else abs_table (db_network_interfaces d) m)"
proof (induction items arbitrary: d)
  case (Cons i items)
  let ?k = "ni_Key i" and ?x = "to_data interface_table i"
  let ?M = "map_of (map (\<lambda>i. (ni_Key i, to_data interface_table i)) items)"
  have "?M ?k = None" using Cons.prems by (auto simp: map_of_eq_None_iff)
  then have eq: "f(?k \<mapsto> ?x) ++ ?M = f ++ map_of (map (\<lambda>i. (ni_Key i, to_data interface_table i)) (i # items))" for f
    by (auto simp: map_add_def fun_eq_iff split: option.splits)
  have "abs_table (db_network_interfaces (fold (sync_interface_db pg node seenAt) (i # items) d)) m =
      (if m = node then abs_table (db_network_interfaces (sync_interface_db pg node seenAt i d)) node ++ ?M
       else abs_table (db_network_interfaces (sync_interface_db pg node seenAt i d)) m)"
    using Cons by simp
  also have "\<dots> = (if m = node then (abs_table (db_network_interfaces d) node)(?k \<mapsto> ?x) ++ ?M
      else abs_table (db_network_interfaces d) m)"
    unfolding sync_interface_db_effect(1) abs_table_upsert by simp
  finally show ?case unfolding eq .
qed simp

lemma restrict_map_of_keys:
  "(f ++ map_of (map (\<lambda>i. (key i, g i)) xs)) |` set (map key xs) = map_of (map (\<lambda>i. (key i, g i)) xs)"
proof
  fix y
  show "((f ++ map_of (map (\<lambda>i. (key i, g i)) xs)) |` set (map key xs)) y = map_of (map (\<lambda>i. (key i, g i)) xs) y"
    using map_of_eq_None_iff [of "map (\<lambda>i. (key i, g i)) xs" y]
    by (cases "map_of (map (\<lambda>i. (key i, g i)) xs) y") (auto simp: restrict_map_def map_add_def image_image)
qed

lemma sync_network_abs:
  assumes "distinct (map ni_Key items)"
  shows "abs_table (db_network_interfaces (sync_network_db pg node items seenAt d)) =
    (abs_table (db_network_interfaces d))(node := map_of (map (\<lambda>i. (ni_Key i, to_data interface_table i)) items))"
proof
  fix m
  have "db_network_interfaces (sync_network_db pg node items seenAt d) =
      remove_missing node (map ni_Key items) seenAt (db_network_interfaces (fold (sync_interface_db pg node seenAt) items d))"
    by (simp add: sync_network_db_def Let_def)
  then show "abs_table (db_network_interfaces (sync_network_db pg node items seenAt d)) m =
    ((abs_table (db_network_interfaces d))(node := map_of (map (\<lambda>i. (ni_Key i, to_data interface_table i)) items))) m"
    by (simp only: abs_table_remove_missing fold_sync_interface_abs [OF assms] restrict_map_of_keys fun_upd_apply if_True
        split: if_split) simp
qed

lemma fold_sync_interface_frame:
  assumes "inj (pg_gen pg)"
  shows "net_frame d (fold (sync_interface_db pg node seenAt) items d) \<and>
    (table_wf (pg_gen pg) (db_next d) (db_network_interfaces d) \<longrightarrow>
     table_wf (pg_gen pg) (db_next (fold (sync_interface_db pg node seenAt) items d))
       (db_network_interfaces (fold (sync_interface_db pg node seenAt) items d)))"
proof (induction items arbitrary: d)
  case (Cons i items)
  let ?d = "sync_interface_db pg node seenAt i d"
  obtain t n where up: "upsert_row (pg_gen pg) node seenAt (ni_Key i, to_data interface_table i)
      (db_network_interfaces d, db_next d) = (t, n)" by fastforce
  have eff: "db_network_interfaces ?d = t" "n \<le> db_next ?d"
    using sync_interface_db_effect(1,2) [of pg node seenAt i d] by (simp_all add: up)
  have "table_wf (pg_gen pg) (db_next d) (db_network_interfaces d) \<Longrightarrow>
      table_wf (pg_gen pg) (db_next ?d) (db_network_interfaces ?d)"
    using table_wf_upsert [OF assms _ up] table_wf_mono [of "pg_gen pg" n t, OF _ eff(2)] by (simp add: eff(1))
  with Cons.IH [of ?d] sync_interface_db_effect(3) [of d pg node seenAt i] show ?case
    by (auto intro: net_frame_trans)
qed simp

lemma sync_network_frame:
  "inj (pg_gen pg) \<Longrightarrow> net_frame d (sync_network_db pg node items seenAt d)"
  using fold_sync_interface_frame [of pg d node seenAt items]
  by (simp add: sync_network_db_def Let_def)

lemma sync_network_wf:
  assumes "inj (pg_gen pg)" "table_wf (pg_gen pg) (db_next d) (db_network_interfaces d)"
  shows "table_wf (pg_gen pg) (db_next (sync_network_db pg node items seenAt d))
    (db_network_interfaces (sync_network_db pg node items seenAt d))"
proof -
  let ?d = "fold (sync_interface_db pg node seenAt) items d"
  have "table_wf (pg_gen pg) (db_next ?d) (db_network_interfaces ?d)"
    using fold_sync_interface_frame [OF assms(1)] assms(2) by blast
  moreover have "rs_id ` set (remove_missing node ks seenAt t) = rs_id ` set t" for ks and t :: "interface_columns resource list"
    by (rule set_rs_id_eq) simp
  ultimately have "table_wf (pg_gen pg) (db_next ?d) (remove_missing node (map ni_Key items) seenAt (db_network_interfaces ?d))"
    by (simp add: table_wf_def active_keys_remove)
  then show ?thesis by (simp add: sync_network_db_def Let_def)
qed

text \<open>No active address is left on an interface that is gone.\<close>

lemma remove_addresses_left:
  "r \<in> set (remove_addresses P seenAt t) \<Longrightarrow> ad_removed_at r = None \<Longrightarrow> r \<in> set t \<and> \<not> P r"
  by (auto simp: remove_addresses_def split: if_splits)

lemma sync_network_addresses:
  assumes "r \<in> set (db_network_addresses (sync_network_db pg node items seenAt d))"
    and "ad_node_id r = node" and "ad_removed_at r = None"
  shows "interface_active (sync_network_db pg node items seenAt d) (ad_interface_id r)"
proof -
  let ?d = "fold (sync_interface_db pg node seenAt) items d"
  let ?e = "?d\<lparr>db_network_interfaces := remove_missing node (map ni_Key items) seenAt (db_network_interfaces ?d)\<rparr>"
  have "db_network_addresses (sync_network_db pg node items seenAt d) =
      remove_addresses (\<lambda>r. ad_node_id r = node \<and> \<not> interface_active ?e (ad_interface_id r))
        seenAt (db_network_addresses ?d)"
    by (simp add: sync_network_db_def Let_def)
  with assms have "interface_active ?e (ad_interface_id r)"
    using remove_addresses_left by fastforce
  then show ?thesis by (simp add: sync_network_db_def Let_def interface_active_def)
qed

end
