(* ===== verification/Store_Ingest.thy ===== *)
theory Store_Ingest
  imports Store_Network
begin

text \<open>
  Ingesting a report (\<open>Ingest\<close> and its helpers, src/internal/store/ingest.go): one transaction that
  updates the node and its token, synchronises the inventory when the fingerprint changed, and
  writes the metrics. Each statement is a function on the tables.
\<close>

record NodeAuth =
  auth_TokenID :: string
  auth_NodeID :: string
  auth_AgentID :: string

definition machineTypeLabelKey :: string where
  "machineTypeLabelKey = ''server_status.machine_type''"

definition systemModelLabelKey :: string where
  "systemModelLabelKey = ''server_status.system_model''"

definition primaryIPLabelKey :: string where
  "primaryIPLabelKey = ''server_status.primary_ip''"

definition agentLabels :: "AgentInfo \<Rightarrow> string \<rightharpoonup> string" where
  "agentLabels agent =
     (let l = ai_Labels agent;
          l = (if ai_MachineType agent \<noteq> [] then l(machineTypeLabelKey \<mapsto> ai_MachineType agent) else l);
          l = (if ai_SystemModel agent \<noteq> [] then l(systemModelLabelKey \<mapsto> ai_SystemModel agent) else l)
      in if ai_PrimaryIP agent \<noteq> [] then l(primaryIPLabelKey \<mapsto> ai_PrimaryIP agent) else l)"

section \<open>Statements on the node and its token\<close>

definition lockReportingNode :: "string \<Rightarrow> database \<Rightarrow> string option" where
  "lockReportingNode nodeID d =
     map_option (\<lambda>n. case nd_inventory_fingerprint n of None \<Rightarrow> [] | Some f \<Rightarrow> f)
       (find (\<lambda>n. nd_id n = nodeID) (db_nodes d))"

definition updateReportingNode :: "string \<Rightarrow> Report \<Rightarrow> Time \<Rightarrow> database \<Rightarrow> database" where
  "updateReportingNode nodeID payload receivedAt d =
     d\<lparr>db_nodes := map (\<lambda>n. if nd_id n = nodeID then
          n\<lparr>nd_hostname := ai_Hostname (r_Agent payload),
            nd_os_name := ai_OSName (r_Agent payload),
            nd_os_version := nullif_empty (ai_OSVersion (r_Agent payload)),
            nd_kernel_version := nullif_empty (ai_KernelVersion (r_Agent payload)),
            nd_architecture := ai_Architecture (r_Agent payload),
            nd_agent_version := ai_AgentVersion (r_Agent payload),
            nd_labels := agentLabels (r_Agent payload),
            nd_inventory_fingerprint := Some (r_InventoryFingerprint payload),
            nd_last_seen_at := receivedAt,
            nd_updated_at := receivedAt\<rparr>
        else n) (db_nodes d)\<rparr>"

definition updateTokenUsage :: "string \<Rightarrow> Time \<Rightarrow> database \<Rightarrow> database" where
  "updateTokenUsage tokenID receivedAt d =
     d\<lparr>db_tokens := map (\<lambda>k. if tk_id k = tokenID then k\<lparr>tk_last_used_at := Some receivedAt\<rparr> else k) (db_tokens d)\<rparr>"

definition syncInventory :: "postgres \<Rightarrow> string \<Rightarrow> Inventory \<Rightarrow> Time \<Rightarrow> unit tx" where
  "syncInventory pg nodeID inventory observedAt =
     tx_then (syncCPUPackages pg nodeID (inv_CPUPackages inventory) observedAt)
     (tx_then (syncMemoryModules pg nodeID (inv_MemoryModules inventory) observedAt)
     (tx_then (syncBlockDevices pg nodeID (inv_BlockDevices inventory) observedAt)
     (tx_then (syncFilesystems pg nodeID (inv_Filesystems inventory) observedAt)
     (tx_then (syncNetworkInterfaces pg nodeID (inv_NetworkInterfaces inventory) observedAt)
              (syncGPUs pg nodeID (inv_GPUs inventory) observedAt)))))"

section \<open>Identifiers of the active resources\<close>

text \<open>A query over the active rows of a node, collected into a map by key.\<close>

definition active_map :: "('d resource \<Rightarrow> 'v) \<Rightarrow> string \<Rightarrow> 'd resource list \<Rightarrow> string \<rightharpoonup> 'v" where
  "active_map f nodeID t = foldl (\<lambda>m r. m(rs_key r \<mapsto> f r)) Map.empty (filter (rs_active nodeID) t)"

definition activeFilesystemIDs :: "string \<Rightarrow> (string \<rightharpoonup> string) tx" where
  "activeFilesystemIDs nodeID =
     tx_exec ''query active filesystems'' [] (\<lambda>d. (active_map rs_id nodeID (db_filesystems d), d))"

definition activeInterfaceIDs :: "string \<Rightarrow> (string \<rightharpoonup> string) tx" where
  "activeInterfaceIDs nodeID =
     tx_exec ''query active interfaces'' [] (\<lambda>d. (active_map rs_id nodeID (db_network_interfaces d), d))"

definition activeBlockDeviceIDs :: "string \<Rightarrow> (string \<rightharpoonup> string) tx" where
  "activeBlockDeviceIDs nodeID =
     tx_exec ''query active block devices'' [] (\<lambda>d. (active_map rs_id nodeID (db_block_devices d), d))"

record activeGPU =
  ag_ID :: string
  ag_MemoryTotalBytes :: int

definition activeGPUIDs :: "string \<Rightarrow> (string \<rightharpoonup> activeGPU) tx" where
  "activeGPUIDs nodeID =
     tx_exec ''query active GPUs'' [] (\<lambda>d.
       (active_map (\<lambda>r. \<lparr>ag_ID = rs_id r, ag_MemoryTotalBytes = gc_memory_total_bytes (rs_data r)\<rparr>)
          nodeID (db_gpu_devices d), d))"

section \<open>Sample tables\<close>

text \<open>A table with a primary key: an insert that repeats a key fails.\<close>

record ('r, 'k) sample_ops =
  so_get :: "database \<Rightarrow> 'r list"
  so_put :: "'r list \<Rightarrow> database \<Rightarrow> database"
  so_pk :: "'r \<Rightarrow> 'k"

definition insert_sample :: "('r, 'k) sample_ops \<Rightarrow> string \<Rightarrow> string \<Rightarrow> 'r \<Rightarrow> unit tx" where
  "insert_sample S what key row =
     tx_bind
       (tx_exec what key (\<lambda>d.
          if so_pk S row \<in> set (map (so_pk S) (so_get S d)) then (False, d)
          else (True, so_put S (so_get S d @ [row]) d)))
       (\<lambda>ok. if ok then tx_return () else tx_fail (DbFailed what key))"

definition delete_samples :: "('r, 'k) sample_ops \<Rightarrow> string \<Rightarrow> ('r \<Rightarrow> bool) \<Rightarrow> unit tx" where
  "delete_samples S what P =
     tx_exec what [] (\<lambda>d. ((), so_put S (filter (\<lambda>r. \<not> P r) (so_get S d)) d))"

definition filesystem_samples :: "(filesystem_sample, Time \<times> string \<times> string) sample_ops" where
  "filesystem_samples =
     \<lparr>so_get = db_filesystem_samples, so_put = (\<lambda>t d. d\<lparr>db_filesystem_samples := t\<rparr>),
      so_pk = (\<lambda>r. (fsm_bucket_at r, fsm_node_id r, fsm_filesystem_id r))\<rparr>"

definition network_samples :: "(network_sample, Time \<times> string \<times> string) sample_ops" where
  "network_samples =
     \<lparr>so_get = db_network_samples, so_put = (\<lambda>t d. d\<lparr>db_network_samples := t\<rparr>),
      so_pk = (\<lambda>r. (nsm_bucket_at r, nsm_node_id r, nsm_interface_id r))\<rparr>"

definition gpu_samples :: "(gpu_sample, Time \<times> string \<times> string) sample_ops" where
  "gpu_samples =
     \<lparr>so_get = db_gpu_samples, so_put = (\<lambda>t d. d\<lparr>db_gpu_samples := t\<rparr>),
      so_pk = (\<lambda>r. (gsm_bucket_at r, gsm_node_id r, gsm_gpu_id r))\<rparr>"

definition temperature_metrics :: "(temperature_row, string \<times> string) sample_ops" where
  "temperature_metrics =
     \<lparr>so_get = db_temperatures, so_put = (\<lambda>t d. d\<lparr>db_temperatures := t\<rparr>),
      so_pk = (\<lambda>r. (tr_node_id r, tr_sensor_key r))\<rparr>"

definition storage_health_metrics :: "(storage_health_row, string \<times> string) sample_ops" where
  "storage_health_metrics =
     \<lparr>so_get = db_storage_health, so_put = (\<lambda>t d. d\<lparr>db_storage_health := t\<rparr>),
      so_pk = (\<lambda>r. (sr_node_id r, sr_block_device_id r))\<rparr>"

section \<open>Rows of the metrics\<close>

definition nodeSample :: "postgres \<Rightarrow> Time \<Rightarrow> string \<Rightarrow> Time \<Rightarrow> Report \<Rightarrow> node_sample" where
  "nodeSample pg bucketAt nodeID receivedAt payload =
     (let cpu = m_CPU (r_Metrics payload); memory = m_Memory (r_Metrics payload);
          disk = m_Disk (r_Metrics payload) in
      \<lparr>ns_bucket_at = bucketAt, ns_node_id = nodeID,
       ns_collected_at = timestamptz (r_CollectedAt payload), ns_received_at = receivedAt,
       ns_interval_seconds = r_IntervalSeconds payload,
       ns_cpu_usage_percent = pg_real pg (cm_UsagePercent cpu),
       ns_load_1 = pg_real pg (cm_Load1 cpu), ns_load_5 = pg_real pg (cm_Load5 cpu),
       ns_load_15 = pg_real pg (cm_Load15 cpu),
       ns_memory_total_bytes = i64 (me_TotalBytes memory), ns_memory_used_bytes = i64 (me_UsedBytes memory),
       ns_memory_available_bytes = i64 (me_AvailableBytes memory),
       ns_memory_cached_bytes = i64 (me_CachedBytes memory),
       ns_memory_buffers_bytes = i64 (me_BuffersBytes memory),
       ns_swap_total_bytes = i64 (me_SwapTotalBytes memory), ns_swap_used_bytes = i64 (me_SwapUsedBytes memory),
       ns_uptime_seconds = i64 (me_UptimeSeconds memory),
       ns_disk_read_bytes_total = i64 (dm_ReadBytesTotal disk),
       ns_disk_write_bytes_total = i64 (dm_WriteBytesTotal disk),
       ns_disk_read_bytes_delta = i64 (dm_ReadBytesDelta disk),
       ns_disk_write_bytes_delta = i64 (dm_WriteBytesDelta disk),
       ns_disk_read_ops_delta = i64 (dm_ReadOpsDelta disk),
       ns_disk_write_ops_delta = i64 (dm_WriteOpsDelta disk)\<rparr>)"

text \<open>\<open>INSERT ... ON CONFLICT (bucket_at, node_id) DO UPDATE\<close>: every column is overwritten.\<close>

definition upsertNodeSample :: "node_sample \<Rightarrow> database \<Rightarrow> database" where
  "upsertNodeSample row d =
     (let same = (\<lambda>r. ns_bucket_at r = ns_bucket_at row \<and> ns_node_id r = ns_node_id row) in
      d\<lparr>db_node_samples :=
          (if list_ex same (db_node_samples d)
           then map (\<lambda>r. if same r then row else r) (db_node_samples d)
           else db_node_samples d @ [row])\<rparr>)"

definition filesystemSample :: "Time \<Rightarrow> string \<Rightarrow> string \<Rightarrow> FilesystemMetrics \<Rightarrow> filesystem_sample" where
  "filesystemSample bucketAt nodeID filesystemID m =
     \<lparr>fsm_bucket_at = bucketAt, fsm_node_id = nodeID, fsm_filesystem_id = filesystemID,
      fsm_total_bytes = i64 (fm_TotalBytes m), fsm_used_bytes = i64 (fm_UsedBytes m),
      fsm_available_bytes = i64 (fm_AvailableBytes m),
      fsm_total_inodes = (if fm_TotalInodes m \<noteq> 0 then Some (i64 (fm_TotalInodes m)) else None),
      fsm_used_inodes = (if fm_TotalInodes m \<noteq> 0 then Some (i64 (fm_UsedInodes m)) else None)\<rparr>"

definition networkSample :: "Time \<Rightarrow> string \<Rightarrow> string \<Rightarrow> NetworkMetrics \<Rightarrow> network_sample" where
  "networkSample bucketAt nodeID interfaceID m =
     \<lparr>nsm_bucket_at = bucketAt, nsm_node_id = nodeID, nsm_interface_id = interfaceID,
      nsm_link_up = nm_LinkUp m,
      nsm_rx_bytes_total = i64 (nm_RXBytesTotal m), nsm_tx_bytes_total = i64 (nm_TXBytesTotal m),
      nsm_rx_bytes_delta = i64 (nm_RXBytesDelta m), nsm_tx_bytes_delta = i64 (nm_TXBytesDelta m),
      nsm_rx_packets_delta = i64 (nm_RXPacketsDelta m), nsm_tx_packets_delta = i64 (nm_TXPacketsDelta m),
      nsm_rx_errors_delta = i64 (nm_RXErrorsDelta m), nsm_tx_errors_delta = i64 (nm_TXErrorsDelta m),
      nsm_rx_dropped_delta = i64 (nm_RXDroppedDelta m), nsm_tx_dropped_delta = i64 (nm_TXDroppedDelta m)\<rparr>"

definition gpuSample :: "postgres \<Rightarrow> Time \<Rightarrow> string \<Rightarrow> activeGPU \<Rightarrow> GPUMetrics \<Rightarrow> gpu_sample" where
  "gpuSample pg bucketAt nodeID g m =
     \<lparr>gsm_bucket_at = bucketAt, gsm_node_id = nodeID, gsm_gpu_id = ag_ID g,
      gsm_utilization_percent = pg_real pg (gm_UtilizationPercent m),
      gsm_memory_total_bytes = ag_MemoryTotalBytes g, gsm_memory_used_bytes = i64 (gm_MemoryUsedBytes m)\<rparr>"

definition temperatureRow :: "postgres \<Rightarrow> string \<Rightarrow> Time \<Rightarrow> Time \<Rightarrow> Time \<Rightarrow> TemperatureMetrics \<Rightarrow> temperature_row" where
  "temperatureRow pg nodeID bucketAt collectedAt receivedAt m =
     \<lparr>tr_node_id = nodeID, tr_sensor_key = tm_Key m, tr_component = tm_Component m, tr_label = tm_Label m,
      tr_bucket_at = bucketAt, tr_collected_at = collectedAt, tr_received_at = receivedAt,
      tr_temperature_celsius = pg_real pg (tm_TemperatureCelsius m),
      tr_high_celsius = map_option (pg_real pg) (tm_HighCelsius m),
      tr_critical_celsius = map_option (pg_real pg) (tm_CriticalCelsius m)\<rparr>"

definition storageHealthRow ::
  "postgres \<Rightarrow> string \<Rightarrow> Time \<Rightarrow> Time \<Rightarrow> Time \<Rightarrow> string \<Rightarrow> StorageHealth \<Rightarrow> storage_health_row" where
  "storageHealthRow pg nodeID bucketAt collectedAt receivedAt blockDeviceID m =
     \<lparr>sr_node_id = nodeID, sr_block_device_id = blockDeviceID, sr_bucket_at = bucketAt,
      sr_collected_at = collectedAt, sr_received_at = receivedAt,
      sr_smart_available = sh_SMARTAvailable m, sr_smart_enabled = sh_SMARTEnabled m,
      sr_smart_status = sh_SMARTStatus m, sr_risk_level = sh_RiskLevel m,
      sr_risk_reasons = nonNilStrings (sh_RiskReasons m),
      sr_temperature_celsius = map_option (pg_real pg) (sh_TemperatureCelsius m),
      sr_power_on_hours = nullableI64 (sh_PowerOnHours m), sr_error_count = nullableI64 (sh_ErrorCount m),
      sr_read_error_rate_normalized = nullableI64 (sh_ReadErrorRateNormalized m),
      sr_read_error_rate_raw = nullableI64 (sh_ReadErrorRateRaw m),
      sr_reallocated_sectors = nullableI64 (sh_ReallocatedSectors m),
      sr_pending_sectors = nullableI64 (sh_PendingSectors m),
      sr_uncorrectable_sectors = nullableI64 (sh_UncorrectableSectors m),
      sr_percentage_used = map_option (pg_real pg) (sh_PercentageUsed m)\<rparr>"

section \<open>The current snapshots\<close>

definition currentSnapshotCanBeReplaced :: "string \<Rightarrow> (database \<Rightarrow> bool) \<Rightarrow> bool tx" where
  "currentSnapshotCanBeReplaced what query = tx_exec what [] (\<lambda>d. (query d, d))"

definition temperatureSnapshotFreshness :: "string \<Rightarrow> Time \<Rightarrow> database \<Rightarrow> bool" where
  "temperatureSnapshotFreshness nodeID bucketAt d \<longleftrightarrow>
     \<not> list_ex (\<lambda>r. tr_node_id r = nodeID \<and> tr_bucket_at r > bucketAt) (db_temperatures d)"

definition storageHealthSnapshotFreshness :: "string \<Rightarrow> Time \<Rightarrow> database \<Rightarrow> bool" where
  "storageHealthSnapshotFreshness nodeID bucketAt d \<longleftrightarrow>
     \<not> list_ex (\<lambda>r. sr_node_id r = nodeID \<and> sr_bucket_at r > bucketAt) (db_storage_health d)"

definition replaceTemperatureMetrics ::
  "postgres \<Rightarrow> string \<Rightarrow> Time \<Rightarrow> Time \<Rightarrow> Time \<Rightarrow> TemperatureMetrics list \<Rightarrow> unit tx" where
  "replaceTemperatureMetrics pg nodeID bucketAt collectedAt receivedAt metrics =
     tx_bind (currentSnapshotCanBeReplaced ''check temperature metric freshness''
                (temperatureSnapshotFreshness nodeID bucketAt)) (\<lambda>replace.
     if \<not> replace then tx_return ()
     else tx_then (delete_samples temperature_metrics ''replace temperature metrics'' (\<lambda>r. tr_node_id r = nodeID))
       (tx_for metrics (\<lambda>metric.
          insert_sample temperature_metrics ''insert temperature metric'' (tm_Key metric)
            (temperatureRow pg nodeID bucketAt collectedAt receivedAt metric))))"

definition replaceStorageHealthMetrics ::
  "postgres \<Rightarrow> string \<Rightarrow> Time \<Rightarrow> Time \<Rightarrow> Time \<Rightarrow> (string \<rightharpoonup> string) \<Rightarrow> StorageHealth list \<Rightarrow> unit tx" where
  "replaceStorageHealthMetrics pg nodeID bucketAt collectedAt receivedAt blockDeviceIDs metrics =
     tx_bind (currentSnapshotCanBeReplaced ''check storage health metric freshness''
                (storageHealthSnapshotFreshness nodeID bucketAt)) (\<lambda>replace.
     if \<not> replace then tx_return ()
     else tx_then (delete_samples storage_health_metrics ''replace storage health metrics'' (\<lambda>r. sr_node_id r = nodeID))
       (tx_for metrics (\<lambda>metric.
          case blockDeviceIDs (sh_BlockDeviceKey metric) of
            None \<Rightarrow> tx_fail (ErrInvalidResource ''block device'' (sh_BlockDeviceKey metric))
          | Some blockDeviceID \<Rightarrow>
              insert_sample storage_health_metrics ''insert storage health metric'' (sh_BlockDeviceKey metric)
                (storageHealthRow pg nodeID bucketAt collectedAt receivedAt blockDeviceID metric))))"

section \<open>The transaction\<close>

definition writeMetrics :: "postgres \<Rightarrow> Time \<Rightarrow> string \<Rightarrow> Report \<Rightarrow>
    (string \<rightharpoonup> string) \<Rightarrow> (string \<rightharpoonup> string) \<Rightarrow> (string \<rightharpoonup> activeGPU) \<Rightarrow> (string \<rightharpoonup> string) \<Rightarrow> unit tx" where
  "writeMetrics pg receivedAt nodeID payload filesystemIDs interfaceIDs gpuIDs blockDeviceIDs =
     (let bucketAt = Truncate (r_CollectedAt payload) Minute; metrics = r_Metrics payload in
      tx_then (tx_exec ''upsert node sample'' [] (\<lambda>d.
        ((), upsertNodeSample (nodeSample pg bucketAt nodeID receivedAt payload) d)))
      (tx_then (delete_samples filesystem_samples ''replace filesystem samples''
         (\<lambda>r. fsm_bucket_at r = bucketAt \<and> fsm_node_id r = nodeID))
      (tx_then (delete_samples network_samples ''replace network samples''
         (\<lambda>r. nsm_bucket_at r = bucketAt \<and> nsm_node_id r = nodeID))
      (tx_then (delete_samples gpu_samples ''replace GPU samples''
         (\<lambda>r. gsm_bucket_at r = bucketAt \<and> gsm_node_id r = nodeID))
      (tx_then (tx_for (m_Filesystems metrics) (\<lambda>metric.
         case filesystemIDs (fm_FilesystemKey metric) of
           None \<Rightarrow> tx_fail (ErrInvalidResource ''filesystem'' (fm_FilesystemKey metric))
         | Some filesystemID \<Rightarrow>
             insert_sample filesystem_samples ''insert filesystem sample'' (fm_FilesystemKey metric)
               (filesystemSample bucketAt nodeID filesystemID metric)))
      (tx_then (tx_for (m_Network metrics) (\<lambda>metric.
         case interfaceIDs (nm_InterfaceKey metric) of
           None \<Rightarrow> tx_fail (ErrInvalidResource ''network interface'' (nm_InterfaceKey metric))
         | Some interfaceID \<Rightarrow>
             insert_sample network_samples ''insert network sample'' (nm_InterfaceKey metric)
               (networkSample bucketAt nodeID interfaceID metric)))
      (tx_then (tx_for (m_GPUs metrics) (\<lambda>metric.
         case gpuIDs (gm_GPUKey metric) of
           None \<Rightarrow> tx_fail (ErrInvalidResource ''GPU'' (gm_GPUKey metric))
         | Some g \<Rightarrow>
             insert_sample gpu_samples ''insert GPU sample'' (gm_GPUKey metric)
               (gpuSample pg bucketAt nodeID g metric)))
      (tx_then (replaceTemperatureMetrics pg nodeID bucketAt (timestamptz (r_CollectedAt payload)) receivedAt
          (m_Temperatures metrics))
        (replaceStorageHealthMetrics pg nodeID bucketAt (timestamptz (r_CollectedAt payload)) receivedAt
          blockDeviceIDs (m_StorageHealth metrics))))))))))"

definition ingestBody :: "postgres \<Rightarrow> Time \<Rightarrow> NodeAuth \<Rightarrow> Report \<Rightarrow> unit tx" where
  "ingestBody pg receivedAt auth payload =
     (let nodeID = auth_NodeID auth in
      tx_bind (tx_exec ''lock reporting node'' [] (\<lambda>d. (lockReportingNode nodeID d, d))) (\<lambda>locked.
      case locked of
        None \<Rightarrow> tx_fail (DbFailed ''lock reporting node'' [])
      | Some currentFingerprint \<Rightarrow>
          tx_then (tx_exec ''update reporting node'' [] (\<lambda>d. ((), updateReportingNode nodeID payload receivedAt d)))
          (tx_then (tx_exec ''update token usage'' [] (\<lambda>d. ((), updateTokenUsage (auth_TokenID auth) receivedAt d)))
          (tx_then (if currentFingerprint \<noteq> r_InventoryFingerprint payload
                    then syncInventory pg nodeID (r_Inventory payload) receivedAt else tx_return ())
          (tx_bind (activeFilesystemIDs nodeID) (\<lambda>filesystemIDs.
           tx_bind (activeInterfaceIDs nodeID) (\<lambda>interfaceIDs.
           tx_bind (activeGPUIDs nodeID) (\<lambda>gpuIDs.
           tx_bind (activeBlockDeviceIDs nodeID) (\<lambda>blockDeviceIDs.
           writeMetrics pg receivedAt nodeID payload filesystemIDs interfaceIDs gpuIDs blockDeviceIDs)))))))))"

definition Ingest ::
  "postgres \<Rightarrow> (nat \<Rightarrow> bool) \<Rightarrow> Time \<Rightarrow> NodeAuth \<Rightarrow> Report \<Rightarrow> database \<Rightarrow> (store_error + unit) \<times> database" where
  "Ingest pg fault now auth payload d =
     run_tx ''begin report transaction'' ''commit report'' fault
       (ingestBody pg (timestamptz now) auth payload) d"

end
