(* ===== verification/Store_Ingest_Props.thy ===== *)
theory Store_Ingest_Props
  imports Store_Ingest
begin

text \<open>
  What an ingestion does (\<open>Store_Ingest\<close>): the function on the tables that the transaction
  computes, the invariants it keeps, and the properties of the stored inventory, samples and
  snapshots. The sample tables share the interface \<open>sample_table\<close>, interpreted on each of them.
\<close>

section \<open>The interface of a sample table\<close>

text \<open>What the loops over metrics need of a sample table: reading and writing undo each other.\<close>

lemma bind_None_right [simp]: "Option.bind v (\<lambda>_. None) = None"
  by (cases v) simp_all

lemma db_for_lookup:
  "db_for ms (\<lambda>m d. case ids (key m) of None \<Rightarrow> None | Some i \<Rightarrow> g (row i m) d) d =
   (if \<forall>m \<in> set ms. ids (key m) \<noteq> None then db_for (map (\<lambda>m. row (the (ids (key m))) m) ms) g d else None)"
proof (induction ms arbitrary: d)
  case (Cons a ms)
  show ?case
  proof (cases "\<forall>m \<in> set ms. ids (key m) \<noteq> None")
    case True
    then show ?thesis by (cases "ids (key a)") (simp_all add: Cons.IH)
  next
    case False
    then have "db_for ms (\<lambda>m d. case ids (key m) of None \<Rightarrow> None | Some i \<Rightarrow> g (row i m) d) e = None" for e
      using Cons.IH by auto
    with False show ?thesis by (cases "ids (key a)") auto
  qed
qed simp

lemma db_for_map: "db_for (map h xs) g d = db_for xs (\<lambda>x. g (h x)) d"
  by (induction xs arbitrary: d) simp_all

lemma distinct_pair_const: "distinct (map (\<lambda>x. (c, f x)) xs) \<longleftrightarrow> distinct (map f xs)"
  by (induction xs) auto

lemma distinct_map_inj: "inj c \<Longrightarrow> distinct (map c xs) \<longleftrightarrow> distinct xs"
  using inj_on_subset [of c UNIV "set xs"] by (simp add: distinct_map)

text \<open>Every key of the metrics names an active resource, and no two of them name the same one.\<close>

definition resolves :: "(string \<rightharpoonup> 'v) \<Rightarrow> ('v \<Rightarrow> string) \<Rightarrow> string list \<Rightarrow> bool" where
  "resolves ids f keys \<longleftrightarrow> (\<forall>k \<in> set keys. ids k \<noteq> None) \<and> distinct (map (\<lambda>k. f (the (ids k))) keys)"

locale sample_table =
  fixes S :: "('r, 'k) sample_ops"
  assumes get_put [simp]: "so_get S (so_put S t d) = t"
    and put_put [simp]: "so_put S t (so_put S u d) = so_put S t d"
    and put_get [simp]: "so_put S (so_get S d) d = d"
begin

definition insert_db :: "'r \<Rightarrow> database \<Rightarrow> (unit \<times> database) option" where
  "insert_db row d =
     (if so_pk S row \<in> so_pk S ` set (so_get S d) then None else Some ((), so_put S (so_get S d @ [row]) d))"

lemma insert_runs: "tx_runs (insert_sample S what key row) (insert_db row)"
  unfolding insert_sample_def
  by (rule tx_runs_cong, (rule tx_rules)+) (simp add: insert_db_def)

lemma delete_runs:
  "tx_runs (delete_samples S what P) (\<lambda>d. Some ((), so_put S (filter (\<lambda>r. \<not> P r) (so_get S d)) d))"
  unfolding delete_samples_def by (rule tx_runs_exec)

lemma inserts:
  "db_for rows insert_db d =
     (if distinct (map (so_pk S) rows) \<and> so_pk S ` set rows \<inter> so_pk S ` set (so_get S d) = {}
      then Some ((), so_put S (so_get S d @ rows) d) else None)"
  by (induction rows arbitrary: d) (auto simp: insert_db_def)

text \<open>Inserting rows of a group whose old rows were deleted fails only on a repeated key.\<close>

lemma insert_group:
  assumes "\<And>r. r \<in> set rows \<Longrightarrow> P r" and "\<And>r q. so_pk S r = so_pk S q \<Longrightarrow> P r = P q"
    and "\<forall>r \<in> set (so_get S d). \<not> P r"
  shows "db_for rows insert_db d =
     (if distinct (map (so_pk S) rows) then Some ((), so_put S (so_get S d @ rows) d) else None)"
proof -
  have "so_pk S ` set rows \<inter> so_pk S ` set (so_get S d) = {}"
    using assms by blast
  then show ?thesis by (simp add: inserts)
qed

text \<open>The same when the new rows come from metrics whose keys are looked up first.\<close>

lemma insert_lookup:
  assumes "\<And>i m. P (row i m)" and "\<And>r q. so_pk S r = so_pk S q \<Longrightarrow> P r = P q"
    and "\<And>i m. so_pk S (row i m) = c (f i)" and "inj c" and "\<forall>r \<in> set (so_get S d). \<not> P r"
  shows "db_for ms (\<lambda>m d. case ids (key m) of None \<Rightarrow> None | Some i \<Rightarrow> insert_db (row i m) d) d =
     (if resolves ids f (map key ms)
      then Some ((), so_put S (so_get S d @ map (\<lambda>m. row (the (ids (key m))) m) ms) d) else None)"
proof -
  let ?rows = "map (\<lambda>m. row (the (ids (key m))) m) ms"
  have "map (so_pk S) ?rows = map c (map (\<lambda>k. f (the (ids k))) (map key ms))"
    by (simp add: assms(3))
  then have pk: "distinct (map (so_pk S) ?rows) \<longleftrightarrow> distinct (map (\<lambda>k. f (the (ids k))) (map key ms))"
    by (simp only: distinct_map_inj [OF assms(4)])
  have "db_for ?rows insert_db d =
      (if distinct (map (so_pk S) ?rows) then Some ((), so_put S (so_get S d @ ?rows) d) else None)"
  proof (rule insert_group)
    show "P r" if "r \<in> set ?rows" for r using that by (auto simp: assms(1))
  qed (rule assms(2), assumption, rule assms(5))
  then show ?thesis unfolding db_for_lookup pk by (simp add: resolves_def)
qed

end

interpretation fss: sample_table filesystem_samples
  by unfold_locales (simp_all add: filesystem_samples_def)

interpretation nws: sample_table network_samples
  by unfold_locales (simp_all add: network_samples_def)

interpretation gps: sample_table gpu_samples
  by unfold_locales (simp_all add: gpu_samples_def)

interpretation tms: sample_table temperature_metrics
  by unfold_locales (simp_all add: temperature_metrics_def)

interpretation shs: sample_table storage_health_metrics
  by unfold_locales (simp_all add: storage_health_metrics_def)

lemma sample_sel [simp]:
  "so_get filesystem_samples = db_filesystem_samples" "so_put filesystem_samples t d = d\<lparr>db_filesystem_samples := t\<rparr>"
  "so_get network_samples = db_network_samples"
  "so_get gpu_samples = db_gpu_samples"
  "so_get temperature_metrics = db_temperatures" "so_get storage_health_metrics = db_storage_health"
  by (simp_all add: filesystem_samples_def network_samples_def gpu_samples_def temperature_metrics_def
      storage_health_metrics_def)

lemma sample_pk [simp]:
  "so_pk filesystem_samples r1 = (fsm_bucket_at r1, fsm_node_id r1, fsm_filesystem_id r1)"
  "so_pk network_samples r2 = (nsm_bucket_at r2, nsm_node_id r2, nsm_interface_id r2)"
  "so_pk gpu_samples r3 = (gsm_bucket_at r3, gsm_node_id r3, gsm_gpu_id r3)"
  "so_pk temperature_metrics r4 = (tr_node_id r4, tr_sensor_key r4)"
  "so_pk storage_health_metrics r5 = (sr_node_id r5, sr_block_device_id r5)"
  by (simp_all add: filesystem_samples_def network_samples_def gpu_samples_def temperature_metrics_def
      storage_health_metrics_def)

lemma row_keys [simp]:
  "fsm_bucket_at (filesystemSample b n i m1) = b" "fsm_node_id (filesystemSample b n i m1) = n"
  "fsm_filesystem_id (filesystemSample b n i m1) = i"
  "nsm_bucket_at (networkSample b n i m2) = b" "nsm_node_id (networkSample b n i m2) = n"
  "nsm_interface_id (networkSample b n i m2) = i"
  "gsm_bucket_at (gpuSample pg b n g m3) = b" "gsm_node_id (gpuSample pg b n g m3) = n"
  "gsm_gpu_id (gpuSample pg b n g m3) = ag_ID g"
  "tr_node_id (temperatureRow pg n b c r m4) = n" "tr_sensor_key (temperatureRow pg n b c r m4) = tm_Key m4"
  "tr_bucket_at (temperatureRow pg n b c r m4) = b"
  "sr_node_id (storageHealthRow pg n b c r i m5) = n" "sr_block_device_id (storageHealthRow pg n b c r i m5) = i"
  "sr_bucket_at (storageHealthRow pg n b c r i m5) = b"
  by (simp_all add: filesystemSample_def networkSample_def gpuSample_def temperatureRow_def storageHealthRow_def)

lemma sample_put [simp]:
  "so_put network_samples t1 d = d\<lparr>db_network_samples := t1\<rparr>"
  "so_put gpu_samples t2 d = d\<lparr>db_gpu_samples := t2\<rparr>"
  "so_put temperature_metrics t3 d = d\<lparr>db_temperatures := t3\<rparr>"
  "so_put storage_health_metrics t4 d = d\<lparr>db_storage_health := t4\<rparr>"
  by (simp_all add: network_samples_def gpu_samples_def temperature_metrics_def storage_health_metrics_def)

lemmas sample_runs = fss.insert_runs nws.insert_runs gps.insert_runs tms.insert_runs shs.insert_runs
  fss.delete_runs nws.delete_runs gps.delete_runs tms.delete_runs shs.delete_runs

section \<open>The function a report computes\<close>


definition temperatures_db :: "postgres \<Rightarrow> string \<Rightarrow> Time \<Rightarrow> Time \<Rightarrow> Time \<Rightarrow> TemperatureMetrics list \<Rightarrow> database \<Rightarrow> database" where
  "temperatures_db pg node bucketAt collectedAt receivedAt ms d =
     (if temperatureSnapshotFreshness node bucketAt d
      then d\<lparr>db_temperatures := filter (\<lambda>r. tr_node_id r \<noteq> node) (db_temperatures d) @
             map (temperatureRow pg node bucketAt collectedAt receivedAt) ms\<rparr>
      else d)"

lemma temperature_pk:
  "distinct (map (so_pk temperature_metrics) (map (temperatureRow pg node b c r) ms)) \<longleftrightarrow> distinct (map tm_Key ms)"
  by (simp add: comp_def distinct_pair_const)

lemma temperature_inserts:
  assumes "\<forall>r \<in> set (db_temperatures d). tr_node_id r \<noteq> node"
  shows "db_for ms (\<lambda>x. tms.insert_db (temperatureRow pg node b c r x)) d =
   (if distinct (map tm_Key ms)
    then Some ((), d\<lparr>db_temperatures := db_temperatures d @ map (temperatureRow pg node b c r) ms\<rparr>) else None)"
proof -
  have "db_for (map (temperatureRow pg node b c r) ms) tms.insert_db d =
    (if distinct (map (so_pk temperature_metrics) (map (temperatureRow pg node b c r) ms))
     then Some ((), so_put temperature_metrics (so_get temperature_metrics d @ map (temperatureRow pg node b c r) ms) d)
     else None)"
    by (rule tms.insert_group [where P = "\<lambda>r. tr_node_id r = node"]) (use assms in auto)
  then show ?thesis unfolding temperature_pk db_for_map sample_sel sample_put .
qed

lemma replaceTemperatureMetrics_runs:
  "tx_runs (replaceTemperatureMetrics pg node bucketAt collectedAt receivedAt ms)
     (\<lambda>d. if temperatureSnapshotFreshness node bucketAt d \<and> \<not> distinct (map tm_Key ms) then None
          else Some ((), temperatures_db pg node bucketAt collectedAt receivedAt ms d))"
  unfolding replaceTemperatureMetrics_def currentSnapshotCanBeReplaced_def
  by (rule tx_runs_cong, (rule tx_rules sample_runs)+) (simp add: temperatures_db_def temperature_inserts)

definition storage_health_db ::
  "postgres \<Rightarrow> string \<Rightarrow> Time \<Rightarrow> Time \<Rightarrow> Time \<Rightarrow> (string \<rightharpoonup> string) \<Rightarrow> StorageHealth list \<Rightarrow> database \<Rightarrow> database" where
  "storage_health_db pg node bucketAt collectedAt receivedAt ids ms d =
     (if storageHealthSnapshotFreshness node bucketAt d
      then d\<lparr>db_storage_health := filter (\<lambda>r. sr_node_id r \<noteq> node) (db_storage_health d) @
             map (\<lambda>m. storageHealthRow pg node bucketAt collectedAt receivedAt (the (ids (sh_BlockDeviceKey m))) m) ms\<rparr>
      else d)"

lemma storage_inserts:
  assumes "\<forall>r \<in> set (db_storage_health d). \<not> (sr_node_id r = node)"
  shows "db_for ms (\<lambda>m d. case ids (sh_BlockDeviceKey m) of None \<Rightarrow> None | Some i \<Rightarrow> shs.insert_db (storageHealthRow pg node b c r' i m) d) d =
   (if resolves ids id (map sh_BlockDeviceKey ms)
    then Some ((), d\<lparr>db_storage_health := db_storage_health d @ map (\<lambda>m. storageHealthRow pg node b c r' (the (ids (sh_BlockDeviceKey m))) m) ms\<rparr>) else None)"
  by (rule shs.insert_lookup [where P = "\<lambda>r. sr_node_id r = node" and c = "\<lambda>i. (node, i)", unfolded sample_sel sample_put])
    (use assms in \<open>auto simp: inj_def\<close>)

lemma replaceStorageHealthMetrics_runs:
  "tx_runs (replaceStorageHealthMetrics pg node bucketAt collectedAt receivedAt ids ms)
     (\<lambda>d. if storageHealthSnapshotFreshness node bucketAt d \<and> \<not> resolves ids id (map sh_BlockDeviceKey ms) then None
          else Some ((), storage_health_db pg node bucketAt collectedAt receivedAt ids ms d))"
  unfolding replaceStorageHealthMetrics_def currentSnapshotCanBeReplaced_def
  by (rule tx_runs_cong, (rule tx_rules sample_runs)+) (simp add: storage_health_db_def storage_inserts)

lemma filesystem_inserts:
  assumes "\<forall>r \<in> set (db_filesystem_samples d). \<not> (fsm_bucket_at r = b \<and> fsm_node_id r = node)"
  shows "db_for ms (\<lambda>m d. case ids (fm_FilesystemKey m) of None \<Rightarrow> None | Some i \<Rightarrow> fss.insert_db (filesystemSample b node i m) d) d =
   (if resolves ids id (map fm_FilesystemKey ms)
    then Some ((), d\<lparr>db_filesystem_samples := db_filesystem_samples d @ map (\<lambda>m. filesystemSample b node (the (ids (fm_FilesystemKey m))) m) ms\<rparr>) else None)"
  by (rule fss.insert_lookup [where P = "\<lambda>r. fsm_bucket_at r = b \<and> fsm_node_id r = node" and c = "\<lambda>i. (b, node, i)", unfolded sample_sel sample_put])
    (use assms in \<open>auto simp: inj_def\<close>)

lemma network_inserts:
  assumes "\<forall>r \<in> set (db_network_samples d). \<not> (nsm_bucket_at r = b \<and> nsm_node_id r = node)"
  shows "db_for ms (\<lambda>m d. case ids (nm_InterfaceKey m) of None \<Rightarrow> None | Some i \<Rightarrow> nws.insert_db (networkSample b node i m) d) d =
   (if resolves ids id (map nm_InterfaceKey ms)
    then Some ((), d\<lparr>db_network_samples := db_network_samples d @ map (\<lambda>m. networkSample b node (the (ids (nm_InterfaceKey m))) m) ms\<rparr>) else None)"
  by (rule nws.insert_lookup [where P = "\<lambda>r. nsm_bucket_at r = b \<and> nsm_node_id r = node" and c = "\<lambda>i. (b, node, i)", unfolded sample_sel sample_put])
    (use assms in \<open>auto simp: inj_def\<close>)

lemma gpu_inserts:
  assumes "\<forall>r \<in> set (db_gpu_samples d). \<not> (gsm_bucket_at r = b \<and> gsm_node_id r = node)"
  shows "db_for ms (\<lambda>m d. case ids (gm_GPUKey m) of None \<Rightarrow> None | Some i \<Rightarrow> gps.insert_db (gpuSample pg b node i m) d) d =
   (if resolves ids ag_ID (map gm_GPUKey ms)
    then Some ((), d\<lparr>db_gpu_samples := db_gpu_samples d @ map (\<lambda>m. gpuSample pg b node (the (ids (gm_GPUKey m))) m) ms\<rparr>) else None)"
  by (rule gps.insert_lookup [where P = "\<lambda>r. gsm_bucket_at r = b \<and> gsm_node_id r = node" and c = "\<lambda>i. (b, node, i)", unfolded sample_sel sample_put])
    (use assms in \<open>auto simp: inj_def\<close>)


definition metrics_resolve :: "string \<Rightarrow> Report \<Rightarrow>
    (string \<rightharpoonup> string) \<Rightarrow> (string \<rightharpoonup> string) \<Rightarrow> (string \<rightharpoonup> activeGPU) \<Rightarrow> (string \<rightharpoonup> string) \<Rightarrow> database \<Rightarrow> bool" where
  "metrics_resolve node payload filesystemIDs interfaceIDs gpuIDs blockDeviceIDs d \<longleftrightarrow>
     (let b = Truncate (r_CollectedAt payload) Minute; ms = r_Metrics payload in
      resolves filesystemIDs id (map fm_FilesystemKey (m_Filesystems ms)) \<and>
      resolves interfaceIDs id (map nm_InterfaceKey (m_Network ms)) \<and>
      resolves gpuIDs ag_ID (map gm_GPUKey (m_GPUs ms)) \<and>
      (temperatureSnapshotFreshness node b d \<longrightarrow> distinct (map tm_Key (m_Temperatures ms))) \<and>
      (storageHealthSnapshotFreshness node b d \<longrightarrow>
         resolves blockDeviceIDs id (map sh_BlockDeviceKey (m_StorageHealth ms))))"

definition samples_db :: "postgres \<Rightarrow> Time \<Rightarrow> string \<Rightarrow> Report \<Rightarrow>
    (string \<rightharpoonup> string) \<Rightarrow> (string \<rightharpoonup> string) \<Rightarrow> (string \<rightharpoonup> activeGPU) \<Rightarrow> database \<Rightarrow> database" where
  "samples_db pg receivedAt node payload filesystemIDs interfaceIDs gpuIDs d =
     (let b = Truncate (r_CollectedAt payload) Minute; ms = r_Metrics payload in
      (upsertNodeSample (nodeSample pg b node receivedAt payload) d)
       \<lparr>db_filesystem_samples :=
          filter (\<lambda>r. \<not> (fsm_bucket_at r = b \<and> fsm_node_id r = node)) (db_filesystem_samples d) @
          map (\<lambda>m. filesystemSample b node (the (filesystemIDs (fm_FilesystemKey m))) m) (m_Filesystems ms),
        db_network_samples :=
          filter (\<lambda>r. \<not> (nsm_bucket_at r = b \<and> nsm_node_id r = node)) (db_network_samples d) @
          map (\<lambda>m. networkSample b node (the (interfaceIDs (nm_InterfaceKey m))) m) (m_Network ms),
        db_gpu_samples :=
          filter (\<lambda>r. \<not> (gsm_bucket_at r = b \<and> gsm_node_id r = node)) (db_gpu_samples d) @
          map (\<lambda>m. gpuSample pg b node (the (gpuIDs (gm_GPUKey m))) m) (m_GPUs ms)\<rparr>)"

definition metrics_db :: "postgres \<Rightarrow> Time \<Rightarrow> string \<Rightarrow> Report \<Rightarrow>
    (string \<rightharpoonup> string) \<Rightarrow> (string \<rightharpoonup> string) \<Rightarrow> (string \<rightharpoonup> activeGPU) \<Rightarrow> (string \<rightharpoonup> string) \<Rightarrow> database \<Rightarrow> database" where
  "metrics_db pg receivedAt node payload filesystemIDs interfaceIDs gpuIDs blockDeviceIDs d =
     (let b = Truncate (r_CollectedAt payload) Minute; c = timestamptz (r_CollectedAt payload); ms = r_Metrics payload in
      storage_health_db pg node b c receivedAt blockDeviceIDs (m_StorageHealth ms)
        (temperatures_db pg node b c receivedAt (m_Temperatures ms)
          (samples_db pg receivedAt node payload filesystemIDs interfaceIDs gpuIDs d)))"

lemma upsertNodeSample_sel [simp]:
  "db_filesystem_samples (upsertNodeSample row d) = db_filesystem_samples d"
  "db_network_samples (upsertNodeSample row d) = db_network_samples d"
  "db_gpu_samples (upsertNodeSample row d) = db_gpu_samples d"
  "db_temperatures (upsertNodeSample row d) = db_temperatures d"
  "db_storage_health (upsertNodeSample row d) = db_storage_health d"
  by (simp_all add: upsertNodeSample_def Let_def)

lemma freshness_cong:
  "db_temperatures d' = db_temperatures d \<Longrightarrow> temperatureSnapshotFreshness n b d' = temperatureSnapshotFreshness n b d"
  "db_storage_health d' = db_storage_health d \<Longrightarrow> storageHealthSnapshotFreshness n b d' = storageHealthSnapshotFreshness n b d"
  by (simp_all add: temperatureSnapshotFreshness_def storageHealthSnapshotFreshness_def)

lemma temperatures_db_storage [simp]: "db_storage_health (temperatures_db pg n b c r ms d) = db_storage_health d"
  by (simp add: temperatures_db_def)

lemma writeMetrics_runs:
  "tx_runs (writeMetrics pg receivedAt node payload filesystemIDs interfaceIDs gpuIDs blockDeviceIDs)
     (\<lambda>d. if metrics_resolve node payload filesystemIDs interfaceIDs gpuIDs blockDeviceIDs d
          then Some ((), metrics_db pg receivedAt node payload filesystemIDs interfaceIDs gpuIDs blockDeviceIDs d)
          else None)"
  unfolding writeMetrics_def Let_def
  by (rule tx_runs_cong,
      (rule tx_rules sample_runs replaceTemperatureMetrics_runs replaceStorageHealthMetrics_runs)+)
    (simp add: filesystem_inserts network_inserts gpu_inserts metrics_resolve_def metrics_db_def samples_db_def
      Let_def temperatureSnapshotFreshness_def storageHealthSnapshotFreshness_def)

section \<open>The inventory a node has\<close>

definition keyed :: "('i, 'd) table_ops \<Rightarrow> 'i list \<Rightarrow> (string \<times> 'd) list" where
  "keyed T items = map (\<lambda>i. (to_key T i, to_data T i)) items"

definition sync_one :: "('i, 'd) table_ops \<Rightarrow> postgres \<Rightarrow> string \<Rightarrow> 'i list \<Rightarrow> Time \<Rightarrow> database \<Rightarrow> database" where
  "sync_one T pg node items seenAt d =
     resource_table.lift_table T (sync_table (pg_gen pg) node (keyed T items) seenAt) d"

lemma sync_functions_run [tx_rules]:
  "tx_runs (syncCPUPackages pg node c seenAt) (\<lambda>d. Some ((), sync_one (cpu_table pg) pg node c seenAt d))"
  "tx_runs (syncMemoryModules pg node m seenAt) (\<lambda>d. Some ((), sync_one memory_table pg node m seenAt d))"
  "tx_runs (syncBlockDevices pg node b seenAt) (\<lambda>d. Some ((), sync_one block_table pg node b seenAt d))"
  "tx_runs (syncFilesystems pg node f seenAt) (\<lambda>d. Some ((), sync_one filesystem_table pg node f seenAt d))"
  "tx_runs (syncGPUs pg node g seenAt) (\<lambda>d. Some ((), sync_one gpu_table pg node g seenAt d))"
  unfolding syncCPUPackages_def syncMemoryModules_def syncBlockDevices_def syncFilesystems_def syncGPUs_def
    sync_one_def keyed_def
  by (rule cpu.sync_runs mem.sync_runs blk.sync_runs fsy.sync_runs gpu.sync_runs)+

text \<open>Each synchronisation rewrites its own table and the identifier supply.\<close>

lemma sync_one_eq:
  "sync_one (cpu_table pg) pg node c seenAt d =
     (let r = sync_table (pg_gen pg) node (keyed (cpu_table pg) c) seenAt (db_cpu_packages d, db_next d)
      in d\<lparr>db_cpu_packages := fst r, db_next := snd r\<rparr>)"
  "sync_one memory_table pg node m seenAt d =
     (let r = sync_table (pg_gen pg) node (keyed memory_table m) seenAt (db_memory_modules d, db_next d)
      in d\<lparr>db_memory_modules := fst r, db_next := snd r\<rparr>)"
  "sync_one block_table pg node b seenAt d =
     (let r = sync_table (pg_gen pg) node (keyed block_table b) seenAt (db_block_devices d, db_next d)
      in d\<lparr>db_block_devices := fst r, db_next := snd r\<rparr>)"
  "sync_one filesystem_table pg node f seenAt d =
     (let r = sync_table (pg_gen pg) node (keyed filesystem_table f) seenAt (db_filesystems d, db_next d)
      in d\<lparr>db_filesystems := fst r, db_next := snd r\<rparr>)"
  "sync_one gpu_table pg node g seenAt d =
     (let r = sync_table (pg_gen pg) node (keyed gpu_table g) seenAt (db_gpu_devices d, db_next d)
      in d\<lparr>db_gpu_devices := fst r, db_next := snd r\<rparr>)"
  unfolding sync_one_def cpu.lift_table_def mem.lift_table_def blk.lift_table_def fsy.lift_table_def
    gpu.lift_table_def
  by (simp_all add: Let_def cpu_table_def memory_table_def block_table_def filesystem_table_def gpu_table_def
      split: prod.splits)

definition sync_inventory_db :: "postgres \<Rightarrow> string \<Rightarrow> Inventory \<Rightarrow> Time \<Rightarrow> database \<Rightarrow> database" where
  "sync_inventory_db pg node iv seenAt d =
     sync_one gpu_table pg node (inv_GPUs iv) seenAt
       (sync_network_db pg node (inv_NetworkInterfaces iv) seenAt
         (sync_one filesystem_table pg node (inv_Filesystems iv) seenAt
           (sync_one block_table pg node (inv_BlockDevices iv) seenAt
             (sync_one memory_table pg node (inv_MemoryModules iv) seenAt
               (sync_one (cpu_table pg) pg node (inv_CPUPackages iv) seenAt d)))))"

lemma syncInventory_runs [tx_rules]:
  "tx_runs (syncInventory pg node iv seenAt) (\<lambda>d. Some ((), sync_inventory_db pg node iv seenAt d))"
  unfolding syncInventory_def
  by (rule tx_runs_cong, (rule tx_rules)+) (simp add: sync_inventory_db_def)

text \<open>The abstract inventory of a node: for each kind of resource, the columns by key.\<close>

record abs_inventory =
  ab_cpus :: "string \<rightharpoonup> cpu_columns"
  ab_memory :: "string \<rightharpoonup> memory_columns"
  ab_block :: "string \<rightharpoonup> block_columns"
  ab_filesystems :: "string \<rightharpoonup> filesystem_columns"
  ab_interfaces :: "string \<rightharpoonup> interface_columns"
  ab_gpus :: "string \<rightharpoonup> gpu_columns"

definition stored_inventory :: "database \<Rightarrow> string \<Rightarrow> abs_inventory" where
  "stored_inventory d node =
     \<lparr>ab_cpus = abs_table (db_cpu_packages d) node, ab_memory = abs_table (db_memory_modules d) node,
      ab_block = abs_table (db_block_devices d) node, ab_filesystems = abs_table (db_filesystems d) node,
      ab_interfaces = abs_table (db_network_interfaces d) node, ab_gpus = abs_table (db_gpu_devices d) node\<rparr>"

definition reported_inventory :: "postgres \<Rightarrow> Inventory \<Rightarrow> abs_inventory" where
  "reported_inventory pg iv =
     \<lparr>ab_cpus = map_of (keyed (cpu_table pg) (inv_CPUPackages iv)),
      ab_memory = map_of (keyed memory_table (inv_MemoryModules iv)),
      ab_block = map_of (keyed block_table (inv_BlockDevices iv)),
      ab_filesystems = map_of (keyed filesystem_table (inv_Filesystems iv)),
      ab_interfaces = map_of (keyed interface_table (inv_NetworkInterfaces iv)),
      ab_gpus = map_of (keyed gpu_table (inv_GPUs iv))\<rparr>"

text \<open>Well-formedness of the six inventory tables.\<close>

definition inventory_wf :: "postgres \<Rightarrow> database \<Rightarrow> bool" where
  "inventory_wf pg d \<longleftrightarrow>
     table_wf (pg_gen pg) (db_next d) (db_cpu_packages d) \<and>
     table_wf (pg_gen pg) (db_next d) (db_memory_modules d) \<and>
     table_wf (pg_gen pg) (db_next d) (db_block_devices d) \<and>
     table_wf (pg_gen pg) (db_next d) (db_filesystems d) \<and>
     table_wf (pg_gen pg) (db_next d) (db_network_interfaces d) \<and>
     table_wf (pg_gen pg) (db_next d) (db_gpu_devices d)"

lemma sync_table_next: "snd tn \<le> snd (sync_table gen node items seenAt tn)"
proof -
  have "snd tn \<le> snd (fold (upsert_row gen node seenAt) items tn)"
  proof (induction items arbitrary: tn)
    case (Cons i items)
    show ?case using order_trans [OF upsert_row_next Cons.IH] by simp
  qed simp
  then show ?thesis by (auto simp: sync_table_def split: prod.splits)
qed

lemma table_wf_sync':
  assumes "inj gen" "table_wf gen n t"
  shows "table_wf gen (snd (sync_table gen node items seenAt (t, n))) (fst (sync_table gen node items seenAt (t, n)))"
  using table_wf_sync [OF assms(1), of "(t, n)"] assms(2) by (metis fst_conv prod.collapse snd_conv)

lemma inventory_wf_sync_one:
  assumes "inj (pg_gen pg)" "inventory_wf pg d"
  shows "inventory_wf pg (sync_one (cpu_table pg) pg node c seenAt d)"
    and "inventory_wf pg (sync_one memory_table pg node m seenAt d)"
    and "inventory_wf pg (sync_one block_table pg node b seenAt d)"
    and "inventory_wf pg (sync_one filesystem_table pg node f seenAt d)"
    and "inventory_wf pg (sync_one gpu_table pg node g seenAt d)"
  unfolding sync_one_eq Let_def
  using assms(2) sync_table_next [where tn = "(t, db_next d)" for t]
  by (auto simp: inventory_wf_def intro: table_wf_sync' [OF assms(1)] elim!: table_wf_mono)

lemma net_frame_sel:
  assumes "net_frame d d'"
  shows "db_nodes d' = db_nodes d" "db_tokens d' = db_tokens d" "db_cpu_packages d' = db_cpu_packages d"
    "db_memory_modules d' = db_memory_modules d" "db_block_devices d' = db_block_devices d"
    "db_filesystems d' = db_filesystems d" "db_gpu_devices d' = db_gpu_devices d"
    "db_node_samples d' = db_node_samples d" "db_filesystem_samples d' = db_filesystem_samples d"
    "db_network_samples d' = db_network_samples d" "db_gpu_samples d' = db_gpu_samples d"
    "db_temperatures d' = db_temperatures d" "db_storage_health d' = db_storage_health d"
    "db_next d \<le> db_next d'"
  using assms unfolding net_frame_def by (cases d; cases d'; simp)+

lemmas sync_network_sel = net_frame_sel [OF sync_network_frame]

lemma inventory_wf_sync_network:
  assumes "inj (pg_gen pg)" "inventory_wf pg d"
  shows "inventory_wf pg (sync_network_db pg node items seenAt d)"
  using assms(2) sync_network_wf [OF assms(1), of d node items seenAt]
    sync_network_sel [OF assms(1), where d = d and node = node and items = items and seenAt = seenAt]
  unfolding inventory_wf_def by (auto elim!: table_wf_mono)

lemma inventory_wf_sync:
  assumes "inj (pg_gen pg)" "inventory_wf pg d"
  shows "inventory_wf pg (sync_inventory_db pg node iv seenAt d)"
  unfolding sync_inventory_db_def
  by (intro inventory_wf_sync_one inventory_wf_sync_network assms)

lemma stored_after_sync:
  assumes "inj (pg_gen pg)" "distinct_keys iv"
  shows "stored_inventory (sync_inventory_db pg node iv seenAt d) m =
    (if m = node then reported_inventory pg iv else stored_inventory d m)"
proof -
  have keys: "distinct (map fst (keyed (cpu_table pg) (inv_CPUPackages iv)))"
    "distinct (map fst (keyed memory_table (inv_MemoryModules iv)))"
    "distinct (map fst (keyed block_table (inv_BlockDevices iv)))"
    "distinct (map fst (keyed filesystem_table (inv_Filesystems iv)))"
    "distinct (map fst (keyed gpu_table (inv_GPUs iv)))"
    using assms(2) by (simp_all add: distinct_keys_def keyed_def comp_def cpu_table_def memory_table_def
        block_table_def filesystem_table_def gpu_table_def)
  have net: "distinct (map ni_Key (inv_NetworkInterfaces iv))"
    using assms(2) by (simp add: distinct_keys_def)
  show ?thesis
    by (simp add: stored_inventory_def reported_inventory_def sync_inventory_db_def sync_one_eq Let_def
        sync_network_sel [OF assms(1)] abs_table_sync [OF keys(1)] abs_table_sync [OF keys(2)]
        abs_table_sync [OF keys(3)] abs_table_sync [OF keys(4)] abs_table_sync [OF keys(5)]
        sync_network_abs [OF net] keyed_def [of interface_table])
qed

section \<open>The function of the whole transaction\<close>

definition prepared_db :: "postgres \<Rightarrow> Time \<Rightarrow> NodeAuth \<Rightarrow> Report \<Rightarrow> string \<Rightarrow> database \<Rightarrow> database" where
  "prepared_db pg receivedAt auth payload fp d =
     (let d1 = updateTokenUsage (auth_TokenID auth) receivedAt
                 (updateReportingNode (auth_NodeID auth) payload receivedAt d)
      in if fp \<noteq> r_InventoryFingerprint payload
         then sync_inventory_db pg (auth_NodeID auth) (r_Inventory payload) receivedAt d1 else d1)"

definition gpu_ids :: "string \<Rightarrow> database \<Rightarrow> string \<rightharpoonup> activeGPU" where
  "gpu_ids node d = active_map (\<lambda>r. \<lparr>ag_ID = rs_id r, ag_MemoryTotalBytes = gc_memory_total_bytes (rs_data r)\<rparr>)
     node (db_gpu_devices d)"

definition resolved_in :: "string \<Rightarrow> Report \<Rightarrow> database \<Rightarrow> bool" where
  "resolved_in node payload d \<longleftrightarrow>
     metrics_resolve node payload (active_map rs_id node (db_filesystems d))
       (active_map rs_id node (db_network_interfaces d)) (gpu_ids node d) (active_map rs_id node (db_block_devices d)) d"

definition written_db :: "postgres \<Rightarrow> Time \<Rightarrow> string \<Rightarrow> Report \<Rightarrow> database \<Rightarrow> database" where
  "written_db pg receivedAt node payload d =
     metrics_db pg receivedAt node payload (active_map rs_id node (db_filesystems d))
       (active_map rs_id node (db_network_interfaces d)) (gpu_ids node d) (active_map rs_id node (db_block_devices d)) d"

definition ingest_db :: "postgres \<Rightarrow> Time \<Rightarrow> NodeAuth \<Rightarrow> Report \<Rightarrow> database \<Rightarrow> (unit \<times> database) option" where
  "ingest_db pg receivedAt auth payload d =
     (case lockReportingNode (auth_NodeID auth) d of
        None \<Rightarrow> None
      | Some fp \<Rightarrow>
          (let d' = prepared_db pg receivedAt auth payload fp d in
           if resolved_in (auth_NodeID auth) payload d'
           then Some ((), written_db pg receivedAt (auth_NodeID auth) payload d') else None))"

lemma ingestBody_runs: "tx_runs (ingestBody pg receivedAt auth payload) (ingest_db pg receivedAt auth payload)"
  unfolding ingestBody_def Let_def activeFilesystemIDs_def activeInterfaceIDs_def activeGPUIDs_def
    activeBlockDeviceIDs_def
  by (rule tx_runs_cong, (rule tx_rules writeMetrics_runs)+)
    (simp add: ingest_db_def prepared_db_def resolved_in_def written_db_def gpu_ids_def Let_def split: option.splits)

lemma Ingest_success:
  assumes "Ingest pg fault now auth payload d = (Inr u, d')"
  shows "\<exists>fp. lockReportingNode (auth_NodeID auth) d = Some fp \<and>
     resolved_in (auth_NodeID auth) payload (prepared_db pg (timestamptz now) auth payload fp d) \<and>
     d' = written_db pg (timestamptz now) (auth_NodeID auth) payload (prepared_db pg (timestamptz now) auth payload fp d)"
  using run_tx_success [OF ingestBody_runs assms [unfolded Ingest_def]]
  by (auto simp: ingest_db_def Let_def split: option.splits if_splits)

text \<open>What the metrics part leaves alone.\<close>

lemma written_db_sel [simp]:
  "db_nodes (written_db pg r node p d) = db_nodes d" "db_tokens (written_db pg r node p d) = db_tokens d"
  "db_cpu_packages (written_db pg r node p d) = db_cpu_packages d"
  "db_memory_modules (written_db pg r node p d) = db_memory_modules d"
  "db_block_devices (written_db pg r node p d) = db_block_devices d"
  "db_filesystems (written_db pg r node p d) = db_filesystems d"
  "db_network_interfaces (written_db pg r node p d) = db_network_interfaces d"
  "db_gpu_devices (written_db pg r node p d) = db_gpu_devices d"
  "db_next (written_db pg r node p d) = db_next d"
  by (simp_all add: written_db_def metrics_db_def samples_db_def storage_health_db_def temperatures_db_def
      upsertNodeSample_def Let_def)

lemma update_sel [simp]:
  "stored_inventory (updateTokenUsage t r d) = stored_inventory d"
  "stored_inventory (updateReportingNode n p r d) = stored_inventory d"
  "db_nodes (updateTokenUsage t r d) = db_nodes d"
  "inventory_wf pg (updateTokenUsage t r d) = inventory_wf pg d"
  "inventory_wf pg (updateReportingNode n p r d) = inventory_wf pg d"
  by (simp_all add: stored_inventory_def [abs_def] inventory_wf_def updateTokenUsage_def updateReportingNode_def)

lemma stored_written [simp]: "stored_inventory (written_db pg r node p d) = stored_inventory d"
  by (simp add: stored_inventory_def [abs_def])

section \<open>The stored inventory follows the fingerprint\<close>

text \<open>
  The invariant behind the test \<open>currentFingerprint != payload.InventoryFingerprint\<close>: the inventory
  tables of a node hold the inventory its fingerprint was computed from.
\<close>

definition in_sync :: "postgres \<Rightarrow> (Inventory \<Rightarrow> string option) \<Rightarrow> database \<Rightarrow> bool" where
  "in_sync pg fingerprint d \<longleftrightarrow>
     (\<forall>n \<in> set (db_nodes d). \<forall>f. nd_inventory_fingerprint n = Some f \<longrightarrow>
        (\<exists>iv. fingerprint iv = Some f \<and> stored_inventory d (nd_id n) = reported_inventory pg iv))"

lemma nodes_sync_inventory [simp]: "inj (pg_gen pg) \<Longrightarrow> db_nodes (sync_inventory_db pg node iv seenAt d) = db_nodes d"
  by (simp add: sync_inventory_db_def sync_one_eq Let_def sync_network_sel)

lemma nodes_prepared:
  "inj (pg_gen pg) \<Longrightarrow>
   db_nodes (prepared_db pg r auth p fp d) = db_nodes (updateReportingNode (auth_NodeID auth) p r d)"
  by (simp add: prepared_db_def Let_def)

lemma stored_prepared:
  assumes "inj (pg_gen pg)" "distinct_keys (r_Inventory p)"
  shows "stored_inventory (prepared_db pg r auth p fp d) m =
    (if fp \<noteq> r_InventoryFingerprint p \<and> m = auth_NodeID auth then reported_inventory pg (r_Inventory p)
     else stored_inventory d m)"
  using stored_after_sync [OF assms, of "auth_NodeID auth" r] by (simp add: prepared_db_def Let_def)

lemma lock_Some:
  "lockReportingNode node d = Some f \<Longrightarrow> f \<noteq> [] \<Longrightarrow>
   \<exists>n \<in> set (db_nodes d). nd_id n = node \<and> nd_inventory_fingerprint n = Some f"
  by (force simp: lockReportingNode_def find_Some_iff in_set_conv_nth split: option.splits)

lemma stored_after_ingest:
  assumes "inj (pg_gen pg)" "distinct_keys (r_Inventory p)" "in_sync pg fingerprint d"
    and "r_InventoryFingerprint p \<noteq> []"
    and collision: "\<And>iv. fingerprint iv = Some (r_InventoryFingerprint p) \<Longrightarrow> iv = r_Inventory p"
    and "Ingest pg fault now auth p d = (Inr u, d')"
  shows "stored_inventory d' m =
    (if m = auth_NodeID auth then reported_inventory pg (r_Inventory p) else stored_inventory d m)"
proof -
  obtain fp where fp: "lockReportingNode (auth_NodeID auth) d = Some fp"
    and d': "d' = written_db pg (timestamptz now) (auth_NodeID auth) p (prepared_db pg (timestamptz now) auth p fp d)"
    using Ingest_success [OF assms(6)] by blast
  have "stored_inventory d (auth_NodeID auth) = reported_inventory pg (r_Inventory p)"
    if "fp = r_InventoryFingerprint p"
    using lock_Some [OF fp] that assms(3,4) collision unfolding in_sync_def by metis
  then show ?thesis by (simp add: d' stored_prepared [OF assms(1,2)])
qed

lemma in_sync_after_ingest:
  assumes "inj (pg_gen pg)" "distinct_keys (r_Inventory p)" "in_sync pg fingerprint d"
    and "r_InventoryFingerprint p \<noteq> []"
    and "fingerprint (r_Inventory p) = Some (r_InventoryFingerprint p)"
    and "\<And>iv. fingerprint iv = Some (r_InventoryFingerprint p) \<Longrightarrow> iv = r_Inventory p"
    and "Ingest pg fault now auth p d = (Inr u, d')"
  shows "in_sync pg fingerprint d'"
proof -
  obtain fp where "d' = written_db pg (timestamptz now) (auth_NodeID auth) p (prepared_db pg (timestamptz now) auth p fp d)"
    using Ingest_success [OF assms(7)] by blast
  then have nodes: "db_nodes d' = db_nodes (updateReportingNode (auth_NodeID auth) p (timestamptz now) d)"
    by (simp add: nodes_prepared [OF assms(1)])
  note st = stored_after_ingest [OF assms(1-4,6,7)]
  show ?thesis
    unfolding in_sync_def
  proof (intro ballI allI impI)
    fix n f
    assume n: "n \<in> set (db_nodes d')" and f: "nd_inventory_fingerprint n = Some f"
    show "\<exists>iv. fingerprint iv = Some f \<and> stored_inventory d' (nd_id n) = reported_inventory pg iv"
    proof (cases "nd_id n = auth_NodeID auth")
      case True
      then have "f = r_InventoryFingerprint p"
        using n f unfolding nodes by (auto simp: updateReportingNode_def)
      then show ?thesis using assms(5) st True by auto
    next
      case False
      then have "n \<in> set (db_nodes d)"
        using n unfolding nodes by (auto simp: updateReportingNode_def)
      then show ?thesis using assms(3) f False st by (auto simp: in_sync_def)
    qed
  qed
qed

section \<open>A validated report is never refused for its keys\<close>

lemma foldl_map_of:
  "distinct (map key rs) \<Longrightarrow>
   foldl (\<lambda>m r. m(key r \<mapsto> f r)) m0 rs k = (case map_of (map (\<lambda>r. (key r, f r)) rs) k of None \<Rightarrow> m0 k | Some v \<Rightarrow> Some v)"
  by (induction rs arbitrary: m0)
    (auto split: option.splits simp: map_of_eq_None_iff image_image dest!: map_of_SomeD)

lemma active_map_row:
  assumes "table_wf gen n t" and "k \<in> dom (abs_table t node)"
  shows "\<exists>r \<in> set t. rs_active node r \<and> rs_key r = k \<and> active_map f node t k = Some (f r)"
proof -
  have dist: "distinct (map rs_key (filter (rs_active node) t))"
    using assms(1) by (simp add: table_wf_def active_keys_def active_rows_def)
  obtain r where r: "r \<in> set (filter (rs_active node) t)" "rs_key r = k"
    using assms(2) by (auto simp: abs_table_def active_rows_def dom_map_of_conv_image_fst)
  have "map_of (map (\<lambda>r. (rs_key r, f r)) (filter (rs_active node) t)) k = Some (f r)"
    using r dist by (intro map_of_is_SomeI) (auto simp: comp_def)
  then show ?thesis
    using r dist foldl_map_of [OF dist, of f Map.empty k] by (auto simp: active_map_def)
qed

lemma resolves_active:
  assumes wf: "table_wf gen n t" and "distinct keys" and sub: "set keys \<subseteq> dom (abs_table t node)"
    and g: "\<And>r. g (f r) = rs_id r"
  shows "resolves (active_map f node t) g keys"
proof -
  have row: "\<exists>r \<in> set t. rs_key r = k \<and> active_map f node t k = Some (f r)" if "k \<in> set keys" for k
    using active_map_row [OF wf, of k node f] sub that by blast
  have inj: "inj_on rs_id (set t)" using wf by (simp add: table_wf_def distinct_map)
  have "inj_on (\<lambda>k. g (the (active_map f node t k))) (set keys)"
  proof (rule inj_onI)
    fix k l
    assume kl: "k \<in> set keys" "l \<in> set keys"
      and eq: "g (the (active_map f node t k)) = g (the (active_map f node t l))"
    obtain r where r: "r \<in> set t" "rs_key r = k" "active_map f node t k = Some (f r)" using row kl(1) by blast
    obtain q where q: "q \<in> set t" "rs_key q = l" "active_map f node t l = Some (f q)" using row kl(2) by blast
    have "rs_id r = rs_id q" using eq r(3) q(3) by (simp add: g)
    then show "k = l" using inj r q by (auto dest: inj_onD)
  qed
  then show ?thesis
    using row assms(2) unfolding resolves_def by (auto simp: distinct_map)
qed

lemma dom_keyed: "dom (map_of (keyed T items)) = to_key T ` set items"
  by (auto simp: keyed_def dom_map_of_conv_image_fst image_image)

lemma gpu_keys_known:
  assumes "metrics_ok iv m"
  shows "gm_GPUKey ` set (m_GPUs m) \<subseteq> gpu_Key ` set (inv_GPUs iv)"
proof (rule image_subsetI)
  fix x
  assume "x \<in> set (m_GPUs m)"
  then have "gpu_metric_ok iv x" using assms by (simp add: metrics_ok_def)
  then obtain g where "g \<in> set (inv_GPUs iv)" "gpu_Key g = gm_GPUKey x" by (auto simp: gpu_metric_ok_def)
  then show "gm_GPUKey x \<in> gpu_Key ` set (inv_GPUs iv)" by (metis imageI)
qed

lemma resolved_when_stored:
  assumes wf: "inventory_wf pg d" and st: "stored_inventory d node = reported_inventory pg iv"
    and ok: "metrics_ok iv (r_Metrics p)"
  shows "resolved_in node p d"
proof -
  have tabs: "abs_table (db_filesystems d) node = map_of (keyed filesystem_table (inv_Filesystems iv))"
    "abs_table (db_network_interfaces d) node = map_of (keyed interface_table (inv_NetworkInterfaces iv))"
    "abs_table (db_gpu_devices d) node = map_of (keyed gpu_table (inv_GPUs iv))"
    "abs_table (db_block_devices d) node = map_of (keyed block_table (inv_BlockDevices iv))"
    using st by (simp_all add: stored_inventory_def reported_inventory_def)
  have keys: "to_key filesystem_table = fs_Key" "to_key interface_table = ni_Key"
    "to_key gpu_table = gpu_Key" "to_key block_table = bd_Key"
    by (simp_all add: filesystem_table_def gpu_table_def block_table_def)
  let ?m = "r_Metrics p"
  have "resolves (active_map rs_id node (db_filesystems d)) id (map fm_FilesystemKey (m_Filesystems ?m))"
    using ok wf by (intro resolves_active [of "pg_gen pg" "db_next d"])
      (auto simp: inventory_wf_def metrics_ok_def keys_ok_distinct filesystem_metric_ok_def tabs dom_keyed keys)
  moreover have "resolves (active_map rs_id node (db_network_interfaces d)) id (map nm_InterfaceKey (m_Network ?m))"
    using ok wf by (intro resolves_active [of "pg_gen pg" "db_next d"])
      (auto simp: inventory_wf_def metrics_ok_def keys_ok_distinct network_metric_ok_def tabs dom_keyed keys)
  moreover have "resolves (gpu_ids node d) ag_ID (map gm_GPUKey (m_GPUs ?m))"
    unfolding gpu_ids_def using ok wf by (intro resolves_active [of "pg_gen pg" "db_next d"])
      (simp_all add: inventory_wf_def metrics_ok_def keys_ok_distinct tabs dom_keyed keys gpu_keys_known [OF ok])
  moreover have "resolves (active_map rs_id node (db_block_devices d)) id (map sh_BlockDeviceKey (m_StorageHealth ?m))"
    using ok wf by (intro resolves_active [of "pg_gen pg" "db_next d"])
      (auto simp: inventory_wf_def metrics_ok_def keys_ok_distinct storage_health_ok_def tabs dom_keyed keys)
  moreover have "distinct (map tm_Key (m_Temperatures ?m))"
    using ok by (simp add: metrics_ok_def keys_ok_distinct)
  ultimately show ?thesis by (simp add: resolved_in_def metrics_resolve_def Let_def)
qed

lemma inventory_wf_prepared:
  "inj (pg_gen pg) \<Longrightarrow> inventory_wf pg d \<Longrightarrow> inventory_wf pg (prepared_db pg r auth p fp d)"
  by (simp add: prepared_db_def Let_def inventory_wf_sync)

lemma inventory_wf_written [simp]: "inventory_wf pg (written_db pg' r node p d) = inventory_wf pg d"
  by (simp add: inventory_wf_def)

section \<open>Samples\<close>

definition sample_key :: "node_sample \<Rightarrow> Time \<times> string" where
  "sample_key r = (ns_bucket_at r, ns_node_id r)"

lemma upsertNodeSample_keys:
  "map sample_key (db_node_samples (upsertNodeSample row d)) =
     (if sample_key row \<in> set (map sample_key (db_node_samples d)) then map sample_key (db_node_samples d)
      else map sample_key (db_node_samples d) @ [sample_key row])"
  by (auto simp: upsertNodeSample_def Let_def list_ex_iff sample_key_def image_iff; metis)

lemma upsertNodeSample_find:
  "r \<in> set (db_node_samples (upsertNodeSample row d)) \<longleftrightarrow>
     r = row \<or> (r \<in> set (db_node_samples d) \<and> sample_key r \<noteq> sample_key row)"
  by (auto simp: upsertNodeSample_def Let_def list_ex_iff sample_key_def)

lemma written_samples:
  "db_node_samples (written_db pg r node p d) =
     db_node_samples (upsertNodeSample (nodeSample pg (Truncate (r_CollectedAt p) Minute) node r p) d)"
  by (simp add: written_db_def metrics_db_def samples_db_def storage_health_db_def temperatures_db_def Let_def)

lemma samples_prepared:
  assumes "inj (pg_gen pg)"
  shows "db_node_samples (prepared_db pg r auth p fp d) = db_node_samples d"
    "db_filesystem_samples (prepared_db pg r auth p fp d) = db_filesystem_samples d"
    "db_network_samples (prepared_db pg r auth p fp d) = db_network_samples d"
    "db_gpu_samples (prepared_db pg r auth p fp d) = db_gpu_samples d"
    "db_temperatures (prepared_db pg r auth p fp d) = db_temperatures d"
    "db_storage_health (prepared_db pg r auth p fp d) = db_storage_health d"
  by (simp_all add: prepared_db_def Let_def sync_inventory_db_def sync_one_eq sync_network_sel [OF assms]
      updateTokenUsage_def updateReportingNode_def)

section \<open>A concrete database\<close>

definition samplePg :: postgres where
  "samplePg = \<lparr>pg_gen = (\<lambda>n. replicate n (CHR ''x'')), pg_inet = (\<lambda>s. s), pg_real = (\<lambda>x. x), pg_numeric = (\<lambda>x. x)\<rparr>"

definition sampleDb :: database where
  "sampleDb =
     \<lparr>db_nodes = [\<lparr>nd_id = ''n1'', nd_agent_id = ''123e4567-e89b-42d3-a456-426614174000'',
        nd_hostname = ''pending-registration'', nd_display_name = None, nd_os_name = ''unknown'',
        nd_os_version = None, nd_kernel_version = None, nd_architecture = ''unknown'',
        nd_agent_version = ''pending'', nd_inventory_fingerprint = None, nd_labels = Map.empty,
        nd_tags = [], nd_first_seen_at = 0, nd_last_seen_at = 0, nd_created_at = 0, nd_updated_at = 0,
        nd_disabled_at = None\<rparr>],
      db_tokens = [], db_cpu_packages = [], db_memory_modules = [], db_block_devices = [],
      db_filesystems = [], db_network_interfaces = [], db_network_addresses = [], db_gpu_devices = [],
      db_node_samples = [], db_filesystem_samples = [], db_network_samples = [], db_gpu_samples = [],
      db_temperatures = [], db_storage_health = [], db_preferences = [], db_migrations = [''V009''],
      db_next = 0\<rparr>"

definition sampleAuth :: NodeAuth where
  "sampleAuth = \<lparr>auth_TokenID = ''t1'', auth_NodeID = ''n1'', auth_AgentID = ''123e4567-e89b-42d3-a456-426614174000''\<rparr>"

text \<open>An encoder that knows the one inventory of the example.\<close>

definition exampleMarshal :: inventory_encoder where
  "exampleMarshal iv = (if iv = NormalizeInventory sampleInventory then Some ''eth0eth1'' else None)"

definition examplePayload :: Report where
  "examplePayload = sampleReport\<lparr>r_Inventory := NormalizeInventory sampleInventory\<rparr>"

lemma inj_samplePg: "inj (pg_gen samplePg)"
  by (auto simp: samplePg_def inj_def)

lemma sampleDb_wf: "inventory_wf samplePg sampleDb"
  by (simp add: inventory_wf_def table_wf_def sampleDb_def active_keys_def active_rows_def)

lemma example_accepted: "fst (Validate sampleDigest exampleMarshal sampleNow sampleReport) = None"
  by code_simp

lemma example_validated: "Validate sampleDigest exampleMarshal sampleNow sampleReport = (None, examplePayload)"
  using example_accepted Validate_snd [OF example_accepted] by (simp add: prod_eq_iff examplePayload_def)

section \<open>Properties\<close>

text \<open>The fingerprint of an inventory that is already normalised.\<close>

definition normal_fingerprint :: "digest_fun \<Rightarrow> inventory_encoder \<Rightarrow> Inventory \<Rightarrow> string option" where
  "normal_fingerprint sha256 marshal iv =
     (if NormalizeInventory iv = iv then map_option (hex_encode \<circ> sha256) (marshal iv) else None)"



lemma example_hypotheses:
  "in_sync samplePg (normal_fingerprint sampleDigest exampleMarshal) sampleDb"
  "auth_NodeID sampleAuth \<in> nd_id ` set (db_nodes sampleDb)"
  "r_InventoryFingerprint examplePayload \<noteq> []"
  "\<forall>iv. normal_fingerprint sampleDigest exampleMarshal iv = Some (r_InventoryFingerprint examplePayload) \<longrightarrow>
     iv = r_Inventory examplePayload"
proof -
  show "in_sync samplePg (normal_fingerprint sampleDigest exampleMarshal) sampleDb"
    by (simp add: in_sync_def sampleDb_def)
  show "auth_NodeID sampleAuth \<in> nd_id ` set (db_nodes sampleDb)"
    by (simp add: sampleAuth_def sampleDb_def)
  have "length (r_InventoryFingerprint examplePayload) = 64"
    by (simp add: examplePayload_def sampleReport_def)
  then show "r_InventoryFingerprint examplePayload \<noteq> []" by auto
  show "\<forall>iv. normal_fingerprint sampleDigest exampleMarshal iv = Some (r_InventoryFingerprint examplePayload) \<longrightarrow>
     iv = r_Inventory examplePayload"
    by (auto simp: normal_fingerprint_def exampleMarshal_def examplePayload_def split: if_splits)
qed


lemma not_isl_unit: "isl (fst x) = False \<Longrightarrow> \<exists>d. x = (Inr (), d)" for x :: "('e + unit) \<times> 'd"
  by (cases x; cases "fst x") auto

lemma example_ingested:
  "\<exists>d'. Ingest samplePg (\<lambda>_. False) sampleNow sampleAuth examplePayload sampleDb = (Inr (), d')"
  by (rule not_isl_unit) code_simp

lemma node_sample_after_ingest:
  assumes "inj (pg_gen pg)" and "Ingest pg fault now auth p d = (Inr u, d')"
    and "distinct (map sample_key (db_node_samples d))"
  shows "distinct (map sample_key (db_node_samples d')) \<and>
    (\<forall>r. r \<in> set (db_node_samples d') \<longleftrightarrow>
       r = nodeSample pg (Truncate (r_CollectedAt p) Minute) (auth_NodeID auth) (timestamptz now) p \<or>
       r \<in> set (db_node_samples d) \<and> sample_key r \<noteq> (Truncate (r_CollectedAt p) Minute, auth_NodeID auth))"
proof -
  let ?row = "nodeSample pg (Truncate (r_CollectedAt p) Minute) (auth_NodeID auth) (timestamptz now) p"
  obtain fp where "d' = written_db pg (timestamptz now) (auth_NodeID auth) p (prepared_db pg (timestamptz now) auth p fp d)"
    using Ingest_success [OF assms(2)] by blast
  then have d': "db_node_samples d' = db_node_samples (upsertNodeSample ?row (prepared_db pg (timestamptz now) auth p fp d))"
    by (simp add: written_samples)
  have key: "sample_key ?row = (Truncate (r_CollectedAt p) Minute, auth_NodeID auth)"
    by (simp add: sample_key_def nodeSample_def Let_def)
  have "distinct (map sample_key (db_node_samples d'))"
    using assms(3) unfolding d' upsertNodeSample_keys samples_prepared [OF assms(1)] by auto
  then show ?thesis
    unfolding d' upsertNodeSample_find samples_prepared [OF assms(1)] key by blast
qed

text \<open>
  C5: After a successful ingestion there is exactly one sample for the node and the minute of
  collection, it carries the metrics of this report, and no other sample of any node changed: a
  second report for the same minute replaces the first.
\<close>

theorem Ingest_node_sample:
  assumes "inj (pg_gen pg)" and "Ingest pg fault now auth p d = (Inr u, d')"
    and "distinct (map sample_key (db_node_samples d))"
  shows "distinct (map sample_key (db_node_samples d')) \<and>
    (\<forall>r. r \<in> set (db_node_samples d') \<longleftrightarrow>
       r = nodeSample pg (Truncate (r_CollectedAt p) Minute) (auth_NodeID auth) (timestamptz now) p \<or>
       r \<in> set (db_node_samples d) \<and> sample_key r \<noteq> (Truncate (r_CollectedAt p) Minute, auth_NodeID auth))"
  using assms by (rule node_sample_after_ingest)

theorem Ingest_node_sample_witness:
  "\<exists>d'. Ingest samplePg (\<lambda>_. False) sampleNow sampleAuth examplePayload sampleDb = (Inr (), d') \<and>
     nodeSample samplePg (Truncate (r_CollectedAt examplePayload) Minute) ''n1'' (timestamptz sampleNow) examplePayload
       \<in> set (db_node_samples d')"
proof -
  obtain d' where run: "Ingest samplePg (\<lambda>_. False) sampleNow sampleAuth examplePayload sampleDb = (Inr (), d')"
    using example_ingested by blast
  have "distinct (map sample_key (db_node_samples sampleDb))" by (simp add: sampleDb_def)
  from Ingest_node_sample [OF inj_samplePg run this] have
    "nodeSample samplePg (Truncate (r_CollectedAt examplePayload) Minute) ''n1'' (timestamptz sampleNow) examplePayload
       \<in> set (db_node_samples d')"
    by (simp add: sampleAuth_def)
  with run show ?thesis by blast
qed

text \<open>
  C6: The current temperatures and disk health of a node never go back in time. When the node already has
  a snapshot of a later minute, an ingestion leaves the snapshot untouched; otherwise the rows of the
  node are exactly those of the report, all of its minute, and the rows of other nodes are untouched.
\<close>

theorem Ingest_snapshots:
  assumes "inj (pg_gen pg)" and "Ingest pg fault now auth p d = (Inr u, d')"
  defines "b \<equiv> Truncate (r_CollectedAt p) Minute" and "node \<equiv> auth_NodeID auth"
  shows "(if \<exists>r \<in> set (db_temperatures d). tr_node_id r = node \<and> tr_bucket_at r > b
      then db_temperatures d' = db_temperatures d
      else db_temperatures d' = filter (\<lambda>r. tr_node_id r \<noteq> node) (db_temperatures d) @
        map (temperatureRow pg node b (timestamptz (r_CollectedAt p)) (timestamptz now)) (m_Temperatures (r_Metrics p))) \<and>
    (if \<exists>r \<in> set (db_storage_health d). sr_node_id r = node \<and> sr_bucket_at r > b
      then db_storage_health d' = db_storage_health d
      else db_storage_health d' = filter (\<lambda>r. sr_node_id r \<noteq> node) (db_storage_health d) @
        map (\<lambda>m. storageHealthRow pg node b (timestamptz (r_CollectedAt p)) (timestamptz now)
               (the (active_map rs_id node (db_block_devices d') (sh_BlockDeviceKey m))) m)
          (m_StorageHealth (r_Metrics p)))"
proof -
  obtain fp where d': "d' = written_db pg (timestamptz now) node p (prepared_db pg (timestamptz now) auth p fp d)"
    using Ingest_success [OF assms(2)] unfolding node_def by blast
  let ?e = "prepared_db pg (timestamptz now) auth p fp d"
  define T S where T: "T \<longleftrightarrow> (\<exists>r \<in> set (db_temperatures d). tr_node_id r = node \<and> tr_bucket_at r > b)"
    and S: "S \<longleftrightarrow> (\<exists>r \<in> set (db_storage_health d). sr_node_id r = node \<and> sr_bucket_at r > b)"
  have fresh: "temperatureSnapshotFreshness node b ?e \<longleftrightarrow> \<not> T" "storageHealthSnapshotFreshness node b ?e \<longleftrightarrow> \<not> S"
    by (simp_all add: T S temperatureSnapshotFreshness_def storageHealthSnapshotFreshness_def
        samples_prepared [OF assms(1)] list_ex_iff)
  have "db_temperatures d' = db_temperatures (temperatures_db pg node b (timestamptz (r_CollectedAt p)) (timestamptz now)
      (m_Temperatures (r_Metrics p)) ?e)"
    and "db_storage_health d' = db_storage_health (storage_health_db pg node b (timestamptz (r_CollectedAt p)) (timestamptz now)
      (active_map rs_id node (db_block_devices ?e)) (m_StorageHealth (r_Metrics p)) ?e)"
    and "db_block_devices d' = db_block_devices ?e"
    by (simp_all add: d' written_db_def metrics_db_def samples_db_def storage_health_db_def temperatures_db_def
        Let_def b_def temperatureSnapshotFreshness_def storageHealthSnapshotFreshness_def upsertNodeSample_def)
  then show ?thesis
    unfolding T [symmetric] S [symmetric] temperatures_db_def storage_health_db_def fresh
    by (simp add: samples_prepared [OF assms(1)])
qed

theorem Ingest_snapshots_witness:
  "\<exists>d'. Ingest samplePg (\<lambda>_. False) sampleNow sampleAuth examplePayload sampleDb = (Inr (), d') \<and>
     map tr_sensor_key (db_temperatures d') = [''t'']"
proof -
  obtain d' where run: "Ingest samplePg (\<lambda>_. False) sampleNow sampleAuth examplePayload sampleDb = (Inr (), d')"
    using example_ingested by blast
  have "db_temperatures sampleDb = []" by (simp add: sampleDb_def)
  then have "db_temperatures d' = map (temperatureRow samplePg ''n1'' (Truncate (r_CollectedAt examplePayload) Minute)
      (timestamptz (r_CollectedAt examplePayload)) (timestamptz sampleNow)) (m_Temperatures (r_Metrics examplePayload))"
    using Ingest_snapshots [OF inj_samplePg run, THEN conjunct1] by (simp add: sampleAuth_def)
  then have "map tr_sensor_key (db_temperatures d') = map tm_Key (m_Temperatures (r_Metrics examplePayload))"
    by simp
  also have "\<dots> = [''t'']" by code_simp
  finally have "map tr_sensor_key (db_temperatures d') = [''t'']" .
  with run show ?thesis by (intro exI [of _ d'] conjI)
qed

text \<open>The CHECK constraints of \<open>node_metric_samples\<close> in src/db/migrations on its integer columns.\<close>

definition node_sample_checks :: "node_sample \<Rightarrow> bool" where
  "node_sample_checks s \<longleftrightarrow>
     1 \<le> ns_interval_seconds s \<and> ns_interval_seconds s \<le> 3600 \<and>
     list_all (\<lambda>v. 0 \<le> v)
       [ns_memory_total_bytes s, ns_memory_used_bytes s, ns_memory_available_bytes s, ns_memory_cached_bytes s,
        ns_memory_buffers_bytes s, ns_swap_total_bytes s, ns_swap_used_bytes s, ns_uptime_seconds s,
        ns_disk_read_bytes_total s, ns_disk_write_bytes_total s, ns_disk_read_bytes_delta s,
        ns_disk_write_bytes_delta s, ns_disk_read_ops_delta s, ns_disk_write_ops_delta s] \<and>
     ns_memory_used_bytes s \<le> ns_memory_total_bytes s \<and> ns_memory_available_bytes s \<le> ns_memory_total_bytes s \<and>
     ns_memory_cached_bytes s \<le> ns_memory_total_bytes s \<and> ns_memory_buffers_bytes s \<le> ns_memory_total_bytes s \<and>
     ns_swap_used_bytes s \<le> ns_swap_total_bytes s \<and>
     (ns_bucket_at s - zeroTime) mod Minute = 0"

lemma fits_i64: "fits v \<Longrightarrow> i64 v = uint v"
  by (simp add: i64_def fits_def int64_of_small)

lemma i64_mono: "a \<le> b \<Longrightarrow> fits b \<Longrightarrow> i64 a \<le> i64 b"
  by (simp add: fits_i64 fits_mono word_le_def)

lemma i64_nonneg: "fits v \<Longrightarrow> 0 \<le> i64 v"
  by (simp add: fits_i64)

lemma Truncate_aligned: "(Truncate t Minute - zeroTime) mod Minute = 0"
proof -
  have "Truncate t Minute - zeroTime = (t - zeroTime) - (t - zeroTime) mod Minute"
    by (simp add: Truncate_def)
  then show ?thesis by (simp add: minus_mod_eq_mult_div)
qed



lemma lock_updated:
  "lockReportingNode node d \<noteq> None \<Longrightarrow>
   lockReportingNode node (updateReportingNode node p r d) = Some (r_InventoryFingerprint p)"
proof -
  have "find (\<lambda>n. nd_id n = node) ns \<noteq> None \<Longrightarrow>
      \<exists>m. find (\<lambda>n. nd_id n = node) (db_nodes (updateReportingNode node p r (d\<lparr>db_nodes := ns\<rparr>))) = Some m \<and>
          nd_inventory_fingerprint m = Some (r_InventoryFingerprint p)" for ns
    by (induction ns) (auto simp: updateReportingNode_def)
  from this [of "db_nodes d"] show "lockReportingNode node d \<noteq> None \<Longrightarrow>
      lockReportingNode node (updateReportingNode node p r d) = Some (r_InventoryFingerprint p)"
    by (auto simp: lockReportingNode_def updateReportingNode_def)
qed

lemma written_resource_samples:
  "db_filesystem_samples (written_db pg r node p d) =
     filter (\<lambda>s. \<not> (fsm_bucket_at s = Truncate (r_CollectedAt p) Minute \<and> fsm_node_id s = node)) (db_filesystem_samples d) @
     map (\<lambda>m. filesystemSample (Truncate (r_CollectedAt p) Minute) node
            (the (active_map rs_id node (db_filesystems d) (fm_FilesystemKey m))) m) (m_Filesystems (r_Metrics p))"
  "db_network_samples (written_db pg r node p d) =
     filter (\<lambda>s. \<not> (nsm_bucket_at s = Truncate (r_CollectedAt p) Minute \<and> nsm_node_id s = node)) (db_network_samples d) @
     map (\<lambda>m. networkSample (Truncate (r_CollectedAt p) Minute) node
            (the (active_map rs_id node (db_network_interfaces d) (nm_InterfaceKey m))) m) (m_Network (r_Metrics p))"
  "db_gpu_samples (written_db pg r node p d) =
     filter (\<lambda>s. \<not> (gsm_bucket_at s = Truncate (r_CollectedAt p) Minute \<and> gsm_node_id s = node)) (db_gpu_samples d) @
     map (\<lambda>m. gpuSample pg (Truncate (r_CollectedAt p) Minute) node
            (the (gpu_ids node d (gm_GPUKey m))) m) (m_GPUs (r_Metrics p))"
  by (simp_all add: written_db_def metrics_db_def samples_db_def storage_health_db_def temperatures_db_def Let_def)

text \<open>The second of two ingestions of a report for the same node, whichever token each of them used.\<close>

lemma ingest_again:
  assumes inj: "inj (pg_gen pg)"
    and first: "Ingest pg fault now auth p d = (Inr u, d')"
    and second: "Ingest pg fault' now' auth' p d' = (Inr v, d'')" and same: "auth_NodeID auth' = auth_NodeID auth"
  shows "stored_inventory d'' = stored_inventory d' \<and> db_filesystem_samples d'' = db_filesystem_samples d' \<and>
    db_network_samples d'' = db_network_samples d' \<and> db_gpu_samples d'' = db_gpu_samples d' \<and>
    map sample_key (db_node_samples d'') = map sample_key (db_node_samples d')"
proof -
  let ?n = "auth_NodeID auth" and ?b = "Truncate (r_CollectedAt p) Minute"
  obtain fp where d': "d' = written_db pg (timestamptz now) ?n p (prepared_db pg (timestamptz now) auth p fp d)"
    and fp: "lockReportingNode ?n d = Some fp"
    using Ingest_success [OF first] by blast
  obtain fp' where d'': "d'' = written_db pg (timestamptz now') ?n p (prepared_db pg (timestamptz now') auth' p fp' d')"
    and fp': "lockReportingNode ?n d' = Some fp'"
    using Ingest_success [OF second] unfolding same by blast
  have "db_nodes d' = db_nodes (updateReportingNode ?n p (timestamptz now) d)"
    by (simp add: d' nodes_prepared [OF inj])
  then have "fp' = r_InventoryFingerprint p"
    using fp fp' lock_updated [of ?n d p "timestamptz now"] by (auto simp: lockReportingNode_def)
  then have e: "prepared_db pg (timestamptz now') auth' p fp' d' =
      updateTokenUsage (auth_TokenID auth') (timestamptz now') (updateReportingNode ?n p (timestamptz now') d')"
    by (simp add: prepared_db_def Let_def same)
  have kept: "db_filesystems (prepared_db pg (timestamptz now') auth' p fp' d') = db_filesystems d'"
    "db_network_interfaces (prepared_db pg (timestamptz now') auth' p fp' d') = db_network_interfaces d'"
    "db_gpu_devices (prepared_db pg (timestamptz now') auth' p fp' d') = db_gpu_devices d'"
    by (simp_all add: e updateTokenUsage_def updateReportingNode_def)
  have "stored_inventory d'' = stored_inventory d'"
    by (simp add: d'' e)
  moreover have "db_filesystem_samples d'' = db_filesystem_samples d'"
    "db_network_samples d'' = db_network_samples d'" "db_gpu_samples d'' = db_gpu_samples d'"
    unfolding d'' written_resource_samples kept samples_prepared [OF inj] gpu_ids_def
    unfolding d' written_resource_samples gpu_ids_def
    by (simp_all add: filter_append)
  moreover have "map sample_key (db_node_samples d'') = map sample_key (db_node_samples d')"
    unfolding d'' written_samples upsertNodeSample_keys samples_prepared [OF inj]
    by (auto simp: d' written_samples upsertNodeSample_keys nodeSample_def sample_key_def Let_def)
  ultimately show ?thesis by blast
qed

text \<open>
  Delivering a report twice has the effect of delivering it once, as the agent's retries require:
  the second ingestion finds the fingerprint unchanged, leaves the stored inventory and the samples of
  filesystems, interfaces and GPUs as they are, and adds no node sample.
\<close>

theorem Ingest_retry:
  assumes inj: "inj (pg_gen pg)"
    and first: "Ingest pg fault now auth p d = (Inr u, d')"
    and second: "Ingest pg fault' now' auth p d' = (Inr v, d'')"
  shows "stored_inventory d'' = stored_inventory d' \<and> db_filesystem_samples d'' = db_filesystem_samples d' \<and>
    db_network_samples d'' = db_network_samples d' \<and> db_gpu_samples d'' = db_gpu_samples d' \<and>
    map sample_key (db_node_samples d'') = map sample_key (db_node_samples d')"
  by (rule ingest_again [OF assms refl])

end
