(* ===== verification/Store_Nodes.thy ===== *)
theory Store_Nodes
  imports Store_Ingest_Props Uuid
begin

text \<open>
  Nodes and their tokens (src/internal/store/store.go and the two updates of
  src/internal/store/query.go): readiness, authentication of a node token, registration, tags and
  the preferred network interface. \<open>CURRENT_TIMESTAMP\<close> is the argument \<open>now\<close>; the random bytes of
  a registration are arguments; \<open>fault\<close> says that the statement fails.
\<close>

record RegisterNodeInput =
  ri_AgentID :: string
  ri_Hostname :: string
  ri_DisplayName :: string
  ri_OSName :: string
  ri_OSVersion :: string
  ri_Architecture :: string
  ri_AgentVersion :: string
  ri_Labels :: "(string \<rightharpoonup> string) option"

record NodeCredentials =
  nc_NodeID :: string
  nc_AgentID :: string
  nc_Token :: string

definition Ready :: "bool \<Rightarrow> database \<Rightarrow> store_error option" where
  "Ready fault d =
     (if fault then Some (DbFailed ''check database schema'' [])
      else if ''V009'' \<notin> set (db_migrations d)
        then Some (DbFailed ''database schema migration V009 is not installed'' [])
      else None)"

section \<open>Authentication\<close>

definition token_usable :: "Time \<Rightarrow> u8 list \<Rightarrow> token_row \<Rightarrow> bool" where
  "token_usable now digest k \<longleftrightarrow>
     tk_token_digest k = digest \<and> tk_revoked_at k = None \<and>
     (case tk_expires_at k of None \<Rightarrow> True | Some t \<Rightarrow> t > now)"

text \<open>The rows of the join of tokens and enabled nodes.\<close>

definition authRows :: "Time \<Rightarrow> u8 list \<Rightarrow> database \<Rightarrow> NodeAuth list" where
  "authRows now digest d =
     concat (map (\<lambda>k. map (\<lambda>n. \<lparr>auth_TokenID = tk_id k, auth_NodeID = nd_id n, auth_AgentID = nd_agent_id n\<rparr>)
       (filter (\<lambda>n. nd_id n = tk_node_id k \<and> nd_disabled_at n = None) (db_nodes d)))
     (filter (token_usable now digest) (db_tokens d)))"

definition AuthenticateToken ::
  "(string \<Rightarrow> u8 list) \<Rightarrow> bool \<Rightarrow> Time \<Rightarrow> string \<Rightarrow> database \<Rightarrow> store_error + NodeAuth" where
  "AuthenticateToken sha256 fault now rawToken d =
     (if fault then Inl (DbFailed ''authenticate node token'' [])
      else case authRows now (sha256 rawToken) d of
             [] \<Rightarrow> Inl ErrUnauthorized
           | auth # _ \<Rightarrow> Inr auth)"

section \<open>Registration\<close>

text \<open>\<open>base64.RawURLEncoding.EncodeToString\<close>.\<close>

definition b64_char :: "nat \<Rightarrow> char" where
  "b64_char n =
     (if n < 26 then char_of (65 + n) else if n < 52 then char_of (71 + n)
      else if n < 62 then char_of (n - 4) else if n = 62 then CHR ''-'' else CHR ''_'')"

fun RawURLEncode :: "u8 list \<Rightarrow> string" where
  "RawURLEncode [] = []"
| "RawURLEncode [a] = [b64_char (unat a div 4), b64_char ((unat a mod 4) * 16)]"
| "RawURLEncode [a, b] =
     [b64_char (unat a div 4), b64_char ((unat a mod 4) * 16 + unat b div 16), b64_char ((unat b mod 16) * 4)]"
| "RawURLEncode (a # b # c # rest) =
     b64_char (unat a div 4) # b64_char ((unat a mod 4) * 16 + unat b div 16) #
     b64_char ((unat b mod 16) * 4 + unat c div 64) # b64_char (unat c mod 64) # RawURLEncode rest"

definition withDefaults :: "RegisterNodeInput \<Rightarrow> RegisterNodeInput" where
  "withDefaults input =
     input\<lparr>ri_Hostname := (if ri_Hostname input = [] then ''pending-registration'' else ri_Hostname input),
           ri_OSName := (if ri_OSName input = [] then ''unknown'' else ri_OSName input),
           ri_Architecture := (if ri_Architecture input = [] then ''unknown'' else ri_Architecture input),
           ri_AgentVersion := (if ri_AgentVersion input = [] then ''pending'' else ri_AgentVersion input),
           ri_Labels := (case ri_Labels input of None \<Rightarrow> Some Map.empty | Some l \<Rightarrow> Some l)\<rparr>"

text \<open>
  \<open>INSERT INTO nodes ... ON CONFLICT (agent_id) DO UPDATE ... RETURNING id\<close>; \<open>reRegistered\<close> is its
  \<open>DO UPDATE SET\<close>. The cast of the agent id succeeds for the identifiers \<open>ValidUUID\<close> and \<open>NewUUID\<close>
  give, and yields their lower-case form.
\<close>

definition reRegistered :: "Time \<Rightarrow> RegisterNodeInput \<Rightarrow> node_row \<Rightarrow> node_row" where
  "reRegistered now input n =
     n\<lparr>nd_hostname := ri_Hostname input,
       nd_display_name := (case nullif_empty (ri_DisplayName input) of
          None \<Rightarrow> nd_display_name n | Some x \<Rightarrow> Some x),
       nd_os_name := ri_OSName input,
       nd_os_version := (case nullif_empty (ri_OSVersion input) of
          None \<Rightarrow> nd_os_version n | Some x \<Rightarrow> Some x),
       nd_architecture := ri_Architecture input,
       nd_agent_version := ri_AgentVersion input,
       nd_labels := the (ri_Labels input), nd_updated_at := now, nd_disabled_at := None\<rparr>"

definition upsertNode :: "postgres \<Rightarrow> Time \<Rightarrow> RegisterNodeInput \<Rightarrow> database \<Rightarrow> string \<times> database" where
  "upsertNode pg now input d =
     (let agent = uuid_text (ri_AgentID input); labels = the (ri_Labels input) in
      case find (\<lambda>n. nd_agent_id n = agent) (db_nodes d) of
        Some old \<Rightarrow>
          (nd_id old,
           d\<lparr>db_nodes := map (\<lambda>n. if nd_agent_id n = agent then reRegistered now input n else n) (db_nodes d)\<rparr>)
      | None \<Rightarrow>
          (pg_gen pg (db_next d),
           d\<lparr>db_nodes := db_nodes d @
               [\<lparr>nd_id = pg_gen pg (db_next d), nd_agent_id = agent, nd_hostname = ri_Hostname input,
                 nd_display_name = nullif_empty (ri_DisplayName input), nd_os_name = ri_OSName input,
                 nd_os_version = nullif_empty (ri_OSVersion input), nd_kernel_version = None,
                 nd_architecture = ri_Architecture input, nd_agent_version = ri_AgentVersion input,
                 nd_inventory_fingerprint = None, nd_labels = labels, nd_tags = [],
                 nd_first_seen_at = now, nd_last_seen_at = now, nd_created_at = now, nd_updated_at = now,
                 nd_disabled_at = None\<rparr>],
             db_next := Suc (db_next d)\<rparr>))"

definition revokeTokens :: "string \<Rightarrow> Time \<Rightarrow> database \<Rightarrow> database" where
  "revokeTokens nodeID now d =
     d\<lparr>db_tokens := map (\<lambda>k. if tk_node_id k = nodeID \<and> tk_revoked_at k = None
          then k\<lparr>tk_revoked_at := Some now\<rparr> else k) (db_tokens d)\<rparr>"

text \<open>The digest is unique in the table, so that inserting a known one fails.\<close>

definition insertToken :: "postgres \<Rightarrow> string \<Rightarrow> string \<Rightarrow> u8 list \<Rightarrow> Time \<Rightarrow> unit tx" where
  "insertToken pg nodeID tokenPrefix digest now =
     tx_bind
       (tx_exec ''insert node token'' [] (\<lambda>d.
          if digest \<in> set (map tk_token_digest (db_tokens d)) then (False, d)
          else (True,
            d\<lparr>db_tokens := db_tokens d @
                [\<lparr>tk_id = pg_gen pg (db_next d), tk_node_id = nodeID, tk_token_prefix = tokenPrefix,
                  tk_token_digest = digest, tk_label = ''admin registration'', tk_created_at = now,
                  tk_expires_at = None, tk_revoked_at = None, tk_last_used_at = None\<rparr>],
              db_next := Suc (db_next d)\<rparr>)))
       (\<lambda>ok. if ok then tx_return () else tx_fail (DbFailed ''insert node token'' []))"

definition registrationBody ::
  "postgres \<Rightarrow> Time \<Rightarrow> RegisterNodeInput \<Rightarrow> string \<Rightarrow> u8 list \<Rightarrow> string tx" where
  "registrationBody pg now input tokenPrefix digest =
     tx_bind (tx_exec ''upsert node registration'' [] (upsertNode pg now input)) (\<lambda>nodeID.
     tx_then (tx_exec ''revoke previous node tokens'' [] (\<lambda>d. ((), revokeTokens nodeID now d)))
     (tx_then (insertToken pg nodeID tokenPrefix digest now) (tx_return nodeID)))"

definition RegisterNode ::
  "postgres \<Rightarrow> (string \<Rightarrow> u8 list) \<Rightarrow> (nat \<Rightarrow> bool) \<Rightarrow> u8 list option \<Rightarrow> u8 list option \<Rightarrow> Time \<Rightarrow>
   RegisterNodeInput \<Rightarrow> database \<Rightarrow> (store_error + NodeCredentials) \<times> database" where
  "RegisterNode pg sha256 fault uuidBytes tokenBytes now input d =
     (case (if ri_AgentID input = [] then NewUUID uuidBytes else Inr (ri_AgentID input)) of
        Inl _ \<Rightarrow> (Inl RandomFailed, d)
      | Inr agentID \<Rightarrow>
          (let input = withDefaults (input\<lparr>ri_AgentID := agentID\<rparr>) in
           case tokenBytes of
             None \<Rightarrow> (Inl RandomFailed, d)
           | Some rawTokenBytes \<Rightarrow>
               (let rawToken = RawURLEncode rawTokenBytes;
                    tokenPrefix = (if length rawToken > 12 then take 12 rawToken else rawToken)
                in case run_tx ''begin registration'' ''commit registration'' fault
                          (registrationBody pg now input tokenPrefix (sha256 rawToken)) d of
                     (Inl e, d') \<Rightarrow> (Inl e, d')
                   | (Inr nodeID, d') \<Rightarrow>
                       (Inr \<lparr>nc_NodeID = nodeID, nc_AgentID = agentID, nc_Token = rawToken\<rparr>, d'))))"

section \<open>Administration\<close>

definition UpdateNodeTags :: "bool \<Rightarrow> Time \<Rightarrow> string \<Rightarrow> string list \<Rightarrow> database \<Rightarrow> store_error option \<times> database" where
  "UpdateNodeTags fault now nodeID tags d =
     (if fault then (Some (DbFailed ''update node tags'' []), d)
      else let affected = filter (\<lambda>n. nd_id n = uuid_text nodeID) (db_nodes d);
               d' = d\<lparr>db_nodes := map (\<lambda>n. if nd_id n = uuid_text nodeID
                      then n\<lparr>nd_tags := tags, nd_updated_at := now\<rparr> else n) (db_nodes d)\<rparr>
           in if length affected = 0 then (Some ErrNotFound, d') else (None, d'))"

text \<open>\<open>INSERT ... ON CONFLICT (node_id) DO UPDATE\<close> on the preferences.\<close>

definition set_preference :: "preference_row \<Rightarrow> preference_row list \<Rightarrow> preference_row list" where
  "set_preference row ps =
     (if list_ex (\<lambda>p. pf_node_id p = pf_node_id row) ps
      then map (\<lambda>p. if pf_node_id p = pf_node_id row then row else p) ps
      else ps @ [row])"

definition SetPrimaryNetworkInterface ::
  "bool \<Rightarrow> Time \<Rightarrow> string \<Rightarrow> string \<Rightarrow> database \<Rightarrow> store_error option \<times> database" where
  "SetPrimaryNetworkInterface fault now nodeID interfaceID d =
     (if fault then (Some (DbFailed ''set primary network interface'' []), d)
      else let selected = filter (\<lambda>r. rs_active (uuid_text nodeID) r \<and> rs_id r = uuid_text interfaceID)
                 (db_network_interfaces d)
           in if selected = [] then (Some ErrNotFound, d)
              else (None, d\<lparr>db_preferences := set_preference
                      \<lparr>pf_node_id = uuid_text nodeID, pf_interface_id = uuid_text interfaceID, pf_updated_at = now\<rparr>
                      (db_preferences d)\<rparr>))"

section \<open>Lemmas\<close>

definition nodes_wf :: "postgres \<Rightarrow> database \<Rightarrow> bool" where
  "nodes_wf pg d \<longleftrightarrow>
     distinct (map nd_id (db_nodes d)) \<and> distinct (map nd_agent_id (db_nodes d)) \<and>
     nd_id ` set (db_nodes d) \<subseteq> pg_gen pg ` {..<db_next d}"

lemma reRegistered_fields [simp]:
  "nd_id (reRegistered now input n) = nd_id n" "nd_agent_id (reRegistered now input n) = nd_agent_id n"
  "nd_disabled_at (reRegistered now input n) = None"
  by (simp_all add: reRegistered_def)

lemma insertToken_runs [tx_rules]:
  "tx_runs (insertToken pg nodeID tokenPrefix digest now) (\<lambda>d.
     if digest \<in> tk_token_digest ` set (db_tokens d) then None
     else Some ((), d\<lparr>db_tokens := db_tokens d @
            [\<lparr>tk_id = pg_gen pg (db_next d), tk_node_id = nodeID, tk_token_prefix = tokenPrefix,
              tk_token_digest = digest, tk_label = ''admin registration'', tk_created_at = now,
              tk_expires_at = None, tk_revoked_at = None, tk_last_used_at = None\<rparr>],
          db_next := Suc (db_next d)\<rparr>))"
  unfolding insertToken_def by (rule tx_runs_cong, (rule tx_rules)+) simp

lemma registrationBody_success:
  assumes "run_tx b c fault (registrationBody pg now input tokenPrefix digest) d = (Inr nodeID, d')"
  shows "\<exists>d1. upsertNode pg now input d = (nodeID, d1) \<and>
    digest \<notin> tk_token_digest ` set (db_tokens (revokeTokens nodeID now d1)) \<and>
    d' = (revokeTokens nodeID now d1)\<lparr>db_tokens := db_tokens (revokeTokens nodeID now d1) @
            [\<lparr>tk_id = pg_gen pg (db_next d1), tk_node_id = nodeID, tk_token_prefix = tokenPrefix,
              tk_token_digest = digest, tk_label = ''admin registration'', tk_created_at = now,
              tk_expires_at = None, tk_revoked_at = None, tk_last_used_at = None\<rparr>],
          db_next := Suc (db_next d1)\<rparr>"
proof -
  obtain i d1 where up: "upsertNode pg now input d = (i, d1)" by fastforce
  have next1: "db_next (revokeTokens i now d1) = db_next d1" by (simp add: revokeTokens_def)
  have "tx_runs (registrationBody pg now input tokenPrefix digest) (\<lambda>d.
      Option.bind (Some (upsertNode pg now input d)) (\<lambda>r. Option.bind (Some ((), revokeTokens (fst r) now (snd r)))
        (\<lambda>q. Option.bind (if digest \<in> tk_token_digest ` set (db_tokens (snd q)) then None
          else Some ((), (snd q)\<lparr>db_tokens := db_tokens (snd q) @
            [\<lparr>tk_id = pg_gen pg (db_next (snd q)), tk_node_id = fst r, tk_token_prefix = tokenPrefix,
              tk_token_digest = digest, tk_label = ''admin registration'', tk_created_at = now,
              tk_expires_at = None, tk_revoked_at = None, tk_last_used_at = None\<rparr>],
            db_next := Suc (db_next (snd q))\<rparr>)) (\<lambda>p. Some (fst r, snd p)))))"
    unfolding registrationBody_def by (rule tx_rules)+
  from run_tx_success [OF this assms] show ?thesis
    by (auto simp: up next1 split: if_splits)
qed

lemma upsertNode_node:
  assumes "upsertNode pg now input d = (nodeID, d1)" "nodes_wf pg d" "inj (pg_gen pg)"
  shows "nodes_wf pg d1 \<and> db_tokens d1 = db_tokens d \<and>
    (\<exists>n \<in> set (db_nodes d1). nd_id n = nodeID \<and> nd_agent_id n = uuid_text (ri_AgentID input) \<and> nd_disabled_at n = None)"
proof (cases "find (\<lambda>n. nd_agent_id n = uuid_text (ri_AgentID input)) (db_nodes d)")
  case None
  let ?n = "pg_gen pg (db_next d)"
  have "?n \<notin> nd_id ` set (db_nodes d)"
  proof
    assume "?n \<in> nd_id ` set (db_nodes d)"
    then have "?n \<in> pg_gen pg ` {..<db_next d}" using assms(2) unfolding nodes_wf_def by blast
    then show False using assms(3) by (auto dest: injD)
  qed
  moreover have "uuid_text (ri_AgentID input) \<notin> nd_agent_id ` set (db_nodes d)"
    using None by (auto simp: find_None_iff)
  moreover have "insert ?n (nd_id ` set (db_nodes d)) \<subseteq> pg_gen pg ` {..<Suc (db_next d)}"
    using assms(2) unfolding nodes_wf_def by (auto simp: lessThan_Suc)
  moreover have "db_next d1 = Suc (db_next d)" "map nd_id (db_nodes d1) = map nd_id (db_nodes d) @ [?n]"
    "map nd_agent_id (db_nodes d1) = map nd_agent_id (db_nodes d) @ [uuid_text (ri_AgentID input)]"
    "nd_id ` set (db_nodes d1) = insert ?n (nd_id ` set (db_nodes d))"
    using None assms(1) by (auto simp: upsertNode_def Let_def)
  ultimately have "nodes_wf pg d1" using assms(2) by (simp add: nodes_wf_def)
  then show ?thesis
    using None assms(1) by (auto simp: upsertNode_def Let_def)
next
  case (Some old)
  then have old: "old \<in> set (db_nodes d)" "nd_agent_id old = uuid_text (ri_AgentID input)"
    by (auto simp: find_Some_iff)
  have d1: "nodeID = nd_id old" "db_tokens d1 = db_tokens d" "db_next d1 = db_next d"
    "map nd_id (db_nodes d1) = map nd_id (db_nodes d)" "map nd_agent_id (db_nodes d1) = map nd_agent_id (db_nodes d)"
    using assms(1) Some by (auto simp: upsertNode_def Let_def)
  have "nd_id ` set (db_nodes d1) = nd_id ` set (db_nodes d)" using d1(4) by (metis set_map)
  then have "nodes_wf pg d1" using assms(2) d1 by (simp add: nodes_wf_def)
  moreover have "\<exists>n \<in> set (db_nodes d1). nd_id n = nodeID \<and> nd_agent_id n = uuid_text (ri_AgentID input) \<and> nd_disabled_at n = None"
  proof (intro bexI [of _ "reRegistered now input old"] conjI)
    show "reRegistered now input old \<in> set (db_nodes d1)"
      using assms(1) Some old by (auto simp: upsertNode_def Let_def image_iff)
  qed (simp_all add: old d1(1))
  ultimately show ?thesis using d1(2) by simp
qed

lemma filter_unique:
  "distinct (map f xs) \<Longrightarrow> x \<in> set xs \<Longrightarrow> P x \<Longrightarrow> filter (\<lambda>y. f y = f x \<and> P y) xs = [x]"
  by (induction xs) (auto simp: filter_empty_conv, (metis imageI)+)

lemma RegisterNode_success:
  assumes "RegisterNode pg sha256 fault uuidBytes tokenBytes now input d = (Inr cred, d')"
  shows "\<exists>input' tokenPrefix. ri_AgentID input' = nc_AgentID cred \<and>
    run_tx ''begin registration'' ''commit registration'' fault
      (registrationBody pg now input' tokenPrefix (sha256 (nc_Token cred))) d = (Inr (nc_NodeID cred), d')"
proof -
  obtain agentID where a: "(if ri_AgentID input = [] then NewUUID uuidBytes else Inr (ri_AgentID input)) = Inr agentID"
    using assms by (auto simp: RegisterNode_def split: sum.splits if_splits)
  obtain bytes where b: "tokenBytes = Some bytes"
    using assms a by (auto simp: RegisterNode_def Let_def split: option.splits)
  let ?input = "withDefaults (input\<lparr>ri_AgentID := agentID\<rparr>)" and ?raw = "RawURLEncode bytes"
  let ?pre = "if length ?raw > 12 then take 12 ?raw else ?raw"
  let ?run = "run_tx ''begin registration'' ''commit registration'' fault
      (registrationBody pg now ?input ?pre (sha256 ?raw)) d"
  obtain nodeID where run: "?run = (Inr nodeID, d')"
    and cred: "cred = \<lparr>nc_NodeID = nodeID, nc_AgentID = agentID, nc_Token = ?raw\<rparr>"
    using assms unfolding RegisterNode_def a b Let_def
    by (cases ?run) (auto split: sum.splits if_splits)
  have "ri_AgentID ?input = nc_AgentID cred" by (simp add: cred withDefaults_def)
  with run cred show ?thesis by (intro exI conjI) auto
qed

lemma set_preference:
  assumes "distinct (map pf_node_id ps)"
  shows "distinct (map pf_node_id (set_preference row ps))"
    "filter (\<lambda>p. pf_node_id p = pf_node_id row) (set_preference row ps) = [row]"
    "filter (\<lambda>p. pf_node_id p \<noteq> pf_node_id row) (set_preference row ps) = filter (\<lambda>p. pf_node_id p \<noteq> pf_node_id row) ps"
proof -
  let ?k = "pf_node_id row"
  have dist: "distinct (map pf_node_id (map (\<lambda>p. if pf_node_id p = ?k then row else p) ps))"
    using assms by (simp add: comp_def if_distrib cong: if_cong)
  have one: "filter (\<lambda>p. pf_node_id p = ?k) (map (\<lambda>p. if pf_node_id p = ?k then row else p) ps) = [row]"
    if "?k \<in> pf_node_id ` set ps"
    using that assms
  proof (induction ps)
    case (Cons p ps)
    show ?case
    proof (cases "pf_node_id p = ?k")
      case True
      then have "\<forall>q \<in> set ps. pf_node_id q \<noteq> ?k" using Cons.prems(2) by (simp add: image_iff) metis
      then show ?thesis using True by (simp add: filter_empty_conv)
    qed (use Cons in auto)
  qed simp
  have rest: "filter (\<lambda>p. pf_node_id p \<noteq> ?k) (map (\<lambda>p. if pf_node_id p = ?k then row else p) ps)
      = filter (\<lambda>p. pf_node_id p \<noteq> ?k) ps"
    by (induction ps) simp_all
  have ex: "list_ex (\<lambda>p. pf_node_id p = ?k) ps \<longleftrightarrow> ?k \<in> pf_node_id ` set ps"
    by (simp add: list_ex_iff image_iff) metis
  show "distinct (map pf_node_id (set_preference row ps))"
    using assms dist unfolding set_preference_def ex by simp
  show "filter (\<lambda>p. pf_node_id p = ?k) (set_preference row ps) = [row]"
    using one unfolding set_preference_def ex by (auto simp: filter_empty_conv) (metis imageI)
  show "filter (\<lambda>p. pf_node_id p \<noteq> ?k) (set_preference row ps) = filter (\<lambda>p. pf_node_id p \<noteq> ?k) ps"
    using rest unfolding set_preference_def by simp
qed

section \<open>Properties\<close>

lemma registered_token:
  assumes inj: "inj (pg_gen pg)" and wf: "nodes_wf pg d"
    and reg: "RegisterNode pg sha256 fault uuidBytes tokenBytes now input d = (Inr cred, d')"
  shows "nodes_wf pg d' \<and>
    (\<exists>tid. AuthenticateToken sha256 False now' (nc_Token cred) d' =
       Inr \<lparr>auth_TokenID = tid, auth_NodeID = nc_NodeID cred, auth_AgentID = uuid_text (nc_AgentID cred)\<rparr>) \<and>
    (\<forall>raw a. AuthenticateToken sha256 False now' raw d' = Inr a \<and> auth_NodeID a = nc_NodeID cred \<longrightarrow>
       sha256 raw = sha256 (nc_Token cred))"
proof -
  let ?dig = "sha256 (nc_Token cred)"
  obtain input' pre where in': "ri_AgentID input' = nc_AgentID cred"
    and run: "run_tx ''begin registration'' ''commit registration'' fault
      (registrationBody pg now input' pre ?dig) d = (Inr (nc_NodeID cred), d')"
    using RegisterNode_success [OF reg] by blast
  obtain d1 where up: "upsertNode pg now input' d = (nc_NodeID cred, d1)"
    and dig: "?dig \<notin> tk_token_digest ` set (db_tokens (revokeTokens (nc_NodeID cred) now d1))"
    and d': "d' = (revokeTokens (nc_NodeID cred) now d1)\<lparr>db_tokens := db_tokens (revokeTokens (nc_NodeID cred) now d1) @
            [\<lparr>tk_id = pg_gen pg (db_next d1), tk_node_id = nc_NodeID cred, tk_token_prefix = pre,
              tk_token_digest = ?dig, tk_label = ''admin registration'', tk_created_at = now,
              tk_expires_at = None, tk_revoked_at = None, tk_last_used_at = None\<rparr>],
          db_next := Suc (db_next d1)\<rparr>"
    using registrationBody_success [OF run] by blast
  obtain n where wf1: "nodes_wf pg d1" and n: "n \<in> set (db_nodes d1)" "nd_id n = nc_NodeID cred"
      "nd_agent_id n = uuid_text (nc_AgentID cred)" "nd_disabled_at n = None"
    using upsertNode_node [OF up wf inj] in' by auto
  have nodes: "db_nodes d' = db_nodes d1" by (simp add: d' revokeTokens_def)
  have "nodes_wf pg d'"
    using wf1 by (auto simp: nodes_wf_def d' revokeTokens_def lessThan_Suc)
  moreover have "filter (\<lambda>m. nd_id m = nc_NodeID cred \<and> nd_disabled_at m = None) (db_nodes d1) = [n]"
    using filter_unique [of nd_id "db_nodes d1" n "\<lambda>m. nd_disabled_at m = None"] n wf1 by (simp add: nodes_wf_def)
  moreover have "filter (token_usable now' ?dig) (db_tokens (revokeTokens (nc_NodeID cred) now d1)) = []"
    using dig by (force simp: filter_empty_conv token_usable_def image_iff)
  ultimately have auth: "\<exists>tid. AuthenticateToken sha256 False now' (nc_Token cred) d' =
       Inr \<lparr>auth_TokenID = tid, auth_NodeID = nc_NodeID cred, auth_AgentID = uuid_text (nc_AgentID cred)\<rparr>"
    using n by (simp add: AuthenticateToken_def authRows_def nodes) (simp add: d' token_usable_def)
  have "sha256 raw = ?dig"
    if a: "AuthenticateToken sha256 False now' raw d' = Inr a" "auth_NodeID a = nc_NodeID cred" for raw a
  proof -
    have "a \<in> set (authRows now' (sha256 raw) d')"
      using a(1) by (auto simp: AuthenticateToken_def split: list.splits)
    then obtain k where k: "k \<in> set (db_tokens d')" "token_usable now' (sha256 raw) k" "tk_node_id k = nc_NodeID cred"
      using a(2) by (auto simp: authRows_def)
    then have "tk_token_digest k = ?dig"
      by (auto simp: d' revokeTokens_def token_usable_def split: if_splits)
    then show ?thesis using k(2) by (simp add: token_usable_def)
  qed
  with auth \<open>nodes_wf pg d'\<close> show ?thesis by blast
qed

text \<open>
  C9: The token a registration returns authenticates at once, as the node it registered and with the
  agent id in the lower-case form of the database; and from then on no other token does: every token
  issued to that node before is revoked. Node and agent identifiers stay unique.
\<close>

theorem RegisterNode_token:
  assumes inj: "inj (pg_gen pg)" and wf: "nodes_wf pg d"
    and reg: "RegisterNode pg sha256 fault uuidBytes tokenBytes now input d = (Inr cred, d')"
  shows "nodes_wf pg d' \<and>
    (\<exists>tid. AuthenticateToken sha256 False now' (nc_Token cred) d' =
       Inr \<lparr>auth_TokenID = tid, auth_NodeID = nc_NodeID cred, auth_AgentID = uuid_text (nc_AgentID cred)\<rparr>) \<and>
    (\<forall>raw a. AuthenticateToken sha256 False now' raw d' = Inr a \<and> auth_NodeID a = nc_NodeID cred \<longrightarrow>
       sha256 raw = sha256 (nc_Token cred))"
  using assms by (rule registered_token)

definition sampleInput :: RegisterNodeInput where
  "sampleInput = \<lparr>ri_AgentID = ''123E4567-E89B-42D3-A456-426614174000'', ri_Hostname = [], ri_DisplayName = [],
     ri_OSName = [], ri_OSVersion = [], ri_Architecture = [], ri_AgentVersion = [], ri_Labels = None\<rparr>"

definition freshDb :: database where
  "freshDb = sampleDb\<lparr>db_nodes := []\<rparr>"

theorem RegisterNode_token_witness:
  "\<exists>cred d'. RegisterNode samplePg (\<lambda>s. map of_char s) (\<lambda>_. False) None (Some (replicate 32 7)) sampleNow sampleInput freshDb
       = (Inr cred, d') \<and> nodes_wf samplePg d' \<and> length (nc_Token cred) = 43"
proof -
  let ?r = "RegisterNode samplePg (\<lambda>s. map of_char s) (\<lambda>_. False) None (Some (replicate 32 7)) sampleNow sampleInput freshDb"
  have "(case fst ?r of Inl _ \<Rightarrow> False | Inr c \<Rightarrow> length (nc_Token c) = 43)" by code_simp
  then obtain cred d' where r: "?r = (Inr cred, d')" and "length (nc_Token cred) = 43"
    by (cases ?r) (auto split: sum.splits)
  moreover have "nodes_wf samplePg freshDb" by (simp add: nodes_wf_def freshDb_def)
  ultimately show ?thesis using RegisterNode_token [OF inj_samplePg _ r] by blast
qed

text \<open>
  Choosing the primary network interface succeeds exactly when the interface is an active one of
  that node; then the node has exactly one preference, the chosen interface, and no other node's
  preference changes. Otherwise the answer is an error and the database is as it was.
\<close>

theorem SetPrimaryNetworkInterface_choice:
  assumes "distinct (map pf_node_id (db_preferences d))"
  shows "case SetPrimaryNetworkInterface fault now nodeID interfaceID d of (e, d') \<Rightarrow>
    (e = None \<longleftrightarrow> \<not> fault \<and> (\<exists>r \<in> set (db_network_interfaces d).
        rs_active (uuid_text nodeID) r \<and> rs_id r = uuid_text interfaceID)) \<and>
    (e = None \<longrightarrow> distinct (map pf_node_id (db_preferences d')) \<and>
       filter (\<lambda>p. pf_node_id p = uuid_text nodeID) (db_preferences d') =
         [\<lparr>pf_node_id = uuid_text nodeID, pf_interface_id = uuid_text interfaceID, pf_updated_at = now\<rparr>] \<and>
       filter (\<lambda>p. pf_node_id p \<noteq> uuid_text nodeID) (db_preferences d') =
         filter (\<lambda>p. pf_node_id p \<noteq> uuid_text nodeID) (db_preferences d)) \<and>
    (e \<noteq> None \<longrightarrow> d' = d)"
proof -
  let ?row = "\<lparr>pf_node_id = uuid_text nodeID, pf_interface_id = uuid_text interfaceID, pf_updated_at = now\<rparr>"
  have "set_preference ?row (db_preferences d) = set_preference ?row (db_preferences d)" ..
  note pref = set_preference [OF assms, of ?row]
  show ?thesis
    using pref by (auto simp: SetPrimaryNetworkInterface_def Let_def filter_empty_conv)
qed

definition interfaceDb :: database where
  "interfaceDb = sampleDb\<lparr>db_network_interfaces := [\<lparr>rs_id = ''i1'', rs_node_id = ''n1'', rs_key = ''eth0'',
     rs_data = \<lparr>ic_interface_name = ''eth0'', ic_mac_address = None, ic_mtu = None, ic_link_speed_mbps = None\<rparr>,
     rs_first_seen_at = 0, rs_last_seen_at = 0, rs_removed_at = None\<rparr>]\<rparr>"

theorem SetPrimaryNetworkInterface_choice_witness:
  "SetPrimaryNetworkInterface False sampleNow ''N1'' ''I1'' interfaceDb =
     (None, interfaceDb\<lparr>db_preferences := [\<lparr>pf_node_id = ''n1'', pf_interface_id = ''i1'', pf_updated_at = sampleNow\<rparr>]\<rparr>)
   \<and> distinct (map pf_node_id (db_preferences (snd (SetPrimaryNetworkInterface False sampleNow ''N1'' ''I1'' interfaceDb))))"
proof -
  have "distinct (map pf_node_id (db_preferences interfaceDb))" by code_simp
  note C = SetPrimaryNetworkInterface_choice [OF this, where fault = False and now = sampleNow
      and nodeID = "''N1''" and interfaceID = "''I1''"]
  have ids: "lower_byte CHR ''I'' = CHR ''i''" "lower_byte CHR ''N'' = CHR ''n''" "lower_byte CHR ''1'' = CHR ''1''"
    by code_simp+
  have "SetPrimaryNetworkInterface False sampleNow ''N1'' ''I1'' interfaceDb =
     (None, interfaceDb\<lparr>db_preferences := [\<lparr>pf_node_id = ''n1'', pf_interface_id = ''i1'', pf_updated_at = sampleNow\<rparr>]\<rparr>)"
    by (simp add: SetPrimaryNetworkInterface_def Let_def set_preference_def uuid_text_def interfaceDb_def sampleDb_def rs_active_def ids)
  with C show ?thesis by simp
qed

end
