(* ===== verification/Store_Query.thy ===== *)
theory Store_Query
  imports Store_Nodes "HOL-Library.Product_Lexorder"
begin

text \<open>
  Reading the database back (src/internal/store/query.go): the result types, the node detail with
  its seven lists, and the history of a node. The tables a report writes are those of
  \<open>Store_Database\<close>. What the SQL computes beyond them is an argument, the record \<open>queries\<close>: the sort
  key of the collation, the quotient of two \<open>numeric\<close> values as a float, the rows of the
  \<open>..._current_metrics\<close> tables, which triggers of the schema fill, and the rows of the summary and
  history queries. A text column that may be NULL is read through \<open>COALESCE(x, '')\<close>.
\<close>

section \<open>Result types\<close>

record NodeSummary =
  ns_NodeID :: string
  ns_AgentID :: string
  ns_Hostname :: string
  ns_DisplayName :: string
  ns_OSName :: string
  ns_OSVersion :: string
  ns_Architecture :: string
  ns_AgentVersion :: string
  ns_Labels :: "(string \<times> string) list"
  ns_Tags :: "string list"
  ns_MachineType :: string
  ns_SystemModel :: string
  ns_HasNVIDIAGPU :: bool
  ns_LastSeenAt :: Time
  ns_Status :: string
  ns_PrimaryIP :: string
  ns_SecondsSinceLastSeen :: int
  ns_LatestBucketAt :: "Time option"
  ns_CPUUsagePercent :: f64
  ns_Load1 :: f64
  ns_Load5 :: f64
  ns_Load15 :: f64
  ns_MemoryTotalBytes :: int
  ns_MemoryUsedBytes :: int
  ns_MemoryUsagePercent :: f64
  ns_UptimeSeconds :: int
  ns_CPUPackageCount :: int
  ns_CPUPhysicalCoreCount :: int
  ns_CPULogicalThreadCount :: int
  ns_CPUThreadsPerPackage :: "int list"
  ns_CPUModels :: "string list"
  ns_MemoryModuleCount :: int
  ns_InventoryMemoryBytes :: int
  ns_MemoryModels :: "string list"
  ns_DiskCount :: int
  ns_DiskTotalBytes :: int
  ns_DiskModels :: "string list"
  ns_DiskUsagePercent :: f64
  ns_DiskReadBytesPerSec :: f64
  ns_DiskWriteBytesPerSec :: f64
  ns_NetworkRXBytesPerSec :: f64
  ns_NetworkTXBytesPerSec :: f64

record FilesystemStatus =
  fst_FilesystemID :: string
  fst_DeviceName :: string
  fst_FilesystemType :: string
  fst_MountPoint :: string
  fst_BucketAt :: "Time option"
  fst_TotalBytes :: int
  fst_UsedBytes :: int
  fst_AvailableBytes :: int
  fst_UsedPercent :: f64

record NetworkStatus =
  nst_InterfaceID :: string
  nst_Name :: string
  nst_IsPrimary :: bool
  nst_MACAddress :: string
  nst_MTU :: int
  nst_LinkSpeedMbps :: int
  nst_Addresses :: "string list"
  nst_BucketAt :: "Time option"
  nst_LinkUp :: bool
  nst_RXBytesTotal :: int
  nst_TXBytesTotal :: int
  nst_RXBitsPerSecond :: f64
  nst_TXBitsPerSecond :: f64

record CPUHardware =
  ch_PackageIndex :: int
  ch_Vendor :: string
  ch_ModelName :: string
  ch_PhysicalCores :: int
  ch_LogicalThreads :: int
  ch_PerformanceCores :: int
  ch_EfficiencyCores :: int
  ch_MaxFrequencyMHz :: f64

record MemoryHardware =
  mh_SlotName :: string
  mh_Manufacturer :: string
  mh_ModelName :: string
  mh_PartNumber :: string
  mh_SerialNumber :: string
  mh_MemoryType :: string
  mh_SizeBytes :: int
  mh_SpeedMTs :: int

record BlockDeviceHardware =
  bh_DeviceName :: string
  bh_DeviceKind :: string
  bh_Vendor :: string
  bh_ModelName :: string
  bh_SerialNumber :: string
  bh_WWN :: string
  bh_SizeBytes :: int
  bh_Rotational :: "bool option"
  bh_Protocol :: string
  bh_SMARTDeviceType :: string
  bh_RAIDPassthrough :: bool
  bh_HealthCollectedAt :: "Time option"
  bh_SMARTAvailable :: bool
  bh_SMARTEnabled :: bool
  bh_SMARTStatus :: string
  bh_RiskLevel :: string
  bh_RiskReasons :: "string list"
  bh_TemperatureCelsius :: "f64 option"
  bh_PowerOnHours :: "int option"
  bh_ErrorCount :: "int option"
  bh_ReadErrorRateNormalized :: "int option"
  bh_ReadErrorRateRaw :: "int option"
  bh_ReallocatedSectors :: "int option"
  bh_PendingSectors :: "int option"
  bh_UncorrectableSectors :: "int option"
  bh_PercentageUsed :: "f64 option"

record TemperatureStatus =
  tps_Key :: string
  tps_Component :: string
  tps_Label :: string
  tps_BucketAt :: Time
  tps_TemperatureCelsius :: f64
  tps_HighCelsius :: "f64 option"
  tps_CriticalCelsius :: "f64 option"

record GPUStatus =
  gst_GPUDeviceID :: string
  gst_Index :: int
  gst_UUID :: string
  gst_ModelName :: string
  gst_BucketAt :: "Time option"
  gst_UtilizationPercent :: f64
  gst_MemoryTotalBytes :: int
  gst_MemoryUsedBytes :: int
  gst_MemoryUsagePercent :: f64

record NodeDetail =
  ndt_Node :: NodeSummary
  ndt_CPUPackages :: "CPUHardware list"
  ndt_MemoryModules :: "MemoryHardware list"
  ndt_BlockDevices :: "BlockDeviceHardware list"
  ndt_Temperatures :: "TemperatureStatus list"
  ndt_GPUs :: "GPUStatus list"
  ndt_Filesystems :: "FilesystemStatus list"
  ndt_Network :: "NetworkStatus list"

record HistoryPoint =
  hp_BucketAt :: Time
  hp_CPUUsagePercent :: f64
  hp_MemoryUsagePercent :: f64
  hp_DiskUsagePercent :: f64
  hp_DiskReadBytesPerSecond :: f64
  hp_DiskWriteBytesPerSecond :: f64
  hp_NetworkRXBytesPerSecond :: f64
  hp_NetworkTXBytesPerSecond :: f64

record GPUHistoryPoint =
  ghp_BucketAt :: Time
  ghp_UtilizationPercent :: f64
  ghp_MemoryUsagePercent :: f64

record GPUHistorySeries =
  ghs_GPUDeviceID :: string
  ghs_Index :: int
  ghs_UUID :: string
  ghs_ModelName :: string
  ghs_Points :: "GPUHistoryPoint list"

record NodeHistory =
  nh_NodeID :: string
  nh_Range :: string
  nh_Resolution :: string
  nh_Points :: "HistoryPoint list"
  nh_GPUs :: "GPUHistorySeries list"

section \<open>Rows\<close>

record filesystem_current =
  fcm_bucket_at :: Time
  fcm_total_bytes :: int
  fcm_used_bytes :: int
  fcm_available_bytes :: int
  fcm_used_percent :: f64

record network_current =
  ncm_bucket_at :: Time
  ncm_link_up :: bool
  ncm_rx_bytes_total :: int
  ncm_tx_bytes_total :: int
  ncm_rx_bits_per_second :: f64
  ncm_tx_bits_per_second :: f64

record gpu_current =
  gcm_bucket_at :: Time
  gcm_utilization_percent :: f64
  gcm_memory_used_bytes :: int

text \<open>A row of the GPU history: device id, index, uuid, model and the point.\<close>

type_synonym gpu_history_row = "string \<times> int \<times> string \<times> string \<times> GPUHistoryPoint"

text \<open>
  A row of the node summary: the columns and the labels, which are decoded from JSON after the scan
  (\<^const>\<open>None\<close> when they are not a map of strings).
\<close>

type_synonym summary_row = "NodeSummary \<times> (string \<times> string) list option"

datatype history_query = hourlyHistorySQL | rawHistorySQL
datatype gpu_history_query = hourlyGPUHistorySQL | rawGPUHistorySQL

record queries =
  qs_collate :: "string \<Rightarrow> string"
  qs_percent :: "int \<Rightarrow> int \<Rightarrow> f64"
  qs_filesystem :: "string \<Rightarrow> string \<Rightarrow> filesystem_current option"
  qs_network :: "string \<Rightarrow> string \<Rightarrow> network_current option"
  qs_gpu :: "string \<Rightarrow> string \<Rightarrow> gpu_current option"
  qs_summary :: "database \<Rightarrow> string \<Rightarrow> summary_row option"
  qs_nodes :: "database \<Rightarrow> summary_row list"
  qs_history :: "history_query \<Rightarrow> database \<Rightarrow> string \<Rightarrow> Time \<Rightarrow> int option \<Rightarrow> HistoryPoint list"
  qs_gpu_history :: "gpu_history_query \<Rightarrow> database \<Rightarrow> string \<Rightarrow> Time \<Rightarrow> int option \<Rightarrow> gpu_history_row list"

text \<open>
  How a query may fail: when it is sent, when a row is scanned, or while the rows are fetched.
  \<open>read_rows\<close> is the loop \<open>for rows.Next()\<close> between them, with the words the code wraps the three
  errors in (none for the error of the driver itself).
\<close>

datatype query_fault = NoFault | QueryFails | ScanFails nat | IterFails

fun read_rows :: "string \<times> string \<times> string \<Rightarrow> query_fault \<Rightarrow> 'r list \<Rightarrow> store_error + 'r list" where
  "read_rows what NoFault rows = Inr rows"
| "read_rows what QueryFails rows = Inl (DbFailed (fst what) [])"
| "read_rows what (ScanFails i) rows = (if i < length rows then Inl (DbFailed (fst (snd what)) []) else Inr rows)"
| "read_rows what IterFails rows = Inl (DbFailed (snd (snd what)) [])"

definition coalesce :: "'a \<Rightarrow> 'a option \<Rightarrow> 'a" where
  "coalesce x y = (case y of None \<Rightarrow> x | Some z \<Rightarrow> z)"

section \<open>The lists of a node\<close>

definition cpuHardware :: "cpu_columns \<Rightarrow> CPUHardware" where
  "cpuHardware c =
     \<lparr>ch_PackageIndex = cc_package_index c, ch_Vendor = coalesce [] (cc_vendor c),
      ch_ModelName = cc_model_name c, ch_PhysicalCores = cc_physical_cores c,
      ch_LogicalThreads = cc_logical_threads c, ch_PerformanceCores = cc_performance_cores c,
      ch_EfficiencyCores = cc_efficiency_cores c, ch_MaxFrequencyMHz = coalesce (Fin 0) (cc_max_frequency_mhz c)\<rparr>"

definition listCPUPackages :: "query_fault \<Rightarrow> string \<Rightarrow> database \<Rightarrow> store_error + CPUHardware list" where
  "listCPUPackages fault nodeID d =
     read_rows (''query CPU packages'', ''scan CPU package'', []) fault
       (map (\<lambda>r. cpuHardware (rs_data r))
         (sort_slice (\<lambda>r. cc_package_index (rs_data r)) (active_rows (uuid_text nodeID) (db_cpu_packages d))))"

definition memoryHardware :: "memory_columns \<Rightarrow> MemoryHardware" where
  "memoryHardware c =
     \<lparr>mh_SlotName = coalesce [] (mc_slot_name c), mh_Manufacturer = coalesce [] (mc_manufacturer c),
      mh_ModelName = coalesce [] (mc_model_name c), mh_PartNumber = coalesce [] (mc_part_number c),
      mh_SerialNumber = coalesce [] (mc_serial_number c), mh_MemoryType = coalesce [] (mc_memory_type c),
      mh_SizeBytes = mc_size_bytes c, mh_SpeedMTs = coalesce 0 (mc_speed_mts c)\<rparr>"

text \<open>\<open>x NULLS LAST\<close> as a sort key.\<close>

definition nulls_last :: "(string \<Rightarrow> string) \<Rightarrow> string option \<Rightarrow> bool \<times> string" where
  "nulls_last collate x = (case x of None \<Rightarrow> (True, []) | Some s \<Rightarrow> (False, collate s))"

definition listMemoryModules :: "queries \<Rightarrow> query_fault \<Rightarrow> string \<Rightarrow> database \<Rightarrow> store_error + MemoryHardware list" where
  "listMemoryModules q fault nodeID d =
     read_rows (''query memory modules'', ''scan memory module'', []) fault
       (map (\<lambda>r. memoryHardware (rs_data r))
         (sort_slice (\<lambda>r. (nulls_last (qs_collate q) (mc_slot_name (rs_data r)), rs_id r))
           (active_rows (uuid_text nodeID) (db_memory_modules d))))"

text \<open>\<open>LEFT JOIN storage_health_current_metrics\<close>, whose primary key is the node and the device.\<close>

definition healthOf :: "database \<Rightarrow> 'd resource \<Rightarrow> storage_health_row option" where
  "healthOf d r = find (\<lambda>h. sr_node_id h = rs_node_id r \<and> sr_block_device_id h = rs_id r) (db_storage_health d)"

definition blockDeviceHardware :: "block_columns \<Rightarrow> storage_health_row option \<Rightarrow> BlockDeviceHardware" where
  "blockDeviceHardware c h =
     \<lparr>bh_DeviceName = bc_device_name c, bh_DeviceKind = bc_device_kind c, bh_Vendor = coalesce [] (bc_vendor c),
      bh_ModelName = coalesce [] (bc_model_name c), bh_SerialNumber = coalesce [] (bc_serial_number c),
      bh_WWN = coalesce [] (bc_wwn c), bh_SizeBytes = bc_size_bytes c, bh_Rotational = bc_rotational c,
      bh_Protocol = coalesce [] (bc_protocol c), bh_SMARTDeviceType = coalesce [] (bc_smart_device_type c),
      bh_RAIDPassthrough = bc_raid_passthrough c,
      bh_HealthCollectedAt = map_option sr_bucket_at h,
      bh_SMARTAvailable = coalesce False (map_option sr_smart_available h),
      bh_SMARTEnabled = coalesce False (map_option sr_smart_enabled h),
      bh_SMARTStatus = coalesce [] (map_option sr_smart_status h),
      bh_RiskLevel = coalesce [] (map_option sr_risk_level h),
      bh_RiskReasons = coalesce [] (map_option sr_risk_reasons h),
      bh_TemperatureCelsius = Option.bind h sr_temperature_celsius,
      bh_PowerOnHours = Option.bind h sr_power_on_hours, bh_ErrorCount = Option.bind h sr_error_count,
      bh_ReadErrorRateNormalized = Option.bind h sr_read_error_rate_normalized,
      bh_ReadErrorRateRaw = Option.bind h sr_read_error_rate_raw,
      bh_ReallocatedSectors = Option.bind h sr_reallocated_sectors,
      bh_PendingSectors = Option.bind h sr_pending_sectors,
      bh_UncorrectableSectors = Option.bind h sr_uncorrectable_sectors,
      bh_PercentageUsed = Option.bind h sr_percentage_used\<rparr>"

definition listBlockDevices :: "queries \<Rightarrow> query_fault \<Rightarrow> string \<Rightarrow> database \<Rightarrow> store_error + BlockDeviceHardware list" where
  "listBlockDevices q fault nodeID d =
     read_rows (''query block devices'', ''scan block device'', []) fault
       (map (\<lambda>r. blockDeviceHardware (rs_data r) (healthOf d r))
         (sort_slice (\<lambda>r. (qs_collate q (bc_device_name (rs_data r)),
              nulls_last (qs_collate q) (bc_smart_device_type (rs_data r))))
           (active_rows (uuid_text nodeID) (db_block_devices d))))"

definition componentRank :: "string \<Rightarrow> nat" where
  "componentRank c =
     (if c = ''cpu'' then 1 else if c = ''motherboard'' then 2 else if c = ''gpu'' then 3
      else if c = ''storage'' then 4 else 5)"

definition temperatureStatus :: "temperature_row \<Rightarrow> TemperatureStatus" where
  "temperatureStatus r =
     \<lparr>tps_Key = tr_sensor_key r, tps_Component = tr_component r, tps_Label = tr_label r,
      tps_BucketAt = tr_bucket_at r, tps_TemperatureCelsius = tr_temperature_celsius r,
      tps_HighCelsius = tr_high_celsius r, tps_CriticalCelsius = tr_critical_celsius r\<rparr>"

definition listTemperatures :: "queries \<Rightarrow> query_fault \<Rightarrow> string \<Rightarrow> database \<Rightarrow> store_error + TemperatureStatus list" where
  "listTemperatures q fault nodeID d =
     read_rows (''query temperatures'', ''scan temperature'', []) fault
       (map temperatureStatus
         (sort_slice (\<lambda>r. (componentRank (tr_component r), qs_collate q (tr_label r), qs_collate q (tr_sensor_key r)))
           (filter (\<lambda>r. tr_node_id r = uuid_text nodeID) (db_temperatures d))))"

definition gpuStatus :: "queries \<Rightarrow> gpu_columns resource \<Rightarrow> GPUStatus" where
  "gpuStatus q r =
     (let c = rs_data r; current = qs_gpu q (rs_node_id r) (rs_id r);
          used = coalesce 0 (map_option gcm_memory_used_bytes current)
      in \<lparr>gst_GPUDeviceID = rs_id r, gst_Index = gc_device_index c, gst_UUID = gc_gpu_uuid c,
          gst_ModelName = gc_model_name c, gst_BucketAt = map_option gcm_bucket_at current,
          gst_UtilizationPercent = coalesce (Fin 0) (map_option gcm_utilization_percent current),
          gst_MemoryTotalBytes = gc_memory_total_bytes c, gst_MemoryUsedBytes = used,
          gst_MemoryUsagePercent =
            (if gc_memory_total_bytes c = 0 then Fin 0 else qs_percent q used (gc_memory_total_bytes c))\<rparr>)"

definition listGPUs :: "queries \<Rightarrow> query_fault \<Rightarrow> string \<Rightarrow> database \<Rightarrow> store_error + GPUStatus list" where
  "listGPUs q fault nodeID d =
     read_rows (''query GPU status'', ''scan GPU status'', ''iterate GPU status'') fault
       (map (gpuStatus q)
         (sort_slice (\<lambda>r. (gc_device_index (rs_data r), qs_collate q (gc_gpu_uuid (rs_data r))))
           (active_rows (uuid_text nodeID) (db_gpu_devices d))))"

text \<open>The view \<open>v_filesystem_status\<close> and the query over it.\<close>

definition filesystemStatus :: "queries \<Rightarrow> filesystem_columns resource \<Rightarrow> FilesystemStatus" where
  "filesystemStatus q r =
     (let m = qs_filesystem q (rs_node_id r) (rs_id r)
      in \<lparr>fst_FilesystemID = rs_id r, fst_DeviceName = fc_device_name (rs_data r),
          fst_FilesystemType = fc_filesystem_type (rs_data r), fst_MountPoint = fc_mount_point (rs_data r),
          fst_BucketAt = map_option fcm_bucket_at m,
          fst_TotalBytes = coalesce 0 (map_option fcm_total_bytes m),
          fst_UsedBytes = coalesce 0 (map_option fcm_used_bytes m),
          fst_AvailableBytes = coalesce 0 (map_option fcm_available_bytes m),
          fst_UsedPercent = coalesce (Fin 0) (map_option fcm_used_percent m)\<rparr>)"

definition listFilesystems :: "queries \<Rightarrow> query_fault \<Rightarrow> string \<Rightarrow> database \<Rightarrow> store_error + FilesystemStatus list" where
  "listFilesystems q fault nodeID d =
     read_rows (''query filesystem status'', ''scan filesystem status'', []) fault
       (map (filesystemStatus q)
         (sort_slice (\<lambda>r. qs_collate q (fc_mount_point (rs_data r)))
           (active_rows (uuid_text nodeID) (db_filesystems d))))"

text \<open>The view \<open>v_network_status\<close>, the preferences and the query over them.\<close>

definition interfaceAddresses :: "queries \<Rightarrow> database \<Rightarrow> interface_columns resource \<Rightarrow> string list" where
  "interfaceAddresses q d r =
     sort_slice (qs_collate q) (map ad_address
       (filter (\<lambda>a. ad_node_id a = rs_node_id r \<and> ad_interface_id a = rs_id r \<and> ad_removed_at a = None)
         (db_network_addresses d)))"

definition networkStatus :: "queries \<Rightarrow> database \<Rightarrow> interface_columns resource \<Rightarrow> NetworkStatus" where
  "networkStatus q d r =
     (let m = qs_network q (rs_node_id r) (rs_id r);
          preference = find (\<lambda>p. pf_node_id p = rs_node_id r) (db_preferences d)
      in \<lparr>nst_InterfaceID = rs_id r, nst_Name = ic_interface_name (rs_data r),
          nst_IsPrimary = coalesce False (map_option (\<lambda>p. pf_interface_id p = rs_id r) preference),
          nst_MACAddress = coalesce [] (ic_mac_address (rs_data r)),
          nst_MTU = coalesce 0 (ic_mtu (rs_data r)),
          nst_LinkSpeedMbps = coalesce 0 (ic_link_speed_mbps (rs_data r)),
          nst_Addresses = interfaceAddresses q d r,
          nst_BucketAt = map_option ncm_bucket_at m,
          nst_LinkUp = coalesce False (map_option ncm_link_up m),
          nst_RXBytesTotal = coalesce 0 (map_option ncm_rx_bytes_total m),
          nst_TXBytesTotal = coalesce 0 (map_option ncm_tx_bytes_total m),
          nst_RXBitsPerSecond = coalesce (Fin 0) (map_option ncm_rx_bits_per_second m),
          nst_TXBitsPerSecond = coalesce (Fin 0) (map_option ncm_tx_bits_per_second m)\<rparr>)"

definition listNetwork :: "queries \<Rightarrow> query_fault \<Rightarrow> string \<Rightarrow> database \<Rightarrow> store_error + NetworkStatus list" where
  "listNetwork q fault nodeID d =
     read_rows (''query network status'', ''scan network status'', []) fault
       (map (networkStatus q d)
         (sort_slice (\<lambda>r. qs_collate q (ic_interface_name (rs_data r)))
           (active_rows (uuid_text nodeID) (db_network_interfaces d))))"

section \<open>Nodes\<close>

definition normalizeNodeSummary :: "NodeSummary \<Rightarrow> NodeSummary" where
  "normalizeNodeSummary item =
     (if ns_LatestBucketAt item = None \<and> ns_Status item \<noteq> ''disabled''
      then item\<lparr>ns_Status := ''pending''\<rparr> else item)"

text \<open>\<open>row.Scan\<close> has given the columns; a failing scan is a fault of the query.\<close>

definition scanNodeSummary :: "summary_row \<Rightarrow> store_error + NodeSummary" where
  "scanNodeSummary row =
     (case snd row of
        None \<Rightarrow> Inl (DbFailed ''decode node labels'' [])
      | Some labels \<Rightarrow> Inr (normalizeNodeSummary ((fst row)\<lparr>ns_Labels := labels\<rparr>)))"

fun scanAll :: "summary_row list \<Rightarrow> store_error + NodeSummary list" where
  "scanAll [] = Inr []"
| "scanAll (row # rows) =
     (case scanNodeSummary row of
        Inl e \<Rightarrow> Inl e
      | Inr item \<Rightarrow> (case scanAll rows of Inl e \<Rightarrow> Inl e | Inr items \<Rightarrow> Inr (item # items)))"

definition ListNodes :: "queries \<Rightarrow> query_fault \<Rightarrow> database \<Rightarrow> store_error + NodeSummary list" where
  "ListNodes q fault d =
     (case fault of
        QueryFails \<Rightarrow> Inl (DbFailed ''query nodes'' [])
      | ScanFails i \<Rightarrow>
          (case scanAll (take i (qs_nodes q d)) of
             Inl e \<Rightarrow> Inl e
           | Inr items \<Rightarrow> if i < length (qs_nodes q d) then Inl (DbFailed ''scan node summary'' []) else Inr items)
      | IterFails \<Rightarrow> (case scanAll (qs_nodes q d) of Inl e \<Rightarrow> Inl e | Inr _ \<Rightarrow> Inl (DbFailed ''iterate nodes'' []))
      | NoFault \<Rightarrow> scanAll (qs_nodes q d))"

definition GetNode :: "queries \<Rightarrow> (nat \<Rightarrow> query_fault) \<Rightarrow> string \<Rightarrow> database \<Rightarrow> store_error + NodeDetail" where
  "GetNode q fault nodeID d =
     (case (if fault 0 \<noteq> NoFault then Inl (DbFailed ''scan node summary'' [])
            else case qs_summary q d (uuid_text nodeID) of
                   None \<Rightarrow> Inl ErrNotFound
                 | Some row \<Rightarrow> scanNodeSummary row) of
        Inl e \<Rightarrow> Inl e
      | Inr summary \<Rightarrow>
     (case listFilesystems q (fault 1) nodeID d of Inl e \<Rightarrow> Inl e | Inr filesystems \<Rightarrow>
     (case listNetwork q (fault 2) nodeID d of Inl e \<Rightarrow> Inl e | Inr network \<Rightarrow>
     (case listCPUPackages (fault 3) nodeID d of Inl e \<Rightarrow> Inl e | Inr cpuPackages \<Rightarrow>
     (case listMemoryModules q (fault 4) nodeID d of Inl e \<Rightarrow> Inl e | Inr memoryModules \<Rightarrow>
     (case listBlockDevices q (fault 5) nodeID d of Inl e \<Rightarrow> Inl e | Inr blockDevices \<Rightarrow>
     (case listGPUs q (fault 6) nodeID d of Inl e \<Rightarrow> Inl e | Inr gpus \<Rightarrow>
     (case listTemperatures q (fault 7) nodeID d of Inl e \<Rightarrow> Inl e | Inr temperatures \<Rightarrow>
        Inr \<lparr>ndt_Node = summary, ndt_CPUPackages = cpuPackages, ndt_MemoryModules = memoryModules,
             ndt_BlockDevices = blockDevices, ndt_Temperatures = temperatures, ndt_GPUs = gpus,
             ndt_Filesystems = filesystems, ndt_Network = network\<rparr>))))))))"

section \<open>History\<close>

definition historyDurations :: "(string \<times> Duration) list" where
  "historyDurations =
     [(''1h'', Hour), (''6h'', 6 * Hour), (''24h'', 24 * Hour), (''7d'', 7 * 24 * Hour),
      (''30d'', 30 * 24 * Hour), (''90d'', 90 * 24 * Hour)]"

definition ValidHistoryRange :: "string \<Rightarrow> bool" where
  "ValidHistoryRange v \<longleftrightarrow> map_of historyDurations v \<noteq> None"

record historyQuerySpec =
  hq_resolution :: string
  hq_nodeQuery :: history_query
  hq_gpuQuery :: gpu_history_query
  hq_bucketMinutes :: int

definition historyQueries :: "Duration \<Rightarrow> historyQuerySpec" where
  "historyQueries duration =
     (if duration > 24 * Hour
      then \<lparr>hq_resolution = ''hour'', hq_nodeQuery = hourlyHistorySQL, hq_gpuQuery = hourlyGPUHistorySQL,
            hq_bucketMinutes = 0\<rparr>
      else \<lparr>hq_resolution = (if duration = 24 * Hour then ''5minute'' else ''minute''),
            hq_nodeQuery = rawHistorySQL, hq_gpuQuery = rawGPUHistorySQL,
            hq_bucketMinutes = (if duration = 24 * Hour then 5 else 1)\<rparr>)"

text \<open>
  The loop of \<open>queryGPUHistory\<close>: the series so far, the map from device to its position in them, and
  the rows still to read.
\<close>

definition addPoint :: "gpu_history_row \<Rightarrow> GPUHistorySeries list \<times> (string \<rightharpoonup> nat) \<Rightarrow> GPUHistorySeries list \<times> (string \<rightharpoonup> nat)" where
  "addPoint row st =
     (let (deviceID, deviceIndex, uuid, modelName, point) = row;
          (result, positions) =
            (case snd st deviceID of
               Some _ \<Rightarrow> st
             | None \<Rightarrow>
                 (fst st @ [\<lparr>ghs_GPUDeviceID = deviceID, ghs_Index = deviceIndex, ghs_UUID = uuid,
                            ghs_ModelName = modelName, ghs_Points = []\<rparr>],
                  (snd st)(deviceID \<mapsto> length (fst st))));
          position = the (positions deviceID)
      in (result[position := (result ! position)\<lparr>ghs_Points := ghs_Points (result ! position) @ [point]\<rparr>], positions))"

definition groupGPUHistory :: "gpu_history_row list \<Rightarrow> GPUHistorySeries list" where
  "groupGPUHistory rows = fst (fold addPoint rows ([], Map.empty))"

definition queryGPUHistory ::
  "queries \<Rightarrow> query_fault \<Rightarrow> gpu_history_query \<Rightarrow> database \<Rightarrow> string \<Rightarrow> Time \<Rightarrow> int option \<Rightarrow>
   store_error + GPUHistorySeries list" where
  "queryGPUHistory q fault query d nodeID start bucket =
     (case read_rows (''query GPU history'', ''scan GPU history'', ''iterate GPU history'') fault (qs_gpu_history q query d nodeID start bucket) of
        Inl e \<Rightarrow> Inl e
      | Inr rows \<Rightarrow> Inr (groupGPUHistory rows))"

definition GetNodeHistory ::
  "queries \<Rightarrow> (nat \<Rightarrow> query_fault) \<Rightarrow> Time \<Rightarrow> string \<Rightarrow> string \<Rightarrow> database \<Rightarrow> store_error + NodeHistory" where
  "GetNodeHistory q fault now nodeID window d =
     (case map_of historyDurations window of
        None \<Rightarrow> Inl (DbFailed ''invalid history range'' window)
      | Some duration \<Rightarrow>
          if fault 0 \<noteq> NoFault then Inl (DbFailed ''check history node'' [])
          else if \<not> list_ex (\<lambda>n. nd_id n = uuid_text nodeID) (db_nodes d) then Inl ErrNotFound
          else let start = now - duration; spec = historyQueries duration;
                   bucket = (if hq_bucketMinutes spec > 0 then Some (hq_bucketMinutes spec) else None)
               in case read_rows (''query node history'', ''scan node history'', ''iterate node history'') (fault 1)
                         (qs_history q (hq_nodeQuery spec) d (uuid_text nodeID) start bucket) of
                    Inl e \<Rightarrow> Inl e
                  | Inr points \<Rightarrow>
                      (case queryGPUHistory q (fault 2) (hq_gpuQuery spec) d (uuid_text nodeID) start bucket of
                         Inl e \<Rightarrow> Inl e
                       | Inr gpus \<Rightarrow>
                           Inr \<lparr>nh_NodeID = nodeID, nh_Range = window, nh_Resolution = hq_resolution spec,
                                nh_Points = points, nh_GPUs = gpus\<rparr>))"

section \<open>Lemmas\<close>

lemma coalesce_nullif [simp]:
  "coalesce [] (nullif_empty s) = s" "coalesce 0 (nullif_zero n) = n"
  by (simp_all add: coalesce_def nullif_empty_def nullif_zero_def)

text \<open>An active part of a table that represents a keyed list holds the columns of that list.\<close>

lemma active_data_mset:
  assumes "distinct (active_keys node t)" "distinct (map k items)"
    and "abs_table t node = map_of (map (\<lambda>x. (k x, f x)) items)"
  shows "mset (map rs_data (active_rows node t)) = mset (map f items)"
proof -
  let ?xs = "map (\<lambda>r. (rs_key r, rs_data r)) (active_rows node t)" and ?ys = "map (\<lambda>x. (k x, f x)) items"
  have d: "distinct (map fst ?xs)" "distinct (map fst ?ys)"
    using assms(1,2) by (simp_all add: active_keys_def comp_def)
  have "set ?xs = set ?ys"
    using map_of_inject_set [OF d] assms(3) by (simp add: abs_table_def)
  then have "mset ?xs = mset ?ys"
    using d by (simp only: set_eq_iff_mset_eq_distinct distinct_map)
  from arg_cong [OF this, of "image_mset snd"] show ?thesis
    by (simp add: image_mset.compositionality comp_def)
qed

lemma mset_map_via:
  assumes "mset (map f xs) = mset (map g ys)"
  shows "mset (map (\<lambda>x. h (f x)) xs) = mset (map (\<lambda>y. h (g y)) ys)"
proof -
  have "mset (map h (map f xs)) = mset (map h (map g ys))" using assms by (metis mset_map)
  then show ?thesis by (simp only: map_map comp_def)
qed

subsection \<open>Grouping the points of the GPUs\<close>

text \<open>
  The reference: one series per device in the order of its first row, with the points of its rows
  in their order.
\<close>

definition seriesIDs :: "gpu_history_row list \<Rightarrow> string list" where
  "seriesIDs rows = rev (remdups (rev (map fst rows)))"

definition seriesOf :: "gpu_history_row list \<Rightarrow> string \<Rightarrow> GPUHistorySeries" where
  "seriesOf rows i =
     (let mine = filter (\<lambda>r. fst r = i) rows; (_, index, uuid, model, _) = hd mine
      in \<lparr>ghs_GPUDeviceID = i, ghs_Index = index, ghs_UUID = uuid, ghs_ModelName = model,
          ghs_Points = map (\<lambda>(_, _, _, _, point). point) mine\<rparr>)"

lemma seriesIDs_simps [simp]:
  "seriesIDs [] = []"
  "seriesIDs (rows @ [r]) = (if fst r \<in> fst ` set rows then seriesIDs rows else seriesIDs rows @ [fst r])"
  by (simp_all add: seriesIDs_def)

lemma seriesIDs_distinct: "distinct (seriesIDs rows)" and set_seriesIDs [simp]: "set (seriesIDs rows) = fst ` set rows"
  by (simp_all add: seriesIDs_def)

lemma seriesOf_snoc_other: "fst r \<noteq> i \<Longrightarrow> seriesOf (rows @ [r]) i = seriesOf rows i"
  by (simp add: seriesOf_def)

lemma seriesOf_snoc_same:
  assumes "fst r \<in> fst ` set rows"
  shows "seriesOf (rows @ [r]) (fst r) =
    (seriesOf rows (fst r))\<lparr>ghs_Points := ghs_Points (seriesOf rows (fst r)) @ [snd (snd (snd (snd r)))]\<rparr>"
proof -
  have "filter (\<lambda>q. fst q = fst r) rows \<noteq> []" using assms by (auto simp: filter_empty_conv) (metis fst_conv)
  then show ?thesis by (auto simp: seriesOf_def Let_def split: prod.splits)
qed

lemma seriesOf_snoc_new:
  assumes "i \<notin> fst ` set rows"
  shows "seriesOf (rows @ [(i, ix, u, m, pt)]) i =
    \<lparr>ghs_GPUDeviceID = i, ghs_Index = ix, ghs_UUID = u, ghs_ModelName = m, ghs_Points = [pt]\<rparr>"
proof -
  have "filter (\<lambda>q. fst q = i) rows = []" using assms by (force simp: filter_empty_conv)
  then show ?thesis by (simp add: seriesOf_def)
qed

lemma addPoint_seen:
  "pos i = Some n \<Longrightarrow> addPoint (i, ix, u, m, pt) (res, pos) =
     (res[n := (res ! n)\<lparr>ghs_Points := ghs_Points (res ! n) @ [pt]\<rparr>], pos)"
  by (simp add: addPoint_def)

lemma addPoint_new:
  "pos i = None \<Longrightarrow> addPoint (i, ix, u, m, pt) (res, pos) =
     (res @ [\<lparr>ghs_GPUDeviceID = i, ghs_Index = ix, ghs_UUID = u, ghs_ModelName = m, ghs_Points = [pt]\<rparr>],
      pos(i \<mapsto> length res))"
  by (simp add: addPoint_def)

lemma fold_addPoint:
  "fst (fold addPoint rows ([], Map.empty)) = map (seriesOf rows) (seriesIDs rows) \<and>
   (\<forall>i n. snd (fold addPoint rows ([], Map.empty)) i = Some n \<longleftrightarrow> n < length (seriesIDs rows) \<and> seriesIDs rows ! n = i)"
proof (induction rows rule: rev_induct)
  case (snoc r rows)
  obtain i ix u m pt where r: "r = (i, ix, u, m, pt)" by (cases r)
  obtain res pos where st: "fold addPoint rows ([], Map.empty) = (res, pos)" by fastforce
  have res: "res = map (seriesOf rows) (seriesIDs rows)"
    and pos: "\<And>i n. pos i = Some n \<longleftrightarrow> n < length (seriesIDs rows) \<and> seriesIDs rows ! n = i"
    using snoc st by auto
  show ?case
  proof (cases "i \<in> fst ` set rows")
    case True
    then obtain n where n: "n < length (seriesIDs rows)" "seriesIDs rows ! n = i"
      by (metis in_set_conv_nth set_seriesIDs)
    then have p: "pos i = Some n" by (simp add: pos)
    have "map (seriesOf (rows @ [r])) (seriesIDs rows) =
        res[n := (seriesOf rows i)\<lparr>ghs_Points := ghs_Points (seriesOf rows i) @ [pt]\<rparr>]"
    proof (rule nth_equalityI)
      fix k
      assume "k < length (map (seriesOf (rows @ [r])) (seriesIDs rows))"
      then have k: "k < length (seriesIDs rows)" by simp
      show "map (seriesOf (rows @ [r])) (seriesIDs rows) ! k =
          res[n := (seriesOf rows i)\<lparr>ghs_Points := ghs_Points (seriesOf rows i) @ [pt]\<rparr>] ! k"
      proof (cases "k = n")
        case True
        then show ?thesis using n seriesOf_snoc_same [of r rows] \<open>i \<in> fst ` set rows\<close> by (simp add: r res)
      next
        case False
        then have "seriesIDs rows ! k \<noteq> i" using n k seriesIDs_distinct by (metis nth_eq_iff_index_eq)
        then show ?thesis using False k seriesOf_snoc_other [of r] by (simp add: r res)
      qed
    qed (simp add: res)
    then show ?thesis using True n p pos by (simp add: st addPoint_seen r res)
  next
    case False
    then have p: "pos i = None" by (metis in_set_conv_nth not_Some_eq pos set_seriesIDs)
    have old: "map (seriesOf (rows @ [r])) (seriesIDs rows) = res"
      unfolding res using False by (intro map_cong refl seriesOf_snoc_other) (auto simp: r image_iff)
    have new: "seriesOf (rows @ [r]) i =
        \<lparr>ghs_GPUDeviceID = i, ghs_Index = ix, ghs_UUID = u, ghs_ModelName = m, ghs_Points = [pt]\<rparr>"
      using seriesOf_snoc_new [OF False] by (simp add: r)
    have len: "length res = length (seriesIDs rows)" by (simp add: res)
    have "fst (fold addPoint (rows @ [r]) ([], Map.empty)) = map (seriesOf (rows @ [r])) (seriesIDs (rows @ [r]))"
      using False p old new by (simp add: st addPoint_new r)
    moreover have "snd (fold addPoint (rows @ [r]) ([], Map.empty)) = pos(i \<mapsto> length (seriesIDs rows))"
      using p by (simp add: st addPoint_new r len)
    moreover have "(pos(i \<mapsto> length (seriesIDs rows))) j = Some n \<longleftrightarrow>
        n < length (seriesIDs rows @ [i]) \<and> (seriesIDs rows @ [i]) ! n = j" for j n
      using p pos [of j n] False by (auto simp: nth_append less_Suc_eq)
    ultimately show ?thesis using False by (simp add: r)
  qed
qed simp

subsection \<open>The inventory read back\<close>

definition reportedCPU :: "postgres \<Rightarrow> CPUPackage \<Rightarrow> CPUHardware" where
  "reportedCPU pg c =
     \<lparr>ch_PackageIndex = cpu_PackageIndex c, ch_Vendor = cpu_Vendor c, ch_ModelName = cpu_ModelName c,
      ch_PhysicalCores = cpu_PhysicalCores c, ch_LogicalThreads = cpu_LogicalThreads c,
      ch_PerformanceCores = cpu_PerformanceCores c, ch_EfficiencyCores = cpu_EfficiencyCores c,
      ch_MaxFrequencyMHz =
        (if f64_eq (cpu_MaxFrequencyMHz c) (Fin 0) then Fin 0 else pg_numeric pg (cpu_MaxFrequencyMHz c))\<rparr>"

definition reportedMemory :: "MemoryModule \<Rightarrow> MemoryHardware" where
  "reportedMemory m =
     \<lparr>mh_SlotName = mm_SlotName m, mh_Manufacturer = mm_Manufacturer m, mh_ModelName = mm_ModelName m,
      mh_PartNumber = mm_PartNumber m, mh_SerialNumber = mm_SerialNumber m, mh_MemoryType = mm_MemoryType m,
      mh_SizeBytes = uint (mm_SizeBytes m), mh_SpeedMTs = mm_SpeedMTs m\<rparr>"

lemma cpuHardware_reported: "cpuHardware (to_data (cpu_table pg) c) = reportedCPU pg c"
  by (simp add: cpuHardware_def cpu_table_def reportedCPU_def) (simp add: coalesce_def nullif_zero_f_def)

lemma memoryHardware_reported: "fits (mm_SizeBytes m) \<Longrightarrow> memoryHardware (to_data memory_table m) = reportedMemory m"
  by (simp add: memoryHardware_def memory_table_def reportedMemory_def fits_i64)

lemma inventory_wf_Ingest:
  assumes "inj (pg_gen pg)" "inventory_wf pg d" "Ingest pg fault now auth p d = (Inr u, d')"
  shows "inventory_wf pg d'"
  using Ingest_success [OF assms(3)] inventory_wf_prepared [OF assms(1,2)] by auto

lemma stored_cpu_memory:
  assumes "inventory_wf pg d" "distinct_keys iv" "stored_inventory d node = reported_inventory pg iv"
  shows "mset (map rs_data (active_rows node (db_cpu_packages d))) = mset (map (to_data (cpu_table pg)) (inv_CPUPackages iv))"
    and "mset (map rs_data (active_rows node (db_memory_modules d))) = mset (map (to_data memory_table) (inv_MemoryModules iv))"
proof -
  have wf: "distinct (active_keys node (db_cpu_packages d))" "distinct (active_keys node (db_memory_modules d))"
    using assms(1) by (simp_all add: inventory_wf_def table_wf_def)
  have keys: "to_key (cpu_table pg) = cpu_Key" "to_key memory_table = mm_Key"
    by (simp_all add: cpu_table_def memory_table_def)
  have "abs_table (db_cpu_packages d) node = map_of (map (\<lambda>c. (cpu_Key c, to_data (cpu_table pg) c)) (inv_CPUPackages iv))"
    "abs_table (db_memory_modules d) node = map_of (map (\<lambda>m. (mm_Key m, to_data memory_table m)) (inv_MemoryModules iv))"
    using assms(3) by (simp_all add: stored_inventory_def reported_inventory_def keyed_def keys)
  then show "mset (map rs_data (active_rows node (db_cpu_packages d))) = mset (map (to_data (cpu_table pg)) (inv_CPUPackages iv))"
    and "mset (map rs_data (active_rows node (db_memory_modules d))) = mset (map (to_data memory_table) (inv_MemoryModules iv))"
    using assms(2) wf by (auto intro!: active_data_mset simp: distinct_keys_def simp del: mset_map)
qed

section \<open>Properties\<close>

text \<open>
  C15: What a node reports is what the server shows. After the ingestion of a validated report the
  list of CPU packages of the node is the reported one, ordered by package index, and the list of
  memory modules is the reported one: empty strings and zeros that are stored as NULL come back as
  they were, sizes come back as the unsigned numbers of the report, and nothing of an earlier
  inventory remains. (The frequency passes through a column of type numeric.)
\<close>

theorem Ingest_read_back:
  assumes inj: "inj (pg_gen pg)" and wf: "inventory_wf pg d"
    and sync: "in_sync pg (normal_fingerprint sha256 marshal) d"
    and valid: "Validate sha256 marshal now' r = (None, p)"
    and nonempty: "r_InventoryFingerprint p \<noteq> []"
    and collision: "\<forall>iv. normal_fingerprint sha256 marshal iv = Some (r_InventoryFingerprint p) \<longrightarrow> iv = r_Inventory p"
    and run: "Ingest pg fault now auth p d = (Inr u, d')"
    and node: "uuid_text nodeID = auth_NodeID auth"
  shows "\<exists>cpus modules. listCPUPackages NoFault nodeID d' = Inr cpus \<and> listMemoryModules q NoFault nodeID d' = Inr modules \<and>
     sorted (map ch_PackageIndex cpus) \<and>
     mset cpus = mset (map (reportedCPU pg) (inv_CPUPackages (r_Inventory p))) \<and>
     mset modules = mset (map reportedMemory (inv_MemoryModules (r_Inventory p)))"
proof -
  have p: "p = r\<lparr>r_Inventory := NormalizeInventory (r_Inventory r)\<rparr>"
    using Validate_snd [of sha256 marshal now' r] valid by simp
  have ok: "inventory_ok (r_Inventory p)"
    using Validate_None [of sha256 marshal now' r] valid by (simp add: p)
  note keys = inventory_ok_distinct_keys [OF ok]
  have "stored_inventory d' (auth_NodeID auth) = reported_inventory pg (r_Inventory p)"
    using stored_after_ingest [OF inj keys sync nonempty _ run] collision by auto
  note rows = stored_cpu_memory [OF inventory_wf_Ingest [OF inj wf run] keys this]
  have size: "map (\<lambda>m. memoryHardware (to_data memory_table m)) (inv_MemoryModules (r_Inventory p))
      = map reportedMemory (inv_MemoryModules (r_Inventory p))"
    using ok by (auto simp: inventory_ok_def memoryHardware_reported)
  have idx: "ch_PackageIndex (cpuHardware c) = cc_package_index c" for c by (simp add: cpuHardware_def)
  let ?cpus = "sort_slice (\<lambda>r. cc_package_index (rs_data r)) (active_rows (auth_NodeID auth) (db_cpu_packages d'))"
  have "sorted (map ch_PackageIndex (map (\<lambda>r. cpuHardware (rs_data r)) ?cpus))"
    using sorted_sort_slice [of "\<lambda>r. cc_package_index (rs_data r)" "active_rows (auth_NodeID auth) (db_cpu_packages d')"]
    by (simp add: comp_def idx)
  moreover have "mset (map (\<lambda>r. cpuHardware (rs_data r)) ?cpus) = mset (map (reportedCPU pg) (inv_CPUPackages (r_Inventory p)))"
    using mset_map_via [OF rows(1), of cpuHardware] by (simp add: cpuHardware_reported)
  moreover have "mset (map (\<lambda>r. memoryHardware (rs_data r)) (active_rows (auth_NodeID auth) (db_memory_modules d')))
      = mset (map reportedMemory (inv_MemoryModules (r_Inventory p)))"
    using mset_map_via [OF rows(2), of memoryHardware] unfolding size .
  ultimately show ?thesis by (simp add: listCPUPackages_def listMemoryModules_def node)
qed

theorem Ingest_read_back_witness:
  "\<exists>d' cpus. Ingest samplePg (\<lambda>_. False) sampleNow sampleAuth examplePayload sampleDb = (Inr (), d') \<and>
     listCPUPackages NoFault ''N1'' d' = Inr cpus \<and> length cpus = length (inv_CPUPackages sampleInventory)"
proof -
  obtain d' where run: "Ingest samplePg (\<lambda>_. False) sampleNow sampleAuth examplePayload sampleDb = (Inr (), d')"
    using example_ingested by blast
  have node: "uuid_text ''N1'' = auth_NodeID sampleAuth" by code_simp
  obtain cpus where "listCPUPackages NoFault ''N1'' d' = Inr cpus"
    "mset cpus = mset (map (reportedCPU samplePg) (inv_CPUPackages (r_Inventory examplePayload)))"
    using Ingest_read_back [OF inj_samplePg sampleDb_wf example_hypotheses(1) example_validated
      example_hypotheses(3,4) run node] by blast
  moreover from this(2) have "length cpus = length (inv_CPUPackages (r_Inventory examplePayload))"
    by (metis length_map size_mset)
  ultimately show ?thesis using run by (auto simp: examplePayload_def sampleReport_def NormalizeInventory_def)
qed

text \<open>
  C35: The one-pass grouping of the GPU history, which appends each point to the series found through
  a map of positions, gives for every device exactly one series, in the order of the first row of
  the device, holding the points of its rows in their order.
\<close>

theorem groupGPUHistory_reference:
  "groupGPUHistory rows = map (seriesOf rows) (seriesIDs rows)"
  by (simp add: groupGPUHistory_def fold_addPoint)

end
