(* ===== verification/History_Cache.thy ===== *)
theory History_Cache
  imports Store_Query "HOL-Library.AList"
begin

text \<open>
  The cache of history responses and the way one is written (src/internal/server/history_cache.go),
  and the HTTP requests and responses of the handlers. The map of entries is an association list,
  whose order is the iteration order of the map: the theorems hold for every order. JSON encoding,
  compression and the digest are arguments, the clock readings of a call too; \<open>ParseFloat\<close> is the
  argument that stands for \<open>strconv.ParseFloat\<close>. The mutex makes \<open>cached\<close> and \<open>store\<close> atomic, so that
  concurrent requests are sequences of them.
\<close>

section \<open>Requests and responses\<close>

record http_request =
  rq_header :: "string \<Rightarrow> string"
  rq_path_value :: "string \<Rightarrow> string"
  rq_query :: "string \<Rightarrow> string"
  rq_body :: string

record 'b http_response =
  rs_status :: nat
  rs_headers :: "(string \<times> string) list"
  rs_body :: "'b option"

text \<open>\<open>Header().Set\<close>.\<close>

definition set_header :: "string \<Rightarrow> string \<Rightarrow> 'b http_response \<Rightarrow> 'b http_response" where
  "set_header k v resp = resp\<lparr>rs_headers := AList.update k v (rs_headers resp)\<rparr>"

definition get_header :: "'b http_response \<Rightarrow> string \<Rightarrow> string option" where
  "get_header resp k = map_of (rs_headers resp) k"

lemma set_header_simps [simp]:
  "get_header (set_header k v resp) k' = (if k' = k then Some v else get_header resp k')"
  "rs_status (set_header k v resp) = rs_status resp" "rs_body (set_header k v resp) = rs_body resp"
  "get_header (resp\<lparr>rs_status := n\<rparr>) k' = get_header resp k'" "get_header (resp\<lparr>rs_body := b\<rparr>) k' = get_header resp k'"
  by (simp_all add: get_header_def set_header_def update_conv')

section \<open>The cache\<close>

record cachedHistoryResponse =
  cr_body :: string
  cr_gzipBody :: string
  cr_etag :: string
  cr_expiresAt :: Time
  cr_queryDuration :: Duration
  cr_encodeDuration :: Duration

record historyResponseCache =
  hc_entries :: "(string \<times> cachedHistoryResponse) list"
  hc_ttl :: Duration
  hc_maxEntries :: int

definition newHistoryResponseCache :: "Duration \<Rightarrow> int \<Rightarrow> historyResponseCache" where
  "newHistoryResponseCache ttl maxEntries = \<lparr>hc_entries = [], hc_ttl = ttl, hc_maxEntries = maxEntries\<rparr>"

definition cached :: "string \<Rightarrow> Time \<Rightarrow> historyResponseCache \<Rightarrow> cachedHistoryResponse option" where
  "cached key now cache =
     (case map_of (hc_entries cache) key of
        None \<Rightarrow> None
      | Some response \<Rightarrow> if now < cr_expiresAt response then Some response else None)"

text \<open>The loop that looks for the oldest entry; \<open>oldestKey\<close> is empty before the first round.\<close>

fun oldestEntry :: "string \<Rightarrow> Time \<Rightarrow> (string \<times> cachedHistoryResponse) list \<Rightarrow> string" where
  "oldestEntry oldestKey oldestExpiry [] = oldestKey"
| "oldestEntry oldestKey oldestExpiry ((cachedKey, c) # rest) =
     (if oldestKey = [] \<or> cr_expiresAt c < oldestExpiry then oldestEntry cachedKey (cr_expiresAt c) rest
      else oldestEntry oldestKey oldestExpiry rest)"

definition store :: "string \<Rightarrow> cachedHistoryResponse \<Rightarrow> Time \<Rightarrow> historyResponseCache \<Rightarrow> historyResponseCache" where
  "store key response now cache =
     (let live = filter (\<lambda>(_, c). now < cr_expiresAt c) (hc_entries cache);
          kept = (if hc_maxEntries cache > 0 \<and> int (length live) \<ge> hc_maxEntries cache
                  then AList.delete (oldestEntry [] zeroTime live) live else live)
      in cache\<lparr>hc_entries := AList.update key response kept\<rparr>)"

text \<open>The clock readings of one load, in the order of the code.\<close>

record load_clock =
  lc_now :: Time
  lc_queryStarted :: Time
  lc_queryEnded :: Time
  lc_encodeStarted :: Time
  lc_completedAt :: Time
  lc_encodeEnded :: Time

datatype history_error = LoadFailed store_error | EncodeFailed | CompressFailed | ContextDone | InvalidCacheType

text \<open>
  The function that \<open>get\<close> hands to the single-flight group: it looks into the cache again, loads,
  encodes, compresses and stores.
\<close>

definition loadHistory ::
  "(NodeHistory \<Rightarrow> string option) \<Rightarrow> (string \<Rightarrow> string option) \<Rightarrow> (string \<Rightarrow> u8 list) \<Rightarrow> load_clock \<Rightarrow>
   store_error + NodeHistory \<Rightarrow> string \<Rightarrow> historyResponseCache \<Rightarrow>
   (history_error + cachedHistoryResponse) \<times> historyResponseCache" where
  "loadHistory marshal gzip sha256 clock loaded key cache =
     (case cached key (lc_now clock) cache of
        Some response \<Rightarrow> (Inr response, cache)
      | None \<Rightarrow>
     (case loaded of
        Inl e \<Rightarrow> (Inl (LoadFailed e), cache)
      | Inr history \<Rightarrow>
     (case marshal history of
        None \<Rightarrow> (Inl EncodeFailed, cache)
      | Some body \<Rightarrow>
     (case gzip body of
        None \<Rightarrow> (Inl CompressFailed, cache)
      | Some compressed \<Rightarrow>
          (let response =
             \<lparr>cr_body = body, cr_gzipBody = compressed,
              cr_etag = ''W/'' @ [CHR 0x22] @ hex_encode (sha256 body) @ [CHR 0x22],
              cr_expiresAt = lc_completedAt clock + hc_ttl cache,
              cr_queryDuration = lc_queryEnded clock - lc_queryStarted clock,
              cr_encodeDuration = lc_encodeEnded clock - lc_encodeStarted clock\<rparr>
           in (Inr response, store key response (lc_completedAt clock) cache))))))"

text \<open>
  \<open>get\<close>: the entry of the cache, or the answer of the single-flight group (golang.org/x/sync), given
  as the argument \<open>flight\<close>: \<^const>\<open>None\<close> when the context ends first.
\<close>

definition getHistory ::
  "string \<Rightarrow> Time \<Rightarrow> (history_error + cachedHistoryResponse) option \<Rightarrow> historyResponseCache \<Rightarrow>
   history_error + (cachedHistoryResponse \<times> bool)" where
  "getHistory key now flight cache =
     (case cached key now cache of
        Some response \<Rightarrow> Inr (response, True)
      | None \<Rightarrow>
          (case flight of
             None \<Rightarrow> Inl ContextDone
           | Some (Inl e) \<Rightarrow> Inl e
           | Some (Inr response) \<Rightarrow> Inr (response, False)))"

section \<open>Writing a response\<close>

fun gzipParameters :: "(string \<Rightarrow> f64 option) \<Rightarrow> string list \<Rightarrow> bool" where
  "gzipParameters ParseFloat [] = True"
| "gzipParameters ParseFloat (parameter # rest) =
     (case Cut CHR ''='' (TrimSpace parameter) of
        None \<Rightarrow> gzipParameters ParseFloat rest
      | Some (name, v) \<Rightarrow>
          if \<not> EqualFold (TrimSpace name) ''q'' then gzipParameters ParseFloat rest
          else case ParseFloat (TrimSpace v) of
                 None \<Rightarrow> gzipParameters ParseFloat rest
               | Some quality \<Rightarrow> if quality \<le> Fin 0 then False else gzipParameters ParseFloat rest)"

fun gzipItems :: "(string \<Rightarrow> f64 option) \<Rightarrow> string list \<Rightarrow> bool" where
  "gzipItems ParseFloat [] = False"
| "gzipItems ParseFloat (item # items) =
     (let parts = splitc CHR '';'' (TrimSpace item)
      in if \<not> EqualFold (TrimSpace (hd parts)) ''gzip'' then gzipItems ParseFloat items
         else gzipParameters ParseFloat (tl parts))"

definition acceptsGzip :: "(string \<Rightarrow> f64 option) \<Rightarrow> string \<Rightarrow> bool" where
  "acceptsGzip ParseFloat header = gzipItems ParseFloat (splitc CHR '','' header)"

definition etagMatches :: "string \<Rightarrow> string \<Rightarrow> bool" where
  "etagMatches header etag =
     list_ex (\<lambda>candidate. TrimSpace candidate = ''*'' \<or> TrimSpace candidate = etag) (splitc CHR '','' header)"

text \<open>\<open>timing\<close> is the \<open>Server-Timing\<close> text of the two durations of a miss.\<close>

definition writeHistoryResponse ::
  "(string \<Rightarrow> f64 option) \<Rightarrow> (Duration \<Rightarrow> Duration \<Rightarrow> string) \<Rightarrow> http_request \<Rightarrow> cachedHistoryResponse \<Rightarrow> bool \<Rightarrow>
   string http_response" where
  "writeHistoryResponse ParseFloat timing request entry cacheHit =
     (let resp = \<lparr>rs_status = 0, rs_headers = [], rs_body = None\<rparr>;
          resp = set_header ''Content-Type'' ''application/json'' resp;
          resp = set_header ''Cache-Control'' ''public, max-age=30, stale-while-revalidate=30'' resp;
          resp = set_header ''ETag'' (cr_etag entry) resp;
          resp = set_header ''Vary'' ''Accept-Encoding'' resp;
          resp = (if cacheHit
                  then set_header ''Server-Timing'' (''history-cache;desc='' @ [CHR 0x22] @ ''hit'' @ [CHR 0x22]) (set_header ''X-Server-Status-Cache'' ''HIT'' resp)
                  else set_header ''Server-Timing'' (timing (cr_queryDuration entry) (cr_encodeDuration entry))
                         (set_header ''X-Server-Status-Cache'' ''MISS'' resp))
      in if etagMatches (rq_header request ''If-None-Match'') (cr_etag entry)
         then resp\<lparr>rs_status := 304\<rparr>
         else if acceptsGzip ParseFloat (rq_header request ''Accept-Encoding'')
              then (set_header ''Content-Encoding'' ''gzip'' resp)\<lparr>rs_status := 200, rs_body := Some (cr_gzipBody entry)\<rparr>
              else resp\<lparr>rs_status := 200, rs_body := Some (cr_body entry)\<rparr>)"

section \<open>Caches whose entries expire\<close>

text \<open>What the server relies on: a value is found only under its key and only before it expires.\<close>

locale expiring_cache =
  fixes lookup :: "'k \<Rightarrow> Time \<Rightarrow> 'c \<Rightarrow> 'v option"
    and put :: "'k \<Rightarrow> 'v \<Rightarrow> Time \<Rightarrow> 'c \<Rightarrow> 'c"
    and empty :: 'c
    and expires :: "'v \<Rightarrow> Time"
    and wf :: "'c \<Rightarrow> bool"
    and key_ok :: "'k \<Rightarrow> bool"
  assumes wf_empty: "wf empty"
    and wf_put: "wf c \<Longrightarrow> key_ok k \<Longrightarrow> wf (put k v now c)"
    and lookup_empty: "lookup k t empty = None"
    and lookup_fresh: "lookup k t c = Some v \<Longrightarrow> t < expires v"
    and lookup_put: "lookup k t (put k v now c) = (if t < expires v then Some v else None)"
    and lookup_put_other: "wf c \<Longrightarrow> k' \<noteq> k \<Longrightarrow> lookup k' t (put k v now c) = Some w \<Longrightarrow> lookup k' t c = Some w"
begin

lemma wf_puts: "list_all (\<lambda>p. key_ok (fst p)) puts \<Longrightarrow> wf (foldr (\<lambda>p. put (fst p) (fst (snd p)) (snd (snd p))) puts empty)"
  by (induction puts) (auto simp: wf_empty wf_put)

text \<open>Whatever was put in whatever order, a value that is found was put under that key and is fresh.\<close>

lemma lookup_was_put:
  assumes "list_all (\<lambda>p. key_ok (fst p)) puts"
    and "lookup k t (foldr (\<lambda>p. put (fst p) (fst (snd p)) (snd (snd p))) puts empty) = Some v"
  shows "t < expires v \<and> (\<exists>now. (k, v, now) \<in> set puts)"
  using assms
proof (induction puts)
  case (Cons p puts)
  let ?c = "foldr (\<lambda>p. put (fst p) (fst (snd p)) (snd (snd p))) puts empty"
  have found: "lookup k t (put (fst p) (fst (snd p)) (snd (snd p)) ?c) = Some v"
    using Cons.prems(2) by simp
  show ?case
  proof (cases "fst p = k")
    case True
    then have "v = fst (snd p) \<and> t < expires v"
      using found by (simp add: lookup_put split: if_splits)
    then show ?thesis using True by (metis list.set_intros(1) prod.collapse)
  next
    case False
    then have "lookup k t ?c = Some v"
      using lookup_put_other [OF wf_puts _ found] Cons.prems(1) by simp
    then show ?thesis using Cons by auto
  qed
qed (simp add: lookup_empty)

end

definition entries_wf :: "historyResponseCache \<Rightarrow> bool" where
  "entries_wf cache \<longleftrightarrow> distinct (map fst (hc_entries cache)) \<and> [] \<notin> fst ` set (hc_entries cache)"

definition liveEntries :: "Time \<Rightarrow> historyResponseCache \<Rightarrow> (string \<times> cachedHistoryResponse) list" where
  "liveEntries now cache = filter (\<lambda>(_, c). now < cr_expiresAt c) (hc_entries cache)"

definition keptEntries :: "Time \<Rightarrow> historyResponseCache \<Rightarrow> (string \<times> cachedHistoryResponse) list" where
  "keptEntries now cache =
     (if hc_maxEntries cache > 0 \<and> int (length (liveEntries now cache)) \<ge> hc_maxEntries cache
      then AList.delete (oldestEntry [] zeroTime (liveEntries now cache)) (liveEntries now cache)
      else liveEntries now cache)"

lemma store_entries:
  "store key response now cache = cache\<lparr>hc_entries := AList.update key response (keptEntries now cache)\<rparr>"
  by (simp add: store_def keptEntries_def liveEntries_def Let_def)

lemma keptEntries_subset: "set (keptEntries now cache) \<subseteq> set (liveEntries now cache)"
  by (auto simp: keptEntries_def AList.delete_eq)

lemma liveEntries_distinct: "entries_wf cache \<Longrightarrow> distinct (map fst (liveEntries now cache))"
  by (simp add: liveEntries_def entries_wf_def distinct_map_filter)

lemma keptEntries_distinct: "entries_wf cache \<Longrightarrow> distinct (map fst (keptEntries now cache))"
  using liveEntries_distinct by (simp add: keptEntries_def distinct_delete)

lemma oldestEntry_key: "oldestEntry key expiry xs \<in> insert key (fst ` set xs)"
  by (induction key expiry xs rule: oldestEntry.induct) auto

text \<open>The loop finds an entry that expires first.\<close>

lemma oldestEntry_min:
  assumes "[] \<notin> fst ` set xs" "key \<noteq> []"
  shows "\<exists>e. e \<le> expiry \<and> (\<forall>x \<in> set xs. e \<le> cr_expiresAt (snd x)) \<and>
    (oldestEntry key expiry xs = key \<and> e = expiry \<or>
     (\<exists>c. (oldestEntry key expiry xs, c) \<in> set xs \<and> cr_expiresAt c = e))"
  using assms
proof (induction xs arbitrary: key expiry)
  case (Cons x rest)
  obtain k c where x: "x = (k, c)" by (cases x)
  have k: "k \<noteq> []" "[] \<notin> fst ` set rest" using Cons.prems by (auto simp: x)
  show ?case
  proof (cases "cr_expiresAt c < expiry")
    case True
    obtain e where "e \<le> cr_expiresAt c" "\<forall>x \<in> set rest. e \<le> cr_expiresAt (snd x)"
        "oldestEntry k (cr_expiresAt c) rest = k \<and> e = cr_expiresAt c \<or>
         (\<exists>c'. (oldestEntry k (cr_expiresAt c) rest, c') \<in> set rest \<and> cr_expiresAt c' = e)"
      using Cons.IH [OF k(2,1), of "cr_expiresAt c"] by blast
    then show ?thesis using True by (intro exI [of _ e]) (auto simp: x)
  next
    case False
    then show ?thesis using Cons.IH [OF k(2) Cons.prems(2), of expiry] Cons.prems by (auto simp: x)
  qed
qed simp

lemma oldestEntry_oldest:
  assumes "[] \<notin> fst ` set xs" "xs \<noteq> []"
  shows "\<exists>c. (oldestEntry [] t xs, c) \<in> set xs \<and> (\<forall>x \<in> set xs. cr_expiresAt c \<le> cr_expiresAt (snd x))"
proof (cases xs)
  case (Cons x rest)
  obtain k c where x: "x = (k, c)" by (cases x)
  have "[] \<notin> fst ` set rest" "k \<noteq> []" using assms by (auto simp: Cons x)
  from oldestEntry_min [OF this, of "cr_expiresAt c"] show ?thesis
    by (auto simp: Cons x)
qed (use assms in simp)

lemma store_keys:
  "fst ` set (hc_entries (store key response now cache)) \<subseteq> insert key (fst ` set (hc_entries cache))"
proof -
  have "fst ` set (AList.update key response xs) = insert key (fst ` set xs)" for xs
    using AList.update_keys [of key response xs] by (metis insert_absorb list.set_map set_append
        list.simps(15) sup_bot_right Un_insert_right list.set(1))
  moreover have "fst ` set (keptEntries now cache) \<subseteq> fst ` set (hc_entries cache)"
    using keptEntries_subset [of now cache] by (auto simp: liveEntries_def)
  ultimately show ?thesis by (auto simp: store_entries)
qed

lemma store_wf:
  assumes "entries_wf cache" "key \<noteq> []"
  shows "entries_wf (store key response now cache)"
proof -
  have "distinct (map fst (hc_entries (store key response now cache)))"
    using keptEntries_distinct [OF assms(1)] by (simp add: store_entries distinct_update)
  then show ?thesis
    using store_keys [of key response now cache] assms by (auto simp: entries_wf_def)
qed

lemma delete_absent: "k \<notin> fst ` set xs \<Longrightarrow> AList.delete k xs = xs"
  by (induction xs) auto

lemma length_delete_present: "distinct (map fst xs) \<Longrightarrow> k \<in> fst ` set xs \<Longrightarrow> Suc (length (AList.delete k xs)) = length xs"
  by (induction xs) (auto simp: delete_absent)

lemma length_update: "length (AList.update k v xs) \<le> Suc (length xs)"
  by (induction xs) auto

lemma store_bound:
  assumes "entries_wf cache" "hc_maxEntries cache > 0" "int (length (hc_entries cache)) \<le> hc_maxEntries cache"
  shows "int (length (hc_entries (store key response now cache))) \<le> hc_maxEntries cache"
proof -
  let ?live = "liveEntries now cache"
  have live: "length ?live \<le> length (hc_entries cache)" by (simp add: liveEntries_def)
  have live_keys: "[] \<notin> fst ` set ?live" using assms(1) by (auto simp: entries_wf_def liveEntries_def)
  have "int (length (keptEntries now cache)) < hc_maxEntries cache"
  proof (cases "int (length ?live) \<ge> hc_maxEntries cache")
    case True
    then have "?live \<noteq> []" using assms(2) by auto
    then have "oldestEntry [] zeroTime ?live \<in> fst ` set ?live"
      using oldestEntry_oldest [of ?live zeroTime] live_keys by (force simp: image_iff)
    then have "Suc (length (keptEntries now cache)) = length ?live"
      using True assms(2) length_delete_present [OF liveEntries_distinct [OF assms(1)]] by (simp add: keptEntries_def)
    then show ?thesis using live assms by simp
  qed (use assms in \<open>simp add: keptEntries_def\<close>)
  then show ?thesis using length_update [of key response "keptEntries now cache"] by (simp add: store_entries)
qed

lemma keptEntries_Some:
  assumes "entries_wf cache" "map_of (keptEntries now cache) k = Some c"
  shows "map_of (hc_entries cache) k = Some c"
proof -
  have "(k, c) \<in> set (hc_entries cache)"
    using map_of_SomeD [OF assms(2)] keptEntries_subset [of now cache] by (auto simp: liveEntries_def)
  then show ?thesis using assms(1) by (simp add: entries_wf_def)
qed

interpretation hist: expiring_cache cached store "newHistoryResponseCache ttl maxEntries" cr_expiresAt entries_wf "\<lambda>k. k \<noteq> []"
  for ttl maxEntries
proof unfold_locales
  fix k k' :: string and t now :: Time and c and v w :: cachedHistoryResponse
  show "entries_wf (newHistoryResponseCache ttl maxEntries)"
    by (simp add: entries_wf_def newHistoryResponseCache_def)
  show "entries_wf (store k v now c)" if "entries_wf c" "k \<noteq> []" using that by (rule store_wf)
  show "cached k t (newHistoryResponseCache ttl maxEntries) = None"
    by (simp add: cached_def newHistoryResponseCache_def)
  show "t < cr_expiresAt v" if "cached k t c = Some v"
    using that by (simp add: cached_def split: option.splits if_splits)
  show "cached k t (store k v now c) = (if t < cr_expiresAt v then Some v else None)"
    by (simp add: cached_def store_entries update_conv')
  show "cached k' t c = Some w" if "entries_wf c" "k' \<noteq> k" "cached k' t (store k v now c) = Some w"
    using that keptEntries_Some [of c now k']
    by (auto simp: cached_def store_entries update_conv' split: option.splits if_splits)
qed

section \<open>Reachable caches\<close>

text \<open>
  The caches the server can reach: any loads, for any keys, at any times and in any order. The
  relation \<open>loads key h\<close> says that \<open>h\<close> is a history the database gave for \<open>key\<close>.
\<close>

inductive cache_reach ::
  "(NodeHistory \<Rightarrow> string option) \<Rightarrow> (string \<Rightarrow> string option) \<Rightarrow> (string \<Rightarrow> u8 list) \<Rightarrow> Duration \<Rightarrow> int \<Rightarrow>
   (string \<Rightarrow> NodeHistory \<Rightarrow> bool) \<Rightarrow> historyResponseCache \<Rightarrow> bool"
  for marshal gzip sha256 ttl maxEntries loads where
  start: "cache_reach marshal gzip sha256 ttl maxEntries loads (newHistoryResponseCache ttl maxEntries)"
| load: "cache_reach marshal gzip sha256 ttl maxEntries loads cache \<Longrightarrow> key \<noteq> [] \<Longrightarrow>
    (\<And>h. loaded = Inr h \<Longrightarrow> loads key h) \<Longrightarrow>
    loadHistory marshal gzip sha256 clock loaded key cache = (result, cache') \<Longrightarrow>
    cache_reach marshal gzip sha256 ttl maxEntries loads cache'"

text \<open>The encoding of a history the database gave for the key.\<close>

definition encodes ::
  "(NodeHistory \<Rightarrow> string option) \<Rightarrow> (string \<Rightarrow> string option) \<Rightarrow> (string \<Rightarrow> u8 list) \<Rightarrow>
   (string \<Rightarrow> NodeHistory \<Rightarrow> bool) \<Rightarrow> string \<Rightarrow> cachedHistoryResponse \<Rightarrow> bool" where
  "encodes marshal gzip sha256 loads key r \<longleftrightarrow>
     (\<exists>h. loads key h \<and> marshal h = Some (cr_body r)) \<and> gzip (cr_body r) = Some (cr_gzipBody r) \<and>
     cr_etag r = ''W/'' @ [CHR 0x22] @ hex_encode (sha256 (cr_body r)) @ [CHR 0x22]"

lemma loadHistory_cases:
  assumes "loadHistory marshal gzip sha256 clock loaded key cache = (result, cache')"
    and "\<And>h. loaded = Inr h \<Longrightarrow> loads key h"
  shows "cache' = cache \<or>
    (\<exists>r. result = Inr r \<and> cache' = store key r (lc_completedAt clock) cache \<and> encodes marshal gzip sha256 loads key r)"
  using assms
  by (auto simp: loadHistory_def Let_def encodes_def split: option.splits sum.splits)

lemma store_fields [simp]:
  "hc_maxEntries (store k r t c) = hc_maxEntries c" "hc_ttl (store k r t c) = hc_ttl c"
  by (simp_all add: store_entries)

lemma set_update_subset: "set (AList.update k v xs) \<subseteq> insert (k, v) (set xs)"
  by (induction xs) auto

lemma store_set: "x \<in> set (hc_entries (store key r t cache)) \<Longrightarrow> x = (key, r) \<or> x \<in> set (hc_entries cache)"
  using keptEntries_subset [of t cache] set_update_subset [of key r "keptEntries t cache"]
  by (auto simp: store_entries liveEntries_def)

lemma cache_reach_invariant:
  assumes "cache_reach marshal gzip sha256 ttl maxEntries loads cache"
  shows "entries_wf cache \<and> hc_maxEntries cache = maxEntries \<and>
    (maxEntries > 0 \<longrightarrow> int (length (hc_entries cache)) \<le> maxEntries) \<and>
    (\<forall>(k, r) \<in> set (hc_entries cache). encodes marshal gzip sha256 loads k r)"
  using assms
proof (induction rule: cache_reach.induct)
  case start
  then show ?case by (simp add: entries_wf_def newHistoryResponseCache_def)
next
  case (load cache key loaded clock result cache')
  from loadHistory_cases [OF load.hyps(4), of loads] load.hyps(3)
  consider "cache' = cache"
    | r where "cache' = store key r (lc_completedAt clock) cache" "encodes marshal gzip sha256 loads key r"
    by blast
  then show ?case
  proof cases
    case 2
    then show ?thesis
      using load.IH load.hyps(2) store_wf store_bound [of cache key r "lc_completedAt clock"] store_set [of _ key r "lc_completedAt clock" cache]
      by fastforce
  qed (use load.IH in simp)
qed

section \<open>Properties\<close>

text \<open>
  C14: In every cache the server can reach there are at most as many entries as configured, and an
  answer from the cache is one that was stored for exactly the requested key, has not expired, and
  is the JSON encoding, with its compressed form and its entity tag, of a history the database gave
  for that key.
\<close>

theorem history_cache_sound:
  assumes "cache_reach marshal gzip sha256 ttl maxEntries loads cache"
  shows "(maxEntries > 0 \<longrightarrow> int (length (hc_entries cache)) \<le> maxEntries) \<and>
    (\<forall>key now r. getHistory key now None cache = Inr (r, True) \<longrightarrow>
       now < cr_expiresAt r \<and> encodes marshal gzip sha256 loads key r)"
proof -
  note I = cache_reach_invariant [OF assms]
  have "now < cr_expiresAt r \<and> encodes marshal gzip sha256 loads key r"
    if "getHistory key now None cache = Inr (r, True)" for key now r
  proof -
    have c: "cached key now cache = Some r" using that by (simp add: getHistory_def split: option.splits)
    then have "(key, r) \<in> set (hc_entries cache)"
      by (auto simp: cached_def dest: map_of_SomeD split: option.splits if_splits)
    then show ?thesis using I hist.lookup_fresh [OF c] by blast
  qed
  then show ?thesis using I by blast
qed

definition sampleHistory :: NodeHistory where
  "sampleHistory = \<lparr>nh_NodeID = ''n1'', nh_Range = ''1h'', nh_Resolution = ''minute'', nh_Points = [], nh_GPUs = []\<rparr>"

definition sampleClock :: load_clock where
  "sampleClock = \<lparr>lc_now = 1, lc_queryStarted = 2, lc_queryEnded = 5, lc_encodeStarted = 6, lc_completedAt = 7, lc_encodeEnded = 8\<rparr>"

definition sampleCache :: historyResponseCache where
  "sampleCache = snd (loadHistory (\<lambda>h. Some (nh_NodeID h)) Some (\<lambda>s. map of_char s) sampleClock (Inr sampleHistory)
     ''n1:1h'' (newHistoryResponseCache 30 1))"

theorem history_cache_sound_witness:
  "\<exists>r. getHistory ''n1:1h'' 36 None sampleCache = Inr (r, True) \<and> cr_body r = ''n1''"
proof -
  have reach: "cache_reach (\<lambda>h. Some (nh_NodeID h)) Some (\<lambda>s. map of_char s) 30 1 (\<lambda>k h. h = sampleHistory) sampleCache"
    unfolding sampleCache_def by (rule cache_reach.load [OF cache_reach.start _ _ prod.collapse [symmetric]]) auto
  have "(case getHistory ''n1:1h'' 36 None sampleCache of Inr (r, hit) \<Rightarrow> hit | Inl _ \<Rightarrow> False)" by code_simp
  then obtain r where r: "getHistory ''n1:1h'' 36 None sampleCache = Inr (r, True)"
    by (auto split: sum.splits prod.splits)
  then have "encodes (\<lambda>h. Some (nh_NodeID h)) Some (\<lambda>s. map of_char s) (\<lambda>k h. h = sampleHistory) ''n1:1h'' r"
    using history_cache_sound [OF reach] by blast
  then have "cr_body r = ''n1''" by (auto simp: encodes_def sampleHistory_def)
  with r show ?thesis by blast
qed

text \<open>
  Storing a response makes it available at once; every other entry that has not expired stays,
  except that a full cache gives up one, and that one expires no later than any of the others.
\<close>

theorem store_evicts_oldest:
  assumes wf: "entries_wf cache" and "key \<noteq> []" and t: "now \<le> t"
  shows "cached key t (store key r now cache) = (if t < cr_expiresAt r then Some r else None) \<and>
    (\<forall>k c. k \<noteq> key \<and> cached k t cache = Some c \<and> cached k t (store key r now cache) \<noteq> Some c \<longrightarrow>
       hc_maxEntries cache > 0 \<and> int (length (liveEntries now cache)) \<ge> hc_maxEntries cache \<and>
       (\<forall>x \<in> set (liveEntries now cache). cr_expiresAt c \<le> cr_expiresAt (snd x)))"
proof (intro conjI allI impI)
  show "cached key t (store key r now cache) = (if t < cr_expiresAt r then Some r else None)"
    by (rule hist.lookup_put)
next
  fix k c
  assume "k \<noteq> key \<and> cached k t cache = Some c \<and> cached k t (store key r now cache) \<noteq> Some c"
  then have k: "k \<noteq> key" and c: "map_of (hc_entries cache) k = Some c" "t < cr_expiresAt c"
    and gone: "map_of (keptEntries now cache) k \<noteq> Some c"
    by (auto simp: cached_def store_entries update_conv' split: option.splits if_splits)
  let ?live = "liveEntries now cache"
  have live: "(k, c) \<in> set ?live" using map_of_SomeD [OF c(1)] c(2) t by (simp add: liveEntries_def)
  then have "map_of ?live k = Some c" using liveEntries_distinct [OF wf] by simp
  with gone have full: "hc_maxEntries cache > 0 \<and> int (length ?live) \<ge> hc_maxEntries cache"
    and old: "k = oldestEntry [] zeroTime ?live"
    by (auto simp: keptEntries_def delete_conv' split: if_splits)
  have keys: "[] \<notin> fst ` set ?live" using wf by (auto simp: entries_wf_def liveEntries_def)
  have "?live \<noteq> []" using live by (metis empty_iff list.set(1))
  from oldestEntry_oldest [OF keys this, of zeroTime] obtain c' where
    c': "(k, c') \<in> set ?live" "\<forall>x \<in> set ?live. cr_expiresAt c' \<le> cr_expiresAt (snd x)"
    using old by blast
  have "c' = c" using c'(1) live liveEntries_distinct [OF wf] by (metis map_of_is_SomeI option.inject)
  with c' full show "hc_maxEntries cache > 0" "hc_maxEntries cache \<le> int (length ?live)"
    "\<forall>x \<in> set ?live. cr_expiresAt c \<le> cr_expiresAt (snd x)" by blast+
qed

definition sampleEntry :: cachedHistoryResponse where
  "sampleEntry = \<lparr>cr_body = ''{}'', cr_gzipBody = ''}{'', cr_etag = ''t'', cr_expiresAt = 50, cr_queryDuration = 0, cr_encodeDuration = 0\<rparr>"

theorem store_evicts_oldest_witness:
  "cached ''n2:1h'' 20 (store ''n2:1h'' sampleEntry 20 sampleCache) = Some sampleEntry"
proof -
  have wf: "entries_wf sampleCache"
    unfolding sampleCache_def entries_wf_def by code_simp
  show ?thesis
    using store_evicts_oldest [OF wf, of "''n2:1h''" 20 20 sampleEntry] by (simp add: sampleEntry_def)
qed

text \<open>
  C38: Whatever encodings the client accepts, it gets the same representation: a response with status
  200 carries, decoded as its Content-Encoding says, the body of the entry, a response with status
  304 carries none and is sent exactly when the client's tag matches, and both carry the entity tag.
\<close>

theorem writeHistoryResponse_representation:
  assumes "gunzip (cr_gzipBody entry) = cr_body entry"
  shows "let resp = writeHistoryResponse ParseFloat timing request entry hit;
             decode = (if get_header resp ''Content-Encoding'' = Some ''gzip'' then gunzip else (\<lambda>b. b))
    in get_header resp ''ETag'' = Some (cr_etag entry) \<and>
       (if etagMatches (rq_header request ''If-None-Match'') (cr_etag entry)
        then rs_status resp = 304 \<and> rs_body resp = None
        else rs_status resp = 200 \<and> map_option decode (rs_body resp) = Some (cr_body entry))"
  using assms
  by (simp add: writeHistoryResponse_def Let_def get_header_def [of "\<lparr>rs_status = _, rs_headers = [], rs_body = _\<rparr>"])

definition sampleRequest :: http_request where
  "sampleRequest = \<lparr>rq_header = (\<lambda>k. if k = ''Accept-Encoding'' then ''br, gzip;q=0.5'' else []),
     rq_path_value = (\<lambda>_. []), rq_query = (\<lambda>_. []), rq_body = []\<rparr>"

theorem writeHistoryResponse_representation_witness:
  "rs_status (writeHistoryResponse (\<lambda>_. Some (Fin 1)) (\<lambda>_ _. []) sampleRequest sampleEntry True) = 200 \<and>
   get_header (writeHistoryResponse (\<lambda>_. Some (Fin 1)) (\<lambda>_ _. []) sampleRequest sampleEntry True) ''Content-Encoding'' = Some ''gzip''"
proof -
  have g: "rev (cr_gzipBody sampleEntry) = cr_body sampleEntry" by (simp add: sampleEntry_def)
  have "\<not> etagMatches (rq_header sampleRequest ''If-None-Match'') (cr_etag sampleEntry)" by code_simp
  moreover have "get_header (writeHistoryResponse (\<lambda>_. Some (Fin 1)) (\<lambda>_ _. []) sampleRequest sampleEntry True) ''Content-Encoding'' = Some ''gzip''"
    by code_simp
  ultimately show ?thesis
    using writeHistoryResponse_representation [where gunzip = rev and entry = sampleEntry and
        ParseFloat = "\<lambda>_. Some (Fin 1)" and timing = "\<lambda>_ _. []" and request = sampleRequest and hit = True, OF g]
    by (simp add: Let_def)
qed

end
