(* ===== verification/Server_Export.thy ===== *)
theory Server_Export
  imports Store_Query
begin

text \<open>
  The spreadsheet of all nodes (src/internal/server/export.go): the cells of its seven sheets, the
  neutralisation of text that a spreadsheet program would take for a formula, and the labels as
  text. A sheet is its name, its header and its rows; what excelize makes of the sheets, styles and
  column widths is not modelled. Chinese headings are written as their UTF-8 bytes.
\<close>

definition utf8 :: "nat list \<Rightarrow> string" where
  "utf8 bs = map char_of bs"

datatype cell = TextCell string | IntCell int | FloatCell f64 | TimeCell Time

record sheet =
  sh_name :: string
  sh_headers :: "string list"
  sh_rows :: "cell list list"

section \<open>Text\<close>

definition nodeDisplayName :: "NodeSummary \<Rightarrow> string" where
  "nodeDisplayName node = (if ns_DisplayName node \<noteq> [] then ns_DisplayName node else ns_Hostname node)"

definition timeValue :: "Time option \<Rightarrow> cell" where
  "timeValue v = (case v of None \<Rightarrow> TextCell [] | Some t \<Rightarrow> if IsZero t then TextCell [] else TimeCell t)"

definition excelText :: "string \<Rightarrow> string" where
  "excelText v =
     (if v = [] then []
      else if hd v \<in> set ''=+-@'' then CHR 0x27 # v
      else v)"

text \<open>\<open>strings.Join\<close>.\<close>

fun Join :: "string list \<Rightarrow> string \<Rightarrow> string" where
  "Join [] sep = []"
| "Join [x] sep = x"
| "Join (x # y # rest) sep = x @ sep @ Join (y # rest) sep"

text \<open>The map of labels is an association list in the order in which the map is iterated.\<close>

definition formatLabels :: "(string \<times> string) list \<Rightarrow> string" where
  "formatLabels labels =
     (let keys = sort_slice id (map fst labels)
      in Join (map (\<lambda>key. key @ ''='' @ (case map_of labels key of None \<Rightarrow> [] | Some v \<Rightarrow> v)) keys) ''; '')"

section \<open>The sheets\<close>

definition yes :: string where "yes = utf8 [0xE6, 0x98, 0xAF]"
definition no :: string where "no = utf8 [0xE5, 0x90, 0xA6]"

definition linkConnected :: string where "linkConnected = utf8 [0xE5, 0xB7, 0xB2, 0xE8, 0xBF, 0x9E, 0xE6, 0x8E, 0xA5]"
definition linkBroken :: string where "linkBroken = utf8 [0xE6, 0x96, 0xAD, 0xE5, 0xBC, 0x80]"

text \<open>The three cells every sheet but the first begins with.\<close>

definition nodeCells :: "NodeSummary \<Rightarrow> cell list" where
  "nodeCells node =
     [TextCell (excelText (nodeDisplayName node)), TextCell (excelText (ns_Hostname node)),
      TextCell (excelText (ns_PrimaryIP node))]"

definition summaryRow :: "NodeDetail \<Rightarrow> cell list" where
  "summaryRow detail =
     (let node = ndt_Node detail in
      [TextCell (excelText (ns_NodeID node)),
       TextCell (excelText (ns_AgentID node)),
       TextCell (excelText (nodeDisplayName node)),
       TextCell (excelText (ns_Hostname node)),
       TextCell (excelText (ns_PrimaryIP node)),
       TextCell (excelText (ns_Status node)),
       TextCell (excelText (ns_MachineType node)),
       TextCell (excelText (ns_SystemModel node)),
       TextCell (excelText (TrimSpace (TrimSpace (ns_OSName node @ '' '' @ ns_OSVersion node)))),
       TextCell (excelText (ns_Architecture node)),
       TextCell (excelText (Join (ns_Tags node) '', '')),
       TextCell (excelText (formatLabels (ns_Labels node))),
       TimeCell (ns_LastSeenAt node),
       TextCell (excelText (ns_AgentVersion node)),
       TextCell (excelText (Join (ns_CPUModels node) ''; '')),
       IntCell (ns_CPUPackageCount node),
       IntCell (ns_CPUPhysicalCoreCount node),
       IntCell (ns_CPULogicalThreadCount node),
       IntCell (ns_MemoryTotalBytes node),
       IntCell (ns_MemoryModuleCount node),
       IntCell (ns_DiskTotalBytes node),
       IntCell (ns_DiskCount node),
       IntCell (int (length (ndt_GPUs detail))),
       FloatCell (ns_CPUUsagePercent node),
       FloatCell (ns_MemoryUsagePercent node),
       FloatCell (ns_DiskUsagePercent node),
       FloatCell (ns_Load1 node),
       FloatCell (ns_Load5 node),
       FloatCell (ns_Load15 node),
       IntCell (ns_UptimeSeconds node),
       FloatCell (ns_NetworkRXBytesPerSec node),
       FloatCell (ns_NetworkTXBytesPerSec node)])"

definition writeSummary :: "NodeDetail list \<Rightarrow> sheet" where
  "writeSummary nodes =
   \<lparr>sh_name = utf8 [0xE6, 0x9C, 0xBA, 0xE5, 0x99, 0xA8, 0xE6, 0xA6, 0x82, 0xE8, 0xA7, 0x88],
    sh_headers =
     [utf8 [0xE8, 0x8A, 0x82, 0xE7, 0x82, 0xB9] @ '' ID'',
      ''Agent ID'',
      utf8 [0xE6, 0x98, 0xBE, 0xE7, 0xA4, 0xBA, 0xE5, 0x90, 0x8D, 0xE7, 0xA7, 0xB0],
      utf8 [0xE4, 0xB8, 0xBB, 0xE6, 0x9C, 0xBA, 0xE5, 0x90, 0x8D],
      ''IP '' @ utf8 [0xE5, 0x9C, 0xB0, 0xE5, 0x9D, 0x80],
      utf8 [0xE7, 0x8A, 0xB6, 0xE6, 0x80, 0x81],
      utf8 [0xE6, 0x9C, 0xBA, 0xE5, 0x99, 0xA8, 0xE7, 0xB1, 0xBB, 0xE5, 0x9E, 0x8B],
      utf8 [0xE6, 0x9C, 0x8D, 0xE5, 0x8A, 0xA1, 0xE5, 0x99, 0xA8, 0xE5, 0x9E, 0x8B, 0xE5, 0x8F, 0xB7],
      utf8 [0xE6, 0x93, 0x8D, 0xE4, 0xBD, 0x9C, 0xE7, 0xB3, 0xBB, 0xE7, 0xBB, 0x9F],
      utf8 [0xE6, 0x9E, 0xB6, 0xE6, 0x9E, 0x84],
      ''Tag'',
      utf8 [0xE8, 0x87, 0xAA, 0xE5, 0xAE, 0x9A, 0xE4, 0xB9, 0x89] @ '' Labels'',
      utf8 [0xE6, 0x9C, 0x80, 0xE8, 0xBF, 0x91, 0xE4, 0xB8, 0x8A, 0xE6, 0x8A, 0xA5],
      ''Agent '' @ utf8 [0xE7, 0x89, 0x88, 0xE6, 0x9C, 0xAC],
      ''CPU '' @ utf8 [0xE5, 0x9E, 0x8B, 0xE5, 0x8F, 0xB7],
      ''CPU '' @ utf8 [0xE5, 0xB0, 0x81, 0xE8, 0xA3, 0x85, 0xE6, 0x95, 0xB0],
      ''CPU '' @ utf8 [0xE7, 0x89, 0xA9, 0xE7, 0x90, 0x86, 0xE6, 0xA0, 0xB8, 0xE5, 0xBF, 0x83],
      ''CPU '' @ utf8 [0xE9, 0x80, 0xBB, 0xE8, 0xBE, 0x91, 0xE7, 0xBA, 0xBF, 0xE7, 0xA8, 0x8B],
      utf8 [0xE5, 0x86, 0x85, 0xE5, 0xAD, 0x98, 0xE6, 0x80, 0xBB, 0xE9, 0x87, 0x8F] @ '' (Bytes)'',
      utf8 [0xE5, 0x86, 0x85, 0xE5, 0xAD, 0x98, 0xE6, 0x9D, 0xA1, 0xE6, 0x95, 0xB0],
      utf8 [0xE7, 0xA3, 0x81, 0xE7, 0x9B, 0x98, 0xE6, 0x80, 0xBB, 0xE9, 0x87, 0x8F] @ '' (Bytes)'',
      utf8 [0xE7, 0xA3, 0x81, 0xE7, 0x9B, 0x98, 0xE6, 0x95, 0xB0, 0xE9, 0x87, 0x8F],
      ''GPU '' @ utf8 [0xE6, 0x95, 0xB0, 0xE9, 0x87, 0x8F],
      ''CPU '' @ utf8 [0xE4, 0xBD, 0xBF, 0xE7, 0x94, 0xA8, 0xE7, 0x8E, 0x87] @ '' (%)'',
      utf8 [0xE5, 0x86, 0x85, 0xE5, 0xAD, 0x98, 0xE4, 0xBD, 0xBF, 0xE7, 0x94, 0xA8, 0xE7, 0x8E, 0x87] @ '' (%)'',
      utf8 [0xE7, 0xA3, 0x81, 0xE7, 0x9B, 0x98, 0xE4, 0xBD, 0xBF, 0xE7, 0x94, 0xA8, 0xE7, 0x8E, 0x87] @ '' (%)'',
      ''Load 1'',
      ''Load 5'',
      ''Load 15'',
      utf8 [0xE8, 0xBF, 0x90, 0xE8, 0xA1, 0x8C, 0xE6, 0x97, 0xB6, 0xE9, 0x97, 0xB4] @ '' ('' @ utf8 [0xE7, 0xA7, 0x92] @ '')'',
      utf8 [0xE7, 0xBD, 0x91, 0xE7, 0xBB, 0x9C, 0xE6, 0x8E, 0xA5, 0xE6, 0x94, 0xB6] @ '' (Bytes/s)'',
      utf8 [0xE7, 0xBD, 0x91, 0xE7, 0xBB, 0x9C, 0xE5, 0x8F, 0x91, 0xE9, 0x80, 0x81] @ '' (Bytes/s)''],
    sh_rows = map summaryRow nodes\<rparr>"

definition writeCPU :: "NodeDetail list \<Rightarrow> sheet" where
  "writeCPU nodes =
   \<lparr>sh_name = ''CPU'',
    sh_headers =
     [utf8 [0xE6, 0x98, 0xBE, 0xE7, 0xA4, 0xBA, 0xE5, 0x90, 0x8D, 0xE7, 0xA7, 0xB0],
      utf8 [0xE4, 0xB8, 0xBB, 0xE6, 0x9C, 0xBA, 0xE5, 0x90, 0x8D],
      ''IP '' @ utf8 [0xE5, 0x9C, 0xB0, 0xE5, 0x9D, 0x80],
      utf8 [0xE5, 0xB0, 0x81, 0xE8, 0xA3, 0x85, 0xE5, 0xBA, 0x8F, 0xE5, 0x8F, 0xB7],
      utf8 [0xE5, 0x8E, 0x82, 0xE5, 0x95, 0x86],
      utf8 [0xE5, 0x9E, 0x8B, 0xE5, 0x8F, 0xB7],
      utf8 [0xE7, 0x89, 0xA9, 0xE7, 0x90, 0x86, 0xE6, 0xA0, 0xB8, 0xE5, 0xBF, 0x83],
      utf8 [0xE6, 0x80, 0xA7, 0xE8, 0x83, 0xBD, 0xE6, 0xA0, 0xB8],
      utf8 [0xE8, 0x83, 0xBD, 0xE6, 0x95, 0x88, 0xE6, 0xA0, 0xB8],
      utf8 [0xE9, 0x80, 0xBB, 0xE8, 0xBE, 0x91, 0xE7, 0xBA, 0xBF, 0xE7, 0xA8, 0x8B],
      utf8 [0xE6, 0x9C, 0x80, 0xE9, 0xAB, 0x98, 0xE9, 0xA2, 0x91, 0xE7, 0x8E, 0x87] @ '' (MHz)''],
    sh_rows = concat (map (\<lambda>detail. map (\<lambda>cpu. nodeCells (ndt_Node detail) @
     [IntCell (ch_PackageIndex cpu),
      TextCell (excelText (ch_Vendor cpu)),
      TextCell (excelText (ch_ModelName cpu)),
      IntCell (ch_PhysicalCores cpu),
      IntCell (ch_PerformanceCores cpu),
      IntCell (ch_EfficiencyCores cpu),
      IntCell (ch_LogicalThreads cpu),
      FloatCell (ch_MaxFrequencyMHz cpu)]) (ndt_CPUPackages detail)) nodes)\<rparr>"

definition writeMemory :: "NodeDetail list \<Rightarrow> sheet" where
  "writeMemory nodes =
   \<lparr>sh_name = utf8 [0xE5, 0x86, 0x85, 0xE5, 0xAD, 0x98],
    sh_headers =
     [utf8 [0xE6, 0x98, 0xBE, 0xE7, 0xA4, 0xBA, 0xE5, 0x90, 0x8D, 0xE7, 0xA7, 0xB0],
      utf8 [0xE4, 0xB8, 0xBB, 0xE6, 0x9C, 0xBA, 0xE5, 0x90, 0x8D],
      ''IP '' @ utf8 [0xE5, 0x9C, 0xB0, 0xE5, 0x9D, 0x80],
      utf8 [0xE6, 0x8F, 0x92, 0xE6, 0xA7, 0xBD],
      utf8 [0xE5, 0x8E, 0x82, 0xE5, 0x95, 0x86],
      utf8 [0xE5, 0x9E, 0x8B, 0xE5, 0x8F, 0xB7],
      utf8 [0xE6, 0x96, 0x99, 0xE5, 0x8F, 0xB7],
      utf8 [0xE5, 0xBA, 0x8F, 0xE5, 0x88, 0x97, 0xE5, 0x8F, 0xB7],
      utf8 [0xE7, 0xB1, 0xBB, 0xE5, 0x9E, 0x8B],
      utf8 [0xE5, 0xAE, 0xB9, 0xE9, 0x87, 0x8F] @ '' (Bytes)'',
      utf8 [0xE9, 0x80, 0x9F, 0xE7, 0x8E, 0x87] @ '' (MT/s)''],
    sh_rows = concat (map (\<lambda>detail. map (\<lambda>memory. nodeCells (ndt_Node detail) @
     [TextCell (excelText (mh_SlotName memory)),
      TextCell (excelText (mh_Manufacturer memory)),
      TextCell (excelText (mh_ModelName memory)),
      TextCell (excelText (mh_PartNumber memory)),
      TextCell (excelText (mh_SerialNumber memory)),
      TextCell (excelText (mh_MemoryType memory)),
      IntCell (mh_SizeBytes memory),
      IntCell (mh_SpeedMTs memory)]) (ndt_MemoryModules detail)) nodes)\<rparr>"

definition writeDisks :: "NodeDetail list \<Rightarrow> sheet" where
  "writeDisks nodes =
   \<lparr>sh_name = utf8 [0xE7, 0xA3, 0x81, 0xE7, 0x9B, 0x98],
    sh_headers =
     [utf8 [0xE6, 0x98, 0xBE, 0xE7, 0xA4, 0xBA, 0xE5, 0x90, 0x8D, 0xE7, 0xA7, 0xB0],
      utf8 [0xE4, 0xB8, 0xBB, 0xE6, 0x9C, 0xBA, 0xE5, 0x90, 0x8D],
      ''IP '' @ utf8 [0xE5, 0x9C, 0xB0, 0xE5, 0x9D, 0x80],
      utf8 [0xE8, 0xAE, 0xBE, 0xE5, 0xA4, 0x87],
      utf8 [0xE7, 0xB1, 0xBB, 0xE5, 0x9E, 0x8B],
      utf8 [0xE5, 0x8E, 0x82, 0xE5, 0x95, 0x86],
      utf8 [0xE5, 0x9E, 0x8B, 0xE5, 0x8F, 0xB7],
      utf8 [0xE5, 0xBA, 0x8F, 0xE5, 0x88, 0x97, 0xE5, 0x8F, 0xB7],
      ''WWN'',
      utf8 [0xE5, 0xAE, 0xB9, 0xE9, 0x87, 0x8F] @ '' (Bytes)'',
      utf8 [0xE6, 0x9C, 0xBA, 0xE6, 0xA2, 0xB0, 0xE7, 0x9B, 0x98]],
    sh_rows = concat (map (\<lambda>detail. map (\<lambda>disk. nodeCells (ndt_Node detail) @
     [TextCell (excelText (bh_DeviceName disk)),
      TextCell (excelText (bh_DeviceKind disk)),
      TextCell (excelText (bh_Vendor disk)),
      TextCell (excelText (bh_ModelName disk)),
      TextCell (excelText (bh_SerialNumber disk)),
      TextCell (excelText (bh_WWN disk)),
      IntCell (bh_SizeBytes disk),
      TextCell (case bh_Rotational disk of None \<Rightarrow> [] | Some r \<Rightarrow> if r then yes else no)]) (ndt_BlockDevices detail)) nodes)\<rparr>"

definition writeFilesystems :: "NodeDetail list \<Rightarrow> sheet" where
  "writeFilesystems nodes =
   \<lparr>sh_name = utf8 [0xE6, 0x96, 0x87, 0xE4, 0xBB, 0xB6, 0xE7, 0xB3, 0xBB, 0xE7, 0xBB, 0x9F],
    sh_headers =
     [utf8 [0xE6, 0x98, 0xBE, 0xE7, 0xA4, 0xBA, 0xE5, 0x90, 0x8D, 0xE7, 0xA7, 0xB0],
      utf8 [0xE4, 0xB8, 0xBB, 0xE6, 0x9C, 0xBA, 0xE5, 0x90, 0x8D],
      ''IP '' @ utf8 [0xE5, 0x9C, 0xB0, 0xE5, 0x9D, 0x80],
      utf8 [0xE8, 0xAE, 0xBE, 0xE5, 0xA4, 0x87],
      utf8 [0xE6, 0x96, 0x87, 0xE4, 0xBB, 0xB6, 0xE7, 0xB3, 0xBB, 0xE7, 0xBB, 0x9F],
      utf8 [0xE6, 0x8C, 0x82, 0xE8, 0xBD, 0xBD, 0xE7, 0x82, 0xB9],
      utf8 [0xE9, 0x87, 0x87, 0xE9, 0x9B, 0x86, 0xE6, 0x97, 0xB6, 0xE9, 0x97, 0xB4],
      utf8 [0xE6, 0x80, 0xBB, 0xE9, 0x87, 0x8F] @ '' (Bytes)'',
      utf8 [0xE5, 0xB7, 0xB2, 0xE7, 0x94, 0xA8] @ '' (Bytes)'',
      utf8 [0xE5, 0x8F, 0xAF, 0xE7, 0x94, 0xA8] @ '' (Bytes)'',
      utf8 [0xE4, 0xBD, 0xBF, 0xE7, 0x94, 0xA8, 0xE7, 0x8E, 0x87] @ '' (%)''],
    sh_rows = concat (map (\<lambda>detail. map (\<lambda>filesystem. nodeCells (ndt_Node detail) @
     [TextCell (excelText (fst_DeviceName filesystem)),
      TextCell (excelText (fst_FilesystemType filesystem)),
      TextCell (excelText (fst_MountPoint filesystem)),
      timeValue (fst_BucketAt filesystem),
      IntCell (fst_TotalBytes filesystem),
      IntCell (fst_UsedBytes filesystem),
      IntCell (fst_AvailableBytes filesystem),
      FloatCell (fst_UsedPercent filesystem)]) (ndt_Filesystems detail)) nodes)\<rparr>"

definition writeNetwork :: "NodeDetail list \<Rightarrow> sheet" where
  "writeNetwork nodes =
   \<lparr>sh_name = utf8 [0xE7, 0xBD, 0x91, 0xE5, 0x8D, 0xA1],
    sh_headers =
     [utf8 [0xE6, 0x98, 0xBE, 0xE7, 0xA4, 0xBA, 0xE5, 0x90, 0x8D, 0xE7, 0xA7, 0xB0],
      utf8 [0xE4, 0xB8, 0xBB, 0xE6, 0x9C, 0xBA, 0xE5, 0x90, 0x8D],
      ''IP '' @ utf8 [0xE5, 0x9C, 0xB0, 0xE5, 0x9D, 0x80],
      utf8 [0xE7, 0xBD, 0x91, 0xE5, 0x8D, 0xA1],
      utf8 [0xE9, 0xA6, 0x96, 0xE9, 0xA1, 0xB5] @ '' IP '' @ utf8 [0xE7, 0xBD, 0x91, 0xE5, 0x8D, 0xA1],
      ''MAC '' @ utf8 [0xE5, 0x9C, 0xB0, 0xE5, 0x9D, 0x80],
      ''MTU'',
      utf8 [0xE9, 0x93, 0xBE, 0xE8, 0xB7, 0xAF, 0xE9, 0x80, 0x9F, 0xE7, 0x8E, 0x87] @ '' (Mbps)'',
      utf8 [0xE5, 0x9C, 0xB0, 0xE5, 0x9D, 0x80],
      utf8 [0xE9, 0x93, 0xBE, 0xE8, 0xB7, 0xAF, 0xE7, 0x8A, 0xB6, 0xE6, 0x80, 0x81],
      utf8 [0xE9, 0x87, 0x87, 0xE9, 0x9B, 0x86, 0xE6, 0x97, 0xB6, 0xE9, 0x97, 0xB4],
      utf8 [0xE6, 0x8E, 0xA5, 0xE6, 0x94, 0xB6, 0xE7, 0xB4, 0xAF, 0xE8, 0xAE, 0xA1] @ '' (Bytes)'',
      utf8 [0xE5, 0x8F, 0x91, 0xE9, 0x80, 0x81, 0xE7, 0xB4, 0xAF, 0xE8, 0xAE, 0xA1] @ '' (Bytes)'',
      utf8 [0xE6, 0x8E, 0xA5, 0xE6, 0x94, 0xB6] @ '' (bits/s)'',
      utf8 [0xE5, 0x8F, 0x91, 0xE9, 0x80, 0x81] @ '' (bits/s)''],
    sh_rows = concat (map (\<lambda>detail. map (\<lambda>network. nodeCells (ndt_Node detail) @
     [TextCell (excelText (nst_Name network)),
      TextCell (if nst_IsPrimary network then yes else no),
      TextCell (excelText (nst_MACAddress network)),
      IntCell (nst_MTU network),
      IntCell (nst_LinkSpeedMbps network),
      TextCell (excelText (Join (nst_Addresses network) '', '')),
      TextCell (if nst_LinkUp network then linkConnected else linkBroken),
      timeValue (nst_BucketAt network),
      IntCell (nst_RXBytesTotal network),
      IntCell (nst_TXBytesTotal network),
      FloatCell (nst_RXBitsPerSecond network),
      FloatCell (nst_TXBitsPerSecond network)]) (ndt_Network detail)) nodes)\<rparr>"

definition writeGPUs :: "NodeDetail list \<Rightarrow> sheet" where
  "writeGPUs nodes =
   \<lparr>sh_name = ''GPU'',
    sh_headers =
     [utf8 [0xE6, 0x98, 0xBE, 0xE7, 0xA4, 0xBA, 0xE5, 0x90, 0x8D, 0xE7, 0xA7, 0xB0],
      utf8 [0xE4, 0xB8, 0xBB, 0xE6, 0x9C, 0xBA, 0xE5, 0x90, 0x8D],
      ''IP '' @ utf8 [0xE5, 0x9C, 0xB0, 0xE5, 0x9D, 0x80],
      utf8 [0xE7, 0xB4, 0xA2, 0xE5, 0xBC, 0x95],
      ''UUID'',
      utf8 [0xE5, 0x9E, 0x8B, 0xE5, 0x8F, 0xB7],
      utf8 [0xE9, 0x87, 0x87, 0xE9, 0x9B, 0x86, 0xE6, 0x97, 0xB6, 0xE9, 0x97, 0xB4],
      utf8 [0xE6, 0xA0, 0xB8, 0xE5, 0xBF, 0x83, 0xE4, 0xBD, 0xBF, 0xE7, 0x94, 0xA8, 0xE7, 0x8E, 0x87] @ '' (%)'',
      utf8 [0xE6, 0x98, 0xBE, 0xE5, 0xAD, 0x98, 0xE6, 0x80, 0xBB, 0xE9, 0x87, 0x8F] @ '' (Bytes)'',
      utf8 [0xE6, 0x98, 0xBE, 0xE5, 0xAD, 0x98, 0xE5, 0xB7, 0xB2, 0xE7, 0x94, 0xA8] @ '' (Bytes)'',
      utf8 [0xE6, 0x98, 0xBE, 0xE5, 0xAD, 0x98, 0xE4, 0xBD, 0xBF, 0xE7, 0x94, 0xA8, 0xE7, 0x8E, 0x87] @ '' (%)''],
    sh_rows = concat (map (\<lambda>detail. map (\<lambda>gpu. nodeCells (ndt_Node detail) @
     [IntCell (gst_Index gpu),
      TextCell (excelText (gst_UUID gpu)),
      TextCell (excelText (gst_ModelName gpu)),
      timeValue (gst_BucketAt gpu),
      FloatCell (gst_UtilizationPercent gpu),
      IntCell (gst_MemoryTotalBytes gpu),
      IntCell (gst_MemoryUsedBytes gpu),
      FloatCell (gst_MemoryUsagePercent gpu)]) (ndt_GPUs detail)) nodes)\<rparr>"

text \<open>
  \<open>writeSheet\<close>: the values handed to \<open>SetCellValue\<close> with their column and row, in that order.
\<close>

definition writeSheet :: "sheet \<Rightarrow> ((nat \<times> nat) \<times> cell) list" where
  "writeSheet s =
     map (\<lambda>(column, header). ((column + 1, 1), TextCell header)) (enumerate 0 (sh_headers s)) @
     concat (map (\<lambda>(rowIndex, row).
       map (\<lambda>(columnIndex, v). ((columnIndex + 1, rowIndex + 2), v)) (enumerate 0 row)) (enumerate 0 (sh_rows s)))"

definition exportSheets :: "NodeDetail list \<Rightarrow> sheet list" where
  "exportSheets nodes =
     [writeSummary nodes, writeCPU nodes, writeMemory nodes, writeDisks nodes, writeFilesystems nodes,
      writeNetwork nodes, writeGPUs nodes]"

text \<open>\<open>excelize\<close> gives the bytes of the workbook, or an error.\<close>

definition buildNodeExportWorkbook ::
  "((string \<times> ((nat \<times> nat) \<times> cell) list) list \<Rightarrow> string + string) \<Rightarrow> NodeDetail list \<Rightarrow> string + string" where
  "buildNodeExportWorkbook excelize nodes =
     excelize (map (\<lambda>s. (sh_name s, writeSheet s)) (exportSheets nodes))"

section \<open>Lemmas\<close>

text \<open>A cell a spreadsheet program does not take for a formula.\<close>

fun inert :: "cell \<Rightarrow> bool" where
  "inert (TextCell s) \<longleftrightarrow> s = [] \<or> hd s \<notin> set ''=+-@''"
| "inert (IntCell _) \<longleftrightarrow> True"
| "inert (FloatCell _) \<longleftrightarrow> True"
| "inert (TimeCell _) \<longleftrightarrow> True"

lemma inert_excelText [simp]: "inert (TextCell (excelText v))"
  by (simp add: excelText_def)

lemma inert_timeValue [simp]: "inert (timeValue t)"
  by (simp add: timeValue_def split: option.splits)

lemma inert_constants [simp]:
  "inert (TextCell yes)" "inert (TextCell no)" "inert (TextCell linkConnected)" "inert (TextCell linkBroken)"
  "inert (TextCell [])"
  by code_simp+

lemma inert_nodeCells: "list_all inert (nodeCells node)" "length (nodeCells node) = 3"
  by (simp_all add: nodeCells_def del: inert.simps)

lemma length_headers:
  "length (sh_headers (writeSummary ns)) = 32" "length (sh_headers (writeCPU ns)) = 11"
  "length (sh_headers (writeMemory ns)) = 11" "length (sh_headers (writeDisks ns)) = 11"
  "length (sh_headers (writeFilesystems ns)) = 11" "length (sh_headers (writeNetwork ns)) = 15"
  "length (sh_headers (writeGPUs ns)) = 11"
  by (simp_all add: writeSummary_def writeCPU_def writeMemory_def writeDisks_def writeFilesystems_def
      writeNetwork_def writeGPUs_def)

definition rows_ok :: "sheet \<Rightarrow> bool" where
  "rows_ok s \<longleftrightarrow> (\<forall>row \<in> set (sh_rows s). length row = length (sh_headers s) \<and> list_all inert row)"

lemmas sheet_defs = writeSummary_def writeCPU_def writeMemory_def writeDisks_def writeFilesystems_def
  writeNetwork_def writeGPUs_def

lemma rows_ok_sheets:
  "rows_ok (writeSummary ns)" "rows_ok (writeCPU ns)" "rows_ok (writeMemory ns)" "rows_ok (writeDisks ns)"
  "rows_ok (writeFilesystems ns)" "rows_ok (writeNetwork ns)" "rows_ok (writeGPUs ns)"
  unfolding rows_ok_def length_headers
  by (simp add: writeSummary_def summaryRow_def Let_def del: inert.simps(1))
    (auto simp: sheet_defs inert_nodeCells simp del: inert.simps(1) split: option.splits)

lemma exportSheets_headers: "map sh_headers (exportSheets ns) = map sh_headers (exportSheets [])"
  by (simp add: exportSheets_def sheet_defs)

lemma inert_headers: "s \<in> set (exportSheets ns) \<Longrightarrow> list_all (\<lambda>h. inert (TextCell h)) (sh_headers s)"
proof -
  have "list_all (list_all (\<lambda>h. inert (TextCell h))) (map sh_headers (exportSheets []))" by code_simp
  then show "list_all (\<lambda>h. inert (TextCell h)) (sh_headers s)" if "s \<in> set (exportSheets ns)"
    using that by (simp add: list_all_iff flip: exportSheets_headers [of ns])
qed

lemma rows_ok_exportSheets: "s \<in> set (exportSheets ns) \<Longrightarrow> rows_ok s"
  by (auto simp: exportSheets_def rows_ok_sheets)

lemma fst_enumerate_cells:
  "map fst (map (\<lambda>(i, v). ((i + 1, r), f v)) (enumerate 0 xs)) = map (\<lambda>c. (c, r)) [1..<length xs + 1]"
  by (rule nth_equalityI) (auto simp: nth_enumerate_eq simp del: upt_Suc)

text \<open>The cells a sheet whose rows have the width of its header fills.\<close>

lemma writeSheet_positions:
  assumes "\<forall>row \<in> set (sh_rows s). length row = length (sh_headers s)"
  shows "map fst (writeSheet s) =
    concat (map (\<lambda>r. map (\<lambda>c. (c, r)) [1..<length (sh_headers s) + 1]) [1..<length (sh_rows s) + 2])"
proof -
  have rows: "map fst (concat (map (\<lambda>(i, row). map (\<lambda>(j, v). ((j + 1, i + 2), v)) (enumerate 0 row)) (enumerate n rs)))
      = concat (map (\<lambda>r. map (\<lambda>c. (c, r)) [1..<w + 1]) [n + 2..<n + 2 + length rs])"
    if "\<forall>row \<in> set rs. length row = w" for rs :: "cell list list" and n w
    using that
  proof (induction rs arbitrary: n)
    case (Cons row rs)
    then show ?case
      using fst_enumerate_cells [where r = "n + 2" and xs = row and f = "\<lambda>v. v"] by (simp add: upt_conv_Cons del: upt_Suc)
  qed simp
  have "[1..<length (sh_rows s) + 2] = 1 # [0 + 2..<0 + 2 + length (sh_rows s)]"
    by (simp add: upt_conv_Cons numeral_2_eq_2 add.commute del: upt_Suc)
  then have split: "concat (map f [1..<length (sh_rows s) + 2]) = f 1 @ concat (map f [0 + 2..<0 + 2 + length (sh_rows s)])"
    for f :: "nat \<Rightarrow> (nat \<times> nat) list"
    by (simp del: upt_Suc)
  show ?thesis
    unfolding writeSheet_def map_append rows [OF assms, of 0] split
    by (simp only: fst_enumerate_cells [where f = TextCell])
qed

lemma set_writeSheet:
  "x \<in> set (writeSheet s) \<Longrightarrow>
    (\<exists>h \<in> set (sh_headers s). snd x = TextCell h) \<or> (\<exists>row \<in> set (sh_rows s). snd x \<in> set row)"
  unfolding writeSheet_def by (auto simp: in_set_enumerate_eq) (meson nth_mem)+

section \<open>Properties\<close>

text \<open>
  C22: No cell of the exported workbook, on any sheet, is text that a spreadsheet program would
  evaluate: whatever the agents reported, no text cell begins with an equals sign, a plus, a minus
  or an at sign.
\<close>

theorem export_no_formula:
  "\<forall>s \<in> set (exportSheets nodes). \<forall>x \<in> set (writeSheet s). inert (snd x)"
proof (intro ballI)
  fix s x
  assume s: "s \<in> set (exportSheets nodes)" and "x \<in> set (writeSheet s)"
  from set_writeSheet [OF this(2)] show "inert (snd x)"
    using inert_headers [OF s] rows_ok_exportSheets [OF s] by (auto simp: rows_ok_def list_all_iff simp del: inert.simps)
qed

definition sampleDetail :: NodeDetail where
  "sampleDetail = \<lparr>ndt_Node = \<lparr>ns_NodeID = [], ns_AgentID = [], ns_Hostname = ''=1+1'', ns_DisplayName = [], ns_OSName = [],
     ns_OSVersion = [], ns_Architecture = [], ns_AgentVersion = [], ns_Labels = [], ns_Tags = [],
     ns_MachineType = [], ns_SystemModel = [], ns_HasNVIDIAGPU = False, ns_LastSeenAt = 0, ns_Status = [],
     ns_PrimaryIP = [], ns_SecondsSinceLastSeen = 0, ns_LatestBucketAt = None, ns_CPUUsagePercent = Fin 0, ns_Load1 = Fin 0,
     ns_Load5 = Fin 0, ns_Load15 = Fin 0, ns_MemoryTotalBytes = 0, ns_MemoryUsedBytes = 0, ns_MemoryUsagePercent = Fin 0,
     ns_UptimeSeconds = 0, ns_CPUPackageCount = 0, ns_CPUPhysicalCoreCount = 0, ns_CPULogicalThreadCount = 0, ns_CPUThreadsPerPackage = [],
     ns_CPUModels = [], ns_MemoryModuleCount = 0, ns_InventoryMemoryBytes = 0, ns_MemoryModels = [], ns_DiskCount = 0,
     ns_DiskTotalBytes = 0, ns_DiskModels = [], ns_DiskUsagePercent = Fin 0, ns_DiskReadBytesPerSec = Fin 0, ns_DiskWriteBytesPerSec = Fin 0,
     ns_NetworkRXBytesPerSec = Fin 0, ns_NetworkTXBytesPerSec = Fin 0\<rparr>,
     ndt_CPUPackages = [], ndt_MemoryModules = [], ndt_BlockDevices = [], ndt_Temperatures = [], ndt_GPUs = [],
     ndt_Filesystems = [], ndt_Network = []\<rparr>"

theorem export_no_formula_witness:
  "map_of (writeSheet (writeSummary [sampleDetail])) (4, 2) = Some (TextCell (CHR 0x27 # ''=1+1'')) \<and>
   list_all (\<lambda>x. inert (snd x)) (writeSheet (writeSummary [sampleDetail]))"
proof -
  have "writeSummary [sampleDetail] \<in> set (exportSheets [sampleDetail])" by (simp add: exportSheets_def)
  then have "list_all (\<lambda>x. inert (snd x)) (writeSheet (writeSummary [sampleDetail]))"
    using export_no_formula [of "[sampleDetail]"] by (simp add: list_all_iff)
  moreover have "map_of (writeSheet (writeSummary [sampleDetail])) (4, 2) = Some (TextCell (CHR 0x27 # ''=1+1''))"
    by code_simp
  ultimately show ?thesis by blast
qed

text \<open>
  C40: Every sheet is a full rectangle: each of its cells is written exactly once, row by row from the
  header in row 1, in as many columns as the header has; the summary has one row per node and every
  other sheet one row per item of its kind, in the order of the nodes.
\<close>

theorem export_rectangle:
  "(\<forall>s \<in> set (exportSheets nodes). map fst (writeSheet s) =
     concat (map (\<lambda>r. map (\<lambda>c. (c, r)) [1..<length (sh_headers s) + 1]) [1..<length (sh_rows s) + 2])) \<and>
   map (\<lambda>s. length (sh_rows s)) (exportSheets nodes) =
     [length nodes, sum_list (map (length \<circ> ndt_CPUPackages) nodes), sum_list (map (length \<circ> ndt_MemoryModules) nodes),
      sum_list (map (length \<circ> ndt_BlockDevices) nodes), sum_list (map (length \<circ> ndt_Filesystems) nodes),
      sum_list (map (length \<circ> ndt_Network) nodes), sum_list (map (length \<circ> ndt_GPUs) nodes)]"
proof
  show "\<forall>s \<in> set (exportSheets nodes). map fst (writeSheet s) =
     concat (map (\<lambda>r. map (\<lambda>c. (c, r)) [1..<length (sh_headers s) + 1]) [1..<length (sh_rows s) + 2])"
    using rows_ok_exportSheets by (intro ballI writeSheet_positions) (auto simp: rows_ok_def)
  show "map (\<lambda>s. length (sh_rows s)) (exportSheets nodes) =
     [length nodes, sum_list (map (length \<circ> ndt_CPUPackages) nodes), sum_list (map (length \<circ> ndt_MemoryModules) nodes),
      sum_list (map (length \<circ> ndt_BlockDevices) nodes), sum_list (map (length \<circ> ndt_Filesystems) nodes),
      sum_list (map (length \<circ> ndt_Network) nodes), sum_list (map (length \<circ> ndt_GPUs) nodes)]"
    by (simp add: exportSheets_def sheet_defs length_concat comp_def)
qed

theorem export_rectangle_witness:
  "map fst (writeSheet (writeCPU [])) = map (\<lambda>c. (c, 1)) [1..<12]"
proof -
  have "writeCPU [] \<in> set (exportSheets [])" by (simp add: exportSheets_def)
  moreover have "sh_rows (writeCPU []) = []" by (simp add: writeCPU_def)
  moreover have "[Suc 0..<Suc (Suc 0)] = [Suc 0]" by simp
  ultimately show ?thesis using export_rectangle [of "[]"] length_headers(2) [of "[]"] by (simp del: upt_Suc)
qed

text \<open>
  The text of the labels does not depend on the order in which the map is iterated.
\<close>

theorem formatLabels_order:
  assumes "mset labels = mset labels'" and "distinct (map fst labels)"
  shows "formatLabels labels = formatLabels labels'"
proof -
  have "mset (map fst labels) = mset (map fst labels')" using assms(1) by (metis mset_map)
  then have "sort_slice id (map fst labels) = sort_slice id (map fst labels')"
    by (intro sort_slice_unique) (use assms(2) distinct_map_mset [OF assms(1), of fst] sorted_sort_slice [of id "map fst labels"] in simp_all)
  moreover have "map_of labels = map_of labels'"
    using assms map_of_inject_set [of labels labels'] distinct_map_mset [OF assms(1), of fst] by (metis set_mset_mset)
  ultimately show ?thesis by (simp add: formatLabels_def)
qed

theorem formatLabels_order_witness:
  "formatLabels [(''b'', ''1''), (''a'', ''2'')] = formatLabels [(''a'', ''2''), (''b'', ''1'')]"
  by (rule formatLabels_order) simp_all

end
