(* ===== verification/Server_HTTP.thy ===== *)
theory Server_HTTP
  imports History_Cache Server_Export App_Version
begin

text \<open>
  The HTTP interface of the server (src/internal/server/http.go): authentication by bearer token,
  the body decoder, every handler over the store, the administrator guard, the middleware and the
  routes. A handler maps a request and the server state to a response and the new state. The store
  is the record of operations the Go interface \<open>dataStore\<close> lists; \<open>pgStore\<close> fills it with the model of
  package store. The decoder of package encoding/json, SHA-256, the JSON encoding of an inventory and
  the workbook encoder are arguments. Logging and the deadlines of contexts are left out.
\<close>

section \<open>The store as the handlers see it\<close>

record 's dataStore =
  ds_Ready :: "'s \<Rightarrow> store_error option"
  ds_AuthenticateToken :: "string \<Rightarrow> 's \<Rightarrow> store_error + NodeAuth"
  ds_Ingest :: "NodeAuth \<Rightarrow> Report \<Rightarrow> 's \<Rightarrow> (store_error + unit) \<times> 's"
  ds_RegisterNode :: "RegisterNodeInput \<Rightarrow> 's \<Rightarrow> (store_error + NodeCredentials) \<times> 's"
  ds_ListNodes :: "'s \<Rightarrow> store_error + NodeSummary list"
  ds_GetNode :: "string \<Rightarrow> 's \<Rightarrow> store_error + NodeDetail"
  ds_SetPrimaryNetworkInterface :: "string \<Rightarrow> string \<Rightarrow> 's \<Rightarrow> store_error option \<times> 's"
  ds_UpdateNodeTags :: "string \<Rightarrow> string list \<Rightarrow> 's \<Rightarrow> store_error option \<times> 's"
  ds_GetNodeHistory :: "string \<Rightarrow> string \<Rightarrow> 's \<Rightarrow> store_error + NodeHistory"

record primaryNetworkInterfaceInput =
  pi_InterfaceID :: string

record nodeTagsInput =
  nt_Tags :: "string list"

text \<open>
  A decoder reads the first value of the stream of bytes and leaves the rest; its first argument
  says that reading past the end fails (the body was longer than the limit).
\<close>

type_synonym 'a decoder = "bool \<Rightarrow> string \<Rightarrow> string + ('a \<times> string)"

record library =
  lb_sha256 :: "string \<Rightarrow> u8 list"
  lb_marshal :: inventory_encoder
  lb_decodeReport :: "Report decoder"
  lb_decodeRegister :: "RegisterNodeInput decoder"
  lb_decodeInterface :: "primaryNetworkInterfaceInput decoder"
  lb_decodeTags :: "nodeTagsInput decoder"
  lb_unicodeLower :: "string \<Rightarrow> string"
  lb_excelize :: "(string \<times> ((nat \<times> nat) \<times> cell) list) list \<Rightarrow> string + string"
  lb_marshalHistory :: "NodeHistory \<Rightarrow> string option"
  lb_gzip :: "string \<Rightarrow> string option"
  lb_ParseFloat :: "string \<Rightarrow> f64 option"
  lb_timing :: "Duration \<Rightarrow> Duration \<Rightarrow> string"
  lb_stamp :: "Time \<Rightarrow> string"

record 's API =
  api_store :: "'s dataStore"
  api_adminDigest :: "u8 list"
  api_latestAgentVersion :: string
  api_lib :: library

record 's server =
  sv_store :: 's
  sv_history :: historyResponseCache

text \<open>What the handlers write, before JSON encoding.\<close>

datatype body =
    ErrorBody string
  | StatusBody string
  | ReceiptBody ReportReceipt
  | CredentialsBody NodeCredentials
  | NodesBody "NodeSummary list"
  | DetailBody NodeDetail
  | TagsBody "string list"
  | InterfaceBody string
  | BytesBody string

type_synonym response = "body http_response"

definition NewAPI :: "'s dataStore \<Rightarrow> string \<Rightarrow> string \<Rightarrow> library \<Rightarrow> 's API" where
  "NewAPI database adminToken serverVersion lib =
     \<lparr>api_store = database, api_adminDigest = lb_sha256 lib adminToken,
      api_latestAgentVersion = (case Normalize serverVersion of None \<Rightarrow> [] | Some v \<Rightarrow> v), api_lib = lib\<rparr>"

definition newServer :: "'s \<Rightarrow> 's server" where
  "newServer s = \<lparr>sv_store = s, sv_history = newHistoryResponseCache (30 * Second) 256\<rparr>"

section \<open>Requests and responses\<close>

definition writeJSON :: "nat \<Rightarrow> body \<Rightarrow> response" where
  "writeJSON status v = \<lparr>rs_status = status, rs_headers = [(''Content-Type'', ''application/json'')], rs_body = Some v\<rparr>"

definition writeError :: "nat \<Rightarrow> string \<Rightarrow> response" where
  "writeError status message = writeJSON status (ErrorBody message)"

definition bearerToken :: "http_request \<Rightarrow> string option" where
  "bearerToken request =
     (case Cut CHR '' '' (TrimSpace (rq_header request ''Authorization'')) of
        None \<Rightarrow> None
      | Some (scheme, token) \<Rightarrow>
          if \<not> EqualFold scheme ''Bearer'' \<or> TrimSpace token = [] then None else Some (TrimSpace token))"

definition maxBody :: nat where
  "maxBody = 4 * 2 ^ 20"

definition json_space :: "char \<Rightarrow> bool" where
  "json_space c \<longleftrightarrow> c \<in> {CHR 0x20, CHR 0x09, CHR 0x0A, CHR 0x0D}"

definition decodeJSON :: "'a decoder \<Rightarrow> http_request \<Rightarrow> string + 'a" where
  "decodeJSON decode request =
     (let limited = length (rq_body request) > maxBody
      in case decode limited (take maxBody (rq_body request)) of
           Inl e \<Rightarrow> Inl (''invalid JSON body: '' @ e)
         | Inr (v, rest) \<Rightarrow>
             if limited \<or> \<not> list_all json_space rest
             then Inl ''request body must contain one JSON object'' else Inr v)"

section \<open>Tags\<close>

text \<open>The number of bytes of the first rune of a non-empty string; an invalid byte is one rune.\<close>

definition byte_in :: "nat \<Rightarrow> nat \<Rightarrow> string \<Rightarrow> nat \<Rightarrow> bool" where
  "byte_in lo hi s i \<longleftrightarrow> i < length s \<and> lo \<le> of_char (s ! i) \<and> of_char (s ! i) \<le> hi"

definition rune_width :: "string \<Rightarrow> nat" where
  "rune_width s =
     (let tail = byte_in 0x80 0xBF s in
      if byte_in 0xC2 0xDF s 0 \<and> tail 1 then 2
      else if byte_in 0xE0 0xE0 s 0 \<and> byte_in 0xA0 0xBF s 1 \<and> tail 2 then 3
      else if (byte_in 0xE1 0xEC s 0 \<or> byte_in 0xEE 0xEF s 0) \<and> tail 1 \<and> tail 2 then 3
      else if byte_in 0xED 0xED s 0 \<and> byte_in 0x80 0x9F s 1 \<and> tail 2 then 3
      else if byte_in 0xF0 0xF0 s 0 \<and> byte_in 0x90 0xBF s 1 \<and> tail 2 \<and> tail 3 then 4
      else if byte_in 0xF1 0xF3 s 0 \<and> tail 1 \<and> tail 2 \<and> tail 3 then 4
      else if byte_in 0xF4 0xF4 s 0 \<and> byte_in 0x80 0x8F s 1 \<and> tail 2 \<and> tail 3 then 4
      else 1)"

lemma rune_width_pos: "0 < rune_width s"
  by (simp add: rune_width_def Let_def)

function rune_count :: "string \<Rightarrow> nat" where
  "rune_count s = (if s = [] then 0 else Suc (rune_count (drop (rune_width s) s)))"
  by pat_completeness auto
termination
  using rune_width_pos by (relation "measure length") auto

declare rune_count.simps [simp del]

fun normalizeTags_loop :: "(string \<Rightarrow> string) \<Rightarrow> string list \<Rightarrow> string list \<Rightarrow> string list \<Rightarrow> string + string list" where
  "normalizeTags_loop uni seen normalized [] = Inr normalized"
| "normalizeTags_loop uni seen normalized (tag # tags) =
     (let tag = TrimSpace tag; key = ToLower uni tag in
      if tag = [] then Inl ''tags cannot be empty''
      else if rune_count tag > 32 then Inl ''each tag must be at most 32 characters''
      else if key \<in> set seen then Inl ''tags must be unique''
      else normalizeTags_loop uni (key # seen) (normalized @ [tag]) tags)"

definition normalizeNodeTags :: "(string \<Rightarrow> string) \<Rightarrow> string list \<Rightarrow> string + string list" where
  "normalizeNodeTags uni tags =
     (if length tags > 5 then Inl ''a node can have at most 5 tags'' else normalizeTags_loop uni [] [] tags)"

section \<open>Handlers\<close>

definition health :: "http_request \<Rightarrow> 's server \<Rightarrow> response \<times> 's server" where
  "health request s = (writeJSON 200 (StatusBody ''ok''), s)"

definition ready :: "'s API \<Rightarrow> http_request \<Rightarrow> 's server \<Rightarrow> response \<times> 's server" where
  "ready api request s =
     (case ds_Ready (api_store api) (sv_store s) of
        Some _ \<Rightarrow> (writeError 503 ''database is not ready'', s)
      | None \<Rightarrow> (writeJSON 200 (StatusBody ''ready''), s))"

text \<open>The text of a rejected report is \<open>err.Error()\<close>, which the argument \<open>message\<close> gives.\<close>

definition updateFor :: "'s API \<Rightarrow> Report \<Rightarrow> AgentUpdate option" where
  "updateFor api payload =
     (case Compare (ai_AgentVersion (r_Agent payload)) (api_latestAgentVersion api) of
        None \<Rightarrow> None
      | Some comparison \<Rightarrow>
          if comparison < 0 then Some \<lparr>au_Version = api_latestAgentVersion api\<rparr> else None)"

definition report ::
  "'s API \<Rightarrow> (report_error + store_error \<Rightarrow> string) \<Rightarrow> Time \<Rightarrow> http_request \<Rightarrow> 's server \<Rightarrow> response \<times> 's server" where
  "report api message now request s =
     (case bearerToken request of
        None \<Rightarrow> (writeError 401 ''missing bearer token'', s)
      | Some rawToken \<Rightarrow>
     (case ds_AuthenticateToken (api_store api) rawToken (sv_store s) of
        Inl e \<Rightarrow>
          if e = ErrUnauthorized then (writeError 401 ''invalid node token'', s)
          else (writeError 500 ''authentication failed'', s)
      | Inr auth \<Rightarrow>
     (case decodeJSON (lb_decodeReport (api_lib api)) request of
        Inl e \<Rightarrow> (writeError 400 e, s)
      | Inr payload \<Rightarrow>
          if ai_ID (r_Agent payload) \<noteq> auth_AgentID auth then (writeError 403 ''agent id does not match token'', s)
          else case Validate (lb_sha256 (api_lib api)) (lb_marshal (api_lib api)) now payload of
                 (Some e, _) \<Rightarrow> (writeError 422 (message (Inl e)), s)
               | (None, payload) \<Rightarrow>
                   (case ds_Ingest (api_store api) auth payload (sv_store s) of
                      (Inl e, st) \<Rightarrow>
                        (case e of
                           ErrInvalidResource kind key \<Rightarrow>
                             (writeError 422 (message (Inr e)), s\<lparr>sv_store := st\<rparr>)
                         | _ \<Rightarrow> (writeError 500 ''report ingestion failed'', s\<lparr>sv_store := st\<rparr>))
                    | (Inr _, st) \<Rightarrow>
                        (writeJSON 202 (ReceiptBody
                           \<lparr>rr_Status = ''accepted'', rr_BucketAt = Truncate (r_CollectedAt payload) Minute,
                            rr_AgentUpdate = updateFor api payload\<rparr>),
                         s\<lparr>sv_store := st\<rparr>)))))"

definition registerNode :: "'s API \<Rightarrow> http_request \<Rightarrow> 's server \<Rightarrow> response \<times> 's server" where
  "registerNode api request s =
     (case decodeJSON (lb_decodeRegister (api_lib api)) request of
        Inl e \<Rightarrow> (writeError 400 e, s)
      | Inr input \<Rightarrow>
          if ri_AgentID input \<noteq> [] \<and> \<not> ValidUUID (ri_AgentID input)
          then (writeError 400 ''agent_id must be an RFC 4122 UUID'', s)
          else case ds_RegisterNode (api_store api) input (sv_store s) of
                 (Inl e, st) \<Rightarrow> (writeError 500 ''node registration failed'', s\<lparr>sv_store := st\<rparr>)
               | (Inr credentials, st) \<Rightarrow> (writeJSON 201 (CredentialsBody credentials), s\<lparr>sv_store := st\<rparr>))"

definition listNodes :: "'s API \<Rightarrow> http_request \<Rightarrow> 's server \<Rightarrow> response \<times> 's server" where
  "listNodes api request s =
     (case ds_ListNodes (api_store api) (sv_store s) of
        Inl e \<Rightarrow> (writeError 500 ''cannot list nodes'', s)
      | Inr nodes \<Rightarrow> (writeJSON 200 (NodesBody nodes), s))"

text \<open>The loop over the nodes of an export: a node that has gone meanwhile is skipped.\<close>

fun exportDetails :: "(string \<Rightarrow> store_error + NodeDetail) \<Rightarrow> NodeSummary list \<Rightarrow> store_error + NodeDetail list" where
  "exportDetails get [] = Inr []"
| "exportDetails get (node # nodes) =
     (case get (ns_NodeID node) of
        Inl e \<Rightarrow> if e = ErrNotFound then exportDetails get nodes else Inl e
      | Inr detail \<Rightarrow>
          (case exportDetails get nodes of Inl e \<Rightarrow> Inl e | Inr details \<Rightarrow> Inr (detail # details)))"

definition spreadsheetContentType :: string where
  "spreadsheetContentType = ''application/vnd.openxmlformats-officedocument.spreadsheetml.sheet''"

definition exportNodes :: "'s API \<Rightarrow> Time \<Rightarrow> http_request \<Rightarrow> 's server \<Rightarrow> response \<times> 's server" where
  "exportNodes api now request s =
     (case ds_ListNodes (api_store api) (sv_store s) of
        Inl e \<Rightarrow> (writeError 500 ''cannot list nodes for export'', s)
      | Inr nodes \<Rightarrow>
     (case exportDetails (\<lambda>i. ds_GetNode (api_store api) i (sv_store s)) nodes of
        Inl e \<Rightarrow> (writeError 500 ''cannot export node information'', s)
      | Inr details \<Rightarrow>
     (case buildNodeExportWorkbook (lb_excelize (api_lib api)) details of
        Inl e \<Rightarrow> (writeError 500 ''cannot build Excel export'', s)
      | Inr workbook \<Rightarrow>
          (\<lparr>rs_status = 200,
            rs_headers = [(''Content-Type'', spreadsheetContentType),
              (''Content-Disposition'', ''attachment; filename='' @ [CHR 0x22] @ ''server-status-nodes-'' @
                 lb_stamp (api_lib api) now @ ''.xlsx'' @ [CHR 0x22])],
            rs_body = Some (BytesBody workbook)\<rparr>, s))))"

definition getNode :: "'s API \<Rightarrow> http_request \<Rightarrow> 's server \<Rightarrow> response \<times> 's server" where
  "getNode api request s =
     (let nodeID = rq_path_value request ''nodeID'' in
      if \<not> ValidUUID nodeID then (writeError 400 ''invalid node id'', s)
      else case ds_GetNode (api_store api) nodeID (sv_store s) of
             Inl e \<Rightarrow>
               if e = ErrNotFound then (writeError 404 ''node not found'', s)
               else (writeError 500 ''cannot get node'', s)
           | Inr detail \<Rightarrow> (writeJSON 200 (DetailBody detail), s))"

definition updateNodeTags :: "'s API \<Rightarrow> http_request \<Rightarrow> 's server \<Rightarrow> response \<times> 's server" where
  "updateNodeTags api request s =
     (let nodeID = rq_path_value request ''nodeID'' in
      if \<not> ValidUUID nodeID then (writeError 400 ''invalid node id'', s)
      else case decodeJSON (lb_decodeTags (api_lib api)) request of
             Inl e \<Rightarrow> (writeError 400 e, s)
           | Inr input \<Rightarrow>
               (case normalizeNodeTags (lb_unicodeLower (api_lib api)) (nt_Tags input) of
                  Inl e \<Rightarrow> (writeError 400 e, s)
                | Inr tags \<Rightarrow>
                    (case ds_UpdateNodeTags (api_store api) nodeID tags (sv_store s) of
                       (None, st) \<Rightarrow> (writeJSON 200 (TagsBody tags), s\<lparr>sv_store := st\<rparr>)
                     | (Some e, st) \<Rightarrow>
                         if e = ErrNotFound then (writeError 404 ''node not found'', s\<lparr>sv_store := st\<rparr>)
                         else (writeError 500 ''cannot update node tags'', s\<lparr>sv_store := st\<rparr>))))"

definition setPrimaryNetworkInterface :: "'s API \<Rightarrow> http_request \<Rightarrow> 's server \<Rightarrow> response \<times> 's server" where
  "setPrimaryNetworkInterface api request s =
     (let nodeID = rq_path_value request ''nodeID'' in
      if \<not> ValidUUID nodeID then (writeError 400 ''invalid node id'', s)
      else case decodeJSON (lb_decodeInterface (api_lib api)) request of
             Inl e \<Rightarrow> (writeError 400 e, s)
           | Inr input \<Rightarrow>
               if \<not> ValidUUID (pi_InterfaceID input) then (writeError 400 ''interface_id must be an RFC 4122 UUID'', s)
               else case ds_SetPrimaryNetworkInterface (api_store api) nodeID (pi_InterfaceID input) (sv_store s) of
                      (None, st) \<Rightarrow> (writeJSON 200 (InterfaceBody (pi_InterfaceID input)), s\<lparr>sv_store := st\<rparr>)
                    | (Some e, st) \<Rightarrow>
                        if e = ErrNotFound
                        then (writeError 404 ''active network interface not found for node'', s\<lparr>sv_store := st\<rparr>)
                        else (writeError 500 ''cannot set primary network interface'', s\<lparr>sv_store := st\<rparr>))"

text \<open>The history, with a load of its own when the cache has no entry.\<close>

definition getNodeHistory :: "'s API \<Rightarrow> Time \<Rightarrow> load_clock \<Rightarrow> http_request \<Rightarrow> 's server \<Rightarrow> response \<times> 's server" where
  "getNodeHistory api now clock request s =
     (let nodeID = rq_path_value request ''nodeID'';
          window = (if rq_query request ''range'' = [] then ''24h'' else rq_query request ''range'') in
      if \<not> ValidUUID nodeID then (writeError 400 ''invalid node id'', s)
      else if \<not> ValidHistoryRange window
        then (writeError 400 ''range must be one of 1h, 6h, 24h, 7d, 30d, or 90d'', s)
      else
        let lib = api_lib api; key = nodeID @ '':'' @ window;
            (flight, cache) = loadHistory (lb_marshalHistory lib) (lb_gzip lib) (lb_sha256 lib) clock
              (ds_GetNodeHistory (api_store api) nodeID window (sv_store s)) key (sv_history s)
        in case getHistory key now (Some flight) (sv_history s) of
             Inl (LoadFailed ErrNotFound) \<Rightarrow> (writeError 404 ''node not found'', s)
           | Inl e \<Rightarrow> (writeError 500 ''cannot get node history'', s)
           | Inr (entry, True) \<Rightarrow>
               (let r = writeHistoryResponse (lb_ParseFloat lib) (lb_timing lib) request entry True
                in (\<lparr>rs_status = rs_status r, rs_headers = rs_headers r, rs_body = map_option BytesBody (rs_body r)\<rparr>, s))
           | Inr (entry, False) \<Rightarrow>
               (let r = writeHistoryResponse (lb_ParseFloat lib) (lb_timing lib) request entry False
                in (\<lparr>rs_status = rs_status r, rs_headers = rs_headers r, rs_body = map_option BytesBody (rs_body r)\<rparr>,
                    s\<lparr>sv_history := cache\<rparr>)))"

section \<open>The guard, the middleware and the routes\<close>

definition requireAdmin ::
  "'s API \<Rightarrow> (http_request \<Rightarrow> 's server \<Rightarrow> response \<times> 's server) \<Rightarrow> http_request \<Rightarrow> 's server \<Rightarrow> response \<times> 's server" where
  "requireAdmin api next request s =
     (case bearerToken request of
        None \<Rightarrow> (writeError 401 ''missing admin bearer token'', s)
      | Some token \<Rightarrow>
          if lb_sha256 (api_lib api) token \<noteq> api_adminDigest api
          then (writeError 401 ''invalid admin bearer token'', s)
          else next request s)"

text \<open>The headers set before a handler runs: a handler's own header of the same name replaces them.\<close>

definition securityHeaders ::
  "(http_request \<Rightarrow> 's server \<Rightarrow> response \<times> 's server) \<Rightarrow> http_request \<Rightarrow> 's server \<Rightarrow> response \<times> 's server" where
  "securityHeaders next request s =
     (case next request s of
        (resp, s') \<Rightarrow>
          (resp\<lparr>rs_headers := fold (\<lambda>(k, v). AList.update k v) (rs_headers resp)
             [(''X-Content-Type-Options'', ''nosniff''), (''Cache-Control'', ''no-store'')]\<rparr>, s'))"

datatype route =
    Health | ReadyRoute | ReportRoute | ListNodesRoute | GetNodeRoute | HistoryRoute
  | AdminRegister | AdminList | AdminExport | AdminGet | AdminPrimary | AdminTags

definition is_admin :: "route \<Rightarrow> bool" where
  "is_admin r \<longleftrightarrow> r \<in> {AdminRegister, AdminList, AdminExport, AdminGet, AdminPrimary, AdminTags}"

text \<open>
  The patterns of the mux for a method and the segments of a path, with the value of \<open>{nodeID}\<close>. A
  pattern of method GET also serves HEAD, and a literal segment is preferred to a wildcard.
\<close>

fun routeOf :: "string \<Rightarrow> string list \<Rightarrow> (route \<times> string) option" where
  "routeOf method path =
     (let get = (method = ''GET'' \<or> method = ''HEAD'') in
      if get \<and> path = [''healthz''] then Some (Health, [])
      else if get \<and> path = [''readyz''] then Some (ReadyRoute, [])
      else if method = ''POST'' \<and> path = [''api'', ''v1'', ''reports''] then Some (ReportRoute, [])
      else if get \<and> path = [''api'', ''v1'', ''nodes''] then Some (ListNodesRoute, [])
      else if method = ''POST'' \<and> path = [''api'', ''v1'', ''admin'', ''nodes''] then Some (AdminRegister, [])
      else if get \<and> path = [''api'', ''v1'', ''admin'', ''nodes''] then Some (AdminList, [])
      else if get \<and> path = [''api'', ''v1'', ''admin'', ''nodes'', ''export''] then Some (AdminExport, [])
      else if get \<and> length path = 4 \<and> take 3 path = [''api'', ''v1'', ''nodes''] \<and> last path \<noteq> []
        then Some (GetNodeRoute, last path)
      else if get \<and> length path = 5 \<and> take 3 path = [''api'', ''v1'', ''nodes''] \<and> path ! 3 \<noteq> [] \<and> last path = ''history''
        then Some (HistoryRoute, path ! 3)
      else if get \<and> length path = 5 \<and> take 4 path = [''api'', ''v1'', ''admin'', ''nodes''] \<and> last path \<noteq> []
        then Some (AdminGet, last path)
      else if method = ''PUT'' \<and> length path = 6 \<and> take 4 path = [''api'', ''v1'', ''admin'', ''nodes''] \<and> path ! 4 \<noteq> [] \<and>
          last path = ''primary-network-interface'' then Some (AdminPrimary, path ! 4)
      else if method = ''PUT'' \<and> length path = 6 \<and> take 4 path = [''api'', ''v1'', ''admin'', ''nodes''] \<and> path ! 4 \<noteq> [] \<and>
          last path = ''tags'' then Some (AdminTags, path ! 4)
      else None)"

text \<open>The clock readings and the error texts of one request.\<close>

record moment =
  mo_now :: Time
  mo_clock :: load_clock
  mo_message :: "report_error + store_error \<Rightarrow> string"

fun handler :: "'s API \<Rightarrow> moment \<Rightarrow> route \<Rightarrow> http_request \<Rightarrow> 's server \<Rightarrow> response \<times> 's server" where
  "handler api m Health = health"
| "handler api m ReadyRoute = ready api"
| "handler api m ReportRoute = report api (mo_message m) (mo_now m)"
| "handler api m ListNodesRoute = listNodes api"
| "handler api m GetNodeRoute = getNode api"
| "handler api m HistoryRoute = getNodeHistory api (mo_now m) (mo_clock m)"
| "handler api m AdminRegister = requireAdmin api (registerNode api)"
| "handler api m AdminList = requireAdmin api (listNodes api)"
| "handler api m AdminExport = requireAdmin api (exportNodes api (mo_now m))"
| "handler api m AdminGet = requireAdmin api (getNode api)"
| "handler api m AdminPrimary = requireAdmin api (setPrimaryNetworkInterface api)"
| "handler api m AdminTags = requireAdmin api (updateNodeTags api)"

definition Handler :: "'s API \<Rightarrow> moment \<Rightarrow> route \<Rightarrow> http_request \<Rightarrow> 's server \<Rightarrow> response \<times> 's server" where
  "Handler api m r = securityHeaders (handler api m r)"

section \<open>The store over PostgreSQL\<close>

text \<open>What one request meets: the clock of the database, failing statements, random bytes.\<close>

record store_env =
  se_pg :: postgres
  se_queries :: queries
  se_now :: Time
  se_readyFault :: bool
  se_authFault :: bool
  se_ingestFault :: "nat \<Rightarrow> bool"
  se_registerFault :: "nat \<Rightarrow> bool"
  se_uuidBytes :: "u8 list option"
  se_tokenBytes :: "u8 list option"
  se_listFault :: query_fault
  se_getFault :: "string \<Rightarrow> nat \<Rightarrow> query_fault"
  se_primaryFault :: bool
  se_tagsFault :: bool
  se_historyFault :: "nat \<Rightarrow> query_fault"

definition pgStore :: "(string \<Rightarrow> u8 list) \<Rightarrow> store_env \<Rightarrow> database dataStore" where
  "pgStore sha256 e =
     \<lparr>ds_Ready = Ready (se_readyFault e),
      ds_AuthenticateToken = AuthenticateToken sha256 (se_authFault e) (se_now e),
      ds_Ingest = Ingest (se_pg e) (se_ingestFault e) (se_now e),
      ds_RegisterNode = RegisterNode (se_pg e) sha256 (se_registerFault e) (se_uuidBytes e) (se_tokenBytes e) (se_now e),
      ds_ListNodes = ListNodes (se_queries e) (se_listFault e),
      ds_GetNode = (\<lambda>nodeID. GetNode (se_queries e) (se_getFault e nodeID) nodeID),
      ds_SetPrimaryNetworkInterface = SetPrimaryNetworkInterface (se_primaryFault e) (se_now e),
      ds_UpdateNodeTags = UpdateNodeTags (se_tagsFault e) (se_now e),
      ds_GetNodeHistory = GetNodeHistory (se_queries e) (se_historyFault e) (se_now e)\<rparr>"

section \<open>What the handlers rely on\<close>

text \<open>An operation of the store that returns an error has changed nothing.\<close>

locale store_contract =
  fixes api :: "'s API"
  assumes Ingest_error: "ds_Ingest (api_store api) auth p s = (Inl e, s') \<Longrightarrow> s' = s"
    and RegisterNode_error: "ds_RegisterNode (api_store api) input s = (Inl e, s') \<Longrightarrow> s' = s"
    and SetPrimaryNetworkInterface_error: "ds_SetPrimaryNetworkInterface (api_store api) n i s = (Some e, s') \<Longrightarrow> s' = s"
    and UpdateNodeTags_error: "ds_UpdateNodeTags (api_store api) n tags s = (Some e, s') \<Longrightarrow> s' = s"
begin

lemma report_error_unchanged:
  assumes "report api message now request s = (resp, s')" "400 \<le> rs_status resp"
  shows "s' = s"
  using assms
  by (auto simp: report_def writeError_def writeJSON_def dest!: Ingest_error
      split: option.splits sum.splits prod.splits if_splits store_error.splits)

lemma registerNode_error_unchanged:
  assumes "registerNode api request s = (resp, s')" "400 \<le> rs_status resp"
  shows "s' = s"
  using assms
  by (auto simp: registerNode_def writeError_def writeJSON_def dest!: RegisterNode_error
      split: sum.splits prod.splits if_splits)

lemma updateNodeTags_error_unchanged:
  assumes "updateNodeTags api request s = (resp, s')" "400 \<le> rs_status resp"
  shows "s' = s"
  using assms
  by (auto simp: updateNodeTags_def Let_def writeError_def writeJSON_def dest!: UpdateNodeTags_error
      split: sum.splits prod.splits option.splits if_splits)

lemma setPrimary_error_unchanged:
  assumes "setPrimaryNetworkInterface api request s = (resp, s')" "400 \<le> rs_status resp"
  shows "s' = s"
  using assms
  by (auto simp: setPrimaryNetworkInterface_def Let_def writeError_def writeJSON_def
      dest!: SetPrimaryNetworkInterface_error split: sum.splits prod.splits option.splits if_splits)

end

lemma writeHistoryResponse_status [simp]: "\<not> 400 \<le> rs_status (writeHistoryResponse pf timing request entry hit)"
  by (simp add: writeHistoryResponse_def Let_def set_header_def)

lemma getNodeHistory_store:
  assumes "getNodeHistory api now clock request s = (resp, s')"
  shows "sv_store s' = sv_store s" and "400 \<le> rs_status resp \<Longrightarrow> s' = s"
  using assms
  by (auto simp: getNodeHistory_def Let_def writeError_def writeJSON_def
      split: sum.splits prod.splits if_splits history_error.splits store_error.splits bool.splits)

lemma reading_handlers:
  "health request s = (resp, s') \<Longrightarrow> s' = s" "ready api request s = (resp, s') \<Longrightarrow> s' = s"
  "listNodes api request s = (resp, s') \<Longrightarrow> s' = s" "getNode api request s = (resp, s') \<Longrightarrow> s' = s"
  "exportNodes api now request s = (resp, s') \<Longrightarrow> s' = s"
  by (auto simp: health_def ready_def listNodes_def getNode_def exportNodes_def Let_def
      split: option.splits sum.splits if_splits)

lemma requireAdmin_cases:
  assumes "requireAdmin api next request s = (resp, s')"
  shows "rs_status resp = 401 \<and> s' = s \<or>
    (\<exists>token. bearerToken request = Some token \<and> lb_sha256 (api_lib api) token = api_adminDigest api \<and>
       next request s = (resp, s'))"
  using assms by (auto simp: requireAdmin_def writeError_def writeJSON_def split: option.splits if_splits)

lemma map_if_none: "\<forall>x \<in> set xs. \<not> P x \<Longrightarrow> map (\<lambda>x. if P x then f x else x) xs = xs"
  by (induction xs) auto

lemma UpdateNodeTags_error_unchanged: "UpdateNodeTags fault now n tags d = (Some e, d') \<Longrightarrow> d' = d"
  by (auto simp: UpdateNodeTags_def Let_def filter_empty_conv map_if_none split: if_splits)

lemma SetPrimaryNetworkInterface_error_unchanged:
  "SetPrimaryNetworkInterface fault now n i d = (Some e, d') \<Longrightarrow> d' = d"
  by (auto simp: SetPrimaryNetworkInterface_def Let_def split: if_splits)

lemma RegisterNode_error_unchanged:
  "RegisterNode pg sha256 fault ub tb now input d = (Inl e, d') \<Longrightarrow> d' = d"
  by (auto simp: RegisterNode_def Let_def dest: run_tx_atomic split: sum.splits option.splits prod.splits if_splits)

interpretation pg: store_contract "NewAPI (pgStore sha256 env) adminToken serverVersion lib"
  for sha256 env adminToken serverVersion lib
proof unfold_locales
  fix auth p s e s' input n i tags
  show "s' = s" if "ds_Ingest (api_store (NewAPI (pgStore sha256 env) adminToken serverVersion lib)) auth p s = (Inl e, s')"
    using that run_tx_atomic by (fastforce simp: NewAPI_def pgStore_def Ingest_def)
  show "s' = s" if "ds_RegisterNode (api_store (NewAPI (pgStore sha256 env) adminToken serverVersion lib)) input s = (Inl e, s')"
    using that RegisterNode_error_unchanged by (fastforce simp: NewAPI_def pgStore_def)
  show "s' = s" if "ds_SetPrimaryNetworkInterface (api_store (NewAPI (pgStore sha256 env) adminToken serverVersion lib)) n i s = (Some e, s')"
    using that SetPrimaryNetworkInterface_error_unchanged by (fastforce simp: NewAPI_def pgStore_def)
  show "s' = s" if "ds_UpdateNodeTags (api_store (NewAPI (pgStore sha256 env) adminToken serverVersion lib)) n tags s = (Some e, s')"
    using that UpdateNodeTags_error_unchanged by (fastforce simp: NewAPI_def pgStore_def)
qed

lemma Handler_status: "Handler api m r request s = (resp, s') \<Longrightarrow>
    \<exists>resp0. handler api m r request s = (resp0, s') \<and> rs_status resp0 = rs_status resp \<and> rs_body resp0 = rs_body resp"
  by (auto simp: Handler_def securityHeaders_def split: prod.splits)

lemma requireAdmin_unchanged:
  "requireAdmin api next request s = (resp, s') \<Longrightarrow> (next request s = (resp, s') \<Longrightarrow> s' = s) \<Longrightarrow> s' = s"
  by (auto dest: requireAdmin_cases)

section \<open>Tags: lemmas\<close>

definition tag_ok :: "string \<Rightarrow> bool" where
  "tag_ok tag \<longleftrightarrow> TrimSpace tag \<noteq> [] \<and> rune_count (TrimSpace tag) \<le> 32"

lemma normalizeTags_loop_Inr:
  "normalizeTags_loop uni seen normalized tags = Inr result \<longleftrightarrow>
     (\<forall>tag \<in> set tags. tag_ok tag \<and> ToLower uni (TrimSpace tag) \<notin> set seen) \<and>
     distinct (map (\<lambda>tag. ToLower uni (TrimSpace tag)) tags) \<and> result = normalized @ map TrimSpace tags"
proof (induction tags arbitrary: seen normalized)
  case (Cons tag tags)
  show ?case by (auto simp: Let_def Cons tag_ok_def) (metis imageI)
qed auto

lemma normalizeNodeTags_Inr:
  "normalizeNodeTags uni tags = Inr result \<longleftrightarrow>
     length tags \<le> 5 \<and> (\<forall>tag \<in> set tags. tag_ok tag) \<and>
     distinct (map (\<lambda>tag. ToLower uni (TrimSpace tag)) tags) \<and> result = map TrimSpace tags"
  by (auto simp: normalizeNodeTags_def normalizeTags_loop_Inr)

lemma authenticated_node:
  assumes "AuthenticateToken sha256 fault now token d = Inr auth"
  shows "\<exists>n \<in> set (db_nodes d). nd_id n = auth_NodeID auth \<and> nd_disabled_at n = None \<and> nd_agent_id n = auth_AgentID auth"
proof -
  have "auth \<in> set (authRows now (sha256 token) d)"
    using assms by (auto simp: AuthenticateToken_def split: list.splits if_splits)
  then show ?thesis by (auto simp: authRows_def)
qed

text \<open>The only space rune that contains a blank is the blank.\<close>

lemma spaceRunes_blank: "w \<in> set spaceRunes \<Longrightarrow> CHR '' '' \<in> set w \<Longrightarrow> w = '' ''"
  by (auto simp: spaceRunes_def)

lemma TrimSpace_prefixed:
  assumes "TrimSpace t = t" "t \<noteq> []"
  shows "TrimSpace (''Bearer '' @ t) = ''Bearer '' @ t"
proof (rule TrimSpace_fixed)
  show "\<not> starts_with_any spaceRunes (''Bearer '' @ t)"
    by (simp add: starts_with_any_def spaceRunes_def)
  show "\<not> starts_with_any (map rev spaceRunes) (rev (''Bearer '' @ t))"
  proof
    assume "starts_with_any (map rev spaceRunes) (rev (''Bearer '' @ t))"
    then obtain w where w: "w \<in> set spaceRunes" "w \<noteq> []" "prefix (rev w) (rev t @ CHR '' '' # rev ''Bearer'')"
      by (auto simp: starts_with_any_def)
    have none: "\<not> prefix (rev w) (rev t)"
      using TrimSpace_end [of t] w(1,2) assms(1) by (auto simp: starts_with_any_def)
    then obtain us where us: "rev w = rev t @ us" "us \<noteq> []" "prefix us (CHR '' '' # rev ''Bearer'')"
      using w(3) unfolding prefix_append by auto
    then have "CHR '' '' \<in> set (rev w)" by (cases us) auto
    then have "CHR '' '' \<in> set w" by simp
    then have "w = '' ''" using spaceRunes_blank w(1) by blast
    then have "prefix (rev w) (rev t)" using w(3) assms(2) by (cases "rev t") auto
    with none show False ..
  qed
qed

lemma bearer_fold: "EqualFold ''Bearer'' ''Bearer''"
  by code_simp

section \<open>Properties\<close>


definition sampleQueries :: queries where
  "sampleQueries = \<lparr>qs_collate = (\<lambda>x. x), qs_percent = (\<lambda>_ _. Fin 0), qs_filesystem = (\<lambda>_ _. None),
     qs_network = (\<lambda>_ _. None), qs_gpu = (\<lambda>_ _. None), qs_summary = (\<lambda>_ _. None), qs_nodes = (\<lambda>_. []),
     qs_history = (\<lambda>_ _ _ _ _. []), qs_gpu_history = (\<lambda>_ _ _ _ _. [])\<rparr>"

definition sampleEnv :: store_env where
  "sampleEnv = \<lparr>se_pg = samplePg, se_queries = sampleQueries, se_now = sampleNow, se_readyFault = False,
     se_authFault = False, se_ingestFault = (\<lambda>_. False), se_registerFault = (\<lambda>_. False), se_uuidBytes = None,
     se_tokenBytes = Some (replicate 32 7), se_listFault = NoFault, se_getFault = (\<lambda>_ _. NoFault),
     se_primaryFault = False, se_tagsFault = False, se_historyFault = (\<lambda>_. NoFault)\<rparr>"

lemma report_request:
  assumes "rq_header request ''Authorization'' = rq_header request' ''Authorization''" "rq_body request = rq_body request'"
  shows "report api message now request s = report api message now request' s"
proof -
  have "bearerToken request = bearerToken request'" "decodeJSON f request = decodeJSON f request'" for f
    using assms by (simp_all add: bearerToken_def decodeJSON_def)
  then have eq: "bearerToken request = bearerToken request'" "decodeJSON (lb_decodeReport (api_lib api)) request = decodeJSON (lb_decodeReport (api_lib api)) request'"
    by simp_all
  show ?thesis unfolding report_def eq ..
qed

definition sampleLib :: library where
  "sampleLib = \<lparr>lb_sha256 = sampleDigest, lb_marshal = exampleMarshal,
     lb_decodeReport = (\<lambda>_ _. Inr (sampleReport, [])), lb_decodeRegister = (\<lambda>_ _. Inl []),
     lb_decodeInterface = (\<lambda>_ _. Inl []), lb_decodeTags = (\<lambda>_ _. Inr (\<lparr>nt_Tags = []\<rparr>, [])),
     lb_unicodeLower = (\<lambda>x. x), lb_excelize = (\<lambda>_. Inl []), lb_marshalHistory = (\<lambda>_. None),
     lb_gzip = (\<lambda>_. None), lb_ParseFloat = (\<lambda>_. None), lb_timing = (\<lambda>_ _. []), lb_stamp = (\<lambda>_. [])\<rparr>"

definition withToken :: "string \<Rightarrow> database" where
  "withToken token = sampleDb\<lparr>db_tokens := [\<lparr>tk_id = ''t1'', tk_node_id = ''n1'', tk_token_prefix = [],
     tk_token_digest = sampleDigest token, tk_label = [], tk_created_at = 0, tk_expires_at = None,
     tk_revoked_at = None, tk_last_used_at = None\<rparr>]\<rparr>"

definition postWith :: "string \<Rightarrow> http_request" where
  "postWith token = \<lparr>rq_header = (\<lambda>k. if k = ''Authorization'' then ''Bearer '' @ token else []),
     rq_path_value = (\<lambda>_. []), rq_query = (\<lambda>_. []), rq_body = []\<rparr>"

definition sampleMoment :: moment where
  "sampleMoment = \<lparr>mo_now = sampleNow, mo_clock = sampleClock, mo_message = (\<lambda>_. [])\<rparr>"

abbreviation sampleAPI :: "database API" where
  "sampleAPI \<equiv> NewAPI (pgStore sampleDigest sampleEnv) ''administrator'' ''v9.9.9'' sampleLib"

lemma sample_report_answered:
  "rs_status (fst (report sampleAPI (\<lambda>_. []) sampleNow (postWith ''secret'') (newServer (withToken ''secret'')))) = 202"
  by code_simp


text \<open>
  C8: A request to an administrative route is refused with 401, and answered with nothing but an
  error text, unless its bearer token has the digest of the administrator token.
\<close>

theorem admin_guard:
  assumes "is_admin r"
    and "Handler (NewAPI (pgStore sha256 env) adminToken serverVersion lib) m r request s = (resp, s')"
    and "\<forall>token. bearerToken request = Some token \<longrightarrow> lb_sha256 lib token \<noteq> lb_sha256 lib adminToken"
  shows "s' = s \<and> rs_status resp = 401 \<and> (\<exists>text. rs_body resp = Some (ErrorBody text))"
proof -
  let ?api = "NewAPI (pgStore sha256 env) adminToken serverVersion lib"
  obtain resp0 where h: "handler ?api m r request s = (resp0, s')" and st: "rs_status resp0 = rs_status resp"
    "rs_body resp0 = rs_body resp"
    using Handler_status [OF assms(2)] by blast
  have guard: "requireAdmin ?api next request s = (resp0, s') \<Longrightarrow>
      s' = s \<and> rs_status resp0 = 401 \<and> (\<exists>text. rs_body resp0 = Some (ErrorBody text))" for "next"
    using assms(3) by (auto simp: requireAdmin_def NewAPI_def writeError_def writeJSON_def split: option.splits if_splits)
  show ?thesis using h assms(1) guard st by (cases r) (auto simp: is_admin_def)
qed

theorem admin_guard_witness:
  "let (resp, s') = Handler sampleAPI sampleMoment AdminTags (postWith ''x'') (newServer sampleDb)
   in rs_status resp = 401 \<and> s' = newServer sampleDb"
proof -
  obtain resp s' where h: "Handler sampleAPI sampleMoment AdminTags (postWith ''x'') (newServer sampleDb) = (resp, s')"
    by fastforce
  have "bearerToken (postWith ''x'') = Some ''x''" by code_simp
  moreover have "lb_sha256 sampleLib ''x'' \<noteq> lb_sha256 sampleLib ''administrator''" by code_simp
  ultimately show ?thesis using admin_guard [OF _ h] by (simp add: is_admin_def h)
qed

text \<open>
  Tags are accepted exactly when there are at most five, none is blank or longer than 32
  characters, and no two are equal up to white space and case; what is stored are the trimmed tags,
  in their order, and these would be accepted again unchanged.
\<close>

theorem normalizeNodeTags_accepts:
  "(\<forall>result. normalizeNodeTags uni tags = Inr result \<longleftrightarrow>
      length tags \<le> 5 \<and> (\<forall>tag \<in> set tags. TrimSpace tag \<noteq> [] \<and> rune_count (TrimSpace tag) \<le> 32) \<and>
      distinct (map (\<lambda>tag. ToLower uni (TrimSpace tag)) tags) \<and> result = map TrimSpace tags) \<and>
   (\<forall>result. normalizeNodeTags uni tags = Inr result \<longrightarrow> normalizeNodeTags uni result = Inr result)"
  by (auto simp: normalizeNodeTags_Inr tag_ok_def comp_def)

theorem normalizeNodeTags_accepts_witness:
  "normalizeNodeTags (\<lambda>x. x) ['' web '', ''DB''] = Inr [''web'', ''DB''] \<and>
   normalizeNodeTags (\<lambda>x. x) [''web'', ''DB''] = Inr [''web'', ''DB'']"
proof -
  have "normalizeNodeTags (\<lambda>x. x) ['' web '', ''DB''] = Inr [''web'', ''DB'']" by code_simp
  then show ?thesis using normalizeNodeTags_accepts [of "\<lambda>x. x" "['' web '', ''DB'']"] by blast
qed



text \<open>
  The token a client sends in an Authorization header of the form Bearer and a blank comes out
  of the server's parser unchanged, and whatever comes out is trimmed and not empty.
\<close>

theorem bearerToken_roundtrip:
  "(TrimSpace t = t \<and> t \<noteq> [] \<and> rq_header request ''Authorization'' = ''Bearer '' @ t \<longrightarrow> bearerToken request = Some t) \<and>
   (bearerToken request = Some t \<longrightarrow> TrimSpace t = t \<and> t \<noteq> [])"
proof (intro conjI impI)
  assume a: "TrimSpace t = t \<and> t \<noteq> [] \<and> rq_header request ''Authorization'' = ''Bearer '' @ t"
  have "Cut CHR '' '' (''Bearer '' @ t) = Some (''Bearer'', t)" by simp
  then show "bearerToken request = Some t"
    using a TrimSpace_prefixed [of t] bearer_fold by (simp add: bearerToken_def)
next
  assume "bearerToken request = Some t"
  then show "TrimSpace t = t" "t \<noteq> []"
    by (auto simp: bearerToken_def split: option.splits if_splits)
qed

theorem bearerToken_roundtrip_witness: "bearerToken (postWith ''secret'') = Some ''secret''"
proof -
  have "TrimSpace ''secret'' = ''secret''" by code_simp
  then show ?thesis using bearerToken_roundtrip [of "''secret''" "postWith ''secret''"] by (simp add: postWith_def)
qed

text \<open>
  C39: A node registered under an agent id that contains an upper-case letter can never report. The
  registration accepts such an id and hands it back as it is, but the database answers with the
  lower-case form, and the comparison with the id in the report is byte by byte: every report that
  carries the registered id and token is refused with 403.
\<close>

theorem uppercase_agent_refused:
  assumes "inj (pg_gen (se_pg env))" and "nodes_wf (se_pg env) d"
    and "RegisterNode (se_pg env) (lb_sha256 lib) (se_registerFault env) (se_uuidBytes env) (se_tokenBytes env) registeredAt input d = (Inr cred, sv_store s)"
    and "uuid_text (nc_AgentID cred) \<noteq> nc_AgentID cred"
    and "\<not> se_authFault env" and "bearerToken request = Some (nc_Token cred)"
    and "decodeJSON (lb_decodeReport lib) request = Inr payload" and "ai_ID (r_Agent payload) = nc_AgentID cred"
  shows "report (NewAPI (pgStore (lb_sha256 lib) env) adminToken serverVersion lib) message now request s =
    (writeError 403 ''agent id does not match token'', s)"
proof -
  obtain tid where "AuthenticateToken (lb_sha256 lib) False (se_now env) (nc_Token cred) (sv_store s) =
      Inr \<lparr>auth_TokenID = tid, auth_NodeID = nc_NodeID cred, auth_AgentID = uuid_text (nc_AgentID cred)\<rparr>"
    using registered_token [OF assms(1-3)] by blast
  then show ?thesis using assms(4-) by (simp add: report_def NewAPI_def pgStore_def)
qed

definition upperReport :: Report where
  "upperReport = sampleReport\<lparr>r_Agent := (r_Agent sampleReport)\<lparr>ai_ID := ri_AgentID sampleInput\<rparr>\<rparr>"

definition upperLib :: library where
  "upperLib = sampleLib\<lparr>lb_sha256 := (\<lambda>s. map of_char s), lb_decodeReport := (\<lambda>_ _. Inr (upperReport, []))\<rparr>"

theorem uppercase_agent_refused_witness:
  "\<exists>cred d. RegisterNode samplePg (\<lambda>s. map of_char s) (\<lambda>_. False) None (Some (replicate 32 7)) sampleNow sampleInput freshDb = (Inr cred, d) \<and>
     ValidUUID (nc_AgentID cred) \<and>
     report (NewAPI (pgStore (lb_sha256 upperLib) sampleEnv) ''administrator'' ''v9.9.9'' upperLib) (\<lambda>_. []) sampleNow
       (postWith (nc_Token cred)) (newServer d) = (writeError 403 ''agent id does not match token'', newServer d)"
proof -
  let ?r = "RegisterNode samplePg (\<lambda>s. map of_char s) (\<lambda>_. False) None (Some (replicate 32 7)) sampleNow sampleInput freshDb"
  have c: "(case fst ?r of Inl _ \<Rightarrow> False | Inr c \<Rightarrow> ValidUUID (nc_AgentID c) \<and> uuid_text (nc_AgentID c) \<noteq> nc_AgentID c \<and>
      nc_AgentID c = ri_AgentID sampleInput \<and> bearerToken (postWith (nc_Token c)) = Some (nc_Token c))" by code_simp
  then obtain cred d where r: "?r = (Inr cred, d)" by (cases ?r) (auto split: sum.splits)
  have f: "ValidUUID (nc_AgentID cred)" "uuid_text (nc_AgentID cred) \<noteq> nc_AgentID cred"
    "nc_AgentID cred = ri_AgentID sampleInput" "bearerToken (postWith (nc_Token cred)) = Some (nc_Token cred)"
    using c unfolding r by auto
  have env: "se_pg sampleEnv = samplePg" "se_registerFault sampleEnv = (\<lambda>_. False)" "se_uuidBytes sampleEnv = None"
    "se_tokenBytes sampleEnv = Some (replicate 32 7)" "\<not> se_authFault sampleEnv"
    by (simp_all add: sampleEnv_def)
  have lib: "lb_sha256 upperLib = (\<lambda>s. map of_char s)" by (simp add: upperLib_def)
  have wf: "nodes_wf samplePg freshDb" by (simp add: nodes_wf_def freshDb_def)
  have dec: "decodeJSON (lb_decodeReport upperLib) (postWith (nc_Token cred)) = Inr upperReport"
    by (simp add: decodeJSON_def upperLib_def postWith_def Let_def)
  have id: "ai_ID (r_Agent upperReport) = nc_AgentID cred" by (simp add: f(3) upperReport_def)
  have "report (NewAPI (pgStore (lb_sha256 upperLib) sampleEnv) ''administrator'' ''v9.9.9'' upperLib) (\<lambda>_. []) sampleNow
       (postWith (nc_Token cred)) (newServer d) = (writeError 403 ''agent id does not match token'', newServer d)"
    by (rule uppercase_agent_refused [where d = freshDb and input = sampleInput and cred = cred and registeredAt = sampleNow, OF _ _ _ f(2) env(5) f(4) dec id])
      (simp_all add: env lib wf r inj_samplePg newServer_def)
  with r f(1) show ?thesis by blast
qed

end
