(* ===== verification/Release_Cache.thy ===== *)
theory Release_Cache
  imports History_Cache App_Version
begin

text \<open>
  The cache of agent releases (src/internal/server/release_cache.go): which versions and assets are
  served, the parsing of \<open>checksums.txt\<close>, the bundled directory, the download of a file with its size
  limit, and the verification of every asset before it is served.

  The file system is a map from paths to files; what the operating system and the upstream server
  do is the argument \<open>world\<close>: the clock, operations that fail, and the answer to the \<open>n\<close>-th request.
  A download becomes visible in one step, by the rename of a temporary file, which is the only
  trace it leaves. The mutex makes \<open>assetPath\<close> atomic. Directories are clean, so that
  \<open>filepath.Join\<close> puts one separator between its arguments.
\<close>

section \<open>Files, upstream and errors\<close>

record stored_file =
  fl_content :: string
  fl_regular :: bool
  fl_mtime :: Time

record disk =
  dk_files :: "string \<rightharpoonup> stored_file"
  dk_requests :: nat

datatype upstream = NoResponse | Response nat string bool

record world =
  wd_now :: Time
  wd_statFails :: "string \<Rightarrow> bool"
  wd_readFails :: "string \<Rightarrow> bool"
  wd_removeFails :: "string \<Rightarrow> bool"
  wd_prepareFails :: "nat \<Rightarrow> bool"
  wd_publishFails :: "nat \<Rightarrow> bool"
  wd_upstream :: "nat \<Rightarrow> string \<Rightarrow> upstream"
  wd_sha256 :: "string \<Rightarrow> u8 list"

datatype release_error =
    InspectFailed string | NotRegular string | ReadFailed string | ScanFailed
  | NoValidDigest string | NotListed string | VerificationFailed string
  | PrepareFailed | DownloadFailed string | UpstreamStatus string nat | CopyFailed string
  | TooLarge string | PublishFailed string

record releaseCache =
  rc_directory :: string
  rc_bundledDirectory :: string
  rc_upstreamBase :: string
  rc_latestTTL :: Duration

definition newReleaseCache :: "string \<Rightarrow> releaseCache" where
  "newReleaseCache directory =
     \<lparr>rc_directory = (if TrimSpace directory = [] then ''/tmp/server-status-release-cache'' else directory),
      rc_bundledDirectory = ''/usr/local/share/server-status/agent-releases'',
      rc_upstreamBase = ''https://github.com/guohai163/server-status/releases'',
      rc_latestTTL = 10 * Minute\<rparr>"

definition maxReleaseAssetBytes :: nat where
  "maxReleaseAssetBytes = 64 * 2 ^ 20"

definition maxChecksumsBytes :: nat where
  "maxChecksumsBytes = 2 ^ 20"

definition path_join :: "string \<Rightarrow> string \<Rightarrow> string" where
  "path_join a b = a @ ''/'' @ b"

section \<open>Names and checksums\<close>

definition releaseVersionPattern :: "string \<Rightarrow> bool" where
  "releaseVersionPattern version \<longleftrightarrow> prefix ''v'' version \<and> pattern_match version \<noteq> None"

definition validReleaseVersion :: "string \<Rightarrow> bool" where
  "validReleaseVersion version \<longleftrightarrow>
     version = ''latest'' \<or> length version \<le> 64 \<and> releaseVersionPattern version"

definition releaseAssets :: "string list" where
  "releaseAssets =
     [''checksums.txt'', ''server-status-agent-linux-amd64'', ''server-status-agent-linux-arm64'',
      ''server-status-agent-macos'', ''server-status-agent-windows-386.exe'',
      ''server-status-agent-windows-amd64.exe'', ''server-status-smartctl-windows-setup.exe'',
      ''server-status-smartctl-source.tar.gz'']"

definition validReleaseAsset :: "string \<Rightarrow> bool" where
  "validReleaseAsset asset \<longleftrightarrow> asset \<in> set releaseAssets"

text \<open>One line of the file; a digest is hexadecimal, so that it is lowered byte by byte.\<close>

definition checksumLine :: "string \<Rightarrow> (string \<rightharpoonup> string) \<Rightarrow> (string \<rightharpoonup> string)" where
  "checksumLine line checksums =
     (let fields = Fields line in
      if length fields \<noteq> 2 \<or> \<not> validReleaseAsset (fields ! 1) \<or> fields ! 1 = ''checksums.txt'' then checksums
      else if length (fields ! 0) \<noteq> 64 then checksums
      else if \<not> hex_decodes (fields ! 0) then checksums
      else checksums(fields ! 1 \<mapsto> map lower_byte (fields ! 0)))"

definition parseReleaseChecksums :: "string \<Rightarrow> release_error + (string \<rightharpoonup> string)" where
  "parseReleaseChecksums content =
     (let (lines, tooLong) = scan_lines content; checksums = fold checksumLine lines Map.empty in
      if tooLong then Inl ScanFailed
      else case find (\<lambda>asset. checksums asset = None)
                  [''server-status-agent-linux-amd64'', ''server-status-agent-linux-arm64''] of
             Some asset \<Rightarrow> Inl (NoValidDigest asset)
           | None \<Rightarrow> Inr checksums)"

definition checksumForAsset :: "string \<Rightarrow> string \<Rightarrow> release_error + string" where
  "checksumForAsset content asset =
     (case parseReleaseChecksums content of
        Inl e \<Rightarrow> Inl e
      | Inr checksums \<Rightarrow>
          (case checksums asset of None \<Rightarrow> Inl (NotListed asset) | Some c \<Rightarrow> Inr c))"

definition readFile :: "world \<Rightarrow> string \<Rightarrow> disk \<Rightarrow> release_error + string" where
  "readFile w path d =
     (if wd_readFails w path then Inl (ReadFailed path)
      else case dk_files d path of None \<Rightarrow> Inl (ReadFailed path) | Some f \<Rightarrow> Inr (fl_content f))"

definition verifyReleaseAsset :: "world \<Rightarrow> string \<Rightarrow> string \<Rightarrow> disk \<Rightarrow> release_error option" where
  "verifyReleaseAsset w path expected d =
     (case readFile w path d of
        Inl e \<Rightarrow> Some e
      | Inr content \<Rightarrow> if hex_encode (wd_sha256 w content) \<noteq> expected then Some (VerificationFailed path) else None)"

section \<open>The bundled releases\<close>

text \<open>\<open>os.Stat\<close>: a failure other than a missing file, no file, or the file.\<close>

definition osStat :: "world \<Rightarrow> string \<Rightarrow> disk \<Rightarrow> release_error + stored_file option" where
  "osStat w path d = (if wd_statFails w path then Inl (InspectFailed path) else Inr (dk_files d path))"

definition usable :: "stored_file \<Rightarrow> bool" where
  "usable f \<longleftrightarrow> fl_regular f \<and> fl_content f \<noteq> []"

text \<open>\<^const>\<open>None\<close> is \<open>found = false\<close>.\<close>

definition bundledAssetPath ::
  "world \<Rightarrow> releaseCache \<Rightarrow> string \<Rightarrow> string \<Rightarrow> disk \<Rightarrow> (release_error + string) option" where
  "bundledAssetPath w cache version asset d =
     (if TrimSpace (rc_bundledDirectory cache) = [] then None
      else let directory = path_join (rc_bundledDirectory cache) version;
               checksumsPath = path_join directory ''checksums.txt'' in
        case osStat w checksumsPath d of
          Inr None \<Rightarrow> None
        | Inl e \<Rightarrow> Some (Inl e)
        | Inr (Some info) \<Rightarrow> Some (
            if \<not> usable info then Inl (NotRegular checksumsPath)
            else case readFile w checksumsPath d of
                   Inl e \<Rightarrow> Inl e
                 | Inr checksums \<Rightarrow>
                     (case parseReleaseChecksums checksums of
                        Inl e \<Rightarrow> Inl e
                      | Inr _ \<Rightarrow>
                          if asset = ''checksums.txt'' then Inr checksumsPath
                          else case checksumForAsset checksums asset of
                                 Inl e \<Rightarrow> Inl e
                               | Inr expected \<Rightarrow>
                                   (let assetPath = path_join directory asset in
                                    case osStat w assetPath d of
                                      Inl e \<Rightarrow> Inl e
                                    | Inr None \<Rightarrow> Inl (InspectFailed assetPath)
                                    | Inr (Some info) \<Rightarrow>
                                        if \<not> usable info then Inl (NotRegular assetPath)
                                        else case verifyReleaseAsset w assetPath expected d of
                                               Some e \<Rightarrow> Inl e
                                             | None \<Rightarrow> Inr assetPath))))"

definition isBundledPath :: "releaseCache \<Rightarrow> string \<Rightarrow> bool" where
  "isBundledPath cache path \<longleftrightarrow>
     TrimSpace (rc_bundledDirectory cache) \<noteq> [] \<and>
     (path = rc_bundledDirectory cache \<or> prefix (rc_bundledDirectory cache @ ''/'') path)"

section \<open>Downloads\<close>

definition upstreamURL :: "releaseCache \<Rightarrow> string \<Rightarrow> string \<Rightarrow> string" where
  "upstreamURL cache version asset =
     (if version = ''latest'' then rc_upstreamBase cache @ ''/latest/download/'' @ asset
      else rc_upstreamBase cache @ ''/download/'' @ version @ ''/'' @ asset)"

definition sizeLimit :: "string \<Rightarrow> nat" where
  "sizeLimit asset = (if asset = ''checksums.txt'' then maxChecksumsBytes else maxReleaseAssetBytes)"

definition downloadFile ::
  "world \<Rightarrow> releaseCache \<Rightarrow> string \<Rightarrow> string \<Rightarrow> string \<Rightarrow> disk \<Rightarrow> release_error option \<times> disk" where
  "downloadFile w cache version asset destination d =
     (let n = dk_requests d; d' = d\<lparr>dk_requests := Suc n\<rparr> in
      if wd_prepareFails w n then (Some PrepareFailed, d')
      else case wd_upstream w n (upstreamURL cache version asset) of
             NoResponse \<Rightarrow> (Some (DownloadFailed asset), d')
           | Response status body broken \<Rightarrow>
               if status \<noteq> 200 then (Some (UpstreamStatus asset status), d')
               else let copied = take (sizeLimit asset + 1) body in
                    if broken \<and> length body \<le> sizeLimit asset then (Some (CopyFailed asset), d')
                    else if length copied > sizeLimit asset then (Some (TooLarge asset), d')
                    else if wd_publishFails w n then (Some (PublishFailed asset), d')
                    else (None, d'\<lparr>dk_files := (dk_files d)(destination \<mapsto>
                            \<lparr>fl_content = copied, fl_regular = True, fl_mtime = wd_now w\<rparr>)\<rparr>))"

definition ensureFile ::
  "world \<Rightarrow> releaseCache \<Rightarrow> string \<Rightarrow> string \<Rightarrow> disk \<Rightarrow> (release_error + (string \<times> bool)) \<times> disk" where
  "ensureFile w cache version asset d =
     (let path = path_join (path_join (rc_directory cache) version) asset in
      case osStat w path d of
        Inl e \<Rightarrow> (Inl e, d)
      | Inr info \<Rightarrow>
          (let present = (case info of None \<Rightarrow> False | Some f \<Rightarrow> usable f);
               fresh = (case info of None \<Rightarrow> False | Some f \<Rightarrow>
                          version \<noteq> ''latest'' \<or> wd_now w - fl_mtime f < rc_latestTTL cache)
           in if present \<and> fresh then (Inr (path, True), d)
              else case downloadFile w cache version asset path d of
                     (None, d') \<Rightarrow> (Inr (path, False), d')
                   | (Some e, d') \<Rightarrow> if present then (Inr (path, True), d') else (Inl e, d')))"

definition removeFile :: "world \<Rightarrow> string \<Rightarrow> disk \<Rightarrow> disk" where
  "removeFile w path d = (if wd_removeFails w path then d else d\<lparr>dk_files := (dk_files d)(path := None)\<rparr>)"

section \<open>Serving\<close>

text \<open>The second attempt of \<open>assetPath\<close>, after a cached asset failed its verification.\<close>

definition retryAsset ::
  "world \<Rightarrow> releaseCache \<Rightarrow> string \<Rightarrow> string \<Rightarrow> string \<Rightarrow> disk \<Rightarrow> (release_error + (string \<times> bool)) \<times> disk" where
  "retryAsset w cache version asset expected d =
     (case ensureFile w cache version asset d of
        (Inl e, d') \<Rightarrow> (Inl e, d')
      | (Inr (assetPath, _), d') \<Rightarrow>
          (case verifyReleaseAsset w assetPath expected d' of
             Some e \<Rightarrow> (Inl e, removeFile w assetPath d')
           | None \<Rightarrow> (Inr (assetPath, False), d')))"

definition cachedAssetPath ::
  "world \<Rightarrow> releaseCache \<Rightarrow> string \<Rightarrow> string \<Rightarrow> disk \<Rightarrow> (release_error + (string \<times> bool)) \<times> disk" where
  "cachedAssetPath w cache version asset d =
     (case ensureFile w cache version ''checksums.txt'' d of
        (Inl e, d1) \<Rightarrow> (Inl e, d1)
      | (Inr (checksumsPath, checksumsHit), d1) \<Rightarrow>
     (case readFile w checksumsPath d1 of
        Inl e \<Rightarrow> (Inl e, d1)
      | Inr checksums \<Rightarrow>
     (if asset = ''checksums.txt''
      then (case parseReleaseChecksums checksums of
              Inl e \<Rightarrow> (Inl e, removeFile w checksumsPath d1)
            | Inr _ \<Rightarrow> (Inr (checksumsPath, checksumsHit), d1))
      else
     (case checksumForAsset checksums asset of
        Inl e \<Rightarrow> (Inl e, removeFile w checksumsPath d1)
      | Inr expected \<Rightarrow>
     (case ensureFile w cache version asset d1 of
        (Inl e, d2) \<Rightarrow> (Inl e, d2)
      | (Inr (assetPath, assetHit), d2) \<Rightarrow>
     (case verifyReleaseAsset w assetPath expected d2 of
        None \<Rightarrow> (Inr (assetPath, checksumsHit \<and> assetHit), d2)
      | Some _ \<Rightarrow>
          (let d3 = removeFile w assetPath d2 in
           if version \<noteq> ''latest'' then retryAsset w cache version asset expected d3
           else
             (case ensureFile w cache version ''checksums.txt'' (removeFile w checksumsPath d3) of
                (Inl e, d4) \<Rightarrow> (Inl e, d4)
              | (Inr (checksumsPath, _), d4) \<Rightarrow>
             (case readFile w checksumsPath d4 of
                Inl e \<Rightarrow> (Inl e, d4)
              | Inr checksums \<Rightarrow>
             (case checksumForAsset checksums asset of
                Inl e \<Rightarrow> (Inl e, d4)
              | Inr expected \<Rightarrow> retryAsset w cache version asset expected d4))))))))))"

definition assetPath ::
  "world \<Rightarrow> releaseCache \<Rightarrow> string \<Rightarrow> string \<Rightarrow> disk \<Rightarrow> (release_error + (string \<times> bool)) \<times> disk" where
  "assetPath w cache version asset d =
     (case bundledAssetPath w cache version asset d of
        Some (Inl e) \<Rightarrow> (Inl e, d)
      | Some (Inr path) \<Rightarrow> (Inr (path, True), d)
      | None \<Rightarrow> cachedAssetPath w cache version asset d)"

text \<open>\<open>http.ServeContent\<close> is the answer to a request without range and condition.\<close>

definition serve :: "world \<Rightarrow> releaseCache \<Rightarrow> http_request \<Rightarrow> disk \<Rightarrow> string http_response \<times> disk" where
  "serve w cache request d =
     (let version = rq_path_value request ''version''; asset = rq_path_value request ''asset'';
          plain = (\<lambda>status text. \<lparr>rs_status = status,
                     rs_headers = [(''Content-Type'', ''text/plain; charset=utf-8''), (''X-Content-Type-Options'', ''nosniff'')],
                     rs_body = Some (text @ [CHR 10])\<rparr>);
          unavailable = plain 502 ''agent release asset is temporarily unavailable'' in
      if \<not> validReleaseVersion version \<or> \<not> validReleaseAsset asset then (plain 404 ''404 page not found'', d)
      else case assetPath w cache version asset d of
             (Inl e, d') \<Rightarrow> (unavailable, d')
           | (Inr (path, hit), d') \<Rightarrow>
               (case readFile w path d' of
                  Inl e \<Rightarrow> (unavailable, d')
                | Inr content \<Rightarrow>
                    (\<lparr>rs_status = 200,
                      rs_headers =
                        [(''Content-Type'', if asset = ''checksums.txt'' then ''text/plain; charset=utf-8'' else ''application/octet-stream''),
                         (''Content-Disposition'', ''attachment; filename='' @ [CHR 0x22] @ asset @ [CHR 0x22]),
                         (''X-Server-Status-Cache'', if isBundledPath cache path then ''BUNDLED'' else if hit then ''HIT'' else ''MISS''),
                         (''Cache-Control'', if version = ''latest'' then ''public, max-age=300''
                                            else ''public, max-age=31536000, immutable'')],
                      rs_body = Some content\<rparr>, d')))"

section \<open>Lemmas\<close>

definition cachePath :: "releaseCache \<Rightarrow> string \<Rightarrow> string \<Rightarrow> string" where
  "cachePath cache version asset = path_join (path_join (rc_directory cache) version) asset"

lemma cachePath_inj [simp]: "cachePath cache version a = cachePath cache version b \<longleftrightarrow> a = b"
  by (simp add: cachePath_def path_join_def)

lemma readFile_Inr: "readFile w path d = Inr c \<Longrightarrow> \<exists>f. dk_files d path = Some f \<and> fl_content f = c"
  by (auto simp: readFile_def split: if_splits option.splits)

lemma verify_None:
  "verifyReleaseAsset w path expected d = None \<Longrightarrow>
     \<exists>f. dk_files d path = Some f \<and> hex_encode (wd_sha256 w (fl_content f)) = expected"
  by (auto simp: verifyReleaseAsset_def dest!: readFile_Inr split: sum.splits if_splits)

text \<open>
  What a request for an asset may do to the disk: change the files of the asset and of its checksums,
  to files within their limits, after at most \<open>n\<close> upstream requests.
\<close>

definition touches :: "releaseCache \<Rightarrow> string \<Rightarrow> string set \<Rightarrow> nat \<Rightarrow> disk \<Rightarrow> disk \<Rightarrow> bool" where
  "touches cache version assets n d d' \<longleftrightarrow>
     dk_requests d \<le> dk_requests d' \<and> dk_requests d' \<le> dk_requests d + n \<and>
     (\<forall>q. dk_files d' q \<noteq> dk_files d q \<longrightarrow>
        (\<exists>a \<in> assets. q = cachePath cache version a \<and>
           (\<forall>f. dk_files d' q = Some f \<longrightarrow> length (fl_content f) \<le> sizeLimit a)))"

lemma touches_refl [simp]: "touches cache version A n d d"
  by (simp add: touches_def)

lemma touches_trans:
  assumes "touches cache version A m d d1" "touches cache version B n d1 d2"
    and "A \<subseteq> C" "B \<subseteq> C" "m + n \<le> k"
  shows "touches cache version C k d d2"
proof -
  have "\<exists>a \<in> C. q = cachePath cache version a \<and> (\<forall>f. dk_files d2 q = Some f \<longrightarrow> length (fl_content f) \<le> sizeLimit a)"
    if "dk_files d2 q \<noteq> dk_files d q" for q
    using that assms(1-4) unfolding touches_def by (cases "dk_files d2 q = dk_files d1 q") (metis subsetD)+
  then show ?thesis using assms unfolding touches_def by auto
qed

lemma touches_other: "touches cache version A n d d' \<Longrightarrow> a \<notin> A \<Longrightarrow>
    dk_files d' (cachePath cache version a) = dk_files d (cachePath cache version a)"
  unfolding touches_def by (metis cachePath_inj)

lemma downloadFile_touches:
  "touches cache version {asset} 1 d (snd (downloadFile w cache version asset (cachePath cache version asset) d))"
  by (auto simp: downloadFile_def touches_def Let_def split: upstream.splits)

lemma removeFile_touches: "touches cache version {asset} 0 d (removeFile w (cachePath cache version asset) d)"
  by (auto simp: removeFile_def touches_def)

lemma ensureFile_result:
  assumes "ensureFile w cache version asset d = (r, d')"
  shows "touches cache version {asset} 1 d d'" and "r = Inr (path, hit) \<Longrightarrow> path = cachePath cache version asset"
  using assms downloadFile_touches [of cache version asset d w]
  by (auto simp: ensureFile_def Let_def cachePath_def [symmetric] split: sum.splits if_splits prod.splits option.splits)

text \<open>The digest of the file at \<open>directory/version/asset\<close> is the one the checksums beside it list.\<close>

definition vouched :: "world \<Rightarrow> string \<Rightarrow> string \<Rightarrow> disk \<Rightarrow> bool" where
  "vouched w directory asset d \<longleftrightarrow>
     (\<exists>f cs. dk_files d (path_join directory asset) = Some f \<and>
        dk_files d (path_join directory ''checksums.txt'') = Some cs \<and>
        checksumForAsset (fl_content cs) asset = Inr (hex_encode (wd_sha256 w (fl_content f))))"

lemma retryAsset_result:
  assumes "retryAsset w cache version asset expected d = (r, d')"
  shows "touches cache version {asset} 1 d d'"
    and "r = Inr (path, hit) \<Longrightarrow> path = cachePath cache version asset \<and>
      (\<exists>f. dk_files d' path = Some f \<and> hex_encode (wd_sha256 w (fl_content f)) = expected)"
proof -
  obtain r1 d1 where e: "ensureFile w cache version asset d = (r1, d1)" by fastforce
  note E = ensureFile_result [OF e]
  have t: "touches cache version {asset} 1 d (removeFile w (cachePath cache version asset) d1)"
    by (rule touches_trans [OF E(1) removeFile_touches]) auto
  have "touches cache version {asset} 1 d d' \<and> (\<forall>path hit. r = Inr (path, hit) \<longrightarrow> path = cachePath cache version asset \<and>
      (\<exists>f. dk_files d' path = Some f \<and> hex_encode (wd_sha256 w (fl_content f)) = expected))"
  proof (cases r1)
    case (Inl x)
    then have "r = Inl x" "d' = d1" using assms by (simp_all add: retryAsset_def e)
    then show ?thesis using E(1) by simp
  next
    case (Inr a)
    then obtain p h where r1: "r1 = Inr (p, h)" by (cases a) auto
    have p: "p = cachePath cache version asset" by (rule E(2) [OF r1])
    show ?thesis
    proof (cases "verifyReleaseAsset w p expected d1")
      case None
      then have "r = Inr (p, False)" "d' = d1" using assms by (simp_all add: retryAsset_def e r1)
      then show ?thesis using E(1) verify_None [OF None] p by simp
    next
      case (Some x)
      then have "r = Inl x" "d' = removeFile w p d1" using assms by (simp_all add: retryAsset_def e r1)
      then show ?thesis using t p by simp
    qed
  qed
  then show "touches cache version {asset} 1 d d'"
    and "r = Inr (path, hit) \<Longrightarrow> path = cachePath cache version asset \<and>
      (\<exists>f. dk_files d' path = Some f \<and> hex_encode (wd_sha256 w (fl_content f)) = expected)"
    by blast+
qed

lemma vouched_cached:
  assumes "asset \<noteq> ''checksums.txt''"
    and "dk_files d (cachePath cache version asset) = Some f"
    and "dk_files d (cachePath cache version ''checksums.txt'') = Some cs"
    and "checksumForAsset (fl_content cs) asset = Inr (hex_encode (wd_sha256 w (fl_content f)))"
  shows "vouched w (path_join (rc_directory cache) version) asset d"
  using assms unfolding vouched_def cachePath_def by blast

text \<open>The steps of \<open>cachedAssetPath\<close> after the first asset failed its verification.\<close>

definition afterMismatch ::
  "world \<Rightarrow> releaseCache \<Rightarrow> string \<Rightarrow> string \<Rightarrow> string \<Rightarrow> disk \<Rightarrow> (release_error + (string \<times> bool)) \<times> disk" where
  "afterMismatch w cache version asset expected d3 =
     (if version \<noteq> ''latest'' then retryAsset w cache version asset expected d3
      else
        (case ensureFile w cache version ''checksums.txt'' (removeFile w (cachePath cache version ''checksums.txt'') d3) of
           (Inl e, d4) \<Rightarrow> (Inl e, d4)
         | (Inr (checksumsPath, _), d4) \<Rightarrow>
        (case readFile w checksumsPath d4 of
           Inl e \<Rightarrow> (Inl e, d4)
         | Inr checksums \<Rightarrow>
        (case checksumForAsset checksums asset of
           Inl e \<Rightarrow> (Inl e, d4)
         | Inr expected \<Rightarrow> retryAsset w cache version asset expected d4))))"

lemma retry_vouched:
  assumes "retryAsset w cache version asset expected d = (Inr (path, hit), d')" "asset \<noteq> ''checksums.txt''"
    and "dk_files d (cachePath cache version ''checksums.txt'') = Some cs"
    and "checksumForAsset (fl_content cs) asset = Inr expected"
  shows "path = cachePath cache version asset \<and> vouched w (path_join (rc_directory cache) version) asset d'"
proof -
  note R = retryAsset_result [OF assms(1)]
  have path: "path = cachePath cache version asset" using R(2) [OF refl] by blast
  obtain f where f: "dk_files d' (cachePath cache version asset) = Some f"
    "hex_encode (wd_sha256 w (fl_content f)) = expected"
    using R(2) [OF refl] unfolding path by blast
  have cs: "dk_files d' (cachePath cache version ''checksums.txt'') = Some cs"
    using touches_other [OF R(1), of "''checksums.txt''"] assms(2) unfolding assms(3) by simp
  show ?thesis
    using vouched_cached [OF assms(2) f(1) cs, where w = w] assms(4) by (simp add: f(2) path)
qed

lemma afterMismatch_result:
  assumes "afterMismatch w cache version asset expected d = (r, d')" "asset \<noteq> ''checksums.txt''"
    and cs: "dk_files d (cachePath cache version ''checksums.txt'') = Some cs"
    and exp: "checksumForAsset (fl_content cs) asset = Inr expected"
  shows "touches cache version {''checksums.txt'', asset} 2 d d' \<and>
    (\<forall>path hit. r = Inr (path, hit) \<longrightarrow>
       path = cachePath cache version asset \<and> vouched w (path_join (rc_directory cache) version) asset d')"
proof (cases "version = ''latest''")
  case False
  then have r: "retryAsset w cache version asset expected d = (r, d')" using assms(1) by (simp add: afterMismatch_def)
  have "touches cache version {''checksums.txt'', asset} 2 d d'"
    by (rule touches_trans [OF retryAsset_result(1) [OF r] touches_refl [of cache version "{}" 0]]) auto
  then show ?thesis using retry_vouched [OF _ assms(2) cs exp] r by blast
next
  case True
  let ?d = "removeFile w (cachePath cache version ''checksums.txt'') d"
  obtain r1 d1 where e: "ensureFile w cache version ''checksums.txt'' ?d = (r1, d1)" by fastforce
  note E = ensureFile_result [OF e]
  have t1: "touches cache version {''checksums.txt''} 1 d d1"
    by (rule touches_trans [OF removeFile_touches E(1)]) auto
  have t1': "touches cache version {''checksums.txt'', asset} 2 d d1"
    by (rule touches_trans [OF t1 touches_refl [of cache version "{}" 0]]) auto
  show ?thesis
  proof (cases "\<exists>p h c x. r1 = Inr (p, h) \<and> readFile w p d1 = Inr c \<and> checksumForAsset c asset = Inr x")
    case False
    then have "d' = d1 \<and> (\<exists>e. r = Inl e)"
      using assms(1) e True by (cases r1) (auto simp: afterMismatch_def split: sum.splits)
    then show ?thesis using t1' by auto
  next
    case True
    then obtain p h c x where s: "r1 = Inr (p, h)" "readFile w p d1 = Inr c" "checksumForAsset c asset = Inr x" by blast
    have p: "p = cachePath cache version ''checksums.txt''" by (rule E(2) [OF s(1)])
    obtain cs1 where cs1: "dk_files d1 p = Some cs1" "fl_content cs1 = c" using readFile_Inr [OF s(2)] by blast
    have ra: "retryAsset w cache version asset x d1 = (r, d')"
      using assms(1) e s \<open>version = ''latest''\<close> by (simp add: afterMismatch_def)
    have "touches cache version {''checksums.txt'', asset} 2 d d'"
      by (rule touches_trans [OF t1 retryAsset_result(1) [OF ra]]) auto
    then show ?thesis using retry_vouched [OF _ assms(2), of w cache version x d1] ra cs1 p s(3) by blast
  qed
qed

lemma cachedAssetPath_result:
  assumes "cachedAssetPath w cache version asset d = (r, d')"
  shows "touches cache version {''checksums.txt'', asset} 4 d d' \<and>
    (\<forall>path hit. r = Inr (path, hit) \<longrightarrow> path = cachePath cache version asset \<and>
       (asset \<noteq> ''checksums.txt'' \<longrightarrow> vouched w (path_join (rc_directory cache) version) asset d'))"
proof -
  obtain r1 d1 where e1: "ensureFile w cache version ''checksums.txt'' d = (r1, d1)" by fastforce
  note E1 = ensureFile_result [OF e1]
  have t1: "touches cache version {''checksums.txt'', asset} 4 d d1"
    by (rule touches_trans [OF E1(1) touches_refl [of cache version "{}" 0]]) auto
  have t1r: "touches cache version {''checksums.txt'', asset} 4 d (removeFile w (cachePath cache version ''checksums.txt'') d1)"
    by (rule touches_trans [OF E1(1) removeFile_touches]) auto
  show ?thesis
  proof (cases "asset \<noteq> ''checksums.txt'' \<and>
      (\<exists>p h c x. r1 = Inr (p, h) \<and> readFile w p d1 = Inr c \<and> checksumForAsset c asset = Inr x)")
    case False
    have "(d' = d1 \<or> d' = removeFile w (cachePath cache version ''checksums.txt'') d1) \<and>
        (\<forall>path hit. r = Inr (path, hit) \<longrightarrow> asset = ''checksums.txt'' \<and> path = cachePath cache version asset)"
    proof (cases r1)
      case (Inr a)
      then obtain p h where r1: "r1 = Inr (p, h)" by (cases a) auto
      have p: "p = cachePath cache version ''checksums.txt''" by (rule E1(2) [OF r1])
      show ?thesis
        using assms False by (auto simp: cachedAssetPath_def e1 r1 p split: sum.splits if_splits)
    qed (use assms in \<open>auto simp: cachedAssetPath_def e1\<close>)
    then show ?thesis using t1 t1r by metis
  next
    case True
    then obtain p h c x where a: "asset \<noteq> ''checksums.txt''"
      and s: "r1 = Inr (p, h)" "readFile w p d1 = Inr c" "checksumForAsset c asset = Inr x" by blast
    have p: "p = cachePath cache version ''checksums.txt''" by (rule E1(2) [OF s(1)])
    obtain cs where cs: "dk_files d1 p = Some cs" "fl_content cs = c" using readFile_Inr [OF s(2)] by blast
    obtain r2 d2 where e2: "ensureFile w cache version asset d1 = (r2, d2)" by fastforce
    note E2 = ensureFile_result [OF e2]
    have t2: "touches cache version {''checksums.txt'', asset} 2 d d2"
      by (rule touches_trans [OF E1(1) E2(1)]) auto
    have t2': "touches cache version {''checksums.txt'', asset} 4 d d2"
      by (rule touches_trans [OF t2 touches_refl [of cache version "{}" 0]]) auto
    have cs2: "dk_files d2 p = Some cs" using touches_other [OF E2(1), of "''checksums.txt''"] a cs p by auto
    show ?thesis
    proof (cases r2)
      case (Inl e)
      then have "d' = d2 \<and> r = Inl e" using assms a s by (simp add: cachedAssetPath_def e1 e2)
      then show ?thesis using t2' by simp
    next
      case (Inr ph)
      then obtain p2 h2 where r2: "r2 = Inr (p2, h2)" by (cases ph) auto
      have p2: "p2 = cachePath cache version asset" by (rule E2(2) [OF r2])
      show ?thesis
      proof (cases "verifyReleaseAsset w p2 x d2")
        case None
        then have out: "d' = d2 \<and> r = Inr (p2, h \<and> h2)"
          using assms a s r2 by (simp add: cachedAssetPath_def e1 e2)
        from verify_None [OF None] have "vouched w (path_join (rc_directory cache) version) asset d2"
          using vouched_cached [OF a] cs2 cs(2) s(3) p p2 by metis
        then show ?thesis using out t2' p2 by blast
      next
        case (Some e)
        let ?d3 = "removeFile w (cachePath cache version asset) d2"
        have am: "afterMismatch w cache version asset x ?d3 = (r, d')"
          using assms a s r2 p2 p Some by (simp add: cachedAssetPath_def afterMismatch_def e1 e2 Let_def)
        have t3: "touches cache version {''checksums.txt'', asset} 2 d ?d3"
          by (rule touches_trans [OF t2 removeFile_touches]) auto
        have "dk_files ?d3 (cachePath cache version ''checksums.txt'') = Some cs"
          using cs2 a p by (simp add: removeFile_def)
        from afterMismatch_result [OF am a this] cs(2) s(3)
        have M: "touches cache version {''checksums.txt'', asset} 2 ?d3 d'"
          "\<forall>path hit. r = Inr (path, hit) \<longrightarrow> path = cachePath cache version asset \<and>
            vouched w (path_join (rc_directory cache) version) asset d'" by simp_all
        have "touches cache version {''checksums.txt'', asset} 4 d d'"
          by (rule touches_trans [OF t3 M(1)]) auto
        then show ?thesis using M(2) by blast
      qed
    qed
  qed
qed

lemma bundledAssetPath_result:
  assumes "bundledAssetPath w cache version asset d = Some (Inr path)"
  shows "path = path_join (path_join (rc_bundledDirectory cache) version) asset \<and>
    (asset \<noteq> ''checksums.txt'' \<longrightarrow> vouched w (path_join (rc_bundledDirectory cache) version) asset d)"
proof -
  let ?dir = "path_join (rc_bundledDirectory cache) version"
  obtain c where c: "readFile w (path_join ?dir ''checksums.txt'') d = Inr c"
    and out: "if asset = ''checksums.txt'' then path = path_join ?dir ''checksums.txt''
      else \<exists>x. checksumForAsset c asset = Inr x \<and> verifyReleaseAsset w (path_join ?dir asset) x d = None \<and>
             path = path_join ?dir asset"
    using assms unfolding bundledAssetPath_def Let_def
    by (auto split: if_splits sum.splits option.splits)
  show ?thesis
  proof (cases "asset = ''checksums.txt''")
    case False
    then obtain x where x: "checksumForAsset c asset = Inr x"
      "verifyReleaseAsset w (path_join ?dir asset) x d = None" "path = path_join ?dir asset"
      using out by auto
    from verify_None [OF x(2)] readFile_Inr [OF c] x(1) have "vouched w ?dir asset d"
      unfolding vouched_def by blast
    with x(3) show ?thesis by simp
  qed (use out in simp)
qed

lemma assetPath_result:
  assumes "assetPath w cache version asset d = (r, d')"
  shows "touches cache version {''checksums.txt'', asset} 4 d d'"
    and "r = Inr (path, hit) \<Longrightarrow> \<exists>directory \<in> {rc_bundledDirectory cache, rc_directory cache}.
      path = path_join (path_join directory version) asset \<and>
      (asset \<noteq> ''checksums.txt'' \<longrightarrow> vouched w (path_join directory version) asset d')"
  using assms cachedAssetPath_result [of w cache version asset d r d'] bundledAssetPath_result [of w cache version asset d]
  by (auto simp: assetPath_def cachePath_def split: option.splits sum.splits)

lemma serve_result:
  assumes "serve w cache request d = (resp, d')"
    and v: "version = rq_path_value request ''version''" and a: "asset = rq_path_value request ''asset''"
  shows "if \<not> validReleaseVersion version \<or> \<not> validReleaseAsset asset then rs_status resp = 404 \<and> d' = d
    else \<exists>r. assetPath w cache version asset d = (r, d') \<and>
      (rs_status resp = 502 \<or>
       rs_status resp = 200 \<and> (\<exists>path hit c. r = Inr (path, hit) \<and> readFile w path d' = Inr c \<and> rs_body resp = Some c))"
proof (cases "validReleaseVersion version \<and> validReleaseAsset asset")
  case True
  obtain r d1 where r: "assetPath w cache version asset d = (r, d1)" by fastforce
  show ?thesis
    using assms(1) True r unfolding serve_def Let_def v [symmetric] a [symmetric]
    by (cases r) (auto simp del: list.inject split: sum.split_asm prod.split_asm)
qed (use assms(1) in \<open>auto simp: serve_def Let_def v a\<close>)

lemma releaseVersion_no_slash: "validReleaseVersion version \<Longrightarrow> CHR ''/'' \<notin> set version \<and> version \<noteq> ''..''"
proof (cases "version = ''latest''")
  case False
  assume "validReleaseVersion version"
  with False obtain rest m where v: "version = CHR ''v'' # rest" and m: "pattern_match version = Some m"
    by (auto simp: validReleaseVersion_def releaseVersionPattern_def prefix_def)
  have "list_all is_ident_byte rest" using pattern_match_bytes [OF m] by (simp add: v TrimPrefix_def)
  moreover have "\<not> is_ident_byte (CHR ''/'')" by (simp add: is_ident_byte_def is_digit_def)
  ultimately show ?thesis by (auto simp: v list_all_iff)
qed simp

lemma releaseAsset_no_slash: "validReleaseAsset asset \<Longrightarrow> CHR ''/'' \<notin> set asset"
  by (auto simp: validReleaseAsset_def releaseAssets_def)

section \<open>A concrete release\<close>

text \<open>A stand-in digest, checksums that list it, and a disk whose cached asset is corrupt.\<close>

definition releaseDigest :: "string \<Rightarrow> u8 list" where
  "releaseDigest content = replicate 32 (word_of_nat (length content))"

definition releaseChecksums :: string where
  "releaseChecksums = concat (map (\<lambda>asset. hex_encode (releaseDigest ''payload'') @ ''  '' @ asset @ [CHR 10])
     [''server-status-agent-linux-amd64'', ''server-status-agent-linux-arm64''])"

definition releaseWorld :: world where
  "releaseWorld = \<lparr>wd_now = 0, wd_statFails = (\<lambda>_. False), wd_readFails = (\<lambda>_. False), wd_removeFails = (\<lambda>_. False),
     wd_prepareFails = (\<lambda>_. False), wd_publishFails = (\<lambda>_. False),
     wd_upstream = (\<lambda>_ _. Response 200 ''payload'' False), wd_sha256 = releaseDigest\<rparr>"

definition releaseDisk :: disk where
  "releaseDisk = \<lparr>dk_files =
     [cachePath (newReleaseCache []) ''v1.2.3'' ''checksums.txt'' \<mapsto>
        \<lparr>fl_content = releaseChecksums, fl_regular = True, fl_mtime = 0\<rparr>,
      cachePath (newReleaseCache []) ''v1.2.3'' ''server-status-agent-linux-amd64'' \<mapsto>
        \<lparr>fl_content = ''bad'', fl_regular = True, fl_mtime = 0\<rparr>], dk_requests = 0\<rparr>"

definition releaseRequest :: http_request where
  "releaseRequest = \<lparr>rq_header = (\<lambda>_. []),
     rq_path_value = (\<lambda>k. if k = ''version'' then ''v1.2.3'' else ''server-status-agent-linux-amd64''),
     rq_query = (\<lambda>_. []), rq_body = []\<rparr>"

lemma release_checksum:
  "checksumForAsset releaseChecksums ''server-status-agent-linux-amd64'' = Inr (hex_encode (releaseDigest ''payload''))"
  by code_simp

lemma release_served:
  "rs_status (fst (serve releaseWorld (newReleaseCache []) releaseRequest releaseDisk)) = 200"
  "rs_body (fst (serve releaseWorld (newReleaseCache []) releaseRequest releaseDisk)) = Some ''payload''"
proof -
  have "case serve releaseWorld (newReleaseCache []) releaseRequest releaseDisk of (resp, _) \<Rightarrow> rs_status resp = 200 \<and> rs_body resp = Some ''payload''"
    by code_simp
  then show "rs_status (fst (serve releaseWorld (newReleaseCache []) releaseRequest releaseDisk)) = 200"
   "rs_body (fst (serve releaseWorld (newReleaseCache []) releaseRequest releaseDisk)) = Some ''payload''"
    by (simp_all add: case_prod_beta)
qed

section \<open>Properties\<close>

text \<open>
  C7: An asset is only served with status 200 when the checksums.txt beside it, in the bundled or in
  the cache directory of that version, lists the SHA-256 digest of exactly the bytes that are
  served: whatever was on the disk before, whatever the upstream answered and whichever operation
  failed, an unverified binary never leaves the server.
\<close>

theorem served_asset_verified:
  assumes "serve w cache request d = (resp, d')" and "rs_status resp = 200"
    and "version = rq_path_value request ''version''" and "asset = rq_path_value request ''asset''"
    and "asset \<noteq> ''checksums.txt''"
  shows "\<exists>directory \<in> {rc_bundledDirectory cache, rc_directory cache}. \<exists>content checksums.
    rs_body resp = Some content \<and>
    dk_files d' (path_join (path_join directory version) ''checksums.txt'') = Some checksums \<and>
    checksumForAsset (fl_content checksums) asset = Inr (hex_encode (wd_sha256 w content))"
proof -
  from serve_result [OF assms(1,3,4)] assms(2) obtain r path hit c
    where r: "assetPath w cache version asset d = (r, d')" "r = Inr (path, hit)"
      and c: "readFile w path d' = Inr c" "rs_body resp = Some c"
    by (auto split: if_splits)
  from assetPath_result(2) [OF r] assms(5) obtain directory
    where "directory \<in> {rc_bundledDirectory cache, rc_directory cache}"
      and "path = path_join (path_join directory version) asset"
      and "vouched w (path_join directory version) asset d'" by blast
  then show ?thesis using c readFile_Inr [OF c(1)] unfolding vouched_def by fastforce
qed

theorem served_asset_verified_witness:
  "\<exists>directory \<in> {rc_bundledDirectory (newReleaseCache []), rc_directory (newReleaseCache [])}. \<exists>checksums.
     dk_files (snd (serve releaseWorld (newReleaseCache []) releaseRequest releaseDisk))
       (path_join (path_join directory ''v1.2.3'') ''checksums.txt'') = Some checksums \<and>
     checksumForAsset (fl_content checksums) ''server-status-agent-linux-amd64'' =
       Inr (hex_encode (releaseDigest ''payload''))"
  using served_asset_verified [OF surjective_pairing release_served(1) refl refl] release_served(2)
  by (simp add: releaseRequest_def releaseWorld_def)

text \<open>
  C28: A request can only touch the two files of its release in the cache directory: every file that
  differs afterwards is checksums.txt or the asset, directly below the directory of the version
  (neither name has a separator), and is within its size limit or gone; at most four downloads are
  tried; names outside the two lists are answered 404 with nothing done.
\<close>

theorem serve_confined:
  assumes "serve w cache request d = (resp, d')"
    and "version = rq_path_value request ''version''" and "asset = rq_path_value request ''asset''"
  shows "(\<not> validReleaseVersion version \<or> \<not> validReleaseAsset asset \<longrightarrow> rs_status resp = 404 \<and> d' = d) \<and>
    dk_requests d' \<le> dk_requests d + 4 \<and>
    (\<forall>path. dk_files d' path \<noteq> dk_files d path \<longrightarrow>
       CHR ''/'' \<notin> set version \<and> version \<noteq> ''..'' \<and>
       (\<exists>name \<in> {''checksums.txt'', asset}. CHR ''/'' \<notin> set name \<and>
          path = path_join (path_join (rc_directory cache) version) name \<and>
          (\<forall>f. dk_files d' path = Some f \<longrightarrow> length (fl_content f) \<le> sizeLimit name)))"
proof (cases "validReleaseVersion version \<and> validReleaseAsset asset")
  case False
  then show ?thesis using serve_result [OF assms] by auto
next
  case True
  then obtain r where r: "assetPath w cache version asset d = (r, d')" using serve_result [OF assms] by auto
  have "touches cache version {''checksums.txt'', asset} 4 d d'" by (rule assetPath_result(1) [OF r])
  then show ?thesis
    using True releaseVersion_no_slash [of version] releaseAsset_no_slash [of asset]
    unfolding touches_def cachePath_def by auto
qed

theorem serve_confined_witness:
  "dk_requests (snd (serve releaseWorld (newReleaseCache []) releaseRequest releaseDisk)) \<le> 4"
  using serve_confined [OF surjective_pairing refl refl, where w = releaseWorld and cache = "newReleaseCache []" and request = releaseRequest and d = releaseDisk]
  by (simp add: releaseDisk_def)

text \<open>The download of a file that the upstream has, on a disk that works.\<close>

lemma ensureFile_absent:
  assumes "\<forall>p. \<not> wd_statFails w p" "\<forall>n. \<not> wd_prepareFails w n \<and> \<not> wd_publishFails w n"
    and "\<forall>n. wd_upstream w n (upstreamURL cache version asset) = Response 200 body False"
    and "length body \<le> sizeLimit asset"
    and "\<forall>f. dk_files d (cachePath cache version asset) = Some f \<longrightarrow> \<not> usable f"
  shows "ensureFile w cache version asset d =
    (Inr (cachePath cache version asset, False),
     d\<lparr>dk_requests := Suc (dk_requests d), dk_files := (dk_files d)(cachePath cache version asset \<mapsto>
       \<lparr>fl_content = body, fl_regular = True, fl_mtime = wd_now w\<rparr>)\<rparr>)"
  using assms
  by (auto simp: ensureFile_def downloadFile_def osStat_def Let_def cachePath_def [symmetric] min_def
      split: option.splits)

lemma ensureFile_present:
  assumes "\<forall>p. \<not> wd_statFails w p" "version \<noteq> ''latest''"
    and "dk_files d (cachePath cache version asset) = Some f" "usable f"
  shows "ensureFile w cache version asset d = (Inr (cachePath cache version asset, True), d)"
  using assms by (simp add: ensureFile_def osStat_def Let_def cachePath_def [symmetric])

text \<open>
  C27: A damaged cache heals itself. When the checksums of a numbered release are cached and the
  upstream serves the asset they list, a request is answered with status 200 and bytes with the
  listed digest, whether the cached copy of the asset is absent, empty, not a regular file or corrupt: a
  copy that fails its verification is removed and fetched again within the same request.
\<close>

theorem serve_recovers:
  assumes names: "validReleaseVersion version" "version \<noteq> ''latest''" "validReleaseAsset asset" "asset \<noteq> ''checksums.txt''"
    and request: "rq_path_value request ''version'' = version" "rq_path_value request ''asset'' = asset"
    and bundled: "bundledAssetPath w cache version asset d = None"
    and works: "\<forall>p. \<not> wd_statFails w p" "\<forall>p. \<not> wd_readFails w p \<and> \<not> wd_removeFails w p"
      "\<forall>n. \<not> wd_prepareFails w n \<and> \<not> wd_publishFails w n"
    and upstream: "\<forall>n. wd_upstream w n (upstreamURL cache version asset) = Response 200 body False"
      "length body \<le> sizeLimit asset"
    and checksums: "dk_files d (path_join (path_join (rc_directory cache) version) ''checksums.txt'') = Some cs"
      "usable cs" "checksumForAsset (fl_content cs) asset = Inr (hex_encode (wd_sha256 w body))"
  shows "\<exists>content. rs_status (fst (serve w cache request d)) = 200 \<and>
    rs_body (fst (serve w cache request d)) = Some content \<and>
    hex_encode (wd_sha256 w content) = hex_encode (wd_sha256 w body)"
proof -
  let ?expected = "hex_encode (wd_sha256 w body)" and ?path = "cachePath cache version asset"
  note cs = checksums(1) [folded cachePath_def]
  have rd: "readFile w p d = (case dk_files d p of None \<Rightarrow> Inl (ReadFailed p) | Some f \<Rightarrow> Inr (fl_content f))" for p d
    using works(2) by (simp add: readFile_def)
  note absent = ensureFile_absent [OF works(1) works(3) upstream]
  have first: "cachedAssetPath w cache version asset d =
      (case ensureFile w cache version asset d of
         (Inl e, d2) \<Rightarrow> (Inl e, d2)
       | (Inr (p, hit), d2) \<Rightarrow>
           (case verifyReleaseAsset w p ?expected d2 of
              None \<Rightarrow> (Inr (p, hit), d2)
            | Some _ \<Rightarrow> retryAsset w cache version asset ?expected (removeFile w p d2)))"
    using names by (simp add: cachedAssetPath_def ensureFile_present [OF works(1) names(2) cs checksums(2)] rd cs checksums(3)
        Let_def split: prod.splits sum.splits option.splits)
  have "\<exists>hit d2 f. cachedAssetPath w cache version asset d = (Inr (?path, hit), d2) \<and>
      dk_files d2 ?path = Some f \<and> hex_encode (wd_sha256 w (fl_content f)) = ?expected"
  proof (cases "\<exists>f. dk_files d ?path = Some f \<and> usable f")
    case False
    then show ?thesis unfolding first by (subst absent) (auto simp: verifyReleaseAsset_def rd)
  next
    case True
    then obtain f where f: "dk_files d ?path = Some f" "usable f" by blast
    show ?thesis
    proof (cases "hex_encode (wd_sha256 w (fl_content f)) = ?expected")
      case True
      then show ?thesis unfolding first
        by (auto simp: ensureFile_present [OF works(1) names(2) f] verifyReleaseAsset_def rd f)
    next
      case False
      have "retryAsset w cache version asset ?expected (removeFile w ?path d) =
          (Inr (?path, False), snd (ensureFile w cache version asset (removeFile w ?path d))) \<and>
        dk_files (snd (ensureFile w cache version asset (removeFile w ?path d))) ?path =
          Some \<lparr>fl_content = body, fl_regular = True, fl_mtime = wd_now w\<rparr>"
        using absent [of "removeFile w ?path d"] works(2)
        by (simp add: retryAsset_def verifyReleaseAsset_def rd removeFile_def)
      then show ?thesis unfolding first
        using False by (auto simp: ensureFile_present [OF works(1) names(2) f] verifyReleaseAsset_def rd f)
    qed
  qed
  then show ?thesis
    using names(1,3) bundled by (auto simp: serve_def request assetPath_def rd Let_def)
qed

theorem serve_recovers_witness:
  "rs_status (fst (serve releaseWorld (newReleaseCache []) releaseRequest releaseDisk)) = 200"
proof -
  have "bundledAssetPath releaseWorld (newReleaseCache []) ''v1.2.3'' ''server-status-agent-linux-amd64'' releaseDisk = None"
    and "validReleaseVersion ''v1.2.3''" and "validReleaseAsset ''server-status-agent-linux-amd64''"
    and "usable \<lparr>fl_content = releaseChecksums, fl_regular = True, fl_mtime = 0\<rparr>"
    by code_simp+
  then show ?thesis
    using serve_recovers [of "''v1.2.3''" "''server-status-agent-linux-amd64''" releaseRequest releaseWorld
        "newReleaseCache []" releaseDisk "''payload''" "\<lparr>fl_content = releaseChecksums, fl_regular = True, fl_mtime = 0\<rparr>"]
    using release_checksum
    by (simp add: releaseRequest_def releaseDisk_def releaseWorld_def cachePath_def path_join_def sizeLimit_def maxReleaseAssetBytes_def)
qed

end
