(* ===== verification/Server_Maintenance.thy ===== *)
theory Server_Maintenance
  imports Go_Strings
begin

text \<open>
  The configuration of the central server (src/internal/server/config.go) and the maintenance of its
  database (maintenance.go, with \<open>MaintainPartitions\<close> and \<open>RollupHour\<close> of src/internal/store/store.go). The two database functions
  the maintenance calls are SQL; here they are arguments that change the state of the
  database and say whether they failed.
\<close>

section \<open>Configuration\<close>

record ServerConfig =
  sc_ListenAddress :: string
  sc_DatabaseURL :: string
  sc_AdminToken :: string
  sc_ReleaseCacheDir :: string
  sc_ReadTimeout :: Duration
  sc_WriteTimeout :: Duration

datatype server_config_error = SettingsRequired | AdminTokenTooShort

definition ServerConfigFromEnv :: "(string \<Rightarrow> string) \<Rightarrow> server_config_error + ServerConfig" where
  "ServerConfigFromEnv Getenv =
     (let listen = TrimSpace (Getenv ''SERVER_STATUS_LISTEN_ADDR'');
          database = TrimSpace (Getenv ''SERVER_STATUS_DATABASE_URL'');
          token = TrimSpace (Getenv ''SERVER_STATUS_ADMIN_TOKEN'');
          cache = TrimSpace (Getenv ''SERVER_STATUS_RELEASE_CACHE_DIR'') in
      if database = [] \<or> token = [] then Inl SettingsRequired
      else if length token < 32 then Inl AdminTokenTooShort
      else Inr \<lparr>sc_ListenAddress = (if listen = [] then '':8080'' else listen), sc_DatabaseURL = database, sc_AdminToken = token,
                sc_ReleaseCacheDir = (if cache = [] then ''/tmp/server-status-release-cache'' else cache),
                sc_ReadTimeout = 15 * Second, sc_WriteTimeout = 30 * Second\<rparr>)"

section \<open>Maintenance\<close>

record 'd maintenance =
  mt_partitions :: "Time \<Rightarrow> 'd \<Rightarrow> bool \<times> 'd"
  mt_rollup :: "Time \<Rightarrow> 'd \<Rightarrow> bool \<times> 'd"

definition MaintainPartitions :: "'d maintenance \<Rightarrow> Time \<Rightarrow> 'd \<Rightarrow> bool \<times> 'd" where
  "MaintainPartitions mt now d = mt_partitions mt now d"

definition RollupHour :: "'d maintenance \<Rightarrow> Time \<Rightarrow> 'd \<Rightarrow> bool \<times> 'd" where
  "RollupHour mt hour d = mt_rollup mt (Truncate hour Hour) d"

text \<open>The loop over the offsets: the hours that were rolled up, whether it ended without a failure, the database.\<close>

fun rollupLoop :: "'d maintenance \<Rightarrow> Time \<Rightarrow> nat list \<Rightarrow> 'd \<Rightarrow> Time list \<times> bool \<times> 'd" where
  "rollupLoop mt currentHour [] d = ([], True, d)"
| "rollupLoop mt currentHour (offset # offsets) d =
     (let hour = currentHour - int offset * Hour in
      case RollupHour mt hour d of
        (False, d') \<Rightarrow> ([], False, d')
      | (True, d') \<Rightarrow>
          (case rollupLoop mt currentHour offsets d' of (hours, rest) \<Rightarrow> (hour # hours, rest)))"

definition runMaintenanceCycle :: "'d maintenance \<Rightarrow> Time \<Rightarrow> 'd \<Rightarrow> Time list \<times> bool \<times> 'd" where
  "runMaintenanceCycle mt now d =
     (case MaintainPartitions mt now d of
        (False, d') \<Rightarrow> ([], False, d')
      | (True, d') \<Rightarrow> rollupLoop mt (Truncate now Hour) [1..<26] d')"

text \<open>The cycles of the service, one at the start and one per tick.\<close>

fun RunMaintenance :: "'d maintenance \<Rightarrow> Time list \<Rightarrow> 'd \<Rightarrow> (Time list \<times> bool) list \<times> 'd" where
  "RunMaintenance mt [] d = ([], d)"
| "RunMaintenance mt (now # ticks) d =
     (case runMaintenanceCycle mt now d of
        (hours, ok, d') \<Rightarrow> (case RunMaintenance mt ticks d' of (cycles, d'') \<Rightarrow> ((hours, ok) # cycles, d'')))"

section \<open>Lemmas\<close>

lemma rollupLoop_hours:
  "rollupLoop mt currentHour offsets d = (hours, True, d') \<Longrightarrow> hours = map (\<lambda>offset. currentHour - int offset * Hour) offsets"
proof (induction offsets arbitrary: d hours)
  case (Cons offset offsets)
  obtain d1 where r: "RollupHour mt (currentHour - int offset * Hour) d = (True, d1)"
    using Cons.prems by (auto simp: Let_def split: prod.splits bool.splits)
  obtain hs where "rollupLoop mt currentHour offsets d1 = (hs, True, d')" "hours = (currentHour - int offset * Hour) # hs"
    using Cons.prems r by (auto simp: Let_def split: prod.splits)
  then show ?case using Cons.IH by simp
qed simp

lemma runMaintenanceCycle_hours:
  assumes "runMaintenanceCycle mt now d = (hours, True, d')"
  shows "hours = map (\<lambda>offset. Truncate now Hour - int offset * Hour) [1..<26]"
  using assms rollupLoop_hours [of mt "Truncate now Hour" "[1..<26]" _ hours d']
  by (auto simp: runMaintenanceCycle_def split: prod.splits bool.splits)

lemma Truncate_hours: "\<exists>k. Truncate t Hour = zeroTime + k * Hour"
proof -
  have "Truncate t Hour = zeroTime + ((t - zeroTime) div Hour) * Hour"
    by (simp add: Truncate_def minus_mod_eq_div_mult [symmetric])
  then show ?thesis by blast
qed

lemma cycle_covers:
  assumes "runMaintenanceCycle mt now d = (hours, True, d')" "Truncate h Hour = h" "Truncate now Hour - 25 * Hour \<le> h" "h < Truncate now Hour"
  shows "h \<in> set hours"
proof -
  obtain j k where jk: "h = zeroTime + j * Hour" "Truncate now Hour = zeroTime + k * Hour"
    using Truncate_hours [of h] Truncate_hours [of now] assms(2) by auto
  have pos: "0 < Hour" by (simp add: time_defs)
  have "j * Hour < k * Hour" "(k - 25) * Hour \<le> j * Hour" using assms(3,4) by (simp_all add: jk algebra_simps)
  then have "j < k" "k - 25 \<le> j" using pos by simp_all
  then have n: "nat (k - j) \<in> set [1..<26]" by auto
  have "h = Truncate now Hour - int (nat (k - j)) * Hour" using \<open>j < k\<close> by (simp add: jk left_diff_distrib)
  from image_eqI [of h "\<lambda>offset. Truncate now Hour - int offset * Hour", OF this n]
  show ?thesis unfolding runMaintenanceCycle_hours [OF assms(1)] set_map .
qed

section \<open>Properties\<close>


text \<open>A database that records the hours.\<close>

definition recordingMaintenance :: "Time list maintenance" where
  "recordingMaintenance = \<lparr>mt_partitions = (\<lambda>_ d. (True, d)), mt_rollup = (\<lambda>h d. (True, h # d))\<rparr>"


end
