(* ===== verification/Agent_Update.thy ===== *)
theory Agent_Update
  imports Release_Cache
begin

text \<open>
  The self-update of the Linux agent (src/internal/agent/updater.go): which versions and platforms
  are updated, the digest a \<open>checksums.txt\<close> lists, the download, its verification, the trial run of
  the new binary and the replacement of the executable.

  The files are a map from paths to contents. The temporary file beside the executable is removed on
  every way out, so that the rename is the only change. What the operating system, the central server
  and the downloaded program do is the argument \<open>update_env\<close>; one update asks for an address at most
  once, so that the server is a function of the address.
\<close>

section \<open>The updater\<close>

record Updater =
  up_serverURL :: string
  up_currentVersion :: string
  up_operatingSystem :: string
  up_architecture :: string

datatype update_step = CreateTemporary | WriteTemporary | SyncTemporary | CloseTemporary | MakeExecutable | Rename

record update_env =
  ue_badURL :: "string \<Rightarrow> bool"
  ue_central :: "string \<Rightarrow> upstream"
  ue_executable :: "string option"
  ue_evalSymlinks :: "string \<Rightarrow> string option"
  ue_fails :: "update_step \<Rightarrow> bool"
  ue_run :: "string \<Rightarrow> string option"
  ue_hash :: "string \<Rightarrow> u8 list"

datatype update_error =
    InvalidTarget string | Incomparable string string | NotNewer string string
  | UnsupportedSystem string | UnsupportedArchitecture string
  | BadRequest | NoAnswer string | CentralStatus string nat | ReadBroken string | Oversized string
  | ChecksumsUnreadable | DigestMissing string | NoExecutable | StepFailed update_step
  | DigestMismatch string string | TrialFailed | WrongVersion string

definition maxUpdateBinaryBytes :: nat where
  "maxUpdateBinaryBytes = 64 * 2 ^ 20"

definition maxUpdateChecksumsBytes :: nat where
  "maxUpdateChecksumsBytes = 2 ^ 20"

definition NewUpdater :: "string \<Rightarrow> string \<Rightarrow> string \<Rightarrow> string \<Rightarrow> Updater" where
  "NewUpdater serverURL currentVersion goos goarch =
     \<lparr>up_serverURL = TrimRightByte serverURL CHR ''/'', up_currentVersion = currentVersion,
      up_operatingSystem = goos, up_architecture = goarch\<rparr>"

definition updateAssetName :: "string \<Rightarrow> string \<Rightarrow> update_error + string" where
  "updateAssetName operatingSystem architecture =
     (if operatingSystem \<noteq> ''linux'' then Inl (UnsupportedSystem operatingSystem)
      else if architecture \<in> {''amd64'', ''arm64''} then Inr (''server-status-agent-linux-'' @ architecture)
      else Inl (UnsupportedArchitecture architecture))"

text \<open>The loop over the lines returns at the first digest; the scanner's error counts only after the loop.\<close>

definition digestOf :: "string \<Rightarrow> string \<Rightarrow> string option" where
  "digestOf asset line =
     (let fields = Fields line in
      if length fields \<noteq> 2 \<or> fields ! 1 \<noteq> asset \<or> length (fields ! 0) \<noteq> 64 then None
      else if hex_decodes (fields ! 0) then Some (map lower_byte (fields ! 0)) else None)"

definition updateChecksumForAsset :: "string \<Rightarrow> string \<Rightarrow> update_error + string" where
  "updateChecksumForAsset content asset =
     (let (lines, tooLong) = scan_lines content in
      case List.map_filter (digestOf asset) lines of
        digest # _ \<Rightarrow> Inr digest
      | [] \<Rightarrow> if tooLong then Inl ChecksumsUnreadable else Inl (DigestMissing asset))"

definition updateURL :: "Updater \<Rightarrow> string \<Rightarrow> string \<Rightarrow> string" where
  "updateURL u version asset = up_serverURL u @ ''/agent/releases/v'' @ version @ ''/'' @ asset"

text \<open>A response of status 200: its body, and whether reading past that body fails.\<close>

definition requestRelease :: "update_env \<Rightarrow> Updater \<Rightarrow> string \<Rightarrow> string \<Rightarrow> update_error + (string \<times> bool)" where
  "requestRelease env u version asset =
     (let url = updateURL u version asset in
      if ue_badURL env url then Inl BadRequest
      else case ue_central env url of
             NoResponse \<Rightarrow> Inl (NoAnswer asset)
           | Response status body broken \<Rightarrow>
               if status \<noteq> 200 then Inl (CentralStatus asset status) else Inr (body, broken))"

text \<open>Reading through a \<open>LimitReader\<close> of one byte more than the limit.\<close>

definition readLimited :: "string \<Rightarrow> nat \<Rightarrow> string \<times> bool \<Rightarrow> update_error + string" where
  "readLimited asset limit stream =
     (case stream of (body, broken) \<Rightarrow>
        if broken \<and> length body \<le> limit then Inl (ReadBroken asset)
        else if length (take (limit + 1) body) > limit then Inl (Oversized asset)
        else Inr (take (limit + 1) body))"

definition downloadBytes :: "update_env \<Rightarrow> Updater \<Rightarrow> string \<Rightarrow> string \<Rightarrow> nat \<Rightarrow> update_error + string" where
  "downloadBytes env u version asset limit =
     (case requestRelease env u version asset of
        Inl e \<Rightarrow> Inl e
      | Inr stream \<Rightarrow> readLimited asset limit stream)"

text \<open>The content that was written to the temporary file and its digest.\<close>

definition downloadBinary :: "update_env \<Rightarrow> Updater \<Rightarrow> string \<Rightarrow> string \<Rightarrow> update_error + (string \<times> string)" where
  "downloadBinary env u version asset =
     (case requestRelease env u version asset of
        Inl e \<Rightarrow> Inl e
      | Inr stream \<Rightarrow>
          if ue_fails env WriteTemporary then Inl (ReadBroken asset)
          else case readLimited asset maxUpdateBinaryBytes stream of
                 Inl e \<Rightarrow> Inl e
               | Inr content \<Rightarrow> Inr (content, hex_encode (ue_hash env content)))"

definition verifyUpdateVersion :: "update_env \<Rightarrow> string \<Rightarrow> string \<Rightarrow> update_error option" where
  "verifyUpdateVersion env content expectedVersion =
     (case ue_run env content of
        None \<Rightarrow> Some TrialFailed
      | Some output \<Rightarrow>
          if Normalize (TrimSpace output) = Some expectedVersion then None else Some (WrongVersion (TrimSpace output)))"

definition executablePath :: "update_env \<Rightarrow> string option" where
  "executablePath env =
     (case ue_executable env of
        None \<Rightarrow> None
      | Some path \<Rightarrow> (case ue_evalSymlinks env path of None \<Rightarrow> Some path | Some resolved \<Rightarrow> Some resolved))"

section \<open>Apply\<close>

text \<open>The first half: is there an update to install, and which digest must it have?\<close>

definition chooseUpdate :: "update_env \<Rightarrow> Updater \<Rightarrow> string \<Rightarrow> update_error + (string \<times> string \<times> string)" where
  "chooseUpdate env u rawTargetVersion =
     (case Normalize rawTargetVersion of
        None \<Rightarrow> Inl (InvalidTarget rawTargetVersion)
      | Some targetVersion \<Rightarrow>
     (case Compare (up_currentVersion u) targetVersion of
        None \<Rightarrow> Inl (Incomparable (up_currentVersion u) targetVersion)
      | Some comparison \<Rightarrow>
     if comparison \<ge> 0 then Inl (NotNewer targetVersion (up_currentVersion u))
     else
     (case updateAssetName (up_operatingSystem u) (up_architecture u) of
        Inl e \<Rightarrow> Inl e
      | Inr asset \<Rightarrow>
     (case downloadBytes env u targetVersion ''checksums.txt'' maxUpdateChecksumsBytes of
        Inl e \<Rightarrow> Inl e
      | Inr checksums \<Rightarrow>
     (case updateChecksumForAsset checksums asset of
        Inl e \<Rightarrow> Inl e
      | Inr expectedChecksum \<Rightarrow> Inr (targetVersion, asset, expectedChecksum))))))"

text \<open>The second half: download beside the executable, verify, try, replace.\<close>

definition installUpdate ::
  "update_env \<Rightarrow> Updater \<Rightarrow> string \<Rightarrow> string \<Rightarrow> string \<Rightarrow> (string \<rightharpoonup> string) \<Rightarrow> update_error option \<times> (string \<rightharpoonup> string)" where
  "installUpdate env u targetVersion asset expectedChecksum files =
     (case executablePath env of
        None \<Rightarrow> (Some NoExecutable, files)
      | Some path \<Rightarrow>
     if ue_fails env CreateTemporary then (Some (StepFailed CreateTemporary), files)
     else case downloadBinary env u targetVersion asset of
        Inl e \<Rightarrow> (Some e, files)
      | Inr (content, actualChecksum) \<Rightarrow>
     if ue_fails env SyncTemporary then (Some (StepFailed SyncTemporary), files)
     else if ue_fails env CloseTemporary then (Some (StepFailed CloseTemporary), files)
     else if actualChecksum \<noteq> expectedChecksum then (Some (DigestMismatch expectedChecksum actualChecksum), files)
     else if ue_fails env MakeExecutable then (Some (StepFailed MakeExecutable), files)
     else case verifyUpdateVersion env content targetVersion of
        Some e \<Rightarrow> (Some e, files)
      | None \<Rightarrow>
     if ue_fails env Rename then (Some (StepFailed Rename), files)
     else (None, files(path \<mapsto> content)))"

definition Apply :: "update_env \<Rightarrow> Updater \<Rightarrow> string \<Rightarrow> (string \<rightharpoonup> string) \<Rightarrow> update_error option \<times> (string \<rightharpoonup> string)" where
  "Apply env u rawTargetVersion files =
     (case chooseUpdate env u rawTargetVersion of
        Inl e \<Rightarrow> (Some e, files)
      | Inr (targetVersion, asset, expectedChecksum) \<Rightarrow>
          installUpdate env u targetVersion asset expectedChecksum files)"

section \<open>Lemmas\<close>

lemma readLimited_Inr: "readLimited asset limit stream = Inr c \<longleftrightarrow>
    fst stream = c \<and> length c \<le> limit \<and> \<not> snd stream"
  by (auto simp: readLimited_def split: prod.splits)

lemma requestRelease_Inr: "requestRelease env u version asset = Inr (body, broken) \<longleftrightarrow>
    \<not> ue_badURL env (updateURL u version asset) \<and>
    ue_central env (updateURL u version asset) = Response 200 body broken"
  by (auto simp: requestRelease_def Let_def split: upstream.splits)

lemma downloadBytes_Inr: "downloadBytes env u version asset limit = Inr c \<longleftrightarrow>
    \<not> ue_badURL env (updateURL u version asset) \<and> length c \<le> limit \<and>
    ue_central env (updateURL u version asset) = Response 200 c False"
proof (cases "requestRelease env u version asset")
  case (Inl e)
  then show ?thesis using requestRelease_Inr [of env u version asset c False] by (auto simp: downloadBytes_def)
next
  case (Inr stream)
  then obtain body broken where "requestRelease env u version asset = Inr (body, broken)" by (cases stream) auto
  then show ?thesis
    using requestRelease_Inr [of env u version asset body broken]
    by (auto simp: downloadBytes_def readLimited_Inr)
qed

lemma downloadBinary_Inr: "downloadBinary env u version asset = Inr (c, digest) \<longleftrightarrow>
    \<not> ue_badURL env (updateURL u version asset) \<and> \<not> ue_fails env WriteTemporary \<and> length c \<le> maxUpdateBinaryBytes \<and>
    ue_central env (updateURL u version asset) = Response 200 c False \<and> digest = hex_encode (ue_hash env c)"
  using downloadBytes_Inr [of env u version asset maxUpdateBinaryBytes c]
  by (auto simp: downloadBytes_def downloadBinary_def split: sum.splits)

lemma chooseUpdate_Inr: "chooseUpdate env u raw = Inr (v, asset, expected) \<longleftrightarrow>
    Normalize raw = Some v \<and> (\<exists>c. Compare (up_currentVersion u) v = Some c \<and> c < 0) \<and>
    updateAssetName (up_operatingSystem u) (up_architecture u) = Inr asset \<and>
    (\<exists>checksums. downloadBytes env u v ''checksums.txt'' maxUpdateChecksumsBytes = Inr checksums \<and>
       updateChecksumForAsset checksums asset = Inr expected)"
  by (auto simp: chooseUpdate_def split: option.splits sum.splits if_splits)

lemma installUpdate_None: "installUpdate env u v asset expected files = (None, files') \<longleftrightarrow>
    (\<exists>path content. executablePath env = Some path \<and> files' = files(path \<mapsto> content) \<and>
       downloadBinary env u v asset = Inr (content, expected) \<and> verifyUpdateVersion env content v = None \<and>
       (\<forall>step \<in> {CreateTemporary, SyncTemporary, CloseTemporary, MakeExecutable, Rename}. \<not> ue_fails env step))"
  by (auto simp: installUpdate_def split: option.splits sum.splits if_splits)

lemma installUpdate_Some: "installUpdate env u v asset expected files = (Some e, files') \<Longrightarrow> files' = files"
  by (auto simp: installUpdate_def split: option.splits sum.splits if_splits)

lemma Apply_None: "Apply env u raw files = (None, files') \<longleftrightarrow>
    (\<exists>v asset expected. chooseUpdate env u raw = Inr (v, asset, expected) \<and>
       installUpdate env u v asset expected files = (None, files'))"
  by (auto simp: Apply_def split: sum.splits)

lemma Apply_Some: "Apply env u raw files = (Some e, files') \<Longrightarrow> files' = files"
  by (auto simp: Apply_def installUpdate_Some split: sum.splits)

text \<open>
  The server and the agent read the same file: of several lines for an asset the server's map keeps
  the last, the agent takes the first.
\<close>

lemma checksumLine_digest:
  assumes "validReleaseAsset asset" "asset \<noteq> ''checksums.txt''"
  shows "checksumLine line m asset = (case digestOf asset line of None \<Rightarrow> m asset | Some digest \<Rightarrow> Some digest)"
  using assms by (auto simp: checksumLine_def digestOf_def Let_def)

lemma checksums_last:
  assumes "validReleaseAsset asset" "asset \<noteq> ''checksums.txt''"
  shows "fold checksumLine lines m asset =
    (case List.map_filter (digestOf asset) lines of [] \<Rightarrow> m asset | ds \<Rightarrow> Some (last ds))"
proof (induction lines arbitrary: m)
  case (Cons line lines)
  then show ?case
    by (auto simp: checksumLine_digest [OF assms] map_filter_simps split: option.splits list.splits)
qed (simp add: map_filter_simps)

lemma checksumForAsset_Inr:
  assumes "validReleaseAsset asset" "asset \<noteq> ''checksums.txt''" "parseReleaseChecksums content = Inr cs"
  shows "checksumForAsset content asset = Inr digest \<longleftrightarrow>
    (\<exists>ds. List.map_filter (digestOf asset) (fst (scan_lines content)) = ds \<and> ds \<noteq> [] \<and> digest = last ds)"
proof -
  have "cs = fold checksumLine (fst (scan_lines content)) Map.empty"
    using assms(3) by (auto simp: parseReleaseChecksums_def Let_def split: prod.splits if_splits option.splits)
  then show ?thesis
    using checksums_last [OF assms(1,2), of "fst (scan_lines content)" Map.empty] assms(3)
    by (auto simp: checksumForAsset_def split: list.splits option.splits)
qed

lemma updateChecksumForAsset_Inr:
  "updateChecksumForAsset content asset = Inr digest \<longleftrightarrow>
    (\<exists>ds. List.map_filter (digestOf asset) (fst (scan_lines content)) = ds \<and> ds \<noteq> [] \<and> digest = hd ds)"
  by (auto simp: updateChecksumForAsset_def split: prod.splits list.splits)

lemma checksums_once:
  assumes "validReleaseAsset asset" "asset \<noteq> ''checksums.txt''" "parseReleaseChecksums content = Inr cs"
    and "length (List.map_filter (digestOf asset) (fst (scan_lines content))) \<le> 1"
  shows "updateChecksumForAsset content asset = Inr digest \<longleftrightarrow> checksumForAsset content asset = Inr digest"
  unfolding checksumForAsset_Inr [OF assms(1-3)] updateChecksumForAsset_Inr
  using assms(4) by (cases "List.map_filter (digestOf asset) (fst (scan_lines content))") auto

section \<open>A concrete update\<close>

definition updateEnv :: update_env where
  "updateEnv = \<lparr>ue_badURL = (\<lambda>_. False),
     ue_central = (\<lambda>url. if suffix ''checksums.txt'' url then Response 200 releaseChecksums False
                         else Response 200 ''payload'' False),
     ue_executable = Some ''/usr/bin/agent'', ue_evalSymlinks = (\<lambda>_. None), ue_fails = (\<lambda>_. False),
     ue_run = (\<lambda>_. Some ''1.2.3''), ue_hash = releaseDigest\<rparr>"

definition updateAgent :: Updater where
  "updateAgent = NewUpdater ''https://central/'' ''1.2.2'' ''linux'' ''amd64''"

lemma update_applied:
  "Apply updateEnv updateAgent ''v1.2.3'' Map.empty =
    (None, Map.empty (''/usr/bin/agent'' \<mapsto> ''payload''))"
proof -
  have "chooseUpdate updateEnv updateAgent ''v1.2.3'' =
      Inr (''1.2.3'', ''server-status-agent-linux-amd64'', hex_encode (releaseDigest ''payload''))"
    by code_simp
  moreover have "executablePath updateEnv = Some ''/usr/bin/agent''"
    "downloadBinary updateEnv updateAgent ''1.2.3'' ''server-status-agent-linux-amd64'' =
       Inr (''payload'', hex_encode (releaseDigest ''payload''))"
    "verifyUpdateVersion updateEnv ''payload'' ''1.2.3'' = None"
    by code_simp+
  ultimately show ?thesis by (simp add: Apply_def installUpdate_def updateEnv_def)
qed

section \<open>Properties\<close>

text \<open>
  C17: An update is all or nothing and never installs an unverified program. When it reports an
  error every file is as before. When it reports success exactly the executable was replaced, by a
  program of at most 64 MiB whose SHA-256 digest the release's checksums list, that ran and reported the
  requested version, and that version is newer than the one running.
\<close>

theorem Apply_verified:
  assumes "Apply env u raw files = (result, files')"
  shows "case result of
      Some e \<Rightarrow> files' = files
    | None \<Rightarrow> \<exists>v asset path content checksums output c.
        Normalize raw = Some v \<and> Compare (up_currentVersion u) v = Some c \<and> c < 0 \<and>
        updateAssetName (up_operatingSystem u) (up_architecture u) = Inr asset \<and>
        ue_central env (updateURL u v ''checksums.txt'') = Response 200 checksums False \<and>
        ue_central env (updateURL u v asset) = Response 200 content False \<and> length content \<le> 64 * 2 ^ 20 \<and>
        updateChecksumForAsset checksums asset = Inr (hex_encode (ue_hash env content)) \<and>
        ue_run env content = Some output \<and> Normalize (TrimSpace output) = Some v \<and>
        executablePath env = Some path \<and> files' = files(path \<mapsto> content)"
proof (cases result)
  case (Some e)
  then show ?thesis using Apply_Some assms by auto
next
  case None
  with assms obtain v asset expected where ch: "chooseUpdate env u raw = Inr (v, asset, expected)"
    and ins: "installUpdate env u v asset expected files = (None, files')"
    by (auto simp: Apply_None)
  from ins obtain path content where "executablePath env = Some path" "files' = files(path \<mapsto> content)"
    and bin: "downloadBinary env u v asset = Inr (content, expected)" and run: "verifyUpdateVersion env content v = None"
    by (auto simp: installUpdate_None)
  moreover from run obtain out where "ue_run env content = Some out" "Normalize (TrimSpace out) = Some v"
    by (auto simp: verifyUpdateVersion_def split: option.splits if_splits)
  ultimately show ?thesis
    using None ch bin unfolding chooseUpdate_Inr downloadBytes_Inr downloadBinary_Inr maxUpdateBinaryBytes_def by auto
qed

theorem Apply_verified_witness:
  "\<exists>checksums. ue_central updateEnv (updateURL updateAgent ''1.2.3'' ''checksums.txt'') = Response 200 checksums False \<and>
     updateChecksumForAsset checksums ''server-status-agent-linux-amd64'' = Inr (hex_encode (releaseDigest ''payload''))"
proof -
  have "Normalize ''v1.2.3'' = Some ''1.2.3''"
    "updateAssetName (up_operatingSystem updateAgent) (up_architecture updateAgent) = Inr ''server-status-agent-linux-amd64''"
    "ue_central updateEnv (updateURL updateAgent ''1.2.3'' ''server-status-agent-linux-amd64'') = Response 200 ''payload'' False"
    by code_simp+
  then show ?thesis using Apply_verified [OF update_applied] by (auto simp: updateEnv_def)
qed

end
