(* ===== verification/Update_Delivery.thy ===== *)
theory Update_Delivery
  imports Agent_Update Server_HTTP
begin

text \<open>
  How the parts of an automatic update fit together: the server offers its version in the receipt of
  a report (http.go), the agent normalises and compares it again (updater.go), asks the server's
  release cache (release_cache.go) for \<open>checksums.txt\<close> and then for its asset, and verifies the answer.
\<close>

section \<open>The checksums between two requests\<close>

lemma parse_nonempty: "parseReleaseChecksums content = Inr cs \<Longrightarrow> content \<noteq> []"
  by (auto simp: parseReleaseChecksums_def scan_lines_def raw_lines_def)

lemma ensureFile_regular:
  assumes "ensureFile w cache version asset d = (Inr (path, hit), d')"
  shows "path = cachePath cache version asset \<and> (\<exists>f. dk_files d' path = Some f \<and> fl_regular f)"
  using assms ensureFile_result(2) [OF assms refl]
  by (auto simp: ensureFile_def downloadFile_def osStat_def usable_def Let_def cachePath_def [symmetric]
      split: sum.splits if_splits option.splits prod.splits upstream.splits)

lemma cached_checksums:
  assumes "cachedAssetPath w cache version ''checksums.txt'' d = (Inr (path, hit), d')"
  shows "path = cachePath cache version ''checksums.txt'' \<and>
    (\<exists>f cs. dk_files d' path = Some f \<and> usable f \<and> parseReleaseChecksums (fl_content f) = Inr cs)"
proof -
  obtain p h d1 where e: "ensureFile w cache version ''checksums.txt'' d = (Inr (p, h), d1)"
    and out: "path = p" "d' = d1" "\<exists>c cs. readFile w p d1 = Inr c \<and> parseReleaseChecksums c = Inr cs"
    using assms by (auto simp: cachedAssetPath_def split: prod.splits sum.splits)
  then show ?thesis
    using ensureFile_regular [OF e] readFile_Inr parse_nonempty unfolding usable_def by fastforce
qed

lemma cached_asset_keeps_checksums:
  assumes "cachedAssetPath w cache version asset d = (Inr (path, hit), d')"
    and "version \<noteq> ''latest''" and a: "asset \<noteq> ''checksums.txt''"
    and cs: "dk_files d (cachePath cache version ''checksums.txt'') = Some cs" "usable cs"
  shows "dk_files d' (cachePath cache version ''checksums.txt'') = Some cs"
proof -
  have stat: "\<not> wd_statFails w (cachePath cache version ''checksums.txt'')"
    using assms(1) by (auto simp: cachedAssetPath_def ensureFile_def osStat_def cachePath_def [symmetric] Let_def)
  have e: "ensureFile w cache version ''checksums.txt'' d = (Inr (cachePath cache version ''checksums.txt'', True), d)"
    using stat cs assms(2) by (simp add: ensureFile_def osStat_def Let_def cachePath_def [symmetric])
  obtain r2 d2 where e2: "ensureFile w cache version asset d = (r2, d2)" by fastforce
  note E2 = ensureFile_result [OF e2]
  have "d' = d2 \<or> (\<exists>x r. retryAsset w cache version asset x (removeFile w (cachePath cache version asset) d2) = (r, d'))"
    using assms(1,2) a E2(2) by (auto simp: cachedAssetPath_def e e2 split: sum.splits option.splits)
  then show ?thesis
  proof
    assume "d' = d2"
    then show ?thesis using touches_other [OF E2(1), of "''checksums.txt''"] a cs by simp
  next
    assume "\<exists>x r. retryAsset w cache version asset x (removeFile w (cachePath cache version asset) d2) = (r, d')"
    then obtain x r where ra: "retryAsset w cache version asset x (removeFile w (cachePath cache version asset) d2) = (r, d')"
      by blast
    have "touches cache version {asset} 2 d d'"
      by (rule touches_trans [OF touches_trans [OF E2(1) removeFile_touches subset_refl subset_refl order_refl]
            retryAsset_result(1) [OF ra]]) auto
    then show ?thesis using touches_other [of cache version "{asset}" 2 d d' "''checksums.txt''"] a cs by simp
  qed
qed

lemma touches_changed: "touches cache version {a} n d d' \<Longrightarrow> dk_files d' q \<noteq> dk_files d q \<Longrightarrow> q = cachePath cache version a"
  by (auto simp: touches_def)

lemma bundled_None:
  "bundledAssetPath w cache version asset d = None \<longleftrightarrow>
    TrimSpace (rc_bundledDirectory cache) = [] \<or>
    \<not> wd_statFails w (path_join (path_join (rc_bundledDirectory cache) version) ''checksums.txt'') \<and>
    dk_files d (path_join (path_join (rc_bundledDirectory cache) version) ''checksums.txt'') = None"
  by (auto simp: bundledAssetPath_def osStat_def Let_def split: option.splits)

lemma bundled_Inr:
  assumes "bundledAssetPath w cache version asset d = Some (Inr path)"
  shows "\<exists>f cs. dk_files d (path_join (path_join (rc_bundledDirectory cache) version) ''checksums.txt'') = Some f \<and>
    parseReleaseChecksums (fl_content f) = Inr cs \<and> TrimSpace (rc_bundledDirectory cache) \<noteq> []"
  using assms by (auto simp: bundledAssetPath_def osStat_def Let_def dest!: readFile_Inr
      split: option.splits sum.splits if_splits)

text \<open>Where the checksums of a numbered release were served from.\<close>

lemma served_checksums:
  assumes "assetPath w cache version ''checksums.txt'' d = (Inr (path, hit), d')"
    and b: "b = path_join (path_join (rc_bundledDirectory cache) version) ''checksums.txt''"
  shows "(path = b \<and> d' = d \<and> TrimSpace (rc_bundledDirectory cache) \<noteq> [] \<or>
      path = cachePath cache version ''checksums.txt'' \<and> (\<exists>f. dk_files d' path = Some f \<and> usable f) \<and>
      (TrimSpace (rc_bundledDirectory cache) = [] \<or> dk_files d b = None \<and> (dk_files d' b = None \<or> path = b))) \<and>
    (\<exists>f cs. dk_files d' path = Some f \<and> parseReleaseChecksums (fl_content f) = Inr cs)"
proof (cases "bundledAssetPath w cache version ''checksums.txt'' d")
  case None
  then have c: "cachedAssetPath w cache version ''checksums.txt'' d = (Inr (path, hit), d')"
    using assms(1) by (simp add: assetPath_def)
  then have t: "touches cache version {''checksums.txt''} 4 d d'" using cachedAssetPath_result [OF c] by simp
  have path: "path = cachePath cache version ''checksums.txt''" using cached_checksums [OF c] by blast
  have "TrimSpace (rc_bundledDirectory cache) = [] \<or> dk_files d b = None" using None unfolding bundled_None b by auto
  moreover have "dk_files d b = None \<Longrightarrow> dk_files d' b = None \<or> path = b" using touches_changed [OF t, of b] path by metis
  ultimately show ?thesis using cached_checksums [OF c] by auto
next
  case (Some x)
  then have x: "bundledAssetPath w cache version ''checksums.txt'' d = Some (Inr path)" "d' = d"
    using assms(1) by (auto simp: assetPath_def split: sum.splits)
  show ?thesis using bundledAssetPath_result [OF x(1)] bundled_Inr [OF x(1)] x(2) b by blast
qed

text \<open>
  The two requests of an update: the checksums that were served first are the ones the asset that is
  served next was verified against.
\<close>

lemma served_against_served_checksums:
  assumes first: "assetPath w cache version ''checksums.txt'' d = (Inr (p1, h1), d1)" "readFile w p1 d1 = Inr checksums"
    and second: "assetPath w' cache version asset d1 = (Inr (p2, h2), d2)" "readFile w' p2 d2 = Inr content"
    and v: "version \<noteq> ''latest''" and a: "asset \<noteq> ''checksums.txt''"
  shows "checksumForAsset checksums asset = Inr (hex_encode (wd_sha256 w' content)) \<and>
    (\<exists>cs. parseReleaseChecksums checksums = Inr cs)"
proof -
  let ?b = "path_join (path_join (rc_bundledDirectory cache) version) ''checksums.txt''"
  note S = served_checksums [OF first(1) refl]
  obtain f where f: "dk_files d1 p1 = Some f" "fl_content f = checksums" using readFile_Inr [OF first(2)] by blast
  have "\<exists>dir. p2 = path_join (path_join dir version) asset \<and> vouched w' (path_join dir version) asset d2 \<and>
      dk_files d2 (path_join (path_join dir version) ''checksums.txt'') = Some f"
  proof (cases "bundledAssetPath w' cache version asset d1")
    case None
    then have c: "cachedAssetPath w' cache version asset d1 = (Inr (p2, h2), d2)"
      using second(1) by (simp add: assetPath_def)
    have "p1 = cachePath cache version ''checksums.txt'' \<and> usable f"
      using S None f unfolding bundled_None by auto
    then have "dk_files d2 (cachePath cache version ''checksums.txt'') = Some f"
      using cached_asset_keeps_checksums [OF c v a] f by simp
    then show ?thesis using cachedAssetPath_result [OF c] a unfolding cachePath_def by blast
  next
    case (Some x)
    then have x: "bundledAssetPath w' cache version asset d1 = Some (Inr p2)" "d2 = d1"
      using second(1) by (auto simp: assetPath_def split: sum.splits)
    have "dk_files d1 ?b = Some f" using S bundled_Inr [OF x(1)] f by auto
    then show ?thesis using bundledAssetPath_result [OF x(1)] a x(2) by blast
  qed
  then show ?thesis using S f readFile_Inr [OF second(2)] unfolding vouched_def by fastforce
qed

section \<open>The offered version\<close>

text \<open>What the server offers is a version the agent accepts and, behind a v, a release it serves.\<close>

lemma offered_version:
  assumes "updateFor (NewAPI database adminToken serverVersion lib) payload = Some update"
  shows "Normalize (au_Version update) = Some (au_Version update) \<and>
    (\<exists>c. Compare (ai_AgentVersion (r_Agent payload)) (au_Version update) = Some c \<and> c < 0)"
proof -
  obtain c where c: "Compare (ai_AgentVersion (r_Agent payload)) (au_Version update) = Some c" "c < 0"
    and v: "au_Version update = (case Normalize serverVersion of None \<Rightarrow> [] | Some v \<Rightarrow> v)"
    using assms by (auto simp: updateFor_def NewAPI_def split: option.splits if_splits)
  have "Normalize serverVersion \<noteq> None"
  proof
    assume "Normalize serverVersion = None"
    then have "Compare (ai_AgentVersion (r_Agent payload)) [] = Some c" using c v by simp
    moreover have "parse (TrimSpace []) = None" by code_simp
    ultimately show False by (simp add: Compare_def split: option.splits)
  qed
  then obtain n where n: "Normalize serverVersion = Some n" by blast
  then obtain p where "parse (TrimSpace serverVersion) = Some p" "n = TrimPrefix (TrimSpace serverVersion) ''v''"
    by (auto simp: Normalize_def Let_def split: option.splits)
  then have "Normalize n = Some n"
    using parse_stripped [of "TrimSpace serverVersion" p] TrimPrefix_v_idem [of "TrimSpace serverVersion" p]
    by (simp add: Normalize_def Let_def)
  then show ?thesis using c n v by auto
qed

lemma updateAsset_valid:
  "updateAssetName os arch = Inr asset \<Longrightarrow> validReleaseAsset asset \<and> asset \<noteq> ''checksums.txt''"
  by (auto simp: updateAssetName_def validReleaseAsset_def releaseAssets_def split: if_splits)

lemma served_file:
  assumes "serve w cache request d = (resp, d')" "rs_status resp = 200" "rs_body resp = Some content"
    and "rq_path_value request ''version'' = version" "rq_path_value request ''asset'' = asset"
  shows "\<exists>path hit. assetPath w cache version asset d = (Inr (path, hit), d') \<and> readFile w path d' = Inr content"
  using serve_result [OF assms(1) refl refl] assms(2-5) by (auto split: if_splits)

section \<open>Properties\<close>


definition deliveryWorld :: world where
  "deliveryWorld = releaseWorld\<lparr>wd_upstream := (\<lambda>_ url.
     if suffix ''checksums.txt'' url then Response 200 releaseChecksums False else Response 200 ''payload'' False)\<rparr>"

definition deliveryRequest :: "string \<Rightarrow> http_request" where
  "deliveryRequest asset = \<lparr>rq_header = (\<lambda>_. []), rq_path_value = (\<lambda>k. if k = ''version'' then ''v9.9.9'' else asset),
     rq_query = (\<lambda>_. []), rq_body = []\<rparr>"

lemma delivery_served:
  defines "s1 \<equiv> serve deliveryWorld (newReleaseCache []) (deliveryRequest ''checksums.txt'') \<lparr>dk_files = Map.empty, dk_requests = 0\<rparr>"
  defines "s2 \<equiv> serve deliveryWorld (newReleaseCache []) (deliveryRequest ''server-status-agent-linux-amd64'') (snd s1)"
  shows "rs_status (fst s1) = 200" "rs_body (fst s1) = Some releaseChecksums"
    "rs_status (fst s2) = 200" "rs_body (fst s2) = Some ''payload''"
proof -
  have "case serve deliveryWorld (newReleaseCache []) (deliveryRequest ''checksums.txt'') \<lparr>dk_files = Map.empty, dk_requests = 0\<rparr> of
      (resp1, d1) \<Rightarrow> rs_status resp1 = 200 \<and> rs_body resp1 = Some releaseChecksums \<and>
      (case serve deliveryWorld (newReleaseCache []) (deliveryRequest ''server-status-agent-linux-amd64'') d1 of
         (resp2, _) \<Rightarrow> rs_status resp2 = 200 \<and> rs_body resp2 = Some ''payload'')"
    by code_simp
  then show "rs_status (fst s1) = 200" "rs_body (fst s1) = Some releaseChecksums"
    "rs_status (fst s2) = 200" "rs_body (fst s2) = Some ''payload''"
    by (simp_all add: s1_def s2_def case_prod_beta)
qed

lemma delivery_offered: "updateFor sampleAPI sampleReport = Some \<lparr>au_Version = ''9.9.9''\<rparr>"
proof -
  have "Normalize ''v9.9.9'' = Some ''9.9.9''" "Compare ''v1.2.3'' ''9.9.9'' = Some (-1)" by code_simp+
  moreover have "ai_AgentVersion (r_Agent sampleReport) = ''v1.2.3''" by (simp add: sampleReport_def)
  ultimately show ?thesis by (simp add: updateFor_def NewAPI_def)
qed


end
