(* ===== verification/Agent_Client.thy ===== *)
theory Agent_Client
  imports Update_Delivery
begin

text \<open>
  The reporting side of the Linux agent: its configuration (src/internal/agent/config.go), the client
  that posts a report with retries (client.go) and the loop that collects, reports and updates (run.go).

  The world the agent talks to is a state of type \<open>'s\<close> that every exchange may change. The record
  \<open>network\<close> says what happens to the \<open>n\<close>-th attempt of a report: the answer, and whether the context
  was done while waiting before it or when it failed. JSON, the clock, the collector and
  \<open>time.ParseDuration\<close> are arguments; the transport's timeouts and the process lock are left out.
\<close>

section \<open>Configuration\<close>

record Config =
  cf_ServerURL :: string
  cf_Token :: string
  cf_AgentID :: string
  cf_Interval :: Duration
  cf_Labels :: "string \<rightharpoonup> string"
  cf_LockFile :: string

datatype config_error = BadInterval | BadLabels | MissingSetting | IntervalOutOfRange

definition ConfigFromEnv ::
  "(string \<Rightarrow> string) \<Rightarrow> (string \<Rightarrow> Duration option) \<Rightarrow> (string \<Rightarrow> (string \<rightharpoonup> string) option) \<Rightarrow> nat \<Rightarrow> config_error + Config" where
  "ConfigFromEnv Getenv ParseDuration unmarshalLabels uid =
     (let serverURL = TrimRightByte (TrimSpace (Getenv ''SERVER_STATUS_URL'')) CHR ''/'';
          token = TrimSpace (Getenv ''SERVER_STATUS_TOKEN'');
          agentID = TrimSpace (Getenv ''SERVER_STATUS_AGENT_ID'');
          lockFile = TrimSpace (Getenv ''SERVER_STATUS_LOCK_FILE'');
          intervalText = TrimSpace (Getenv ''SERVER_STATUS_INTERVAL'');
          labelsText = TrimSpace (Getenv ''SERVER_STATUS_LABELS'') in
      case (if intervalText = [] then Some Minute else ParseDuration intervalText) of
        None \<Rightarrow> Inl BadInterval
      | Some interval \<Rightarrow>
      (case (if labelsText = [] then Some Map.empty else unmarshalLabels labelsText) of
        None \<Rightarrow> Inl BadLabels
      | Some labels \<Rightarrow>
          if serverURL = [] \<or> token = [] \<or> agentID = [] then Inl MissingSetting
          else if interval < 10 * Second \<or> interval > Hour then Inl IntervalOutOfRange
          else Inr \<lparr>cf_ServerURL = serverURL, cf_Token = token, cf_AgentID = agentID, cf_Interval = interval,
                    cf_Labels = labels,
                    cf_LockFile = (if lockFile = [] then ''/tmp/server-status-agent-'' @ Itoa uid @ ''.lock'' else lockFile)\<rparr>))"

section \<open>The client\<close>

record Client =
  cl_endpoint :: string
  cl_token :: string

definition NewClient :: "string \<Rightarrow> string \<Rightarrow> Client" where
  "NewClient serverURL token = \<lparr>cl_endpoint = serverURL @ ''/api/v1/reports'', cl_token = token\<rparr>"

datatype answer = NoReply | Reply nat string

record 's network =
  nw_agentVersion :: string
  nw_badURL :: "string \<Rightarrow> bool"
  nw_exchange :: "nat \<Rightarrow> string \<Rightarrow> http_request \<Rightarrow> 's \<Rightarrow> answer \<times> 's"
  nw_doneWaiting :: "nat \<Rightarrow> bool"
  nw_doneSending :: "nat \<Rightarrow> bool"
  nw_unmarshal :: "string \<Rightarrow> ReportReceipt option"

datatype send_error =
    EncodeFailed | Cancelled | CreateFailed | SendFailed | ServerReturned nat string
  | ReceiptUndecodable | ReceiptStatus string | GaveUp "send_error option"

definition postReport :: "string \<Rightarrow> Client \<Rightarrow> string \<Rightarrow> http_request" where
  "postReport version client body =
     \<lparr>rq_header = (\<lambda>k. if k = ''Authorization'' then ''Bearer '' @ cl_token client
                      else if k = ''Content-Type'' then ''application/json''
                      else if k = ''User-Agent'' then ''server-status-agent/'' @ version else []),
      rq_path_value = (\<lambda>_. []), rq_query = (\<lambda>_. []), rq_body = body\<rparr>"

definition retryableStatus :: "nat \<Rightarrow> bool" where
  "retryableStatus status \<longleftrightarrow> status = 408 \<or> status = 425 \<or> status = 429 \<or> status \<ge> 500"

text \<open>An error comes with the flag that says whether the attempt may be repeated.\<close>

definition sendOnce ::
  "'s network \<Rightarrow> Client \<Rightarrow> string \<Rightarrow> nat \<Rightarrow> 's \<Rightarrow> ((send_error \<times> bool) + ReportReceipt) \<times> 's" where
  "sendOnce nw client body attempt s =
     (if nw_badURL nw (cl_endpoint client) then (Inl (CreateFailed, False), s)
      else case nw_exchange nw attempt (cl_endpoint client) (postReport (nw_agentVersion nw) client body) s of
             (NoReply, s') \<Rightarrow> (Inl (SendFailed, \<not> nw_doneSending nw attempt), s')
           | (Reply status response, s') \<Rightarrow>
               (let responseBody = take 4096 response in
                if status \<noteq> 202
                then (Inl (ServerReturned status (TrimSpace responseBody), retryableStatus status), s')
                else case nw_unmarshal nw responseBody of
                       None \<Rightarrow> (Inl (ReceiptUndecodable, False), s')
                     | Some receipt \<Rightarrow>
                         if rr_Status receipt \<noteq> ''accepted'' then (Inl (ReceiptStatus (rr_Status receipt), False), s')
                         else (Inr receipt, s')))"

text \<open>The loop over the attempts; \<open>retryDelay\<close> is the wait before one.\<close>

definition retryDelay :: "nat \<Rightarrow> Duration" where
  "retryDelay attempt = (if attempt = 0 then 0 else push_bit (attempt - 1) 1 * Second)"

fun sendLoop ::
  "'s network \<Rightarrow> Client \<Rightarrow> string \<Rightarrow> send_error option \<Rightarrow> nat list \<Rightarrow> 's \<Rightarrow> (send_error + ReportReceipt) \<times> 's" where
  "sendLoop nw client body lastError [] s = (Inl (GaveUp lastError), s)"
| "sendLoop nw client body lastError (attempt # attempts) s =
     (if attempt > 0 \<and> nw_doneWaiting nw attempt then (Inl Cancelled, s)
      else case sendOnce nw client body attempt s of
             (Inr receipt, s') \<Rightarrow> (Inr receipt, s')
           | (Inl (e, retryable), s') \<Rightarrow>
               if \<not> retryable then (Inl e, s') else sendLoop nw client body (Some e) attempts s')"

definition Send ::
  "(Report \<Rightarrow> string option) \<Rightarrow> 's network \<Rightarrow> Client \<Rightarrow> Report \<Rightarrow> 's \<Rightarrow> (send_error + ReportReceipt) \<times> 's" where
  "Send marshal nw client payload s =
     (case marshal payload of
        None \<Rightarrow> (Inl EncodeFailed, s)
      | Some body \<Rightarrow> sendLoop nw client body None [0..<3] s)"

section \<open>The loop of the agent\<close>

text \<open>What one turn of the loop meets: the collected report, the network, the updates, the time it took.\<close>

record 's turn =
  tn_collected :: "string + Report"
  tn_network :: "'s network"
  tn_update :: update_env
  tn_elapsed :: Duration

datatype outcome = UpdateApplied | NextAfter Duration

definition nextDelay :: "Duration \<Rightarrow> Duration \<Rightarrow> Duration" where
  "nextDelay interval elapsed = (if interval - elapsed < 0 then 0 else interval - elapsed)"

definition runTurn ::
  "(Report \<Rightarrow> string option) \<Rightarrow> Client \<Rightarrow> Updater \<Rightarrow> Duration \<Rightarrow> 's turn \<Rightarrow> 's \<Rightarrow> (string \<rightharpoonup> string) \<Rightarrow>
   outcome \<times> 's \<times> (string \<rightharpoonup> string)" where
  "runTurn marshal client updater interval t s files =
     (let continue = NextAfter (nextDelay interval (tn_elapsed t)) in
      case tn_collected t of
        Inl _ \<Rightarrow> (continue, s, files)
      | Inr payload \<Rightarrow>
      (case Send marshal (tn_network t) client payload s of
        (Inl _, s') \<Rightarrow> (continue, s', files)
      | (Inr receipt, s') \<Rightarrow>
      (case rr_AgentUpdate receipt of
        None \<Rightarrow> (continue, s', files)
      | Some update \<Rightarrow>
      (case Apply (tn_update t) updater (au_Version update) files of
        (Some _, files') \<Rightarrow> (continue, s', files')
      | (None, files') \<Rightarrow> (UpdateApplied, s', files')))))"

text \<open>
  The turns until the context is done: whether the loop ended with \<open>ErrUpdateApplied\<close>, and the delays
  it set its timer to. A turn that is never reached leaves no trace.
\<close>

fun runTurns ::
  "(Report \<Rightarrow> string option) \<Rightarrow> Client \<Rightarrow> Updater \<Rightarrow> Duration \<Rightarrow> 's turn list \<Rightarrow> 's \<Rightarrow> (string \<rightharpoonup> string) \<Rightarrow>
   bool \<times> Duration list \<times> 's \<times> (string \<rightharpoonup> string)" where
  "runTurns marshal client updater interval [] s files = (False, [], s, files)"
| "runTurns marshal client updater interval (t # ts) s files =
     (case runTurn marshal client updater interval t s files of
        (UpdateApplied, s', files') \<Rightarrow> (True, [], s', files')
      | (NextAfter delay, s', files') \<Rightarrow>
          (case runTurns marshal client updater interval ts s' files' of
             (applied, delays, rest) \<Rightarrow> (applied, delay # delays, rest)))"

definition Run ::
  "(Report \<Rightarrow> string option) \<Rightarrow> string \<Rightarrow> string \<Rightarrow> string \<Rightarrow> Config \<Rightarrow> 's turn list \<Rightarrow> 's \<Rightarrow> (string \<rightharpoonup> string) \<Rightarrow>
   bool \<times> Duration list \<times> 's \<times> (string \<rightharpoonup> string)" where
  "Run marshal version goos goarch config turns s files =
     runTurns marshal (NewClient (cf_ServerURL config) (cf_Token config))
       (NewUpdater (cf_ServerURL config) version goos goarch) (cf_Interval config) turns s files"

section \<open>Lemmas\<close>

lemma ConfigFromEnv_Inr:
  assumes "ConfigFromEnv Getenv ParseDuration unmarshalLabels uid = Inr config"
  shows "cf_ServerURL config \<noteq> [] \<and> cf_Token config \<noteq> [] \<and> TrimSpace (cf_Token config) = cf_Token config \<and>
    cf_AgentID config \<noteq> [] \<and> cf_LockFile config \<noteq> [] \<and>
    10 * Second \<le> cf_Interval config \<and> cf_Interval config \<le> Hour"
proof -
  let ?i = "if TrimSpace (Getenv ''SERVER_STATUS_INTERVAL'') = [] then Some Minute
      else ParseDuration (TrimSpace (Getenv ''SERVER_STATUS_INTERVAL''))"
  let ?l = "if TrimSpace (Getenv ''SERVER_STATUS_LABELS'') = [] then Some Map.empty
      else unmarshalLabels (TrimSpace (Getenv ''SERVER_STATUS_LABELS''))"
  note c = assms [unfolded ConfigFromEnv_def Let_def]
  obtain interval where i: "?i = Some interval" using c by (cases ?i) simp_all
  obtain labels where l: "?l = Some labels" using c unfolding i by (cases ?l) simp_all
  show ?thesis using c unfolding i l option.case by (simp split: if_split_asm) (auto simp del: list.inject)
qed

lemma runTurn_continue:
  "runTurn marshal client updater interval t s files = (NextAfter delay, s', files') \<Longrightarrow>
    files' = files \<and> delay = nextDelay interval (tn_elapsed t)"
  by (auto simp: runTurn_def Let_def dest: Apply_Some split: sum.splits prod.splits option.splits)

lemma runTurn_applied:
  "runTurn marshal client updater interval t s files = (UpdateApplied, s', files') \<Longrightarrow>
    \<exists>version. Apply (tn_update t) updater version files = (None, files')"
  by (auto simp: runTurn_def Let_def split: sum.splits prod.splits option.splits)

lemma runTurns_result:
  "runTurns marshal client updater interval turns s files = (applied, delays, s', files') \<Longrightarrow>
    delays = map (\<lambda>t. nextDelay interval (tn_elapsed t)) (take (length delays) turns) \<and>
    (if applied then \<exists>t \<in> set turns. \<exists>version. Apply (tn_update t) updater version files = (None, files')
     else files' = files \<and> length delays = length turns)"
proof (induction turns arbitrary: s files applied delays)
  case (Cons t ts)
  show ?case
  proof (cases "runTurn marshal client updater interval t s files")
    case (fields out s1 files1)
    then show ?thesis
    proof (cases out)
      case UpdateApplied
      then show ?thesis
        using Cons.prems runTurn_applied [OF fields [unfolded UpdateApplied]] fields by auto
    next
      case (NextAfter delay)
      then have c: "files1 = files" "delay = nextDelay interval (tn_elapsed t)"
        using runTurn_continue [OF fields [unfolded NextAfter]] by auto
      obtain rest where "runTurns marshal client updater interval ts s1 files = (applied, rest, s', files')"
        "delays = delay # rest"
        using Cons.prems fields NextAfter c(1) by (auto split: prod.splits)
      then show ?thesis using Cons.IH [of s1 files applied rest] c by auto
    qed
  qed
qed simp

section \<open>Delivery over a network that loses messages\<close>

text \<open>Requests that are dropped never reach the service; of those that do, answers may be lost.\<close>

definition overNetwork ::
  "(nat \<Rightarrow> http_request \<Rightarrow> 's \<Rightarrow> nat \<times> string \<times> 's) \<Rightarrow> (nat \<Rightarrow> bool) \<Rightarrow> (nat \<Rightarrow> bool) \<Rightarrow>
   nat \<Rightarrow> string \<Rightarrow> http_request \<Rightarrow> 's \<Rightarrow> answer \<times> 's" where
  "overNetwork handle dropped lost attempt url request s =
     (if dropped attempt then (NoReply, s)
      else case handle attempt request s of
             (status, response, s') \<Rightarrow> (if lost attempt then NoReply else Reply status response, s'))"

text \<open>
  A service on which a repeated request has the effect of one: \<open>applied s0 s\<close> says that \<open>s\<close> is \<open>s0\<close>
  with the request applied.
\<close>

locale idempotent_service =
  fixes handle :: "nat \<Rightarrow> http_request \<Rightarrow> 's \<Rightarrow> nat \<times> string \<times> 's"
    and request :: http_request
    and applied :: "'s \<Rightarrow> 's \<Rightarrow> bool"
  assumes first: "handle n request s = (202, response, s') \<Longrightarrow> applied s s'"
    and again: "applied s0 s \<Longrightarrow> handle n request s = (202, response, s') \<Longrightarrow> applied s0 s'"
    and refused: "handle n request s = (status, response, s') \<Longrightarrow> status \<noteq> 202 \<Longrightarrow> s' = s"
begin

lemma exchange_effect:
  assumes "overNetwork handle dropped lost n url request s = (ans, s')" and "s = s0 \<or> applied s0 s"
  shows "(s' = s0 \<or> applied s0 s') \<and> (\<forall>response. ans = Reply 202 response \<longrightarrow> applied s0 s')"
proof (cases "dropped n")
  case False
  obtain status response s1 where h: "handle n request s = (status, response, s1)" by (metis prod_cases3)
  then have s': "s' = s1" "ans = (if lost n then NoReply else Reply status response)"
    using assms(1) False by (auto simp: overNetwork_def)
  show ?thesis
  proof (cases "status = 202")
    case True
    then show ?thesis using assms(2) h s' first again by blast
  next
    case False
    then show ?thesis using refused [OF h] assms(2) s' by auto
  qed
qed (use assms in \<open>auto simp: overNetwork_def\<close>)

lemma sendOnce_effect:
  assumes "sendOnce nw client body attempt s = (r, s')" "s = s0 \<or> applied s0 s"
    and "nw_exchange nw = overNetwork handle dropped lost" "postReport (nw_agentVersion nw) client body = request"
  shows "(s' = s0 \<or> applied s0 s') \<and> (\<forall>receipt. r = Inr receipt \<longrightarrow> applied s0 s')"
proof (cases "nw_badURL nw (cl_endpoint client)")
  case False
  obtain ans s1 where e: "overNetwork handle dropped lost attempt (cl_endpoint client) request s = (ans, s1)" by fastforce
  note E = exchange_effect [OF e assms(2)]
  have "s' = s1 \<and> (\<forall>receipt. r = Inr receipt \<longrightarrow> (\<exists>response. ans = Reply 202 response))"
    using assms(1) False by (cases ans) (auto simp: sendOnce_def assms(3,4) e Let_def split: if_splits option.splits)
  then show ?thesis using E by blast
qed (use assms in \<open>auto simp: sendOnce_def\<close>)

lemma sendLoop_effect:
  assumes "nw_exchange nw = overNetwork handle dropped lost" "postReport (nw_agentVersion nw) client body = request"
  shows "sendLoop nw client body e attempts s = (r, s') \<Longrightarrow> s = s0 \<or> applied s0 s \<Longrightarrow>
    (s' = s0 \<or> applied s0 s') \<and> (\<forall>receipt. r = Inr receipt \<longrightarrow> applied s0 s')"
proof (induction attempts arbitrary: s e)
  case (Cons attempt attempts)
  obtain r1 s1 where o: "sendOnce nw client body attempt s = (r1, s1)" by fastforce
  note O = sendOnce_effect [OF o Cons.prems(2) assms]
  show ?case
  proof (cases "attempt > 0 \<and> nw_doneWaiting nw attempt")
    case True
    then show ?thesis using Cons.prems by auto
  next
    case False
    then show ?thesis
    proof (cases r1)
      case (Inl x)
      then show ?thesis
        using Cons.prems(1) False o O Cons.IH [of "Some (fst x)" s1] by (cases x) (auto split: if_splits)
    next
      case (Inr receipt)
      then show ?thesis using Cons.prems(1) False o O by (auto split: if_splits)
    qed
  qed
qed auto

lemma Send_effect:
  assumes "Send marshal nw client payload s = (r, s')"
    and "nw_exchange nw = overNetwork handle dropped lost"
    and "\<And>body. marshal payload = Some body \<Longrightarrow> postReport (nw_agentVersion nw) client body = request"
  shows "(s' = s \<or> applied s s') \<and> (\<forall>receipt. r = Inr receipt \<longrightarrow> applied s s')"
proof (cases "marshal payload")
  case (Some body)
  then show ?thesis using assms(1) sendLoop_effect [OF assms(2) assms(3) [OF Some]] by (simp add: Send_def)
qed (use assms(1) in \<open>auto simp: Send_def\<close>)

end

section \<open>Properties\<close>

text \<open>
  C21: The agent keeps reporting. With a configuration that was accepted and turns that take no
  negative time, no failure of the collection, the report or an update ends the loop or changes a file: unless it
  stops for an installed update, every turn is taken, each followed by a wait of at most the
  configured interval and so at most an hour; and it stops for an update only after the verified
  replacement of its executable succeeded, which is the one change to the files.
\<close>

theorem Run_keeps_reporting:
  assumes "ConfigFromEnv Getenv ParseDuration unmarshalLabels uid = Inr config"
    and "\<forall>t \<in> set turns. 0 \<le> tn_elapsed t"
    and "Run marshal version goos goarch config turns s files = (applied, delays, s', files')"
  shows "(\<forall>delay \<in> set delays. 0 \<le> delay \<and> delay \<le> cf_Interval config \<and> delay \<le> Hour) \<and>
    (if applied
     then \<exists>t \<in> set turns. \<exists>target. Apply (tn_update t) (NewUpdater (cf_ServerURL config) version goos goarch) target files = (None, files')
     else files' = files \<and> length delays = length turns)"
proof -
  note R = runTurns_result [OF assms(3) [unfolded Run_def]]
  have "0 \<le> delay \<and> delay \<le> cf_Interval config \<and> delay \<le> Hour" if d: "delay \<in> set delays" for delay
  proof -
    obtain k where "delays = map (\<lambda>t. nextDelay (cf_Interval config) (tn_elapsed t)) (take k turns)" using R by blast
    then obtain t where "t \<in> set turns" "delay = nextDelay (cf_Interval config) (tn_elapsed t)"
      using d by (auto dest: in_set_takeD)
    then show ?thesis
      using assms(2) ConfigFromEnv_Inr [OF assms(1)] by (auto simp: nextDelay_def Hour_def Minute_def Second_def)
  qed
  then show ?thesis using R by blast
qed

definition agentSettings :: "string \<Rightarrow> string" where
  "agentSettings name = (if name = ''SERVER_STATUS_URL'' then ''https://central/''
     else if name = ''SERVER_STATUS_TOKEN'' then ''secret'' else if name = ''SERVER_STATUS_AGENT_ID'' then ''agent'' else [])"

definition idleTurn :: "unit turn" where
  "idleTurn = \<lparr>tn_collected = Inl [], tn_network = \<lparr>nw_agentVersion = [], nw_badURL = (\<lambda>_. False),
     nw_exchange = (\<lambda>_ _ _ s. (NoReply, s)), nw_doneWaiting = (\<lambda>_. False), nw_doneSending = (\<lambda>_. False),
     nw_unmarshal = (\<lambda>_. None)\<rparr>, tn_update = updateEnv, tn_elapsed = 2 * Second\<rparr>"

theorem Run_keeps_reporting_witness:
  "\<exists>config. ConfigFromEnv agentSettings (\<lambda>_. None) (\<lambda>_. None) 0 = Inr config \<and>
     Run (\<lambda>_. None) ''1.2.2'' ''linux'' ''amd64'' config [idleTurn, idleTurn] () Map.empty =
       (False, [58 * Second, 58 * Second], (), Map.empty) \<and> 58 * Second \<le> Hour"
proof -
  obtain config where c: "ConfigFromEnv agentSettings (\<lambda>_. None) (\<lambda>_. None) 0 = Inr config"
    and i: "cf_Interval config = Minute"
  proof -
    have "TrimSpace [] = []" "TrimSpace ''secret'' \<noteq> []" "TrimSpace ''agent'' \<noteq> []"
      "TrimRightByte (TrimSpace ''https://central/'') CHR ''/'' \<noteq> []" by code_simp+
    then show ?thesis
      using that by (simp add: ConfigFromEnv_def agentSettings_def Let_def Minute_def Hour_def Second_def)
  qed
  have R: "Run (\<lambda>_. None) ''1.2.2'' ''linux'' ''amd64'' config [idleTurn, idleTurn] () Map.empty =
      (False, [58 * Second, 58 * Second], (), Map.empty)"
    by (simp add: Run_def runTurn_def idleTurn_def nextDelay_def i Minute_def Second_def)
  have "\<forall>t \<in> set [idleTurn, idleTurn]. 0 \<le> tn_elapsed t" by (simp add: idleTurn_def Second_def)
  from Run_keeps_reporting [OF c this R] show ?thesis using c R by auto
qed

end
