(* ===== verification/Report_Delivery.thy ===== *)
theory Report_Delivery
  imports Agent_Client
begin

text \<open>
  The way of a report from the agent into the database: the client of package agent, a network that
  may drop requests and lose answers, the handler of package server and the ingestion of package store.
  The handler is shown to be an idempotent service, so that the client's retries are safe.
\<close>

section \<open>The service\<close>

text \<open>The server as the network sees it; environment and time may differ from attempt to attempt.\<close>

definition reportService ::
  "postgres \<Rightarrow> library \<Rightarrow> string \<Rightarrow> string \<Rightarrow> (report_error + store_error \<Rightarrow> string) \<Rightarrow> (body option \<Rightarrow> string) \<Rightarrow>
   (nat \<Rightarrow> store_env) \<Rightarrow> (nat \<Rightarrow> Time) \<Rightarrow> nat \<Rightarrow> http_request \<Rightarrow> database server \<Rightarrow> nat \<times> string \<times> database server" where
  "reportService pg lib adminToken serverVersion message encode env now n request s =
     (case report (NewAPI (pgStore (lb_sha256 lib) ((env n)\<lparr>se_pg := pg\<rparr>)) adminToken serverVersion lib)
             message (now n) request s of
        (resp, s') \<Rightarrow> (rs_status resp, encode (rs_body resp), s'))"

text \<open>What two databases have in common that hold the data of the same report.\<close>

definition same_report_data :: "database \<Rightarrow> database \<Rightarrow> bool" where
  "same_report_data d d' \<longleftrightarrow>
     stored_inventory d' = stored_inventory d \<and> db_filesystem_samples d' = db_filesystem_samples d \<and>
     db_network_samples d' = db_network_samples d \<and> db_gpu_samples d' = db_gpu_samples d \<and>
     map sample_key (db_node_samples d') = map sample_key (db_node_samples d)"

definition node_ids :: "database \<Rightarrow> (string \<times> string) list" where
  "node_ids d = map (\<lambda>n. (nd_id n, nd_agent_id n)) (db_nodes d)"

text \<open>The state \<open>s\<close> holds what one ingestion of the report of \<open>request\<close> makes of \<open>s0\<close>.\<close>

definition ingested :: "postgres \<Rightarrow> library \<Rightarrow> http_request \<Rightarrow> database server \<Rightarrow> database server \<Rightarrow> bool" where
  "ingested pg lib request s0 s \<longleftrightarrow>
     (inj (pg_gen pg) \<and> distinct (map nd_agent_id (db_nodes (sv_store s0))) \<longrightarrow>
      (\<exists>payload p auth fault t d. decodeJSON (lb_decodeReport lib) request = Inr payload \<and>
         p = payload\<lparr>r_Inventory := NormalizeInventory (r_Inventory payload)\<rparr> \<and>
         (auth_NodeID auth, ai_ID (r_Agent payload)) \<in> set (node_ids (sv_store s0)) \<and>
         Ingest pg fault t auth p (sv_store s0) = (Inr (), d) \<and> same_report_data d (sv_store s) \<and>
         node_ids (sv_store s) = node_ids (sv_store s0) \<and>
         (\<exists>fault' t' auth' d'. auth_NodeID auth' = auth_NodeID auth \<and> Ingest pg fault' t' auth' p d' = (Inr (), sv_store s))))"

lemma Ingest_node_ids:
  assumes "inj (pg_gen pg)" "Ingest pg fault now auth p d = (Inr u, d')"
  shows "node_ids d' = node_ids d"
proof -
  obtain fp where "d' = written_db pg (timestamptz now) (auth_NodeID auth) p (prepared_db pg (timestamptz now) auth p fp d)"
    using Ingest_success [OF assms(2)] by blast
  then have "db_nodes d' = db_nodes (updateReportingNode (auth_NodeID auth) p (timestamptz now) d)"
    by (simp add: nodes_prepared [OF assms(1)])
  then show ?thesis by (auto simp: node_ids_def updateReportingNode_def)
qed

lemma same_node:
  assumes "distinct (map nd_agent_id (db_nodes d))" "(a, agent) \<in> set (node_ids d)" "(b, agent) \<in> set (node_ids d)"
  shows "a = b"
proof -
  obtain m n where "m \<in> set (db_nodes d)" "n \<in> set (db_nodes d)" "a = nd_id m" "b = nd_id n" "nd_agent_id m = nd_agent_id n"
    using assms(2,3) by (auto simp: node_ids_def)
  moreover from this have "m = n" using assms(1) by (auto simp: distinct_map inj_on_def)
  ultimately show ?thesis by simp
qed

lemma same_report_data_simps:
  "same_report_data d d" "same_report_data a b \<Longrightarrow> same_report_data b c \<Longrightarrow> same_report_data a c"
  by (auto simp: same_report_data_def)

text \<open>A report that is answered 202 was ingested for the node with the report's agent id.\<close>

lemma reportService_accepted:
  assumes "reportService pg lib adminToken serverVersion message encode env now n request s = (202, response, s')"
  shows "\<exists>auth payload. decodeJSON (lb_decodeReport lib) request = Inr payload \<and>
    (auth_NodeID auth, ai_ID (r_Agent payload)) \<in> set (node_ids (sv_store s)) \<and>
    Ingest pg (se_ingestFault (env n)) (se_now (env n)) auth
      (payload\<lparr>r_Inventory := NormalizeInventory (r_Inventory payload)\<rparr>) (sv_store s) = (Inr (), sv_store s')"
proof -
  obtain token auth payload p where auth: "AuthenticateToken (lb_sha256 lib) (se_authFault (env n)) (se_now (env n)) token (sv_store s) = Inr auth"
    and p: "decodeJSON (lb_decodeReport lib) request = Inr payload" "ai_ID (r_Agent payload) = auth_AgentID auth"
      "Validate (lb_sha256 lib) (lb_marshal lib) (now n) payload = (None, p)"
      "Ingest pg (se_ingestFault (env n)) (se_now (env n)) auth p (sv_store s) = (Inr (), sv_store s')"
    using assms
    by (auto simp: reportService_def report_def NewAPI_def pgStore_def writeError_def writeJSON_def
        split: option.splits sum.splits prod.splits if_splits store_error.splits)
  have "(auth_NodeID auth, ai_ID (r_Agent payload)) \<in> set (node_ids (sv_store s))"
    using authenticated_node [OF auth] p(2) by (force simp: node_ids_def)
  moreover have "p = payload\<lparr>r_Inventory := NormalizeInventory (r_Inventory payload)\<rparr>"
    using Validate_snd [of "lb_sha256 lib" "lb_marshal lib" "now n" payload] p(3) by simp
  ultimately show ?thesis using p by blast
qed

lemma ingested_again:
  assumes "ingested pg lib request s0 s"
    and r: "reportService pg lib adminToken serverVersion message encode env now n request s = (202, response, s')"
  shows "ingested pg lib request s0 s'"
  unfolding ingested_def
proof
  assume wf: "inj (pg_gen pg) \<and> distinct (map nd_agent_id (db_nodes (sv_store s0)))"
  then obtain payload p auth fault t d fault' t' auth' d' where
    payload: "decodeJSON (lb_decodeReport lib) request = Inr payload" "p = payload\<lparr>r_Inventory := NormalizeInventory (r_Inventory payload)\<rparr>"
    and node: "(auth_NodeID auth, ai_ID (r_Agent payload)) \<in> set (node_ids (sv_store s0))"
    and one: "Ingest pg fault t auth p (sv_store s0) = (Inr (), d)" "same_report_data d (sv_store s)"
    and ids: "node_ids (sv_store s) = node_ids (sv_store s0)"
    and latest: "auth_NodeID auth' = auth_NodeID auth" "Ingest pg fault' t' auth' p d' = (Inr (), sv_store s)"
    using assms(1) unfolding ingested_def by blast
  obtain auth2 where i: "Ingest pg (se_ingestFault (env n)) (se_now (env n)) auth2 p (sv_store s) = (Inr (), sv_store s')"
    and node2: "(auth_NodeID auth2, ai_ID (r_Agent payload)) \<in> set (node_ids (sv_store s))"
    using reportService_accepted [OF r] payload by auto
  have n: "auth_NodeID auth2 = auth_NodeID auth"
    using same_node wf node node2 ids by metis
  have "same_report_data (sv_store s) (sv_store s')"
    using ingest_again [OF _ latest(2) i] wf n latest(1) by (simp add: same_report_data_def)
  then have "same_report_data d (sv_store s')" by (rule same_report_data_simps(2) [OF one(2)])
  moreover have "node_ids (sv_store s') = node_ids (sv_store s0)"
    using Ingest_node_ids [OF _ i] wf ids by simp
  ultimately show "\<exists>payload p auth fault t d. decodeJSON (lb_decodeReport lib) request = Inr payload \<and>
       p = payload\<lparr>r_Inventory := NormalizeInventory (r_Inventory payload)\<rparr> \<and>
       (auth_NodeID auth, ai_ID (r_Agent payload)) \<in> set (node_ids (sv_store s0)) \<and>
       Ingest pg fault t auth p (sv_store s0) = (Inr (), d) \<and> same_report_data d (sv_store s') \<and>
       node_ids (sv_store s') = node_ids (sv_store s0) \<and>
       (\<exists>fault' t' auth' d'. auth_NodeID auth' = auth_NodeID auth \<and> Ingest pg fault' t' auth' p d' = (Inr (), sv_store s'))"
    using payload node one(1) i n by blast
qed

interpretation rs: idempotent_service
  "reportService pg lib adminToken serverVersion message encode env now" request "ingested pg lib request"
  for pg lib adminToken serverVersion message encode env now request
proof unfold_locales
  fix n s s' response
  assume r: "reportService pg lib adminToken serverVersion message encode env now n request s = (202, response, s')"
  obtain auth payload where a: "decodeJSON (lb_decodeReport lib) request = Inr payload"
    "(auth_NodeID auth, ai_ID (r_Agent payload)) \<in> set (node_ids (sv_store s))"
    "Ingest pg (se_ingestFault (env n)) (se_now (env n)) auth
      (payload\<lparr>r_Inventory := NormalizeInventory (r_Inventory payload)\<rparr>) (sv_store s) = (Inr (), sv_store s')"
    using reportService_accepted [OF r] by blast
  show "ingested pg lib request s s'"
    unfolding ingested_def using a Ingest_node_ids [OF _ a(3)] same_report_data_simps(1) by blast
next
  fix n s s0 s' response
  assume "ingested pg lib request s0 s"
    and "reportService pg lib adminToken serverVersion message encode env now n request s = (202, response, s')"
  then show "ingested pg lib request s0 s'" by (rule ingested_again)
next
  fix n s s' status response
  assume "reportService pg lib adminToken serverVersion message encode env now n request s = (status, response, s')"
    and "status \<noteq> 202"
  then show "s' = s"
    by (auto simp: reportService_def report_def writeError_def writeJSON_def dest!: pg.Ingest_error
        split: option.splits sum.splits prod.splits if_splits store_error.splits)
qed

section \<open>Properties\<close>


definition lossyNetwork :: "database server network" where
  "lossyNetwork = \<lparr>nw_agentVersion = ''1.0.0'', nw_badURL = (\<lambda>_. False),
     nw_exchange = overNetwork (reportService samplePg sampleLib ''administrator'' ''v9.9.9'' (\<lambda>_. []) (\<lambda>_. [])
       (\<lambda>_. sampleEnv) (\<lambda>_. sampleNow)) (\<lambda>n. n = 0) (\<lambda>_. False),
     nw_doneWaiting = (\<lambda>_. False), nw_doneSending = (\<lambda>_. False),
     nw_unmarshal = (\<lambda>_. Some \<lparr>rr_Status = ''accepted'', rr_BucketAt = 0, rr_AgentUpdate = None\<rparr>)\<rparr>"

end
