(* ===== verification/Agent_Health.thy ===== *)
theory Agent_Health
  imports Report_Validate "HOL-Library.Sublist"
begin

unbundle bit_operations_syntax

text \<open>
  Storage health and temperatures as the Linux agent collects them (src/internal/agent/health.go, with
  the helpers \<open>readTrimmed\<close> and \<open>firstNonEmpty\<close> of collector.go): the devices \<open>smartctl\<close> finds, the
  merge of their data into the inventory of block devices, the risk assessment, and the sensors below
  /sys/class/hwmon.

  The output of \<open>smartctl\<close>, the JSON decoder, the file system, \<open>strconv.ParseFloat\<close>, the division of
  floating-point numbers and the case tables of package unicode are arguments. A JSON number is its text.
  The goroutines that query the devices write to distinct elements of one slice and are all awaited, so
  that the slice is the map of their results.
\<close>

section \<open>Helpers\<close>

definition readTrimmed :: "(string \<rightharpoonup> string) \<Rightarrow> string \<Rightarrow> string" where
  "readTrimmed files path = (case files path of None \<Rightarrow> [] | Some content \<Rightarrow> TrimSpace content)"

fun firstNonEmpty :: "string list \<Rightarrow> string" where
  "firstNonEmpty [] = []"
| "firstNonEmpty (value # values) = (if TrimSpace value \<noteq> [] then TrimSpace value else firstNonEmpty values)"

definition smartUint :: "string \<Rightarrow> u64 option" where
  "smartUint value =
     (let text = TrimSpace value in
      if text = [] then None
      else case ParseUint text of
             None \<Rightarrow> None
           | Some parsed \<Rightarrow> if parsed > MaxInt64 then None else Some parsed)"

definition nonZero :: "u64 option \<Rightarrow> bool" where
  "nonZero value \<longleftrightarrow> (case value of None \<Rightarrow> False | Some v \<Rightarrow> v > 0)"

section \<open>The documents of smartctl\<close>

record smartDevice =
  sd_Name :: string
  sd_InfoName :: string
  sd_Type :: string
  sd_Protocol :: string

record smartATAAttribute =
  at_ID :: int
  at_Value :: string
  at_RawValue :: string

record smartctlDocument =
  doc_ExitStatus :: int
  doc_Device :: smartDevice
  doc_ModelName :: string
  doc_SerialNumber :: string
  doc_SCSIVendor :: string
  doc_SCSIProduct :: string
  doc_SCSIModelName :: string
  doc_LogicalUnitID :: string
  doc_RotationRate :: "u64 option"
  doc_UserCapacity :: string
  doc_SMARTAvailable :: bool
  doc_SMARTEnabled :: bool
  doc_SMARTPassed :: "bool option"
  doc_Temperature :: "f64 option"
  doc_PowerOnHours :: string
  doc_ATAAttributes :: "smartATAAttribute list"
  doc_ATAErrorCount :: string
  doc_NVMeCriticalWarning :: string
  doc_NVMeTemperature :: "f64 option"
  doc_NVMePercentageUsed :: "f64 option"
  doc_NVMeMediaErrors :: string
  doc_NVMePowerOnHours :: string
  doc_SCSIErrorsRead :: string
  doc_SCSIErrorsWrite :: string
  doc_SCSIErrorsVerify :: string

type_synonym smartSample = "smartDevice \<times> smartctlDocument option"

text \<open>The loop over the scanned devices, with the keys seen so far; it stops at 4096 devices.\<close>

fun scanLoop :: "string list \<Rightarrow> smartDevice list \<Rightarrow> smartDevice list \<Rightarrow> smartDevice list" where
  "scanLoop seen result [] = result"
| "scanLoop seen result (d # ds) =
     (let device = d\<lparr>sd_Name := TrimSpace (sd_Name d), sd_Type := TrimSpace (sd_Type d),
                    sd_Protocol := TrimSpace (sd_Protocol d)\<rparr>;
          key = sd_Name device @ [CHR 0x00] @ sd_Type device in
      if \<not> prefix ''/dev/'' (sd_Name device) \<or> length (sd_Name device) > 4096 \<or> length (sd_Type device) > 256
      then scanLoop seen result ds
      else if key \<in> set seen then scanLoop seen result ds
      else if length (result @ [device]) \<ge> 4096 then result @ [device]
      else scanLoop (key # seen) (result @ [device]) ds)"

definition parseSMARTScan :: "(string \<Rightarrow> smartDevice list option) \<Rightarrow> string \<Rightarrow> smartDevice list" where
  "parseSMARTScan unmarshal data =
     (case unmarshal data of None \<Rightarrow> [] | Some devices \<Rightarrow> scanLoop [] [] devices)"

definition parseSMARTDocument :: "(string \<Rightarrow> smartctlDocument option) \<Rightarrow> string \<Rightarrow> smartctlDocument option" where
  "parseSMARTDocument decode data =
     (case decode data of
        None \<Rightarrow> None
      | Some document \<Rightarrow>
          if sd_Name (doc_Device document) = [] \<and> doc_SerialNumber document = [] \<and>
             doc_ModelName document = [] \<and> doc_SCSIModelName document = []
          then None else Some document)"

section \<open>Block devices\<close>

definition isRAIDSMARTType :: "(string \<Rightarrow> string) \<Rightarrow> string \<Rightarrow> bool" where
  "isRAIDSMARTType uni deviceType =
     (let deviceType = ToLower uni (TrimSpace deviceType) in
      list_ex (\<lambda>p. prefix p deviceType \<or> Contains deviceType (''+'' @ p))
        [''megaraid,'', ''aacraid,'', ''areca,'', ''3ware,'', ''hpt,'', ''cciss,'', ''sssraid,''])"

definition blockDeviceFromSMART :: "(string \<Rightarrow> string) \<Rightarrow> smartDevice \<Rightarrow> smartctlDocument \<Rightarrow> BlockDevice" where
  "blockDeviceFromSMART uni scanned document =
     (let deviceInfo = (if sd_Name (doc_Device document) = [] then scanned else doc_Device document);
          model = firstNonEmpty [doc_ModelName document, doc_SCSIModelName document,
                    TrimSpace (doc_SCSIVendor document @ '' '' @ doc_SCSIProduct document)];
          deviceType = firstNonEmpty [sd_Type deviceInfo, sd_Type scanned];
          wwn = doc_LogicalUnitID document
      in \<lparr>bd_Key = firstNonEmpty [doc_SerialNumber document, wwn, sd_Name deviceInfo @ ''|'' @ deviceType],
          bd_DeviceName = firstNonEmpty [sd_Name deviceInfo, sd_Name scanned], bd_DeviceKind = ''disk'',
          bd_Vendor = doc_SCSIVendor document, bd_ModelName = model, bd_SerialNumber = doc_SerialNumber document,
          bd_WWN = wwn,
          bd_SizeBytes = (case smartUint (doc_UserCapacity document) of None \<Rightarrow> 0 | Some bytes \<Rightarrow> bytes),
          bd_Rotational = map_option (\<lambda>rate. rate > 0) (doc_RotationRate document),
          bd_Protocol = firstNonEmpty [sd_Protocol deviceInfo, sd_Protocol scanned],
          bd_SMARTDeviceType = deviceType, bd_RAIDPassthrough = isRAIDSMARTType uni deviceType\<rparr>)"

definition matches :: "BlockDevice \<Rightarrow> BlockDevice \<Rightarrow> bool" where
  "matches candidate device \<longleftrightarrow>
     bd_SerialNumber candidate \<noteq> [] \<and> bd_SerialNumber candidate = bd_SerialNumber device \<or>
     bd_WWN candidate \<noteq> [] \<and> bd_WWN candidate = bd_WWN device \<or>
     bd_DeviceName candidate \<noteq> [] \<and> bd_DeviceName candidate = bd_DeviceName device \<and> \<not> bd_RAIDPassthrough candidate"

text \<open>\<^const>\<open>None\<close> is the index -1.\<close>

definition matchBlockDevice :: "BlockDevice list \<Rightarrow> BlockDevice \<Rightarrow> nat option" where
  "matchBlockDevice devices candidate = find (\<lambda>i. matches candidate (devices ! i)) [0..<length devices]"

definition mergeBlockDevice :: "BlockDevice \<Rightarrow> BlockDevice \<Rightarrow> BlockDevice" where
  "mergeBlockDevice target source = target\<lparr>
     bd_Vendor := (if bd_Vendor source \<noteq> [] then bd_Vendor source else bd_Vendor target),
     bd_ModelName := (if bd_ModelName source \<noteq> [] then bd_ModelName source else bd_ModelName target),
     bd_SerialNumber := (if bd_SerialNumber source \<noteq> [] then bd_SerialNumber source else bd_SerialNumber target),
     bd_WWN := (if bd_WWN source \<noteq> [] then bd_WWN source else bd_WWN target),
     bd_SizeBytes := (if bd_SizeBytes source > 0 then bd_SizeBytes source else bd_SizeBytes target),
     bd_Rotational := (if bd_Rotational source \<noteq> None then bd_Rotational source else bd_Rotational target),
     bd_Protocol := bd_Protocol source,
     bd_SMARTDeviceType := bd_SMARTDeviceType source,
     bd_RAIDPassthrough := bd_RAIDPassthrough source\<rparr>"

section \<open>Health\<close>

text \<open>The sum of the uncorrected errors: an addition that would overflow is left out.\<close>

definition addCounter :: "string \<Rightarrow> u64 option \<Rightarrow> u64 option" where
  "addCounter counter errors =
     (case smartUint counter of
        None \<Rightarrow> errors
      | Some v \<Rightarrow> (let s = (case errors of None \<Rightarrow> 0 | Some t \<Rightarrow> t) in Some (if v \<le> - 1 - s then s + v else s)))"

definition scsiErrors :: "smartctlDocument \<Rightarrow> u64 option" where
  "scsiErrors document = fold addCounter
     [doc_SCSIErrorsRead document, doc_SCSIErrorsWrite document, doc_SCSIErrorsVerify document] None"

definition attributeStep :: "smartATAAttribute \<Rightarrow> StorageHealth \<Rightarrow> StorageHealth" where
  "attributeStep attribute metric =
     (let raw = smartUint (at_RawValue attribute) in
      if at_ID attribute = 1 then metric\<lparr>sh_ReadErrorRateNormalized := smartUint (at_Value attribute), sh_ReadErrorRateRaw := raw\<rparr>
      else if at_ID attribute = 5 then metric\<lparr>sh_ReallocatedSectors := raw\<rparr>
      else if at_ID attribute = 197 then metric\<lparr>sh_PendingSectors := raw\<rparr>
      else if at_ID attribute = 198 then metric\<lparr>sh_UncorrectableSectors := raw\<rparr>
      else metric)"

definition orElse :: "'a option \<Rightarrow> 'a option \<Rightarrow> 'a option" where
  "orElse new old = (if new \<noteq> None then new else old)"

text \<open>The values, before the assessment.\<close>

definition healthValues :: "string \<Rightarrow> smartctlDocument \<Rightarrow> StorageHealth" where
  "healthValues blockDeviceKey document =
     fold attributeStep (doc_ATAAttributes document)
       \<lparr>sh_BlockDeviceKey = blockDeviceKey, sh_SMARTAvailable = doc_SMARTAvailable document,
        sh_SMARTEnabled = doc_SMARTEnabled document,
        sh_SMARTStatus = (case doc_SMARTPassed document of None \<Rightarrow> ''unknown''
                          | Some passed \<Rightarrow> if passed then ''passed'' else ''failed''),
        sh_RiskLevel = ''unknown'', sh_RiskReasons = [],
        sh_TemperatureCelsius = orElse (doc_NVMeTemperature document) (doc_Temperature document),
        sh_PowerOnHours = orElse (smartUint (doc_NVMePowerOnHours document)) (smartUint (doc_PowerOnHours document)),
        sh_ErrorCount = orElse (scsiErrors document)
          (orElse (smartUint (doc_NVMeMediaErrors document)) (smartUint (doc_ATAErrorCount document))),
        sh_ReadErrorRateNormalized = None, sh_ReadErrorRateRaw = None, sh_ReallocatedSectors = None,
        sh_PendingSectors = None, sh_UncorrectableSectors = None,
        sh_PercentageUsed = doc_NVMePercentageUsed document\<rparr>"

text \<open>The calls of \<open>addReason\<close> in their order: condition, whether it is critical, reason.\<close>

definition riskRules :: "smartctlDocument \<Rightarrow> StorageHealth \<Rightarrow> (bool \<times> bool \<times> string) list" where
  "riskRules document metric =
     [(sh_SMARTStatus metric = ''failed'' \<or> doc_ExitStatus document AND 0x08 \<noteq> 0, True, ''smart_failed''),
      (doc_ExitStatus document AND 0x10 \<noteq> 0, True, ''prefail_attribute''),
      (nonZero (smartUint (doc_NVMeCriticalWarning document)), True, ''nvme_critical_warning''),
      (nonZero (sh_PendingSectors metric), True, ''pending_sectors''),
      (nonZero (sh_UncorrectableSectors metric), True, ''uncorrectable_sectors''),
      (nonZero (sh_ReallocatedSectors metric), False, ''reallocated_sectors''),
      (nonZero (sh_ErrorCount metric), False, ''device_errors''),
      (doc_ExitStatus document AND 0x20 \<noteq> 0, False, ''age_attribute''),
      (doc_ExitStatus document AND 0x40 \<noteq> 0, False, ''device_error_log''),
      (doc_ExitStatus document AND 0x80 \<noteq> 0, False, ''self_test_errors'')] @
     (case sh_PercentageUsed metric of
        None \<Rightarrow> []
      | Some used \<Rightarrow> [(Fin 100 \<le> used, True, ''wear_exhausted''), (Fin 90 \<le> used \<and> used < Fin 100, False, ''wear_high'')])"

definition storageHealthFromSMART :: "string \<Rightarrow> smartctlDocument \<Rightarrow> StorageHealth" where
  "storageHealthFromSMART blockDeviceKey document =
     (let metric = healthValues blockDeviceKey document;
          raised = filter fst (riskRules document metric);
          critical = list_ex (\<lambda>(_, c, _). c) raised;
          warning = list_ex (\<lambda>(_, c, _). \<not> c) raised
      in metric\<lparr>
           sh_RiskReasons := sort (map (\<lambda>(_, _, reason). reason) raised),
           sh_RiskLevel := (if critical then ''critical'' else if warning then ''warning''
                            else if sh_SMARTStatus metric = ''passed'' then ''healthy'' else ''unknown'')\<rparr>)"

section \<open>Merging\<close>

record merge_state =
  ms_devices :: "BlockDevice list"
  ms_health :: "StorageHealth list"

definition mergeSample :: "(string \<Rightarrow> string) \<Rightarrow> smartSample \<Rightarrow> merge_state \<Rightarrow> merge_state" where
  "mergeSample uni sample st =
     (case sample of
        (_, None) \<Rightarrow> st
      | (scanned, Some document) \<Rightarrow>
          (let candidate = blockDeviceFromSMART uni scanned document;
               (device, devices) =
                 (case matchBlockDevice (ms_devices st) candidate of
                    Some i \<Rightarrow> (let d = mergeBlockDevice (ms_devices st ! i) candidate in (d, (ms_devices st)[i := d]))
                  | None \<Rightarrow> (candidate, ms_devices st @ [candidate]))
           in \<lparr>ms_devices = devices,
               ms_health = (if bd_Key device \<in> sh_BlockDeviceKey ` set (ms_health st) then ms_health st
                            else ms_health st @ [storageHealthFromSMART (bd_Key device) document])\<rparr>))"

definition mergeSMARTSamples ::
  "(string \<Rightarrow> string) \<Rightarrow> BlockDevice list \<Rightarrow> smartSample list \<Rightarrow> BlockDevice list \<times> StorageHealth list" where
  "mergeSMARTSamples uni inventory samples =
     (let st = fold (mergeSample uni) samples \<lparr>ms_devices = inventory, ms_health = []\<rparr>
      in (sort_slice bd_Key (ms_devices st), sort_slice sh_BlockDeviceKey (ms_health st)))"

definition smartctlArgs :: "smartDevice \<Rightarrow> string list" where
  "smartctlArgs device =
     [''--all'', ''--json'', ''--nocheck=standby''] @
     (if sd_Type device \<noteq> [] then [''--device='' @ sd_Type device] else []) @ [sd_Name device]"

definition collectStorageHealth ::
  "(string \<Rightarrow> string) \<Rightarrow> (string \<Rightarrow> smartDevice list option) \<Rightarrow> (string \<Rightarrow> smartctlDocument option) \<Rightarrow>
   (string list \<Rightarrow> string) \<Rightarrow> BlockDevice list \<Rightarrow> BlockDevice list \<times> StorageHealth list" where
  "collectStorageHealth uni unmarshal decode smartctl inventory =
     (let devices = parseSMARTScan unmarshal (smartctl [''--scan-open'', ''--json'']) in
      if devices = [] then (inventory, [])
      else mergeSMARTSamples uni inventory
             (map (\<lambda>device. (device, parseSMARTDocument decode (smartctl (smartctlArgs device)))) devices))"

section \<open>Temperatures\<close>

definition readMillidegrees ::
  "(string \<Rightarrow> f64 option) \<Rightarrow> (f64 \<Rightarrow> f64 \<Rightarrow> f64) \<Rightarrow> (string \<rightharpoonup> string) \<Rightarrow> string \<Rightarrow> f64 option" where
  "readMillidegrees ParseFloat fdiv files path =
     (case ParseFloat (readTrimmed files path) of
        None \<Rightarrow> None
      | Some v \<Rightarrow>
          (let value = fdiv v (Fin 1000) in
           if value = NaN \<or> value = PInf \<or> value = NInf \<or> value < absolute_zero \<or> value > Fin 1000 then None
           else Some value))"

definition classifyTemperatureComponent :: "(string \<Rightarrow> string) \<Rightarrow> string \<Rightarrow> string \<Rightarrow> string" where
  "classifyTemperatureComponent uni chipName label =
     (let value = ToLower uni (chipName @ '' '' @ label); any = list_ex (Contains value) in
      if any [''coretemp'', ''k10temp'', ''zenpower'', ''cpu_thermal'', ''package id'', ''tctl'', ''tdie'', ''cpu temp'', ''cpu temperature'']
      then ''cpu''
      else if any [''amdgpu'', ''radeon'', ''nouveau'', ''gpu''] then ''gpu''
      else if any [''nvme'', ''drivetemp'', ''hdd'', ''ssd''] then ''storage''
      else if any [''acpitz'', ''nct'', ''it87'', ''pch'', ''system'', ''motherboard'', ''mainboard'', ''systin''] then ''motherboard''
      else ''other'')"

text \<open>\<open>filepath.Base\<close> of a path that does not end in a separator.\<close>

definition path_base :: "string \<Rightarrow> string" where
  "path_base path = last (splitc CHR ''/'' path)"

definition hwmonSensor ::
  "(string \<Rightarrow> string) \<Rightarrow> (string \<Rightarrow> f64 option) \<Rightarrow> (f64 \<Rightarrow> f64 \<Rightarrow> f64) \<Rightarrow> (string \<rightharpoonup> string) \<Rightarrow>
   string \<Rightarrow> string \<Rightarrow> string \<Rightarrow> TemperatureMetrics option" where
  "hwmonSensor uni ParseFloat fdiv files chip base input =
     (let chipName = readTrimmed files (base @ ''/name''); stem = TrimSuffix (path_base input) ''_input'' in
      case readMillidegrees ParseFloat fdiv files input of
        None \<Rightarrow> None
      | Some temperature \<Rightarrow>
          (let text = readTrimmed files (base @ ''/'' @ stem @ ''_label'');
               label = (if text = [] then TrimSpace (chipName @ '' '' @ TrimPrefix stem ''temp'') else text)
           in Some \<lparr>tm_Key = chip @ '':'' @ stem, tm_Component = classifyTemperatureComponent uni chipName label,
                    tm_Label = label, tm_TemperatureCelsius = temperature,
                    tm_HighCelsius = readMillidegrees ParseFloat fdiv files (base @ ''/'' @ stem @ ''_max''),
                    tm_CriticalCelsius = readMillidegrees ParseFloat fdiv files (base @ ''/'' @ stem @ ''_crit'')\<rparr>))"

definition collectHWMONTemperatures ::
  "(string \<Rightarrow> string) \<Rightarrow> (string \<Rightarrow> f64 option) \<Rightarrow> (f64 \<Rightarrow> f64 \<Rightarrow> f64) \<Rightarrow> (string \<rightharpoonup> string) \<Rightarrow>
   (string \<Rightarrow> string list option) \<Rightarrow> (string \<Rightarrow> string list) \<Rightarrow> string \<Rightarrow> TemperatureMetrics list" where
  "collectHWMONTemperatures uni ParseFloat fdiv files ReadDir Glob dir =
     (case ReadDir dir of
        None \<Rightarrow> []
      | Some chips \<Rightarrow>
          sort_slice tm_Key (concat (map (\<lambda>chip.
            let base = dir @ ''/'' @ chip in
            List.map_filter (hwmonSensor uni ParseFloat fdiv files chip base) (sort (Glob (base @ ''/temp*_input'')))) chips)))"

section \<open>Lemmas\<close>

lemma smartUint_le: "smartUint v = Some n \<Longrightarrow> n \<le> MaxInt64"
  by (auto simp: smartUint_def Let_def split: if_splits option.splits)

lemma TrimSpace_firstNonEmpty [simp]: "TrimSpace (firstNonEmpty vs) = firstNonEmpty vs"
  by (induction vs) auto

lemma orElse_simps [simp]: "orElse None b = b" "orElse (Some v) b = Some v"
  "orElse a b = None \<longleftrightarrow> a = None \<and> b = None"
  by (auto simp: orElse_def)

text \<open>The five values that come from the attribute table.\<close>

definition attributeValues :: "StorageHealth \<Rightarrow> u64 option set" where
  "attributeValues m = {sh_ReadErrorRateNormalized m, sh_ReadErrorRateRaw m, sh_ReallocatedSectors m,
     sh_PendingSectors m, sh_UncorrectableSectors m}"

lemma attributeStep_frame [simp]:
  "sh_BlockDeviceKey (attributeStep a m) = sh_BlockDeviceKey m" "sh_SMARTStatus (attributeStep a m) = sh_SMARTStatus m"
  "sh_TemperatureCelsius (attributeStep a m) = sh_TemperatureCelsius m" "sh_PowerOnHours (attributeStep a m) = sh_PowerOnHours m"
  "sh_ErrorCount (attributeStep a m) = sh_ErrorCount m" "sh_PercentageUsed (attributeStep a m) = sh_PercentageUsed m"
  by (simp_all add: attributeStep_def Let_def)

lemma attributes_frame [simp]:
  "sh_BlockDeviceKey (fold attributeStep as m) = sh_BlockDeviceKey m" "sh_SMARTStatus (fold attributeStep as m) = sh_SMARTStatus m"
  "sh_TemperatureCelsius (fold attributeStep as m) = sh_TemperatureCelsius m"
  "sh_PowerOnHours (fold attributeStep as m) = sh_PowerOnHours m"
  "sh_ErrorCount (fold attributeStep as m) = sh_ErrorCount m" "sh_PercentageUsed (fold attributeStep as m) = sh_PercentageUsed m"
  by (induction as arbitrary: m) simp_all

lemma attributes_bounded:
  "\<forall>v. Some v \<in> attributeValues m \<longrightarrow> v \<le> MaxInt64 \<Longrightarrow>
   \<forall>v. Some v \<in> attributeValues (fold attributeStep as m) \<longrightarrow> v \<le> MaxInt64"
proof (induction as arbitrary: m)
  case (Cons a as)
  have "\<forall>v. Some v \<in> attributeValues (attributeStep a m) \<longrightarrow> v \<le> MaxInt64"
    using Cons.prems by (auto simp: attributeStep_def attributeValues_def Let_def dest: smartUint_le sym)
  then show ?case by (simp add: Cons.IH)
qed simp

lemma healthValues_sel [simp]:
  "sh_BlockDeviceKey (healthValues key document) = key"
  "sh_TemperatureCelsius (healthValues key document) = orElse (doc_NVMeTemperature document) (doc_Temperature document)"
  "sh_PercentageUsed (healthValues key document) = doc_NVMePercentageUsed document"
  "sh_SMARTStatus (healthValues key document) \<in> {''passed'', ''failed'', ''unknown''}"
  by (auto simp: healthValues_def split: option.splits)

text \<open>Everything but the uncorrected SCSI errors fits into a bigint.\<close>

lemma healthValues_bounded:
  "(\<forall>v. Some v \<in> insert (sh_PowerOnHours m) (insert (sh_ErrorCount m) (attributeValues m)) \<longrightarrow> v \<le> MaxInt64) \<longleftrightarrow>
   (\<forall>n. scsiErrors document = Some n \<longrightarrow> n \<le> MaxInt64)" if m: "m = healthValues key document" for m
proof -
  have "\<forall>v. Some v \<in> attributeValues m \<longrightarrow> v \<le> MaxInt64"
    unfolding m healthValues_def by (rule attributes_bounded) (simp add: attributeValues_def)
  moreover have "\<forall>v. sh_PowerOnHours m = Some v \<longrightarrow> v \<le> MaxInt64"
    by (auto simp: m healthValues_def orElse_def dest: smartUint_le split: if_splits)
  moreover have "sh_ErrorCount m = orElse (scsiErrors document)
      (orElse (smartUint (doc_NVMeMediaErrors document)) (smartUint (doc_ATAErrorCount document)))"
    by (simp add: m healthValues_def)
  moreover have "\<forall>v. orElse (smartUint (doc_NVMeMediaErrors document)) (smartUint (doc_ATAErrorCount document)) = Some v \<longrightarrow> v \<le> MaxInt64"
    by (auto simp: orElse_def dest: smartUint_le split: if_splits)
  ultimately show ?thesis
    by (cases "scsiErrors document") (auto simp: dest: sym)
qed

text \<open>The reasons of the rules are distinct and known to the server.\<close>

abbreviation reasonOf :: "bool \<times> bool \<times> string \<Rightarrow> string" where
  "reasonOf rule \<equiv> snd (snd rule)"

definition criticalReasons :: "string set" where
  "criticalReasons = {''smart_failed'', ''prefail_attribute'', ''nvme_critical_warning'', ''pending_sectors'',
     ''uncorrectable_sectors'', ''wear_exhausted''}"

lemma riskRules_reasons:
  "distinct (map reasonOf (riskRules document m))" "set (map reasonOf (riskRules document m)) \<subseteq> knownRiskReasons"
  "rule \<in> set (riskRules document m) \<Longrightarrow> fst (snd rule) \<longleftrightarrow> reasonOf rule \<in> criticalReasons"
  by (auto simp: riskRules_def knownRiskReasons_def criticalReasons_def split: option.splits)

lemma level_cases:
  "(if list_ex (\<lambda>(_, c, _). c) rs then a else if list_ex (\<lambda>(_, c, _). \<not> c) rs then b else x) =
   (if \<exists>r \<in> set rs. fst (snd r) then a else if rs \<noteq> [] then b else x)"
proof -
  have "list_ex (\<lambda>(_, c, _). c) rs \<longleftrightarrow> (\<exists>r \<in> set rs. fst (snd r))"
    "list_ex (\<lambda>(_, c, _). \<not> c) rs \<longleftrightarrow> (\<exists>r \<in> set rs. \<not> fst (snd r))"
    by (simp_all add: list_ex_iff case_prod_beta)
  then show ?thesis by (cases rs) auto
qed

lemma reasonOf_eq: "(\<lambda>(_, _, reason). reason) = reasonOf"
  by (simp add: fun_eq_iff)

lemma health_sel:
  "sh_RiskReasons (storageHealthFromSMART key document) =
     sort (map reasonOf (filter fst (riskRules document (healthValues key document))))"
  "sh_RiskLevel (storageHealthFromSMART key document) =
     (let raised = filter fst (riskRules document (healthValues key document)) in
      if \<exists>r \<in> set raised. fst (snd r) then ''critical'' else if raised \<noteq> [] then ''warning''
      else if sh_SMARTStatus (healthValues key document) = ''passed'' then ''healthy'' else ''unknown'')"
  by (simp_all add: storageHealthFromSMART_def Let_def level_cases reasonOf_eq)

lemma health_frame [simp]:
  "sh_BlockDeviceKey (storageHealthFromSMART key document) = key"
  "sh_SMARTStatus (storageHealthFromSMART key document) = sh_SMARTStatus (healthValues key document)"
  "sh_TemperatureCelsius (storageHealthFromSMART key document) = orElse (doc_NVMeTemperature document) (doc_Temperature document)"
  "sh_PercentageUsed (storageHealthFromSMART key document) = doc_NVMePercentageUsed document"
  "sh_PowerOnHours (storageHealthFromSMART key document) = sh_PowerOnHours (healthValues key document)"
  "sh_ErrorCount (storageHealthFromSMART key document) = sh_ErrorCount (healthValues key document)"
  "attributeValues (storageHealthFromSMART key document) = attributeValues (healthValues key document)"
  by (simp_all add: storageHealthFromSMART_def Let_def attributeValues_def)

lemma reasons_known:
  "distinct (sh_RiskReasons (storageHealthFromSMART key document)) \<and>
   set (sh_RiskReasons (storageHealthFromSMART key document)) \<subseteq> knownRiskReasons"
proof -
  let ?rules = "riskRules document (healthValues key document)"
  have "distinct (map reasonOf (filter fst ?rules))"
    using riskRules_reasons(1) by (rule distinct_map_filter)
  then show ?thesis using riskRules_reasons(2) [of document "healthValues key document"] by (auto simp: health_sel(1))
qed

lemma matchBlockDevice_Some:
  "matchBlockDevice devices candidate = Some i \<Longrightarrow> i < length devices \<and> matches candidate (devices ! i)"
  by (auto simp: matchBlockDevice_def find_Some_iff)

lemma matchBlockDevice_None:
  "matchBlockDevice devices candidate = None \<longleftrightarrow> (\<forall>d \<in> set devices. \<not> matches candidate d)"
  by (auto simp: matchBlockDevice_def find_None_iff all_set_conv_all_nth)

lemma mergeBlockDevice_key [simp]: "bd_Key (mergeBlockDevice target source) = bd_Key target"
  by (simp add: mergeBlockDevice_def)

lemma update_own_key: "i < length xs \<Longrightarrow> (map f xs)[i := f (xs ! i)] = map f xs"
  by (metis list_update_id nth_map)

text \<open>What holds while the samples are merged into an inventory.\<close>

definition merging :: "BlockDevice list \<Rightarrow> smartSample list \<Rightarrow> merge_state \<Rightarrow> bool" where
  "merging inventory samples st \<longleftrightarrow>
     prefix (map bd_Key inventory) (map bd_Key (ms_devices st)) \<and>
     length (ms_devices st) \<le> length inventory + length samples \<and>
     distinct (map sh_BlockDeviceKey (ms_health st)) \<and>
     sh_BlockDeviceKey ` set (ms_health st) \<subseteq> bd_Key ` set (ms_devices st) \<and>
     (\<forall>h \<in> set (ms_health st). \<exists>scanned document. (scanned, Some document) \<in> set samples \<and>
        h = storageHealthFromSMART (sh_BlockDeviceKey h) document)"

lemma merging_step:
  assumes "merging inventory samples st"
  shows "merging inventory (samples @ [sample]) (mergeSample uni sample st)"
proof -
  obtain scanned r where sample: "sample = (scanned, r)" by (cases sample)
  show ?thesis
  proof (cases r)
    case None
    then show ?thesis using assms sample by (auto simp: merging_def mergeSample_def)
  next
    case (Some document)
    let ?c = "blockDeviceFromSMART uni scanned document"
    define device devices where "device = (case matchBlockDevice (ms_devices st) ?c of
        Some i \<Rightarrow> mergeBlockDevice (ms_devices st ! i) ?c | None \<Rightarrow> ?c)"
      and "devices = (case matchBlockDevice (ms_devices st) ?c of
        Some i \<Rightarrow> (ms_devices st)[i := mergeBlockDevice (ms_devices st ! i) ?c] | None \<Rightarrow> ms_devices st @ [?c])"
    have st': "mergeSample uni sample st = \<lparr>ms_devices = devices,
        ms_health = (if bd_Key device \<in> sh_BlockDeviceKey ` set (ms_health st) then ms_health st
                     else ms_health st @ [storageHealthFromSMART (bd_Key device) document])\<rparr>"
      by (auto simp: mergeSample_def sample Some device_def devices_def Let_def split: option.splits)
    have keys: "prefix (map bd_Key (ms_devices st)) (map bd_Key devices)" "bd_Key device \<in> bd_Key ` set devices"
      "length devices \<le> Suc (length (ms_devices st))"
      using matchBlockDevice_Some [of "ms_devices st" ?c]
      by (auto simp: devices_def device_def map_update update_own_key set_update_memI split: option.splits
          intro!: rev_image_eqI)
    let ?h = "ms_health st" and ?new = "storageHealthFromSMART (bd_Key device) document"
    have sub: "bd_Key ` set (ms_devices st) \<subseteq> bd_Key ` set devices"
      using keys(1) by (metis list.set_map set_mono_prefix)
    have inv: "prefix (map bd_Key inventory) (map bd_Key devices)"
      using assms keys(1) by (auto simp: merging_def intro: prefix_order.trans)
    have len: "length devices \<le> length inventory + length (samples @ [sample])"
      using assms keys(3) by (simp add: merging_def)
    have old: "\<forall>h \<in> set ?h. \<exists>scanned document. (scanned, Some document) \<in> set (samples @ [sample]) \<and>
        h = storageHealthFromSMART (sh_BlockDeviceKey h) document"
      using assms unfolding merging_def by fastforce
    have new: "\<exists>scanned document. (scanned, Some document) \<in> set (samples @ [sample]) \<and>
        ?new = storageHealthFromSMART (sh_BlockDeviceKey ?new) document"
      using sample Some by auto
    have hk: "distinct (map sh_BlockDeviceKey ?h)" "sh_BlockDeviceKey ` set ?h \<subseteq> bd_Key ` set devices"
      using assms sub unfolding merging_def by (blast, meson subset_trans)
    show ?thesis
    proof (cases "bd_Key device \<in> sh_BlockDeviceKey ` set ?h")
      case True
      then show ?thesis unfolding merging_def st' using inv len old hk by simp
    next
      case False
      then have "distinct (map sh_BlockDeviceKey (?h @ [?new]))" using hk(1) by simp
      moreover have "sh_BlockDeviceKey ` set (?h @ [?new]) \<subseteq> bd_Key ` set devices" using hk(2) keys(2) by simp
      ultimately show ?thesis unfolding merging_def st' using False inv len old new by simp
    qed
  qed
qed

lemma merging_fold: "merging inventory samples (fold (mergeSample uni) samples \<lparr>ms_devices = inventory, ms_health = []\<rparr>)"
proof (induction samples rule: rev_induct)
  case (snoc sample samples)
  then show ?case using merging_step by simp
qed (simp add: merging_def)

lemma merge_single_new:
  assumes "\<forall>d \<in> set inventory. \<not> matches (blockDeviceFromSMART uni scanned document) d"
  shows "fst (mergeSMARTSamples uni inventory [(scanned, Some document)]) =
    sort_slice bd_Key (inventory @ [blockDeviceFromSMART uni scanned document])"
  using assms by (simp add: mergeSMARTSamples_def mergeSample_def matchBlockDevice_None [THEN iffD2] Let_def)

lemma millidegrees_ok: "optTemperatureOK (readMillidegrees ParseFloat fdiv files path)"
proof (cases "ParseFloat (readTrimmed files path)")
  case (Some v)
  then show ?thesis
    by (cases "fdiv v (Fin 1000)")
      (auto simp: readMillidegrees_def optTemperatureOK_def validTemperature_def absolute_zero_def)
qed (simp add: readMillidegrees_def optTemperatureOK_def)

lemma component_known:
  "classifyTemperatureComponent uni chipName label \<in> {''cpu'', ''motherboard'', ''gpu'', ''storage'', ''other''}"
  by (simp add: classifyTemperatureComponent_def Let_def)

lemma hwmon_sensor_ok:
  assumes "hwmonSensor uni ParseFloat fdiv files chip base input = Some m"
  shows "checkTemperature m = None \<longleftrightarrow> tm_Label m \<noteq> []"
proof -
  have trimmed: "TrimSpace (tm_Label m) = tm_Label m"
    using assms by (auto simp: hwmonSensor_def readTrimmed_def Let_def split: option.splits if_splits)
  have sel: "readMillidegrees ParseFloat fdiv files input = Some (tm_TemperatureCelsius m)"
    "\<exists>path. tm_HighCelsius m = readMillidegrees ParseFloat fdiv files path"
    "\<exists>path. tm_CriticalCelsius m = readMillidegrees ParseFloat fdiv files path"
    "\<exists>name. tm_Component m = classifyTemperatureComponent uni name (tm_Label m)"
    using assms by (auto simp: hwmonSensor_def Let_def split: option.splits)
  then have "optTemperatureOK (Some (tm_TemperatureCelsius m))" "optTemperatureOK (tm_HighCelsius m)" "optTemperatureOK (tm_CriticalCelsius m)"
    "tm_Component m \<in> {''cpu'', ''motherboard'', ''gpu'', ''storage'', ''other''}"
    using millidegrees_ok component_known by (metis, metis, metis, metis)
  then show ?thesis
    using trimmed by (simp add: checkTemperature_def go_err blank_def optTemperatureOK_def)
qed

section \<open>A concrete disk\<close>

definition sampleDocument :: smartctlDocument where
  "sampleDocument = \<lparr>doc_ExitStatus = 64, doc_Device = \<lparr>sd_Name = ''/dev/bus/0'', sd_InfoName = [], sd_Type = ''megaraid,4'', sd_Protocol = ''SCSI''\<rparr>,
     doc_ModelName = ''Disk'', doc_SerialNumber = ''S1 '', doc_SCSIVendor = [], doc_SCSIProduct = [], doc_SCSIModelName = [],
     doc_LogicalUnitID = [], doc_RotationRate = None, doc_UserCapacity = ''1000'', doc_SMARTAvailable = True, doc_SMARTEnabled = True,
     doc_SMARTPassed = Some True, doc_Temperature = Some (Fin 41), doc_PowerOnHours = ''12'', doc_ATAAttributes =
       [\<lparr>at_ID = 5, at_Value = ''99'', at_RawValue = ''3''\<rparr>], doc_ATAErrorCount = [], doc_NVMeCriticalWarning = [],
     doc_NVMeTemperature = None, doc_NVMePercentageUsed = None, doc_NVMeMediaErrors = [], doc_NVMePowerOnHours = [],
     doc_SCSIErrorsRead = ''9223372036854775807'', doc_SCSIErrorsWrite = ''1'', doc_SCSIErrorsVerify = []\<rparr>"

definition sampleDisk :: BlockDevice where
  "sampleDisk = \<lparr>bd_Key = ''S1'', bd_DeviceName = ''/dev/sda'', bd_DeviceKind = ''disk'', bd_Vendor = [], bd_ModelName = [],
     bd_SerialNumber = ''S1'', bd_WWN = [], bd_SizeBytes = 1000, bd_Rotational = None, bd_Protocol = [],
     bd_SMARTDeviceType = [], bd_RAIDPassthrough = False\<rparr>"

section \<open>Properties\<close>

text \<open>
  C32: The assessment of a disk: the level is critical exactly when a critical reason is listed, a
  warning exactly when there are reasons and none of them is critical, healthy exactly when there is
  no reason and the disk passed its self-assessment, and unknown otherwise; the reasons are sorted,
  distinct and all known to the server.
\<close>

theorem risk_assessment:
  "let h = storageHealthFromSMART key document; reasons = sh_RiskReasons h in
     sorted reasons \<and> distinct reasons \<and> set reasons \<subseteq> knownRiskReasons \<and>
     sh_RiskLevel h =
       (if set reasons \<inter> criticalReasons \<noteq> {} then ''critical'' else if reasons \<noteq> [] then ''warning''
        else if sh_SMARTStatus h = ''passed'' then ''healthy'' else ''unknown'')"
proof -
  let ?rules = "riskRules document (healthValues key document)"
  let ?raised = "filter fst ?rules"
  have crit: "(\<exists>r \<in> set ?raised. fst (snd r)) \<longleftrightarrow> set (map reasonOf ?raised) \<inter> criticalReasons \<noteq> {}"
    using riskRules_reasons(3) [of _ document "healthValues key document"] by fastforce
  have "sh_RiskLevel (storageHealthFromSMART key document) =
       (if set (map reasonOf ?raised) \<inter> criticalReasons \<noteq> {} then ''critical'' else if map reasonOf ?raised \<noteq> [] then ''warning''
        else if sh_SMARTStatus (healthValues key document) = ''passed'' then ''healthy'' else ''unknown'')"
    unfolding health_sel(2) Let_def crit map_is_Nil_conv ..
  moreover have "set (sh_RiskReasons (storageHealthFromSMART key document)) = set (map reasonOf ?raised)"
    "sh_RiskReasons (storageHealthFromSMART key document) = [] \<longleftrightarrow> map reasonOf ?raised = []"
    "sorted (sh_RiskReasons (storageHealthFromSMART key document))"
    unfolding health_sel(1) by (auto simp flip: set_empty2)
  ultimately show ?thesis using reasons_known [of key document] unfolding Let_def health_frame(2) by simp
qed

text \<open>
  C33: What the server makes of the collected health of a disk: it is accepted exactly when the disk
  is in the inventory, its temperature is physically possible, its wear is at most 255 percent and the
  sum of its uncorrected SCSI errors fits into a signed 64-bit integer. The agent bounds each counter but not their
  sum, and it checks neither temperature nor wear, so that one disk with such a value makes the
  server refuse the whole report.
\<close>

theorem health_accepted:
  "checkStorageHealth keys (storageHealthFromSMART key document) = None \<longleftrightarrow>
     key \<in> keys \<and> optTemperatureOK (orElse (doc_NVMeTemperature document) (doc_Temperature document)) \<and>
     percentageUsedOK (doc_NVMePercentageUsed document) \<and>
     (case scsiErrors document of None \<Rightarrow> True | Some n \<Rightarrow> n \<le> MaxInt64)"
proof -
  let ?h = "storageHealthFromSMART key document"
  have level: "sh_RiskLevel ?h \<in> {''healthy'', ''warning'', ''critical'', ''unknown''}"
    by (simp add: health_sel(2) Let_def)
  have big: "validateOptionalUnsignedBigints
        [sh_PowerOnHours ?h, sh_ErrorCount ?h, sh_ReadErrorRateNormalized ?h,
         sh_ReadErrorRateRaw ?h, sh_ReallocatedSectors ?h, sh_PendingSectors ?h, sh_UncorrectableSectors ?h] = None \<longleftrightarrow>
      (case scsiErrors document of None \<Rightarrow> True | Some n \<Rightarrow> n \<le> MaxInt64)"
    using healthValues_bounded [OF refl, of key document] health_frame(5-7) [of key document]
    unfolding validateOptionalUnsignedBigints_None attributeValues_def
    by (auto split: option.splits)
  have short: "length (sh_RiskReasons ?h) \<le> 32"
    using known_reasons_short [of "sh_RiskReasons ?h"] reasons_known [of key document] by auto
  show ?thesis
    using reasons_known [of key document] level short big healthValues_sel(4) [of key document]
    unfolding checkStorageHealth_def Let_def
    by (simp add: go_err)
qed

theorem health_accepted_witness:
  "checkStorageHealth {''S1''} (storageHealthFromSMART ''S1'' sampleDocument) \<noteq> None"
proof -
  have "scsiErrors sampleDocument = Some 9223372036854775808" by code_simp
  then show ?thesis using health_accepted [of "{''S1''}" "''S1''" sampleDocument] by (simp add: MaxInt64_def)
qed

text \<open>
  Merging the SMART data into the block devices keeps the report consistent: every device of the
  inventory keeps its key, at most one device is added per sample, every health entry is the
  assessment of a sample that could be read and belongs to a device of the result, no device has two, and
  both lists are sorted by key.
\<close>

theorem mergeSMART_consistent:
  assumes "mergeSMARTSamples uni inventory samples = (devices, health)"
  shows "set (map bd_Key inventory) \<subseteq> set (map bd_Key devices) \<and>
    length inventory \<le> length devices \<and> length devices \<le> length inventory + length samples \<and>
    sorted (map bd_Key devices) \<and> sorted (map sh_BlockDeviceKey health) \<and>
    distinct (map sh_BlockDeviceKey health) \<and> set (map sh_BlockDeviceKey health) \<subseteq> set (map bd_Key devices) \<and>
    (\<forall>h \<in> set health. \<exists>scanned document. (scanned, Some document) \<in> set samples \<and>
       h = storageHealthFromSMART (sh_BlockDeviceKey h) document)"
proof -
  define st where "st = fold (mergeSample uni) samples \<lparr>ms_devices = inventory, ms_health = []\<rparr>"
  have out: "devices = sort_slice bd_Key (ms_devices st)" "health = sort_slice sh_BlockDeviceKey (ms_health st)"
    using assms by (auto simp: mergeSMARTSamples_def st_def Let_def)
  have M: "merging inventory samples st" unfolding st_def by (rule merging_fold)
  then have p: "prefix (map bd_Key inventory) (map bd_Key (ms_devices st))" by (simp add: merging_def)
  have "length inventory \<le> length (ms_devices st)" using prefix_length_le [OF p] by simp
  moreover have "set (map bd_Key inventory) \<subseteq> set (map bd_Key (ms_devices st))" by (rule set_mono_prefix [OF p])
  moreover note M [unfolded merging_def]
  ultimately show ?thesis by (simp add: out)
qed

theorem mergeSMART_consistent_witness:
  "let (devices, health) = mergeSMARTSamples (\<lambda>x. x) [sampleDisk] [(doc_Device sampleDocument, Some sampleDocument)]
   in 1 \<le> length devices \<and> length devices \<le> 2 \<and> distinct (map sh_BlockDeviceKey health)"
  using mergeSMART_consistent [OF surjective_pairing, where uni = "\<lambda>x. x" and inventory = "[sampleDisk]"
      and samples = "[(doc_Device sampleDocument, Some sampleDocument)]"]
  by (auto simp: case_prod_beta)

text \<open>
  A serial number with blanks around it makes the server refuse the report. The key of a device
  is its trimmed serial number, but devices are matched by the serial number as smartctl gives it, so that a
  disk whose trimmed serial number is already a key and that matches no device otherwise is added
  under a key that is taken.
\<close>

theorem untrimmed_serial_refused:
  assumes "e \<in> set inventory" and "TrimSpace (doc_SerialNumber document) = bd_Key e" and "bd_Key e \<noteq> []"
    and "\<forall>d \<in> set inventory. \<not> matches (blockDeviceFromSMART uni scanned document) d"
  shows "validateInventory (iv\<lparr>inv_BlockDevices := fst (mergeSMARTSamples uni inventory [(scanned, Some document)])\<rparr>) \<noteq> None"
proof -
  let ?c = "blockDeviceFromSMART uni scanned document"
  have "bd_Key ?c = bd_Key e" using assms(2,3) by (simp add: blockDeviceFromSMART_def Let_def)
  then have "\<not> distinct (map bd_Key (inventory @ [?c]))" using assms(1) by auto
  then have "\<not> distinct (map bd_Key (fst (mergeSMARTSamples uni inventory [(scanned, Some document)])))"
    unfolding merge_single_new [OF assms(4)] using distinct_map_sort_slice by blast
  then show ?thesis
    using keys_ok_distinct by (auto simp: validateInventory_iff inventory_ok_def)
qed

theorem untrimmed_serial_refused_witness:
  "validateInventory (sampleInventory\<lparr>inv_BlockDevices :=
     fst (mergeSMARTSamples (\<lambda>x. x) [sampleDisk] [(doc_Device sampleDocument, Some sampleDocument)])\<rparr>) \<noteq> None"
proof -
  have "TrimSpace (doc_SerialNumber sampleDocument) = bd_Key sampleDisk"
    "\<not> matches (blockDeviceFromSMART (\<lambda>x. x) (doc_Device sampleDocument) sampleDocument) sampleDisk"
    by code_simp+
  then show ?thesis
    using untrimmed_serial_refused [of sampleDisk "[sampleDisk]" sampleDocument "\<lambda>x. x" "doc_Device sampleDocument" sampleInventory]
    by (simp add: sampleDisk_def)
qed

end
