(* ===== verification/Agent_Inventory.thy ===== *)
theory Agent_Inventory
  imports Agent_Health "HOL-Library.AList"
begin

text \<open>
  The hardware inventory of the Linux agent (src/internal/agent/collector.go): CPU packages, memory
  modules from dmidecode, block devices, filesystems, NVIDIA GPUs and the name of the system.

  What package gopsutil, the kernel's files and the external programs return is an argument, as are
  the reader of package encoding/csv, the case tables of package unicode and \<open>strconv.ParseFloat\<close>.
\<close>

section \<open>The system\<close>

definition classifyMachineType :: "string \<Rightarrow> string" where
  "classifyMachineType virtualizationRole =
     (if EqualFold (TrimSpace virtualizationRole) ''guest'' then ''virtual'' else ''physical'')"

definition cleanDMIValue :: "(string \<Rightarrow> string) \<Rightarrow> string \<Rightarrow> string" where
  "cleanDMIValue uni value =
     (let value = TrimSpace value in
      if ToLower uni value \<in> {[], ''unknown'', ''not specified'', ''no module installed'', ''none'', ''to be filled by o.e.m.''}
      then [] else value)"

definition formatSystemModel :: "(string \<Rightarrow> string) \<Rightarrow> string \<Rightarrow> string \<Rightarrow> string" where
  "formatSystemModel uni productName productSKU =
     (let productName = cleanDMIValue uni productName; productSKU = cleanDMIValue uni productSKU in
      if productName = [] then [] else if productSKU = [] then productName
      else productName @ '' -['' @ productSKU @ '']-'')"

definition collectSystemModel :: "(string \<Rightarrow> string) \<Rightarrow> (string \<rightharpoonup> string) \<Rightarrow> string \<Rightarrow> string" where
  "collectSystemModel uni files virtualizationRole =
     (if classifyMachineType virtualizationRole \<noteq> ''physical'' then []
      else formatSystemModel uni (readTrimmed files ''/sys/class/dmi/id/product_name'')
             (readTrimmed files ''/sys/class/dmi/id/product_sku''))"

section \<open>CPU packages\<close>

record cpuInfo =
  ci_PhysicalID :: string
  ci_VendorID :: string
  ci_ModelName :: string
  ci_Cores :: int
  ci_Mhz :: f64

record aggregate =
  ag_vendor :: string
  ag_model :: string
  ag_cores :: int
  ag_threads :: int
  ag_mhz :: f64

definition groupKey :: "cpuInfo \<Rightarrow> string" where
  "groupKey item = (let key = TrimSpace (ci_PhysicalID item) in if key = [] then ''0'' else key)"

definition addProcessor :: "cpuInfo \<Rightarrow> (string \<times> aggregate) list \<Rightarrow> (string \<times> aggregate) list" where
  "addProcessor item groups =
     (let key = groupKey item;
          grp = (case map_of groups key of
                     None \<Rightarrow> \<lparr>ag_vendor = ci_VendorID item, ag_model = ci_ModelName item, ag_cores = 0, ag_threads = 0, ag_mhz = Fin 0\<rparr>
                   | Some grp \<Rightarrow> grp)
      in AList.update key (grp\<lparr>ag_threads := ag_threads grp + 1,
           ag_cores := (if ci_Cores item > ag_cores grp then ci_Cores item else ag_cores grp),
           ag_mhz := (if ci_Mhz item > ag_mhz grp then ci_Mhz item else ag_mhz grp)\<rparr>) groups)"

definition cpuPackage :: "nat \<Rightarrow> string \<Rightarrow> aggregate \<Rightarrow> CPUPackage" where
  "cpuPackage index key grp =
     (let cores = (if ag_cores grp < 1 then ag_threads grp else ag_cores grp);
          threads = (if ag_threads grp < cores then cores else ag_threads grp);
          model = TrimSpace (ag_model grp)
      in \<lparr>cpu_Key = ''cpu-package-'' @ key, cpu_PackageIndex = int index, cpu_Vendor = TrimSpace (ag_vendor grp),
          cpu_ModelName = (if model = [] then ''unknown'' else model), cpu_PhysicalCores = cores, cpu_LogicalThreads = threads,
          cpu_PerformanceCores = 0, cpu_EfficiencyCores = 0, cpu_MaxFrequencyMHz = ag_mhz grp\<rparr>)"

text \<open>\<^const>\<open>None\<close> is an error of gopsutil, or that it found no package.\<close>

definition collectCPUInventory :: "cpuInfo list option \<Rightarrow> CPUPackage list option" where
  "collectCPUInventory info =
     (case info of
        None \<Rightarrow> None
      | Some items \<Rightarrow>
          (let groups = fold addProcessor items []; keys = sort (map fst groups);
               result = map (\<lambda>(index, key). cpuPackage index key (the (map_of groups key))) (enumerate 0 keys)
           in if result = [] then None else Some result))"

section \<open>Memory modules\<close>

text \<open>\<open>strings.Split\<close> at a separator that is not empty.\<close>

function split_str :: "string \<Rightarrow> string \<Rightarrow> string \<Rightarrow> string list" where
  "split_str sep acc s =
     (if s = [] then [acc]
      else if sep \<noteq> [] \<and> prefix sep s then acc # split_str sep [] (drop (length sep) s)
      else split_str sep (acc @ [hd s]) (tl s))"
  by pat_completeness auto
termination
  by (relation "measure (\<lambda>(sep, acc, s). length s)") auto

declare split_str.simps [simp del]

definition dmiFields :: "string \<Rightarrow> string \<Rightarrow> string" where
  "dmiFields sect key =
     (case map_of (rev (List.map_filter (\<lambda>line. map_option (\<lambda>(k, v). (TrimSpace k, TrimSpace v)) (Cut CHR '':'' (TrimSpace line)))
             (fst (scan_lines sect)))) key of
        None \<Rightarrow> [] | Some v \<Rightarrow> v)"

text \<open>The units are compared in upper case; no other rune has one of their letters as its upper case.\<close>

definition upper_byte :: "char \<Rightarrow> char" where
  "upper_byte c = (if CHR ''a'' \<le> c \<and> c \<le> CHR ''z'' then char_of (of_char c - 32 :: nat) else c)"

definition parseMemorySize :: "string \<Rightarrow> u64" where
  "parseMemorySize value =
     (let parts = Fields value in
      if length parts < 2 then 0
      else case ParseUint (parts ! 0) of
             None \<Rightarrow> 0
           | Some amount \<Rightarrow>
               (let u = map upper_byte (parts ! 1) in
                if u = ''KB'' then amount * 1024
                else if u = ''MB'' then amount * 1024 * 1024
                else if u = ''GB'' then amount * 1024 * 1024 * 1024
                else if u = ''TB'' then amount * 1024 * 1024 * 1024 * 1024
                else 0))"

definition parseLeadingInt :: "string \<Rightarrow> int" where
  "parseLeadingInt value = (let parts = Fields value in if parts = [] then 0 else fst (Atoi (parts ! 0)))"

definition memoryModule :: "(string \<Rightarrow> string) \<Rightarrow> nat \<Rightarrow> (string \<Rightarrow> string) \<Rightarrow> MemoryModule option" where
  "memoryModule uni found fld =
     (if parseMemorySize (fld ''Size'') = 0 then None
      else let slot = fld ''Locator'';
               key = (if slot \<noteq> [] then slot
                      else if fld ''Bank Locator'' \<noteq> [] then fld ''Bank Locator'' else ''memory-'' @ Itoa found);
               configured = parseLeadingInt (fld ''Configured Memory Speed'');
               speed = (if configured = 0 then parseLeadingInt (fld ''Speed'') else configured)
           in Some \<lparr>mm_Key = key, mm_SlotName = slot, mm_Manufacturer = cleanDMIValue uni (fld ''Manufacturer''),
                mm_ModelName = cleanDMIValue uni (fld ''Part Number''), mm_PartNumber = cleanDMIValue uni (fld ''Part Number''),
                mm_SerialNumber = cleanDMIValue uni (fld ''Serial Number''), mm_MemoryType = cleanDMIValue uni (fld ''Type''),
                mm_SizeBytes = parseMemorySize (fld ''Size''), mm_SpeedMTs = speed\<rparr>)"

definition parseDMIMemoryModules :: "(string \<Rightarrow> string) \<Rightarrow> string \<Rightarrow> MemoryModule list" where
  "parseDMIMemoryModules uni out =
     fold (\<lambda>sect result. case memoryModule uni (length result) (dmiFields sect) of
                              None \<Rightarrow> result | Some m \<Rightarrow> result @ [m])
       (tl (split_str ''Memory Device'' [] out)) []"

text \<open>dmidecode missing or failing gives no modules.\<close>

definition collectMemoryModules :: "(string \<Rightarrow> string) \<Rightarrow> string option \<Rightarrow> MemoryModule list" where
  "collectMemoryModules uni dmidecode = (case dmidecode of None \<Rightarrow> [] | Some out \<Rightarrow> parseDMIMemoryModules uni out)"

section \<open>Block devices\<close>

definition fallbackBlockModel :: "string \<Rightarrow> string \<Rightarrow> string" where
  "fallbackBlockModel name vendor =
     (let vendor = TrimSpace vendor in
      if EqualFold vendor ''0x1af4'' then ''Virtio Block Device ('' @ name @ '')''
      else if vendor \<noteq> [] then vendor @ '' Block Device ('' @ name @ '')''
      else ''Block Device ('' @ name @ '')'')"

definition blockDeviceKind :: "string \<Rightarrow> string" where
  "blockDeviceKind name =
     (if prefix ''md'' name then ''raid'' else if prefix ''dm-'' name then ''virtual''
      else if prefix ''mpath'' name then ''multipath'' else ''disk'')"

definition blockDevice :: "(string \<rightharpoonup> string) \<Rightarrow> string \<Rightarrow> BlockDevice" where
  "blockDevice files name =
     (let base = ''/sys/block/'' @ name;
          sizeSectors = ParseUint_value (readTrimmed files (base @ ''/size''));
          rotationalValue = readTrimmed files (base @ ''/queue/rotational'');
          serial = readTrimmed files (base @ ''/device/serial'');
          wwn = readTrimmed files (base @ ''/device/wwid'');
          vendor = readTrimmed files (base @ ''/device/vendor'');
          model = readTrimmed files (base @ ''/device/model'')
      in \<lparr>bd_Key = firstNonEmpty [serial, wwn, name], bd_DeviceName = ''/dev/'' @ name, bd_DeviceKind = blockDeviceKind name,
          bd_Vendor = vendor, bd_ModelName = (if model = [] then fallbackBlockModel name vendor else model),
          bd_SerialNumber = serial, bd_WWN = wwn, bd_SizeBytes = sizeSectors * 512,
          bd_Rotational = (if rotationalValue = ''0'' \<or> rotationalValue = ''1'' then Some (rotationalValue = ''1'') else None),
          bd_Protocol = [], bd_SMARTDeviceType = [], bd_RAIDPassthrough = False\<rparr>)"

definition collectBlockDevices :: "(string \<rightharpoonup> string) \<Rightarrow> string list option \<Rightarrow> BlockDevice list option" where
  "collectBlockDevices files entries =
     map_option (\<lambda>names. sort_slice bd_Key (map (blockDevice files)
       (filter (\<lambda>name. \<not> (prefix ''loop'' name \<or> prefix ''ram'' name \<or> prefix ''fd'' name \<or> prefix ''sr'' name)) names))) entries"

section \<open>Filesystems\<close>

record partition =
  pt_Device :: string
  pt_Mountpoint :: string
  pt_Fstype :: string
  pt_Opts :: "string list"

record usageStat =
  us_Total :: u64
  us_Used :: u64
  us_Free :: u64
  us_InodesTotal :: u64
  us_InodesUsed :: u64

text \<open>A later link to the same device replaces an earlier one.\<close>

definition filesystemUUIDs :: "(string \<Rightarrow> string option) \<Rightarrow> string list \<Rightarrow> string \<rightharpoonup> string" where
  "filesystemUUIDs EvalSymlinks paths =
     fold (\<lambda>path m. case EvalSymlinks path of None \<Rightarrow> m | Some device \<Rightarrow> m(device \<mapsto> path_base path)) paths Map.empty"

definition canonicalDevice :: "(string \<Rightarrow> string option) \<Rightarrow> string \<Rightarrow> string" where
  "canonicalDevice EvalSymlinks device = (case EvalSymlinks device of None \<Rightarrow> device | Some resolved \<Rightarrow> resolved)"

definition partitionUUID :: "(string \<Rightarrow> string option) \<Rightarrow> (string \<rightharpoonup> string) \<Rightarrow> partition \<Rightarrow> string" where
  "partitionUUID EvalSymlinks uuidByDevice p =
     (case uuidByDevice (canonicalDevice EvalSymlinks (pt_Device p)) of None \<Rightarrow> [] | Some uuid \<Rightarrow> uuid)"

definition partitionKey :: "(string \<Rightarrow> string option) \<Rightarrow> (string \<rightharpoonup> string) \<Rightarrow> partition \<Rightarrow> string" where
  "partitionKey EvalSymlinks uuidByDevice p =
     (let uuid = partitionUUID EvalSymlinks uuidByDevice p in
      if uuid = [] then pt_Device p @ ''|'' @ pt_Mountpoint p else uuid)"

text \<open>The loop, with the mount points and the keys seen so far.\<close>

fun filesystemLoop ::
  "(string \<Rightarrow> string option) \<Rightarrow> (string \<rightharpoonup> string) \<Rightarrow> (string \<Rightarrow> usageStat option) \<Rightarrow> string list \<Rightarrow> string list \<Rightarrow>
   partition list \<Rightarrow> (Filesystem \<times> FilesystemMetrics) list" where
  "filesystemLoop EvalSymlinks uuids usageFor mounts keys [] = []"
| "filesystemLoop EvalSymlinks uuids usageFor mounts keys (p # ps) =
     (let key = partitionKey EvalSymlinks uuids p in
      if pt_Mountpoint p \<in> set mounts \<or> key \<in> set keys then filesystemLoop EvalSymlinks uuids usageFor mounts keys ps
      else case usageFor (pt_Mountpoint p) of
             None \<Rightarrow> filesystemLoop EvalSymlinks uuids usageFor mounts keys ps
           | Some usage \<Rightarrow>
               (\<lparr>fs_Key = key, fs_UUID = partitionUUID EvalSymlinks uuids p, fs_DeviceName = pt_Device p,
                 fs_FilesystemType = pt_Fstype p, fs_MountPoint = pt_Mountpoint p, fs_MountOptions = pt_Opts p\<rparr>,
                \<lparr>fm_FilesystemKey = key, fm_TotalBytes = us_Total usage, fm_UsedBytes = us_Used usage,
                 fm_AvailableBytes = us_Free usage, fm_TotalInodes = us_InodesTotal usage, fm_UsedInodes = us_InodesUsed usage\<rparr>)
               # filesystemLoop EvalSymlinks uuids usageFor (pt_Mountpoint p # mounts) (key # keys) ps)"

definition collectFilesystemStats ::
  "(string \<Rightarrow> string option) \<Rightarrow> partition list \<Rightarrow> (string \<rightharpoonup> string) \<Rightarrow> (string \<Rightarrow> usageStat option) \<Rightarrow>
   Filesystem list \<times> FilesystemMetrics list" where
  "collectFilesystemStats EvalSymlinks partitions uuidByDevice usageFor =
     (let found = filesystemLoop EvalSymlinks uuidByDevice usageFor [] [] partitions
      in (sort_slice fs_Key (map fst found), sort_slice fm_FilesystemKey (map snd found)))"

definition collectFilesystems ::
  "(string \<Rightarrow> string option) \<Rightarrow> string list \<Rightarrow> partition list option \<Rightarrow> (string \<Rightarrow> usageStat option) \<Rightarrow>
   (Filesystem list \<times> FilesystemMetrics list) option" where
  "collectFilesystems EvalSymlinks byUUID partitions usageFor =
     map_option (\<lambda>ps. collectFilesystemStats EvalSymlinks ps (filesystemUUIDs EvalSymlinks byUUID) usageFor) partitions"

section \<open>GPUs\<close>

text \<open>One row of nvidia-smi; a row that does not parse is skipped.\<close>

definition gpuRow :: "(string \<Rightarrow> f64 option) \<Rightarrow> string list \<Rightarrow> (GPU \<times> GPUMetrics) option" where
  "gpuRow ParseFloat fld =
     (if length fld \<noteq> 7 then None
      else let row = map TrimSpace fld; index = Atoi (row ! 2) in
        case (ParseFloat (row ! 3), ParseUint (row ! 4), ParseUint (row ! 5)) of
          (Some utilization, Some memoryUsedMiB, Some memoryTotalMiB) \<Rightarrow>
            if row ! 0 = [] \<or> row ! 1 = [] \<or> \<not> snd index \<or> memoryTotalMiB = 0 then None
            else let temperature = (case ParseFloat (row ! 6) of
                        None \<Rightarrow> None
                      | Some t \<Rightarrow> if absolute_zero \<le> t \<and> t \<le> Fin 1000 then Some t else None);
                     mebibyte = 1024 * 1024
                 in Some (\<lparr>gpu_Key = row ! 0, gpu_Index = fst index, gpu_UUID = row ! 0, gpu_ModelName = row ! 1,
                           gpu_MemoryTotalBytes = memoryTotalMiB * mebibyte\<rparr>,
                          \<lparr>gm_GPUKey = row ! 0, gm_UtilizationPercent = utilization,
                           gm_MemoryUsedBytes = memoryUsedMiB * mebibyte, gm_TemperatureCelsius = temperature\<rparr>)
        | _ \<Rightarrow> None)"

definition parseNVIDIASMI ::
  "(string \<Rightarrow> f64 option) \<Rightarrow> (string \<Rightarrow> string list list option) \<Rightarrow> string \<Rightarrow> GPU list \<times> GPUMetrics list" where
  "parseNVIDIASMI ParseFloat readAll out =
     (case readAll out of
        None \<Rightarrow> ([], [])
      | Some rows \<Rightarrow>
          (let samples = sort_slice (\<lambda>s. gpu_Index (fst s)) (List.map_filter (gpuRow ParseFloat) rows)
           in (map fst samples, map snd samples)))"

definition collectNVIDIAGPUs ::
  "(string \<Rightarrow> f64 option) \<Rightarrow> (string \<Rightarrow> string list list option) \<Rightarrow> string option \<Rightarrow> GPU list \<times> GPUMetrics list" where
  "collectNVIDIAGPUs ParseFloat readAll nvidiaSMI =
     (case nvidiaSMI of None \<Rightarrow> ([], []) | Some out \<Rightarrow> parseNVIDIASMI ParseFloat readAll out)"

section \<open>Lemmas\<close>

text \<open>A trimmed string stays trimmed behind a text that neither starts nor ends within a space.\<close>

lemma TrimSpace_glued:
  assumes "\<not> starts_with_any spaceRunes (p @ t)" "p \<noteq> []" "\<forall>w \<in> set spaceRunes. last p \<notin> set w"
    and t: "TrimSpace t = t" "t \<noteq> []"
  shows "TrimSpace (p @ t) = p @ t"
proof (rule TrimSpace_fixed [OF assms(1)], rule notI)
  assume "starts_with_any (map rev spaceRunes) (rev (p @ t))"
  then obtain w where w: "w \<in> set spaceRunes" "w \<noteq> []" "prefix (rev w) (rev t @ rev p)"
    by (auto simp: starts_with_any_def)
  have "\<not> prefix (rev w) (rev t)"
    using TrimSpace_end [of t] w(1,2) t(1) by (auto simp: starts_with_any_def)
  then obtain us where us: "rev w = rev t @ us" "us \<noteq> []" "prefix us (rev p)"
    using w(3) unfolding prefix_append by auto
  then have "hd us = last p" using assms(2) by (cases us) (auto simp: prefix_def hd_rev [symmetric])
  moreover have "hd us \<in> set w" using us by (metis Un_iff list.set_sel(1) set_append set_rev)
  ultimately show False using assms(3) w(1) by auto
qed

lemma cpuKey_trimmed:
  assumes "TrimSpace key = key" "key \<noteq> []"
  shows "TrimSpace (''cpu-package-'' @ key) = ''cpu-package-'' @ key"
  by (rule TrimSpace_glued [OF _ _ _ assms]) (auto simp: starts_with_any_def spaceRunes_def)

lemma groupKey_trimmed: "TrimSpace (groupKey item) = groupKey item \<and> groupKey item \<noteq> []"
proof -
  have "TrimSpace ''0'' = ''0''" by code_simp
  then show ?thesis by (simp add: groupKey_def Let_def)
qed

text \<open>What holds of the groups while the processors are added.\<close>

definition groups_ok :: "(string \<times> aggregate) list \<Rightarrow> bool" where
  "groups_ok groups \<longleftrightarrow> distinct (map fst groups) \<and>
     (\<forall>(key, g) \<in> set groups. TrimSpace key = key \<and> key \<noteq> [] \<and> ag_threads g \<ge> 1 \<and> \<not> ag_mhz g < Fin 0)"

lemma mhz_max: "\<not> a < Fin 0 \<Longrightarrow> \<not> (if b > a then b else a) < Fin 0" for a b :: f64
  by (cases a; cases b) auto

lemma groups_ok_add: "groups_ok groups \<Longrightarrow> groups_ok (addProcessor item groups)"
proof -
  assume ok: "groups_ok groups"
  define g where "g = (case map_of groups (groupKey item) of
      None \<Rightarrow> \<lparr>ag_vendor = ci_VendorID item, ag_model = ci_ModelName item, ag_cores = 0, ag_threads = 0, ag_mhz = Fin 0\<rparr>
    | Some grp \<Rightarrow> grp)"
  have g: "ag_threads g \<ge> 0" "\<not> ag_mhz g < Fin 0"
    using ok by (auto simp: g_def groups_ok_def dest!: map_of_SomeD split: option.splits)
  define g' where "g' = g\<lparr>ag_threads := ag_threads g + 1,
      ag_cores := (if ci_Cores item > ag_cores g then ci_Cores item else ag_cores g),
      ag_mhz := (if ci_Mhz item > ag_mhz g then ci_Mhz item else ag_mhz g)\<rparr>"
  have u: "addProcessor item groups = AList.update (groupKey item) g' groups"
    unfolding addProcessor_def Let_def g'_def g_def ..
  have g': "ag_threads g' \<ge> 1" "\<not> ag_mhz g' < Fin 0"
    using g mhz_max [of "ag_mhz g" "ci_Mhz item"] by (auto simp: g'_def)
  have set: "set (AList.update (groupKey item) g' groups) \<subseteq> insert (groupKey item, g') (set groups)"
    by (induction groups) auto
  have "distinct (map fst (AList.update (groupKey item) g' groups))" using ok by (simp add: groups_ok_def distinct_update)
  moreover have "\<forall>(key, g) \<in> insert (groupKey item, g') (set groups).
      TrimSpace key = key \<and> key \<noteq> [] \<and> ag_threads g \<ge> 1 \<and> \<not> ag_mhz g < Fin 0"
    using ok g' groupKey_trimmed [of item] by (simp add: groups_ok_def)
  ultimately show ?thesis unfolding u groups_ok_def using set by blast
qed

lemma groups_ok_fold: "groups_ok (fold addProcessor items [])"
proof -
  have "groups_ok groups \<Longrightarrow> groups_ok (fold addProcessor items groups)" for groups
    by (induction items arbitrary: groups) (simp_all add: groups_ok_add)
  moreover have "groups_ok []" by (simp add: groups_ok_def)
  ultimately show ?thesis .
qed

lemma cpuPackage_ok:
  assumes "ag_threads g \<ge> 1" "\<not> ag_mhz g < Fin 0"
  shows "checkCPUPackage (cpuPackage index key g) = None"
proof -
  have "TrimSpace ''unknown'' = ''unknown''" by code_simp
  then show ?thesis
    using assms by (auto simp: checkCPUPackage_def cpuPackage_def blank_def int_add_def fail_if_def Let_def int_wrap_id in_int_def)
qed

lemma filesystemLoop_keys:
  "let found = filesystemLoop ev uuids usageFor mounts keys ps in
     map (fm_FilesystemKey \<circ> snd) found = map (fs_Key \<circ> fst) found \<and> distinct (map (fs_Key \<circ> fst) found) \<and>
     distinct (map (fs_MountPoint \<circ> fst) found) \<and>
     (\<forall>x \<in> set found. fs_Key (fst x) \<notin> set keys \<and> fs_MountPoint (fst x) \<notin> set mounts) \<and>
     (\<forall>(f, m) \<in> set found. \<exists>u. usageFor (fs_MountPoint f) = Some u \<and> fm_TotalBytes m = us_Total u \<and> fm_UsedBytes m = us_Used u)"
proof (induction ps arbitrary: mounts keys)
  case (Cons p ps)
  let ?key = "partitionKey ev uuids p"
  show ?case
  proof (cases "pt_Mountpoint p \<in> set mounts \<or> ?key \<in> set keys \<or> usageFor (pt_Mountpoint p) = None")
    case True
    then have "filesystemLoop ev uuids usageFor mounts keys (p # ps) = filesystemLoop ev uuids usageFor mounts keys ps"
      by (auto simp: Let_def)
    then show ?thesis using Cons.IH [of mounts keys] by simp
  next
    case False
    define L where "L = filesystemLoop ev uuids usageFor (pt_Mountpoint p # mounts) (?key # keys) ps"
    note IH = Cons.IH [of "pt_Mountpoint p # mounts" "?key # keys", folded L_def, unfolded Let_def]
    have "?key \<notin> set (map (fs_Key \<circ> fst) L)" "pt_Mountpoint p \<notin> set (map (fs_MountPoint \<circ> fst) L)"
      using IH by (simp_all add: image_iff) metis+
    moreover obtain f m u where e: "filesystemLoop ev uuids usageFor mounts keys (p # ps) = (f, m) # L"
      "fs_Key f = ?key" "fm_FilesystemKey m = ?key" "fs_MountPoint f = pt_Mountpoint p"
      "usageFor (pt_Mountpoint p) = Some u" "fm_TotalBytes m = us_Total u" "fm_UsedBytes m = us_Used u"
      using False by (auto simp: L_def Let_def)
    ultimately show ?thesis using IH False unfolding e(1) by (simp add: e(2-) comp_def)
  qed
qed simp

lemma map_sort_slice: "map key (sort_slice key xs) = sort (map key xs)"
  by (rule properties_for_sort [symmetric]) simp_all

abbreviation addModule :: "(string \<Rightarrow> string) \<Rightarrow> string \<Rightarrow> MemoryModule list \<Rightarrow> MemoryModule list" where
  "addModule uni sect result \<equiv> (case memoryModule uni (length result) (dmiFields sect) of None \<Rightarrow> result | Some m \<Rightarrow> result @ [m])"

lemma addModule_prefix: "prefix result (fold (addModule uni) sections result)"
proof (induction sections arbitrary: result)
  case (Cons sect sections)
  have "prefix result (addModule uni sect result)" by (simp split: option.splits)
  then show ?case using Cons.IH prefix_order.trans by simp blast
qed simp

lemma addModule_located:
  assumes "parseMemorySize (dmiFields sect ''Size'') \<noteq> 0" "dmiFields sect ''Locator'' \<noteq> []"
  shows "\<exists>m. addModule uni sect result = result @ [m] \<and> mm_Key m = dmiFields sect ''Locator''"
  using assms by (auto simp: memoryModule_def Let_def)

section \<open>Properties\<close>

text \<open>
  C34: The CPU packages the agent collects are always acceptable: whatever processors the operating
  system lists, their keys are distinct and sorted, the packages are numbered from 0, and every package
  passes the server's checks (a model name, at least one core, at least as many threads as cores, no
  negative frequency).
\<close>

theorem cpu_inventory_accepted:
  assumes "collectCPUInventory info = Some packages"
  shows "packages \<noteq> [] \<and> uniqueKeys ''CPU package'' (map cpu_Key packages) = None \<and> err_for checkCPUPackage packages = None \<and>
    sorted (map cpu_Key packages) \<and> map cpu_PackageIndex packages = map int [0..<length packages]"
proof -
  obtain items where items: "info = Some items" using assms by (auto simp: collectCPUInventory_def split: option.splits)
  define groups keys where "groups = fold addProcessor items []" and "keys = sort (map fst groups)"
  have ok: "groups_ok groups" unfolding groups_def by (rule groups_ok_fold)
  have p: "packages = map (\<lambda>(index, key). cpuPackage index key (the (map_of groups key))) (enumerate 0 keys)" "packages \<noteq> []"
    using assms by (auto simp: collectCPUInventory_def items groups_def keys_def Let_def split: if_splits)
  have keys: "distinct keys" "sorted keys" "set keys = fst ` set groups"
    using ok by (auto simp: keys_def groups_ok_def)
  have trimmed: "TrimSpace k = k \<and> k \<noteq> []" if "k \<in> set keys" for k
    using that ok keys(3) by (auto simp: groups_ok_def)
  have k: "map cpu_Key packages = map ((@) ''cpu-package-'') keys"
    unfolding p(1) by (rule nth_equalityI) (simp_all add: nth_enumerate_eq cpuPackage_def Let_def)
  have t: "map TrimSpace (map cpu_Key packages) = map cpu_Key packages"
    unfolding k using trimmed cpuKey_trimmed by simp
  have "distinct (map cpu_Key packages)" "sorted (map cpu_Key packages)"
    unfolding k using keys(1,2) by (auto simp: distinct_map inj_on_def sorted_map elim: sorted_wrt_mono_rel [rotated])
  moreover have "\<forall>x \<in> set (map cpu_Key packages). \<not> blank x"
    unfolding k using trimmed cpuKey_trimmed by (simp add: blank_def)
  ultimately have u: "uniqueKeys ''CPU package'' (map cpu_Key packages) = None" "sorted (map cpu_Key packages)"
    unfolding uniqueKeys_None t by simp_all
  have "checkCPUPackage x = None" if "x \<in> set packages" for x
  proof -
    obtain i key where x: "x = cpuPackage i key (the (map_of groups key))" "key \<in> set keys"
      using \<open>x \<in> set packages\<close> unfolding p(1) by (auto simp: in_set_enumerate_eq)
    then obtain g where g: "map_of groups key = Some g" using keys(3) by (metis map_of_eq_None_iff not_None_eq)
    then have "ag_threads g \<ge> 1 \<and> \<not> ag_mhz g < Fin 0" using ok map_of_SomeD [OF g] by (auto simp: groups_ok_def)
    then show ?thesis using cpuPackage_ok x g by simp
  qed
  moreover have "map cpu_PackageIndex packages = map int [0..<length packages]"
    unfolding p(1) by (rule nth_equalityI) (simp_all add: nth_enumerate_eq cpuPackage_def Let_def)
  ultimately show ?thesis using u p(2) by (simp add: err_for_None)
qed

definition sampleProcessors :: "cpuInfo list" where
  "sampleProcessors = map (\<lambda>i. \<lparr>ci_PhysicalID = i, ci_VendorID = ''v'', ci_ModelName = [], ci_Cores = 0, ci_Mhz = NaN\<rparr>) [''1 '', [], ''1'']"

theorem cpu_inventory_accepted_witness:
  "\<exists>packages. collectCPUInventory (Some sampleProcessors) = Some packages \<and> map cpu_LogicalThreads packages = [1, 2] \<and>
     err_for checkCPUPackage packages = None"
proof -
  have "map_option (map cpu_LogicalThreads) (collectCPUInventory (Some sampleProcessors)) = Some [1, 2]" by code_simp
  then obtain packages where c: "collectCPUInventory (Some sampleProcessors) = Some packages" "map cpu_LogicalThreads packages = [1, 2]"
    by auto
  from cpu_inventory_accepted [OF c(1)] c show ?thesis by auto
qed

text \<open>
  The filesystems and their metrics match one to one: both lists have the same keys in the same order, no key and
  no mount point appears twice, and every metric is the usage of the mount point of its filesystem.
\<close>

theorem filesystems_aligned:
  assumes "collectFilesystemStats ev partitions uuids usageFor = (filesystems, metrics)"
  shows "map fm_FilesystemKey metrics = map fs_Key filesystems \<and> distinct (map fs_Key filesystems) \<and>
    sorted (map fs_Key filesystems) \<and> distinct (map fs_MountPoint filesystems) \<and>
    (\<forall>m \<in> set metrics. \<exists>f \<in> set filesystems. \<exists>u. fs_Key f = fm_FilesystemKey m \<and> usageFor (fs_MountPoint f) = Some u \<and>
       fm_TotalBytes m = us_Total u \<and> fm_UsedBytes m = us_Used u)"
proof -
  define found where "found = filesystemLoop ev uuids usageFor [] [] partitions"
  have out: "filesystems = sort_slice fs_Key (map fst found)" "metrics = sort_slice fm_FilesystemKey (map snd found)"
    using assms by (auto simp: collectFilesystemStats_def found_def Let_def)
  have L: "map fm_FilesystemKey (map snd found) = map fs_Key (map fst found)" "distinct (map fs_Key (map fst found))"
    "distinct (map fs_MountPoint (map fst found))"
    "\<forall>(f, m) \<in> set found. \<exists>u. usageFor (fs_MountPoint f) = Some u \<and> fm_TotalBytes m = us_Total u \<and> fm_UsedBytes m = us_Used u"
    using filesystemLoop_keys [of ev uuids usageFor "[]" "[]" partitions] unfolding found_def [symmetric] Let_def by auto
  have "map fm_FilesystemKey metrics = map fs_Key filesystems" unfolding out map_sort_slice L(1) ..
  moreover have "\<exists>f \<in> set filesystems. \<exists>u. fs_Key f = fm_FilesystemKey m \<and> usageFor (fs_MountPoint f) = Some u \<and>
       fm_TotalBytes m = us_Total u \<and> fm_UsedBytes m = us_Used u" if m: "m \<in> set metrics" for m
  proof -
    obtain f where f: "(f, m) \<in> set found" using m by (auto simp: out)
    then have "fs_Key f = fm_FilesystemKey m" using L(1) by auto
    then show ?thesis using f L(4) by (force simp: out)
  qed
  ultimately show ?thesis using L(2,3) by (simp add: out)
qed

definition samplePartition :: "string \<Rightarrow> partition" where
  "samplePartition mount = \<lparr>pt_Device = ''/dev/sda1'', pt_Mountpoint = mount, pt_Fstype = ''ext4'', pt_Opts = []\<rparr>"

theorem filesystems_aligned_witness:
  "let (filesystems, metrics) = collectFilesystemStats (\<lambda>_. None) (map samplePartition [''/'', ''/b'', ''/a'', ''/'']) Map.empty
      (\<lambda>_. Some \<lparr>us_Total = 9, us_Used = 1, us_Free = 8, us_InodesTotal = 0, us_InodesUsed = 0\<rparr>)
   in map fm_FilesystemKey metrics = map fs_Key filesystems \<and> map fs_MountPoint filesystems = [''/'', ''/a'', ''/b'']"
proof -
  let ?r = "collectFilesystemStats (\<lambda>_. None) (map samplePartition [''/'', ''/b'', ''/a'', ''/'']) Map.empty
      (\<lambda>_. Some \<lparr>us_Total = 9, us_Used = 1, us_Free = 8, us_InodesTotal = 0, us_InodesUsed = 0\<rparr>)"
  have "map fs_MountPoint (fst ?r) = [''/'', ''/a'', ''/b'']" by code_simp
  then show ?thesis using filesystems_aligned [OF surjective_pairing [of ?r]] by (simp add: case_prod_beta)
qed

text \<open>
  Two memory modules with the same locator, which machines with several sockets or boards have,
  make the server refuse the report: the key of a module is its locator alone, not the bank.
\<close>

theorem same_locator_refused:
  assumes "tl (split_str ''Memory Device'' [] out) = xs @ a # ys @ b # zs"
    and "dmiFields a ''Locator'' = dmiFields b ''Locator''" "dmiFields a ''Locator'' \<noteq> []"
    and "parseMemorySize (dmiFields a ''Size'') \<noteq> 0" "parseMemorySize (dmiFields b ''Size'') \<noteq> 0"
  shows "validateInventory (iv\<lparr>inv_MemoryModules := parseDMIMemoryModules uni out\<rparr>) \<noteq> None"
proof -
  define r1 where "r1 = fold (addModule uni) xs []"
  obtain m where m: "addModule uni a r1 = r1 @ [m]" "mm_Key m = dmiFields a ''Locator''"
    using addModule_located [OF assms(4,3)] by blast
  define r2 where "r2 = fold (addModule uni) ys (r1 @ [m])"
  obtain n where n: "addModule uni b r2 = r2 @ [n]" "mm_Key n = dmiFields b ''Locator''"
    using addModule_located [OF assms(5)] assms(2,3) by metis
  have out: "parseDMIMemoryModules uni out = fold (addModule uni) zs (r2 @ [n])"
    unfolding parseDMIMemoryModules_def assms(1) by (simp add: m(1) n(1) flip: r1_def r2_def)
  have "prefix (r1 @ [m]) r2" unfolding r2_def by (rule addModule_prefix)
  then have "\<not> distinct (map mm_Key (r2 @ [n]))" using m(2) n(2) assms(2) by (auto simp: prefix_def)
  moreover have "prefix (r2 @ [n]) (parseDMIMemoryModules uni out)" unfolding out by (rule addModule_prefix)
  ultimately have "\<not> distinct (map mm_Key (parseDMIMemoryModules uni out))" by (auto simp: prefix_def)
  then show ?thesis using keys_ok_distinct by (auto simp: validateInventory_iff inventory_ok_def)
qed

end
