(* ===== verification/Agent_Counters.thy ===== *)
theory Agent_Counters
  imports Agent_Inventory "HOL-Library.Product_Lexorder"
begin

text \<open>
  The part of the Linux collector that keeps state between two reports
  (src/internal/agent/collector.go): the network interfaces with their counters, the disk counters,
  and the address a bridge offers as the primary one. Counters are 64-bit words and their sums wrap
  around. The data of gopsutil and of /sys are arguments.
\<close>

section \<open>Rounding of durations\<close>

definition minDuration :: Duration where "minDuration = - (2 ^ 63)"
definition maxDuration :: Duration where "maxDuration = 2 ^ 63 - 1"

text \<open>\<open>Time.Sub\<close> on two readings with a monotonic clock, and \<open>Duration.Round\<close>: half away from zero.\<close>

definition Sub :: "Time \<times> Time \<Rightarrow> Time \<times> Time \<Rightarrow> Duration" where
  "Sub t u = max minDuration (min maxDuration (snd t - snd u))"

definition Round :: "Duration \<Rightarrow> Duration \<Rightarrow> Duration" where
  "Round d m =
     (if m \<le> 0 then d
      else if d < 0
      then (let r = (- d) mod m in if r + r < m then d + r else max minDuration (d - m + r))
      else (let r = d mod m in if r + r < m then d - r else min maxDuration (d + m - r)))"

section \<open>Counters\<close>

record netCounters =
  io_BytesRecv :: u64
  io_BytesSent :: u64
  io_PacketsRecv :: u64
  io_PacketsSent :: u64
  io_Errin :: u64
  io_Errout :: u64
  io_Dropin :: u64
  io_Dropout :: u64

record diskCounters =
  dc_ReadBytes :: u64
  dc_WriteBytes :: u64
  dc_ReadCount :: u64
  dc_WriteCount :: u64

text \<open>A reading of the clock is the wall time and the monotonic one that \<open>Sub\<close> uses.\<close>

record Collector =
  co_previousNet :: "string \<rightharpoonup> netCounters"
  co_previousDisk :: "string \<rightharpoonup> diskCounters"
  co_lastCollection :: "Time \<times> Time"

definition NewCollector :: Collector where
  "NewCollector = \<lparr>co_previousNet = Map.empty, co_previousDisk = Map.empty, co_lastCollection = (zeroTime, 0)\<rparr>"

definition counterDelta :: "u64 \<Rightarrow> u64 \<Rightarrow> u64" where
  "counterDelta current previous = (if current < previous then 0 else current - previous)"

section \<open>Disks\<close>

definition addDisk :: "(string \<rightharpoonup> diskCounters) \<Rightarrow> string \<Rightarrow> DiskMetrics \<times> (string \<rightharpoonup> diskCounters) \<Rightarrow> DiskMetrics \<times> (string \<rightharpoonup> diskCounters)" where
  "addDisk counters name acc =
     (case acc of (metric, previousByName) \<Rightarrow>
      case counters name of
        None \<Rightarrow> (metric, previousByName)
      | Some current \<Rightarrow>
          (let metric = metric\<lparr>dm_ReadBytesTotal := dm_ReadBytesTotal metric + dc_ReadBytes current,
                 dm_WriteBytesTotal := dm_WriteBytesTotal metric + dc_WriteBytes current\<rparr>;
               metric = (case previousByName name of
                 None \<Rightarrow> metric
               | Some previous \<Rightarrow> metric\<lparr>
                   dm_ReadBytesDelta := dm_ReadBytesDelta metric + counterDelta (dc_ReadBytes current) (dc_ReadBytes previous),
                   dm_WriteBytesDelta := dm_WriteBytesDelta metric + counterDelta (dc_WriteBytes current) (dc_WriteBytes previous),
                   dm_ReadOpsDelta := dm_ReadOpsDelta metric + counterDelta (dc_ReadCount current) (dc_ReadCount previous),
                   dm_WriteOpsDelta := dm_WriteOpsDelta metric + counterDelta (dc_WriteCount current) (dc_WriteCount previous)\<rparr>)
           in (metric, previousByName(name \<mapsto> current))))"

definition noDiskMetrics :: DiskMetrics where
  "noDiskMetrics = \<lparr>dm_ReadBytesTotal = 0, dm_WriteBytesTotal = 0, dm_ReadBytesDelta = 0, dm_WriteBytesDelta = 0,
     dm_ReadOpsDelta = 0, dm_WriteOpsDelta = 0\<rparr>"

definition aggregateDiskCounters ::
  "(string \<rightharpoonup> diskCounters) \<Rightarrow> string list \<Rightarrow> (string \<rightharpoonup> diskCounters) \<Rightarrow> DiskMetrics \<times> (string \<rightharpoonup> diskCounters)" where
  "aggregateDiskCounters previousByName names counters = fold (addDisk counters) names (noDiskMetrics, previousByName)"

definition diskNames :: "BlockDevice list \<Rightarrow> string list" where
  "diskNames devices = map (\<lambda>d. path_base (bd_DeviceName d))
     (filter (\<lambda>d. bd_DeviceKind d = ''disk'' \<and> \<not> bd_RAIDPassthrough d) devices)"

text \<open>\<^const>\<open>None\<close> is the error of the counters.\<close>

definition collectDisk ::
  "(string list \<Rightarrow> (string \<rightharpoonup> diskCounters) option) \<Rightarrow> BlockDevice list \<Rightarrow> Collector \<Rightarrow> DiskMetrics option \<times> Collector" where
  "collectDisk IOCounters devices collector =
     (let names = diskNames devices in
      if names = [] then (Some noDiskMetrics, collector)
      else case IOCounters names of
             None \<Rightarrow> (None, collector)
           | Some counters \<Rightarrow>
               (case aggregateDiskCounters (co_previousDisk collector) names counters of
                  (metric, previous) \<Rightarrow> (Some metric, collector\<lparr>co_previousDisk := previous\<rparr>)))"

section \<open>Network interfaces\<close>

record interfaceStat =
  if_Name :: string
  if_HardwareAddr :: string
  if_MTU :: int
  if_Flags :: "string list"
  if_Addrs :: "string list"

definition addressScope :: "string \<Rightarrow> string" where
  "addressScope value =
     (case ParseCIDR value of
        None \<Rightarrow> ''unknown''
      | Some (ip, _) \<Rightarrow>
          if IsLoopback ip then ''host''
          else if IsLinkLocalUnicast ip \<or> IsLinkLocalMulticast ip then ''link''
          else if IsPrivate ip then ''private''
          else if IsMulticast ip then ''multicast''
          else if IsGlobalUnicast ip then ''global''
          else ''unknown'')"

definition readLinkSpeed :: "(string \<rightharpoonup> string) \<Rightarrow> string \<Rightarrow> int" where
  "readLinkSpeed files name =
     (case Atoi (readTrimmed files (''/sys/class/net/'' @ name @ ''/speed'')) of
        (value, ok) \<Rightarrow> if \<not> ok \<or> value < 0 then 0 else value)"

definition interfaceKey :: "(string \<Rightarrow> string) \<Rightarrow> interfaceStat \<Rightarrow> string" where
  "interfaceKey uni item =
     (if if_HardwareAddr item \<noteq> [] then if_Name item @ ''|'' @ ToLower uni (if_HardwareAddr item) else if_Name item)"

definition interfaceEntry :: "(string \<Rightarrow> string) \<Rightarrow> (string \<rightharpoonup> string) \<Rightarrow> interfaceStat \<Rightarrow> NetworkInterface" where
  "interfaceEntry uni files item =
     \<lparr>ni_Key = interfaceKey uni item, ni_Name = if_Name item, ni_MACAddress = if_HardwareAddr item, ni_MTU = if_MTU item,
      ni_LinkSpeedMbps = readLinkSpeed files (if_Name item),
      ni_Addresses = map (\<lambda>a. \<lparr>na_Address = a, na_Scope = addressScope a\<rparr>) (if_Addrs item)\<rparr>"

definition interfaceMetric :: "string \<Rightarrow> bool \<Rightarrow> netCounters \<Rightarrow> netCounters option \<Rightarrow> NetworkMetrics" where
  "interfaceMetric key up current previous =
     (let delta = (\<lambda>f. case previous of None \<Rightarrow> 0 | Some p \<Rightarrow> counterDelta (f current) (f p)) in
      \<lparr>nm_InterfaceKey = key, nm_LinkUp = up, nm_RXBytesTotal = io_BytesRecv current, nm_TXBytesTotal = io_BytesSent current,
       nm_RXBytesDelta = delta io_BytesRecv, nm_TXBytesDelta = delta io_BytesSent,
       nm_RXPacketsDelta = delta io_PacketsRecv, nm_TXPacketsDelta = delta io_PacketsSent,
       nm_RXErrorsDelta = delta io_Errin, nm_TXErrorsDelta = delta io_Errout,
       nm_RXDroppedDelta = delta io_Dropin, nm_TXDroppedDelta = delta io_Dropout\<rparr>)"

text \<open>A later entry with the same name replaces an earlier one; no entry is the zero value.\<close>

definition counterByName :: "(string \<times> netCounters) list \<Rightarrow> string \<Rightarrow> netCounters" where
  "counterByName counters name =
     (case map_of (rev counters) name of
        None \<Rightarrow> \<lparr>io_BytesRecv = 0, io_BytesSent = 0, io_PacketsRecv = 0, io_PacketsSent = 0, io_Errin = 0,
                 io_Errout = 0, io_Dropin = 0, io_Dropout = 0\<rparr>
      | Some c \<Rightarrow> c)"

fun networkLoop ::
  "(string \<Rightarrow> string) \<Rightarrow> (string \<Rightarrow> netCounters) \<Rightarrow> (string \<rightharpoonup> netCounters) \<Rightarrow> interfaceStat list \<Rightarrow>
   NetworkMetrics list \<times> (string \<rightharpoonup> netCounters)" where
  "networkLoop uni current previousNet [] = ([], previousNet)"
| "networkLoop uni current previousNet (item # items) =
     (let key = interfaceKey uni item;
          metric = interfaceMetric key (''up'' \<in> set (if_Flags item)) (current (if_Name item)) (previousNet key);
          (metrics, previous) = networkLoop uni current (previousNet(key \<mapsto> current (if_Name item))) items
      in (metric # metrics, previous))"

definition collectNetwork ::
  "(string \<Rightarrow> string) \<Rightarrow> (string \<rightharpoonup> string) \<Rightarrow> interfaceStat list option \<Rightarrow> (string \<times> netCounters) list option \<Rightarrow> Collector \<Rightarrow>
   (NetworkInterface list \<times> NetworkMetrics list) option \<times> Collector" where
  "collectNetwork uni files interfaces counters collector =
     (case (interfaces, counters) of
        (Some items, Some cs) \<Rightarrow>
          (let items = filter (\<lambda>item. ''loopback'' \<notin> set (if_Flags item)) items;
               (metrics, previous) = networkLoop uni (counterByName cs) (co_previousNet collector) items
           in (Some (sort_slice ni_Key (map (interfaceEntry uni files) items), sort_slice nm_InterfaceKey metrics),
               collector\<lparr>co_previousNet := previous\<rparr>))
      | _ \<Rightarrow> (None, collector))"

section \<open>The address of a bridge\<close>

definition scopeRank :: "string \<Rightarrow> nat" where
  "scopeRank scope = (if scope = ''global'' then 0 else if scope = ''private'' then 1 else if scope = ''link'' then 2 else 3)"

definition bridgeCandidate :: "NetworkAddress \<Rightarrow> (nat \<times> nat list) option" where
  "bridgeCandidate a =
     (case ParsePrefix (na_Address a) of
        None \<Rightarrow> None
      | Some (addr, _) \<Rightarrow> (let address = Unmap addr in
          if \<not> Is4 address then None else Some (scopeRank (na_Scope a), octets address)))"

definition preferredBridgeIPv4 :: "NetworkInterface list \<Rightarrow> (string \<Rightarrow> bool) \<Rightarrow> string" where
  "preferredBridgeIPv4 interfaces isBridge =
     (let candidates = concat (map (\<lambda>i. List.map_filter bridgeCandidate (ni_Addresses i)) (filter (\<lambda>i. isBridge (ni_Name i)) interfaces))
      in case sort_slice (\<lambda>c. c) candidates of [] \<Rightarrow> [] | (_, address) # _ \<Rightarrow> ipv4_string address)"

section \<open>Lemmas\<close>

lemma networkLoop_Cons:
  "fst (networkLoop uni current previous (item # items)) =
     interfaceMetric (interfaceKey uni item) (''up'' \<in> set (if_Flags item)) (current (if_Name item)) (previous (interfaceKey uni item)) #
     fst (networkLoop uni current (previous(interfaceKey uni item \<mapsto> current (if_Name item))) items)"
  "snd (networkLoop uni current previous (item # items)) =
     snd (networkLoop uni current (previous(interfaceKey uni item \<mapsto> current (if_Name item))) items)"
  by (simp_all add: Let_def case_prod_beta)

lemma interfaceMetric_key [simp]: "nm_InterfaceKey (interfaceMetric key up c p) = key"
  by (simp add: interfaceMetric_def Let_def)

lemma fst_networkLoop_keys: "map nm_InterfaceKey (fst (networkLoop uni current previous items)) = map (interfaceKey uni) items"
  by (induction items arbitrary: previous) (simp_all add: networkLoop_Cons del: networkLoop.simps(2))

text \<open>With distinct keys every metric compares with what was stored before the loop.\<close>

lemma networkLoop_distinct:
  assumes "distinct (map (interfaceKey uni) items)"
  shows "fst (networkLoop uni current previous items) =
    map (\<lambda>item. interfaceMetric (interfaceKey uni item) (''up'' \<in> set (if_Flags item)) (current (if_Name item))
      (previous (interfaceKey uni item))) items"
  using assms
proof (induction items arbitrary: previous)
  case (Cons item items)
  have "interfaceKey uni x \<noteq> interfaceKey uni item" if "x \<in> set items" for x
    using Cons.prems that by (metis distinct.simps(2) imageI list.set_map list.simps(9))
  then show ?case
    unfolding networkLoop_Cons using Cons.prems
    by (subst Cons.IH) simp_all
qed simp

lemma networkLoop_other:
  "key \<notin> interfaceKey uni ` set items \<Longrightarrow> snd (networkLoop uni current previous items) key = previous key"
  by (induction items arbitrary: previous) (simp_all add: networkLoop_Cons del: networkLoop.simps(2))

lemma networkLoop_stored:
  assumes "distinct (map (interfaceKey uni) items)" "item \<in> set items"
  shows "snd (networkLoop uni current previous items) (interfaceKey uni item) = Some (current (if_Name item))"
  using assms
  by (induction items arbitrary: previous) (auto simp: networkLoop_Cons networkLoop_other simp del: networkLoop.simps(2))

text \<open>The dotted form of four octets is an address.\<close>

lemma foldl_decimal_mono: "w \<le> foldl (\<lambda>n c. 10 * n + digit_val c) w ds"
proof (induction ds arbitrary: w)
  case (Cons d ds)
  then have "10 * w + digit_val d \<le> foldl (\<lambda>n c. 10 * n + digit_val c) (10 * w + digit_val d) ds" .
  then show ?case by simp
qed simp

lemma ipv4_digits:
  assumes "list_all is_digit ds" "foldl (\<lambda>n c. 10 * n + digit_val c) v ds \<le> 255" "v \<noteq> 0"
  shows "ipv4_fields v dl acc (ds @ rest) = ipv4_fields (foldl (\<lambda>n c. 10 * n + digit_val c) v ds) (dl + length ds) acc rest"
  using assms
proof (induction ds arbitrary: v dl)
  case (Cons d ds)
  have "10 * v + digit_val d \<le> 255"
    using foldl_decimal_mono [of "10 * v + digit_val d" ds] Cons.prems(2) by simp
  then show ?case using Cons by (simp add: Let_def)
qed simp

lemma Itoa_head: "0 < n \<Longrightarrow> digit_val (hd (Itoa n)) \<noteq> 0"
proof (induction n rule: Itoa.induct)
  case (1 n)
  show ?case
  proof (cases "n < 10")
    case True
    then show ?thesis using "1.prems" digit_char [of n] by (subst Itoa.simps) simp
  next
    case False
    then show ?thesis using "1.IH" Itoa_digits [of "n div 10"] by (subst Itoa.simps) (auto simp: hd_append)
  qed
qed

lemma ipv4_octet:
  assumes "n < 256"
  shows "\<exists>dl > 0. ipv4_fields 0 0 acc (Itoa n @ rest) = ipv4_fields n dl acc rest"
proof -
  obtain d ds where i: "Itoa n = d # ds" using Itoa_digits [of n] by (cases "Itoa n") auto
  have dig: "is_digit d" "list_all is_digit ds" using Itoa_digits [of n] i by auto
  have val: "foldl (\<lambda>n c. 10 * n + digit_val c) (digit_val d) ds = n"
    using decimal_Itoa [of n] i by (simp add: decimal_def)
  have d255: "digit_val d \<le> 255" using dig(1) by (auto simp: digit_val_def is_digit_of_char)
  show ?thesis
  proof (cases "n = 0")
    case True
    then have "Itoa n = [char_of (48::nat)]" by (subst Itoa.simps) simp
    then show ?thesis using True digit_char [of 0] by (intro exI [of _ 1]) (simp add: Let_def)
  next
    case False
    then have nz: "digit_val d \<noteq> 0" using Itoa_head [of n] i by simp
    have "ipv4_fields 0 0 acc (Itoa n @ rest) = ipv4_fields (digit_val d) 1 acc (ds @ rest)"
      using dig(1) d255 by (simp add: i Let_def)
    also have "\<dots> = ipv4_fields n (1 + length ds) acc rest"
      using ipv4_digits [OF dig(2), of "digit_val d" 1 acc rest] val assms nz by simp
    finally show ?thesis by auto
  qed
qed

lemma ipv4_octet_dot:
  assumes "n < 256" "length acc < 3" "rest \<noteq> []"
  shows "ipv4_fields 0 0 acc (Itoa n @ CHR ''.'' # rest) = ipv4_fields 0 0 (acc @ [n]) rest"
  using ipv4_octet [OF assms(1), of acc "CHR ''.'' # rest"] assms(2,3) by (auto simp: is_digit_def)

lemma ipv4_string_fields:
  assumes "octet_list 4 b"
  shows "ipv4_fields 0 0 [] (ipv4_string b) = Some b"
proof -
  obtain w x y z where b: "b = [w, x, y, z]" "w < 256" "x < 256" "y < 256" "z < 256"
    using assms by (auto simp: octet_list_def numeral_eq_Suc length_Suc_conv)
  have "Itoa n \<noteq> []" for n using Itoa_digits [of n] by simp
  moreover have "ipv4_fields 0 0 [w, x, y] (Itoa z) = Some [w, x, y, z]"
    using ipv4_octet [OF b(5), of "[w, x, y]" "[]"] by auto
  ultimately show ?thesis by (simp add: b(1) ipv4_string_def ipv4_octet_dot b(2-4) del: ipv4_fields.simps(2))
qed

lemma ParseAddr_ipv4_string:
  assumes "octet_list 4 b"
  shows "ParseAddr (ipv4_string b) = Some (V4 b)"
proof -
  obtain w x y z where b: "b = [w, x, y, z]"
    using assms by (auto simp: octet_list_def numeral_eq_Suc length_Suc_conv)
  have "list_all is_digit ds \<Longrightarrow> find (\<lambda>c. c = CHR ''.'' \<or> c = CHR '':'' \<or> c = CHR ''%'') (ds @ CHR ''.'' # rest) = Some CHR ''.''" for ds rest
    by (induction ds) (auto simp: is_digit_def)
  moreover have "list_all is_digit (Itoa n)" for n using Itoa_digits [of n] by simp
  ultimately show ?thesis
    using ipv4_string_fields [OF assms] by (simp add: ParseAddr_def parseIPv4_def b ipv4_string_def)
qed

lemma ParseIP_ipv4_string: "octet_list 4 b \<Longrightarrow> ParseIP (ipv4_string b) = Some (replicate 10 0 @ [255, 255] @ b)"
  by (simp add: ParseIP_def ParseAddr_ipv4_string)

lemma bridgeCandidate_octets: "bridgeCandidate a = Some (rank, b) \<Longrightarrow> octet_list 4 b"
proof -
  assume "bridgeCandidate a = Some (rank, b)"
  then obtain addr n where p: "ParsePrefix (na_Address a) = Some (addr, n)" "Is4 (Unmap addr)" "b = octets (Unmap addr)"
    by (auto simp: bridgeCandidate_def Let_def split: option.splits if_splits)
  then obtain s where "ParseAddr s = Some addr"
    by (auto simp: ParsePrefix_def Let_def split: option.splits if_splits prod.splits)
  then show ?thesis
    using ParseAddr_octets [of s addr] p(2,3)
    by (cases addr) (auto simp: Unmap_def octet_list_def list_all_iff split: if_splits dest: in_set_dropD)
qed

lemma preferredBridgeIPv4_parses:
  "preferredBridgeIPv4 interfaces isBridge = [] \<or> ParseIP (preferredBridgeIPv4 interfaces isBridge) \<noteq> None"
proof -
  define cs where "cs = concat (map (\<lambda>i. List.map_filter bridgeCandidate (ni_Addresses i)) (filter (\<lambda>i. isBridge (ni_Name i)) interfaces))"
  show ?thesis
  proof (cases "sort_slice (\<lambda>c. c) cs")
    case Nil
    then show ?thesis by (simp add: preferredBridgeIPv4_def cs_def)
  next
    case (Cons c rest)
    then have "c \<in> set cs" by (metis list.set_intros(1) set_sort_slice)
    then obtain a where "bridgeCandidate a = Some c" by (auto simp: cs_def List.map_filter_def)
    then have "octet_list 4 (snd c)" using bridgeCandidate_octets [of a "fst c" "snd c"] by simp
    then show ?thesis
      using Cons ParseIP_ipv4_string [of "snd c"] by (simp add: preferredBridgeIPv4_def flip: cs_def) (simp add: case_prod_beta)
  qed
qed

section \<open>Deltas against the last sample\<close>

text \<open>
  A round is what one call of \<open>collectNetwork\<close> sees. The specification of a delta is the difference to
  the last round in which the interface was listed, however many rounds failed or missed it since.
  Rounds are listed with the newest first.
\<close>

type_synonym round = "(string \<rightharpoonup> string) \<times> interfaceStat list option \<times> (string \<times> netCounters) list option"

definition reported :: "interfaceStat list \<Rightarrow> interfaceStat list" where
  "reported items = filter (\<lambda>item. ''loopback'' \<notin> set (if_Flags item)) items"

fun afterRounds :: "(string \<Rightarrow> string) \<Rightarrow> round list \<Rightarrow> Collector" where
  "afterRounds uni [] = NewCollector"
| "afterRounds uni ((files, interfaces, counters) # older) =
     snd (collectNetwork uni files interfaces counters (afterRounds uni older))"

fun lastSeen :: "(string \<Rightarrow> string) \<Rightarrow> round list \<Rightarrow> string \<rightharpoonup> netCounters" where
  "lastSeen uni [] key = None"
| "lastSeen uni ((files, interfaces, counters) # older) key =
     (case (interfaces, counters) of
        (Some items, Some cs) \<Rightarrow>
          (case find (\<lambda>item. interfaceKey uni item = key) (reported items) of
             Some item \<Rightarrow> Some (counterByName cs (if_Name item))
           | None \<Rightarrow> lastSeen uni older key)
      | _ \<Rightarrow> lastSeen uni older key)"

definition distinctRound :: "(string \<Rightarrow> string) \<Rightarrow> round \<Rightarrow> bool" where
  "distinctRound uni r = (case fst (snd r) of None \<Rightarrow> True | Some items \<Rightarrow> distinct (map (interfaceKey uni) (reported items)))"

definition counter_list :: "netCounters \<Rightarrow> u64 list" where
  "counter_list c = [io_BytesRecv c, io_BytesSent c, io_PacketsRecv c, io_PacketsSent c, io_Errin c, io_Errout c, io_Dropin c, io_Dropout c]"

definition delta_list :: "NetworkMetrics \<Rightarrow> u64 list" where
  "delta_list m = [nm_RXBytesDelta m, nm_TXBytesDelta m, nm_RXPacketsDelta m, nm_TXPacketsDelta m,
     nm_RXErrorsDelta m, nm_TXErrorsDelta m, nm_RXDroppedDelta m, nm_TXDroppedDelta m]"

lemma counterDelta_unat: "unat (counterDelta current previous) = unat current - unat previous"
  by (simp add: counterDelta_def unat_sub_if' word_less_nat_alt)

lemma interfaceMetric_deltas:
  "map unat (delta_list (interfaceMetric key up current previous)) =
     (case previous of None \<Rightarrow> replicate 8 0
      | Some p \<Rightarrow> map2 (-) (map unat (counter_list current)) (map unat (counter_list p)))"
  by (cases previous)
    (simp_all add: interfaceMetric_def delta_list_def counter_list_def counterDelta_unat numeral_eq_Suc)

lemma snd_collectNetwork:
  "co_previousNet (snd (collectNetwork uni files (Some items) (Some cs) collector)) =
     snd (networkLoop uni (counterByName cs) (co_previousNet collector) (reported items))"
  by (simp add: collectNetwork_def Let_def case_prod_beta reported_def)

lemma afterRounds_lastSeen:
  "list_all (distinctRound uni) rounds \<Longrightarrow> co_previousNet (afterRounds uni rounds) key = lastSeen uni rounds key"
proof (induction rounds)
  case Nil
  then show ?case by (simp add: NewCollector_def)
next
  case (Cons r older)
  obtain files interfaces counters where r: "r = (files, interfaces, counters)" by (cases r) auto
  show ?case
  proof (cases "interfaces = None \<or> counters = None")
    case True
    then show ?thesis using Cons by (auto simp: r collectNetwork_def split: option.splits)
  next
    case False
    then obtain items cs where s: "interfaces = Some items" "counters = Some cs" by auto
    have d: "distinct (map (interfaceKey uni) (reported items))" using Cons.prems by (simp add: r s distinctRound_def)
    show ?thesis
    proof (cases "find (\<lambda>item. interfaceKey uni item = key) (reported items)")
      case None
      then have "key \<notin> interfaceKey uni ` set (reported items)" by (auto simp: find_None_iff)
      then show ?thesis using Cons None by (simp add: r s snd_collectNetwork networkLoop_other)
    next
      case (Some item)
      then have "item \<in> set (reported items)" "interfaceKey uni item = key" by (auto simp: find_Some_iff)
      then show ?thesis using networkLoop_stored [OF d, of item] Some by (auto simp: r s snd_collectNetwork)
    qed
  qed
qed

lemma collectNetwork_metrics:
  assumes "collectNetwork uni files (Some items) (Some cs) collector = (Some (inventory, metrics), collector')"
    "distinct (map (interfaceKey uni) (reported items))" "m \<in> set metrics"
  shows "\<exists>item \<in> set (reported items). m = interfaceMetric (interfaceKey uni item) (''up'' \<in> set (if_Flags item))
    (counterByName cs (if_Name item)) (co_previousNet collector (interfaceKey uni item))"
proof -
  have "set metrics = set (fst (networkLoop uni (counterByName cs) (co_previousNet collector) (reported items)))"
    using assms(1) by (auto simp: collectNetwork_def Let_def case_prod_beta reported_def)
  then show ?thesis using assms(2,3) by (auto simp: networkLoop_distinct)
qed

section \<open>A sample host\<close>

definition sampleInterfaces :: "interfaceStat list" where
  "sampleInterfaces =
     [\<lparr>if_Name = ''lo'', if_HardwareAddr = [], if_MTU = 65536, if_Flags = [''up'', ''loopback''], if_Addrs = [''127.0.0.1/8'']\<rparr>,
      \<lparr>if_Name = ''eth0'', if_HardwareAddr = ''02:00:00:00:00:01'', if_MTU = 1500, if_Flags = [''up'', ''broadcast''],
       if_Addrs = [''10.0.0.5/24'']\<rparr>]"

definition sampleCounters :: "u64 \<Rightarrow> u64 \<Rightarrow> (string \<times> netCounters) list" where
  "sampleCounters rx tx =
     [(''eth0'', \<lparr>io_BytesRecv = rx, io_BytesSent = tx, io_PacketsRecv = 7, io_PacketsSent = 7, io_Errin = 0, io_Errout = 0,
        io_Dropin = 0, io_Dropout = 0\<rparr>)]"

text \<open>An interface that was listed, then a round that failed.\<close>

definition sampleRounds :: "round list" where
  "sampleRounds = [(Map.empty, None, None), (Map.empty, Some sampleInterfaces, Some (sampleCounters 100 500))]"

lemma collectNetwork_result:
  "collectNetwork uni files (Some items) (Some cs) collector =
     (Some (sort_slice ni_Key (map (interfaceEntry uni files) (reported items)),
            sort_slice nm_InterfaceKey (fst (networkLoop uni (counterByName cs) (co_previousNet collector) (reported items)))),
      collector\<lparr>co_previousNet := snd (networkLoop uni (counterByName cs) (co_previousNet collector) (reported items))\<rparr>)"
  by (simp add: collectNetwork_def Let_def case_prod_beta reported_def)

lemma reported_sample: "reported sampleInterfaces = [sampleInterfaces ! 1]"
  by (simp add: reported_def sampleInterfaces_def)

lemma sample_counter:
  "counter_list (counterByName (sampleCounters rx tx) (if_Name (sampleInterfaces ! 1))) = [rx, tx, 7, 7, 0, 0, 0, 0]"
  by (simp add: sampleCounters_def counterByName_def counter_list_def sampleInterfaces_def)

lemma sample_lastSeen:
  "lastSeen id sampleRounds (interfaceKey id (sampleInterfaces ! 1)) =
     Some (counterByName (sampleCounters 100 500) (if_Name (sampleInterfaces ! 1)))"
  by (simp add: sampleRounds_def reported_sample del: One_nat_def)

section \<open>Properties\<close>

text \<open>
  C12: after any sequence of network rounds, each metric of the next report carries for its eight
  counters the difference to the last round that listed the interface, and 0 where the counter went
  back or where the interface was never listed. Failed rounds do not disturb this.
\<close>

theorem network_deltas:
  assumes "list_all (distinctRound uni) rounds" "distinctRound uni (files, Some items, Some cs)"
    "collectNetwork uni files (Some items) (Some cs) (afterRounds uni rounds) = (Some (inventory, metrics), collector')"
    "m \<in> set metrics"
  shows "\<exists>item \<in> set (reported items). nm_InterfaceKey m = interfaceKey uni item \<and>
     map unat (delta_list m) = (case lastSeen uni rounds (nm_InterfaceKey m) of
         None \<Rightarrow> replicate 8 0
       | Some old \<Rightarrow> map2 (-) (map unat (counter_list (counterByName cs (if_Name item)))) (map unat (counter_list old)))"
proof -
  have "distinct (map (interfaceKey uni) (reported items))" using assms(2) by (simp add: distinctRound_def)
  then obtain item where "item \<in> set (reported items)"
    and m: "m = interfaceMetric (interfaceKey uni item) (''up'' \<in> set (if_Flags item))
      (counterByName cs (if_Name item)) (co_previousNet (afterRounds uni rounds) (interfaceKey uni item))"
    using collectNetwork_metrics [OF assms(3) _ assms(4)] by blast
  then show ?thesis
    by (intro bexI [of _ item]) (simp_all add: m interfaceMetric_deltas afterRounds_lastSeen assms(1))
qed

theorem network_deltas_witness:
  "\<exists>inventory m collector'.
     collectNetwork id Map.empty (Some sampleInterfaces) (Some (sampleCounters 150 20)) (afterRounds id sampleRounds) =
       (Some (inventory, [m]), collector') \<and>
     map unat (delta_list m) = [50, 0, 0, 0, 0, 0, 0, 0]"
proof -
  obtain inventory m collector' where c:
    "collectNetwork id Map.empty (Some sampleInterfaces) (Some (sampleCounters 150 20)) (afterRounds id sampleRounds) =
       (Some (inventory, [m]), collector')"
    by (simp add: collectNetwork_result reported_sample networkLoop_Cons sort_slice_def del: networkLoop.simps(2))
  have r: "list_all (distinctRound id) sampleRounds" "distinctRound id (Map.empty, Some sampleInterfaces, Some (sampleCounters 150 20))"
    by (simp_all add: sampleRounds_def distinctRound_def reported_sample)
  obtain item where "item = sampleInterfaces ! 1" "nm_InterfaceKey m = interfaceKey id item"
    "map unat (delta_list m) = (case lastSeen id sampleRounds (nm_InterfaceKey m) of
        None \<Rightarrow> replicate 8 0
      | Some old \<Rightarrow> map2 (-) (map unat (counter_list (counterByName (sampleCounters 150 20) (if_Name item))))
          (map unat (counter_list old)))"
    using network_deltas [OF r c list.set_intros(1)] unfolding reported_sample by (metis empty_iff insert_iff list.set)
  then have "map unat (delta_list m) = [50, 0, 0, 0, 0, 0, 0, 0]"
    by (simp add: sample_lastSeen sample_counter del: One_nat_def)
  with c show ?thesis by (intro exI conjI)
qed

end
