(* ===== verification/Agent_Collector.thy ===== *)
theory Agent_Collector
  imports Agent_Counters Agent_Client
begin

text \<open>
  One collection of the Linux agent (\<open>Collect\<close>, src/internal/agent/collector.go): the report that the
  parts of theories \<open>Agent_Inventory\<close>, \<open>Agent_Health\<close> and \<open>Agent_Counters\<close> are put together to, with
  the state the collector keeps. What gopsutil, the file system and the programs that the
  agent runs return is the record \<open>host\<close>; the encoders and the number parser are the record \<open>agentLibrary\<close>.
\<close>

section \<open>The interval of a report\<close>

definition intervalSeconds :: "Duration \<Rightarrow> int" where
  "intervalSeconds interval =
     (let rounded = Round interval Second;
          seconds = (if rounded < 0 then - ((- rounded) div Second) else rounded div Second)
      in if seconds < 1 then 1 else if seconds > 3600 then 3600 else seconds)"

section \<open>What a collection reads\<close>

record hostInfo =
  hi_Platform :: string
  hi_PlatformVersion :: string
  hi_KernelVersion :: string
  hi_VirtualizationRole :: string
  hi_Uptime :: u64

record virtualMemory =
  vm_Total :: u64
  vm_Used :: u64
  vm_Available :: u64
  vm_Cached :: u64
  vm_Buffers :: u64

record host =
  ho_info :: "hostInfo option"
  ho_hostname :: "string option"
  ho_cpuInfo :: "cpuInfo list option"
  ho_usage :: "f64 list option"
  ho_load :: "(f64 \<times> f64 \<times> f64) option"
  ho_memory :: "virtualMemory option"
  ho_swap :: "(u64 \<times> u64) option"
  ho_dmidecode :: "string option"
  ho_files :: "string \<rightharpoonup> string"
  ho_blockEntries :: "string list option"
  ho_smartctl :: "(string list \<Rightarrow> string) option"
  ho_diskCounters :: "string list \<Rightarrow> (string \<rightharpoonup> diskCounters) option"
  ho_EvalSymlinks :: "string \<Rightarrow> string option"
  ho_byUUID :: "string list"
  ho_partitions :: "partition list option"
  ho_usageFor :: "string \<Rightarrow> usageStat option"
  ho_interfaces :: "interfaceStat list option"
  ho_netCounters :: "(string \<times> netCounters) list option"
  ho_nvidiaSMI :: "string option"
  ho_ReadDir :: "string \<Rightarrow> string list option"
  ho_Glob :: "string \<Rightarrow> string list"
  ho_isBridge :: "string \<Rightarrow> bool"
  ho_now :: "Time \<times> Time"

record agentLibrary =
  al_uni :: "string \<Rightarrow> string"
  al_ParseFloat :: "string \<Rightarrow> f64 option"
  al_fdiv :: "f64 \<Rightarrow> f64 \<Rightarrow> f64"
  al_unmarshalScan :: "string \<Rightarrow> smartDevice list option"
  al_unmarshalDocument :: "string \<Rightarrow> smartctlDocument option"
  al_readCSV :: "string \<Rightarrow> string list list option"
  al_sha256 :: digest_fun
  al_marshal :: inventory_encoder
  al_GOARCH :: string
  al_AgentVersion :: string

datatype collect_error =
    NoHostInfo | NoHostname | NoCPUInventory | NoCPUUsage | NoLoadAverage | NoMemory | NoSwap
  | NoBlockDevices | NoDiskCounters | NoFilesystems | NoNetwork | NoFingerprint

section \<open>The parts of the report\<close>

definition memoryModules :: "agentLibrary \<Rightarrow> host \<Rightarrow> virtualMemory \<Rightarrow> MemoryModule list" where
  "memoryModules lib h memory =
     (let modules = collectMemoryModules (al_uni lib) (ho_dmidecode h) in
      if modules = [] \<and> vm_Total memory > 0
      then [\<lparr>mm_Key = ''system-memory-aggregate'', mm_SlotName = ''aggregate'', mm_Manufacturer = [],
             mm_ModelName = ''System Memory (DMI unavailable)'', mm_PartNumber = [], mm_SerialNumber = [],
             mm_MemoryType = [], mm_SizeBytes = vm_Total memory, mm_SpeedMTs = 0\<rparr>]
      else modules)"

definition storageHealth :: "agentLibrary \<Rightarrow> host \<Rightarrow> BlockDevice list \<Rightarrow> BlockDevice list \<times> StorageHealth list" where
  "storageHealth lib h blockDevices =
     (case ho_smartctl h of
        None \<Rightarrow> (blockDevices, [])
      | Some smartctl \<Rightarrow>
          collectStorageHealth (al_uni lib) (al_unmarshalScan lib) (al_unmarshalDocument lib) smartctl blockDevices)"

definition gpuTemperature :: "GPUMetrics \<Rightarrow> TemperatureMetrics option" where
  "gpuTemperature metric =
     map_option (\<lambda>t. \<lparr>tm_Key = ''nvidia:'' @ gm_GPUKey metric, tm_Component = ''gpu'', tm_Label = ''NVIDIA GPU'',
         tm_TemperatureCelsius = t, tm_HighCelsius = None, tm_CriticalCelsius = None\<rparr>) (gm_TemperatureCelsius metric)"

definition collectTemperatures :: "agentLibrary \<Rightarrow> host \<Rightarrow> GPUMetrics list \<Rightarrow> TemperatureMetrics list" where
  "collectTemperatures lib h gpuMetrics =
     sort_slice tm_Key
       (collectHWMONTemperatures (al_uni lib) (al_ParseFloat lib) (al_fdiv lib) (ho_files h) (ho_ReadDir h) (ho_Glob h) ''/sys/class/hwmon''
        @ List.map_filter gpuTemperature gpuMetrics)"

definition memoryMetrics :: "hostInfo \<Rightarrow> virtualMemory \<Rightarrow> u64 \<times> u64 \<Rightarrow> MemoryMetrics" where
  "memoryMetrics info memory swap =
     \<lparr>me_TotalBytes = vm_Total memory, me_UsedBytes = vm_Used memory, me_AvailableBytes = vm_Available memory,
      me_CachedBytes = vm_Cached memory, me_BuffersBytes = vm_Buffers memory, me_SwapTotalBytes = fst swap,
      me_SwapUsedBytes = snd swap, me_UptimeSeconds = hi_Uptime info\<rparr>"

definition agentInfo :: "agentLibrary \<Rightarrow> host \<Rightarrow> Config \<Rightarrow> hostInfo \<Rightarrow> string \<Rightarrow> NetworkInterface list \<Rightarrow> AgentInfo" where
  "agentInfo lib h config info hostname interfaces =
     \<lparr>ai_ID = cf_AgentID config, ai_Hostname = hostname, ai_OSName = hi_Platform info, ai_OSVersion = hi_PlatformVersion info,
      ai_KernelVersion = hi_KernelVersion info, ai_Architecture = al_GOARCH lib, ai_AgentVersion = al_AgentVersion lib,
      ai_MachineType = classifyMachineType (hi_VirtualizationRole info),
      ai_SystemModel = collectSystemModel (al_uni lib) (ho_files h) (hi_VirtualizationRole info),
      ai_PrimaryIP = preferredBridgeIPv4 interfaces (ho_isBridge h), ai_Labels = cf_Labels config\<rparr>"

section \<open>The collection\<close>

text \<open>What is read before the collector's state is touched.\<close>

record readings =
  rd_info :: hostInfo
  rd_hostname :: string
  rd_cpuInventory :: "CPUPackage list"
  rd_usage :: f64
  rd_load :: "f64 \<times> f64 \<times> f64"
  rd_memory :: virtualMemory
  rd_swap :: "u64 \<times> u64"
  rd_blockDevices :: "BlockDevice list"

definition require :: "collect_error \<Rightarrow> 'a option \<Rightarrow> ('a \<Rightarrow> collect_error + 'b) \<Rightarrow> collect_error + 'b" where
  "require e x f = (case x of None \<Rightarrow> Inl e | Some y \<Rightarrow> f y)"

definition firstUsage :: "f64 list option \<Rightarrow> f64 option" where
  "firstUsage usage = (case usage of Some (u # _) \<Rightarrow> Some u | _ \<Rightarrow> None)"

definition readHost :: "host \<Rightarrow> collect_error + readings" where
  "readHost h =
     require NoHostInfo (ho_info h) (\<lambda>info.
     require NoHostname (ho_hostname h) (\<lambda>hostname.
     require NoCPUInventory (collectCPUInventory (ho_cpuInfo h)) (\<lambda>cpuInventory.
     require NoCPUUsage (firstUsage (ho_usage h)) (\<lambda>usage.
     require NoLoadAverage (ho_load h) (\<lambda>loadAverage.
     require NoMemory (ho_memory h) (\<lambda>memory.
     require NoSwap (ho_swap h) (\<lambda>swap.
     require NoBlockDevices (collectBlockDevices (ho_files h) (ho_blockEntries h)) (\<lambda>blockDevices.
       Inr \<lparr>rd_info = info, rd_hostname = hostname, rd_cpuInventory = cpuInventory, rd_usage = usage,
            rd_load = loadAverage, rd_memory = memory, rd_swap = swap, rd_blockDevices = blockDevices\<rparr>))))))))"

text \<open>A failure keeps what the collector has stored so far, as the code does.\<close>

definition Collect_report :: "agentLibrary \<Rightarrow> host \<Rightarrow> Config \<Rightarrow> Collector \<Rightarrow> (collect_error + Report) \<times> Collector" where
  "Collect_report lib h config collector =
     (case readHost h of
        Inl e \<Rightarrow> (Inl e, collector)
      | Inr rd \<Rightarrow>
      (case storageHealth lib h (rd_blockDevices rd) of (blockDevices, diskHealth) \<Rightarrow>
      (case collectDisk (ho_diskCounters h) blockDevices collector of
        (None, collector) \<Rightarrow> (Inl NoDiskCounters, collector)
      | (Some diskMetrics, collector) \<Rightarrow>
      (case collectFilesystems (ho_EvalSymlinks h) (ho_byUUID h) (ho_partitions h) (ho_usageFor h) of
        None \<Rightarrow> (Inl NoFilesystems, collector)
      | Some (filesystems, filesystemMetrics) \<Rightarrow>
      (case collectNetwork (al_uni lib) (ho_files h) (ho_interfaces h) (ho_netCounters h) collector of
        (None, collector) \<Rightarrow> (Inl NoNetwork, collector)
      | (Some (networkInterfaces, networkMetrics), collector) \<Rightarrow>
      (case collectNVIDIAGPUs (al_ParseFloat lib) (al_readCSV lib) (ho_nvidiaSMI h) of (gpus, gpuMetrics) \<Rightarrow>
      (let temperatures = collectTemperatures lib h gpuMetrics;
           interval = (if IsZero (fst (co_lastCollection collector)) then cf_Interval config
                       else Sub (ho_now h) (co_lastCollection collector));
           collector = collector\<lparr>co_lastCollection := ho_now h\<rparr>;
           payload =
             \<lparr>r_Version = Version, r_CollectedAt = fst (ho_now h), r_IntervalSeconds = intervalSeconds interval,
              r_InventoryFingerprint = [],
              r_Agent = agentInfo lib h config (rd_info rd) (rd_hostname rd) networkInterfaces,
              r_Inventory = NormalizeInventory
                \<lparr>inv_CPUPackages = rd_cpuInventory rd, inv_MemoryModules = memoryModules lib h (rd_memory rd),
                 inv_BlockDevices = blockDevices, inv_Filesystems = filesystems,
                 inv_NetworkInterfaces = networkInterfaces, inv_GPUs = gpus\<rparr>,
              r_Metrics =
                \<lparr>m_CPU = (case rd_load rd of (load1, load5, load15) \<Rightarrow>
                   \<lparr>cm_UsagePercent = rd_usage rd, cm_Load1 = load1, cm_Load5 = load5, cm_Load15 = load15\<rparr>),
                 m_Memory = memoryMetrics (rd_info rd) (rd_memory rd) (rd_swap rd), m_Disk = diskMetrics,
                 m_Filesystems = filesystemMetrics, m_Network = networkMetrics, m_GPUs = gpuMetrics,
                 m_Temperatures = temperatures, m_StorageHealth = diskHealth\<rparr>\<rparr>
       in case InventoryFingerprint (al_sha256 lib) (al_marshal lib) (r_Inventory payload) of
            (Inl _, _) \<Rightarrow> (Inl NoFingerprint, collector)
          | (Inr fingerprint, inventory) \<Rightarrow>
              (Inr (payload\<lparr>r_Inventory := inventory, r_InventoryFingerprint := fingerprint\<rparr>), collector))))))))"

section \<open>Lemmas\<close>

lemma intervalSeconds_range: "1 \<le> intervalSeconds d \<and> intervalSeconds d \<le> 3600"
  by (simp add: intervalSeconds_def Let_def)

lemma collectDisk_keeps: "co_lastCollection (snd (collectDisk io devices collector)) = co_lastCollection collector"
  by (simp add: collectDisk_def Let_def split: option.splits prod.splits)

lemma collectNetwork_keeps: "co_lastCollection (snd (collectNetwork uni files is cs collector)) = co_lastCollection collector"
  by (simp add: collectNetwork_def Let_def split: option.splits prod.splits)

text \<open>What a collection that succeeds has gone through.\<close>

lemma Collect_success:
  assumes "Collect_report lib h config collector = (Inr r, collector')"
  obtains rd blockDevices collector1 filesystems networkInterfaces collector2 gpus inventory where
    "readHost h = Inr rd"
    "storageHealth lib h (rd_blockDevices rd) = (blockDevices, m_StorageHealth (r_Metrics r))"
    "collectDisk (ho_diskCounters h) blockDevices collector = (Some (m_Disk (r_Metrics r)), collector1)"
    "collectFilesystems (ho_EvalSymlinks h) (ho_byUUID h) (ho_partitions h) (ho_usageFor h) =
       Some (filesystems, m_Filesystems (r_Metrics r))"
    "collectNetwork (al_uni lib) (ho_files h) (ho_interfaces h) (ho_netCounters h) collector1 =
       (Some (networkInterfaces, m_Network (r_Metrics r)), collector2)"
    "collectNVIDIAGPUs (al_ParseFloat lib) (al_readCSV lib) (ho_nvidiaSMI h) = (gpus, m_GPUs (r_Metrics r))"
    "inventory = \<lparr>inv_CPUPackages = rd_cpuInventory rd, inv_MemoryModules = memoryModules lib h (rd_memory rd),
       inv_BlockDevices = blockDevices, inv_Filesystems = filesystems,
       inv_NetworkInterfaces = networkInterfaces, inv_GPUs = gpus\<rparr>"
    "InventoryFingerprint (al_sha256 lib) (al_marshal lib) (NormalizeInventory inventory) =
       (Inr (r_InventoryFingerprint r), r_Inventory r)"
    "r_Agent r = agentInfo lib h config (rd_info rd) (rd_hostname rd) networkInterfaces"
    "r_Version r = Version" "r_CollectedAt r = fst (ho_now h)"
    "r_IntervalSeconds r = intervalSeconds (if IsZero (fst (co_lastCollection collector2)) then cf_Interval config
       else Sub (ho_now h) (co_lastCollection collector2))"
    "m_CPU (r_Metrics r) = (case rd_load rd of (load1, load5, load15) \<Rightarrow>
       \<lparr>cm_UsagePercent = rd_usage rd, cm_Load1 = load1, cm_Load5 = load5, cm_Load15 = load15\<rparr>)"
    "m_Memory (r_Metrics r) = memoryMetrics (rd_info rd) (rd_memory rd) (rd_swap rd)"
    "collector' = collector2\<lparr>co_lastCollection := ho_now h\<rparr>"
proof -
  obtain rd where rd: "readHost h = Inr rd"
    using assms by (auto simp: Collect_report_def split: sum.splits)
  obtain blockDevices diskHealth where s: "storageHealth lib h (rd_blockDevices rd) = (blockDevices, diskHealth)" by fastforce
  obtain diskMetrics collector1 where d: "collectDisk (ho_diskCounters h) blockDevices collector = (Some diskMetrics, collector1)"
    using assms by (cases "collectDisk (ho_diskCounters h) blockDevices collector", cases "fst (collectDisk (ho_diskCounters h) blockDevices collector)")
      (simp_all add: Collect_report_def rd s)
  obtain filesystems fm where f: "collectFilesystems (ho_EvalSymlinks h) (ho_byUUID h) (ho_partitions h) (ho_usageFor h) = Some (filesystems, fm)"
    using assms by (cases "collectFilesystems (ho_EvalSymlinks h) (ho_byUUID h) (ho_partitions h) (ho_usageFor h)")
      (auto simp: Collect_report_def rd s d)
  let ?n = "collectNetwork (al_uni lib) (ho_files h) (ho_interfaces h) (ho_netCounters h) collector1"
  obtain networkInterfaces nm collector2 where n: "?n = (Some (networkInterfaces, nm), collector2)"
    using assms by (cases ?n, cases "fst ?n") (auto simp: Collect_report_def rd s d f)
  obtain gpus gm where g: "collectNVIDIAGPUs (al_ParseFloat lib) (al_readCSV lib) (ho_nvidiaSMI h) = (gpus, gm)" by fastforce
  show ?thesis
    using assms
    by (intro that [OF rd, of blockDevices collector1 filesystems networkInterfaces collector2 gpus])
      (auto simp: Collect_report_def rd s d f n g Let_def split: prod.splits sum.splits)
qed

lemma filesystem_keys:
  assumes "collectFilesystems ev byUUID partitions usageFor = Some (filesystems, metrics)"
  shows "map fm_FilesystemKey metrics = map fs_Key filesystems" "distinct (map fs_Key filesystems)"
proof -
  obtain ps where ps: "collectFilesystemStats ev ps (filesystemUUIDs ev byUUID) usageFor = (filesystems, metrics)"
    using assms by (auto simp: collectFilesystems_def)
  note L = filesystemLoop_keys [of ev "filesystemUUIDs ev byUUID" usageFor "[]" "[]" ps, unfolded Let_def]
  have out: "filesystems = sort_slice fs_Key (map fst (filesystemLoop ev (filesystemUUIDs ev byUUID) usageFor [] [] ps))"
    "metrics = sort_slice fm_FilesystemKey (map snd (filesystemLoop ev (filesystemUUIDs ev byUUID) usageFor [] [] ps))"
    using ps by (auto simp: collectFilesystemStats_def Let_def)
  show "map fm_FilesystemKey metrics = map fs_Key filesystems"
    unfolding out map_sort_slice map_map L [THEN conjunct1] ..
  show "distinct (map fs_Key filesystems)" using L by (simp add: out)
qed

lemma network_keys:
  assumes "collectNetwork uni files interfaces counters collector = (Some (inventory, metrics), collector')"
  shows "map nm_InterfaceKey metrics = map ni_Key inventory"
proof -
  obtain items cs where "interfaces = Some items" "counters = Some cs"
    using assms by (auto simp: collectNetwork_def split: option.splits)
  then show ?thesis
    using assms fst_networkLoop_keys [of uni "counterByName cs" "co_previousNet collector" "reported items"]
    by (auto simp: collectNetwork_result map_sort_slice interfaceEntry_def comp_def)
qed

lemma gpu_keys:
  assumes "collectNVIDIAGPUs ParseFloat readAll nvidiaSMI = (gpus, metrics)"
  shows "map gm_GPUKey metrics = map gpu_Key gpus"
proof -
  have "gm_GPUKey m = gpu_Key g" if "gpuRow ParseFloat row = Some (g, m)" for row g m
    using that by (auto simp: gpuRow_def Let_def split: if_splits option.splits)
  then show ?thesis
    using assms by (auto simp: collectNVIDIAGPUs_def parseNVIDIASMI_def Let_def List.map_filter_def split: option.splits)
qed

lemma storage_keys:
  assumes "storageHealth lib h devices = (devices', diskHealth)"
  shows "distinct (map sh_BlockDeviceKey diskHealth)" "sh_BlockDeviceKey ` set diskHealth \<subseteq> bd_Key ` set devices'"
    "bd_Key ` set devices \<subseteq> bd_Key ` set devices'"
proof -
  have "distinct (map sh_BlockDeviceKey diskHealth) \<and> sh_BlockDeviceKey ` set diskHealth \<subseteq> bd_Key ` set devices' \<and>
      bd_Key ` set devices \<subseteq> bd_Key ` set devices'"
  proof (cases "diskHealth = [] \<and> devices' = devices")
    case False
    then obtain samples where "mergeSMARTSamples (al_uni lib) devices samples = (devices', diskHealth)"
      using assms by (auto simp: storageHealth_def collectStorageHealth_def Let_def split: option.splits if_splits)
    moreover define st where "st = fold (mergeSample (al_uni lib)) samples \<lparr>ms_devices = devices, ms_health = []\<rparr>"
    ultimately have out: "devices' = sort_slice bd_Key (ms_devices st)" "diskHealth = sort_slice sh_BlockDeviceKey (ms_health st)"
      by (auto simp: mergeSMARTSamples_def Let_def)
    have M: "merging devices samples st" unfolding st_def by (rule merging_fold)
    then have "set (map bd_Key devices) \<subseteq> set (map bd_Key (ms_devices st))"
      by (intro set_mono_prefix) (simp add: merging_def)
    with M show ?thesis by (simp add: out merging_def)
  qed simp
  then show "distinct (map sh_BlockDeviceKey diskHealth)" "sh_BlockDeviceKey ` set diskHealth \<subseteq> bd_Key ` set devices'"
    "bd_Key ` set devices \<subseteq> bd_Key ` set devices'" by simp_all
qed

section \<open>A sample collection\<close>

definition sampleConfiguration :: Config where
  "sampleConfiguration =
     \<lparr>cf_ServerURL = ''https://status.example'', cf_Token = ''t'', cf_AgentID = ''123e4567-e89b-42d3-a456-426614174000'',
      cf_Interval = Minute, cf_Labels = Map.empty, cf_LockFile = ''/tmp/agent.lock''\<rparr>"

definition sampleHost :: host where
  "sampleHost =
     \<lparr>ho_info = Some \<lparr>hi_Platform = ''debian'', hi_PlatformVersion = ''12'', hi_KernelVersion = ''6.1'',
        hi_VirtualizationRole = ''guest'', hi_Uptime = 7\<rparr>,
      ho_hostname = Some ''web-1'', ho_cpuInfo = Some sampleProcessors, ho_usage = Some [Fin 12], ho_load = Some (Fin 1, Fin 1, Fin 0),
      ho_memory = Some \<lparr>vm_Total = 100, vm_Used = 50, vm_Available = 50, vm_Cached = 0, vm_Buffers = 0\<rparr>,
      ho_swap = Some (0, 0), ho_dmidecode = None, ho_files = Map.empty, ho_blockEntries = Some [], ho_smartctl = None,
      ho_diskCounters = (\<lambda>_. None), ho_EvalSymlinks = (\<lambda>_. None), ho_byUUID = [],
      ho_partitions = Some [samplePartition ''/''],
      ho_usageFor = (\<lambda>_. Some \<lparr>us_Total = 9, us_Used = 1, us_Free = 8, us_InodesTotal = 0, us_InodesUsed = 0\<rparr>),
      ho_interfaces = Some sampleInterfaces, ho_netCounters = Some (sampleCounters 100 500), ho_nvidiaSMI = None,
      ho_ReadDir = (\<lambda>_. None), ho_Glob = (\<lambda>_. []), ho_isBridge = (\<lambda>name. name = ''eth0''), ho_now = (sampleNow, 5)\<rparr>"

definition sampleAgentLibrary :: agentLibrary where
  "sampleAgentLibrary =
     \<lparr>al_uni = (\<lambda>s. s), al_ParseFloat = (\<lambda>_. None), al_fdiv = (\<lambda>x y. x), al_unmarshalScan = (\<lambda>_. None),
      al_unmarshalDocument = (\<lambda>_. None), al_readCSV = (\<lambda>_. None), al_sha256 = sampleDigest, al_marshal = sampleMarshal,
      al_GOARCH = ''amd64'', al_AgentVersion = ''v1.2.3''\<rparr>"

lemma sample_collected:
  "case fst (Collect_report sampleAgentLibrary sampleHost sampleConfiguration NewCollector) of
     Inl _ \<Rightarrow> False
   | Inr r \<Rightarrow> r_IntervalSeconds r = 60 \<and> ai_PrimaryIP (r_Agent r) = ''10.0.0.5'' \<and> ai_Hostname (r_Agent r) = ''web-1'' \<and> ai_OSName (r_Agent r) = ''debian'' \<and>
       m_CPU (r_Metrics r) = \<lparr>cm_UsagePercent = Fin 12, cm_Load1 = Fin 1, cm_Load5 = Fin 1, cm_Load15 = Fin 0\<rparr> \<and>
       validateInventory (r_Inventory r) = None \<and> validateMetrics (r_Inventory r) (r_Metrics r) = None \<and>
       map fm_FilesystemKey (m_Filesystems (r_Metrics r)) = [''/dev/sda1|/'']"
  by code_simp

lemma sample_success:
  obtains r collector' where "Collect_report sampleAgentLibrary sampleHost sampleConfiguration NewCollector = (Inr r, collector')"
  using sample_collected by (cases "Collect_report sampleAgentLibrary sampleHost sampleConfiguration NewCollector") (auto split: sum.splits)

section \<open>Properties\<close>

text \<open>
  C11: what the server can still object to in a collected report. The version, the machine type, the
  primary address, the interval and the fingerprint of a report that Collect returns are always
  accepted; the server refuses the report exactly when the agent's id is no UUID, a name is blank, the
  clocks are too far apart, the processor figures are out of range, or the inventory or the metrics are
  refused.
\<close>

theorem Collect_accepted:
  assumes "Collect_report lib h config collector = (Inr r, collector')"
  shows "fst (Validate (al_sha256 lib) (al_marshal lib) received r) = None \<longleftrightarrow>
    ValidUUID (cf_AgentID config) \<and> \<not> blank (ai_Hostname (r_Agent r)) \<and> \<not> blank (ai_OSName (r_Agent r)) \<and>
    \<not> blank (al_GOARCH lib) \<and> \<not> blank (al_AgentVersion lib) \<and>
    fst (ho_now h) \<noteq> zeroTime \<and> received - 24 * Hour \<le> fst (ho_now h) \<and> fst (ho_now h) \<le> received + 5 * Minute \<and>
    \<not> cm_UsagePercent (m_CPU (r_Metrics r)) < Fin 0 \<and> \<not> cm_UsagePercent (m_CPU (r_Metrics r)) > Fin 100 \<and>
    \<not> cm_Load1 (m_CPU (r_Metrics r)) < Fin 0 \<and> \<not> cm_Load5 (m_CPU (r_Metrics r)) < Fin 0 \<and>
    \<not> cm_Load15 (m_CPU (r_Metrics r)) < Fin 0 \<and>
    validateInventory (r_Inventory r) = None \<and> validateMetrics (r_Inventory r) (r_Metrics r) = None"
proof -
  obtain rd :: readings and networkInterfaces inventory d where c:
    "InventoryFingerprint (al_sha256 lib) (al_marshal lib) (NormalizeInventory inventory) = (Inr (r_InventoryFingerprint r), r_Inventory r)"
    "r_Agent r = agentInfo lib h config (rd_info rd) (rd_hostname rd) networkInterfaces"
    "r_Version r = Version" "r_CollectedAt r = fst (ho_now h)" "r_IntervalSeconds r = intervalSeconds d"
    by (rule Collect_success [OF assms]) blast
  have fp: "fst (InventoryFingerprint (al_sha256 lib) (al_marshal lib) (r_Inventory r)) = Inr (r_InventoryFingerprint r)"
    using c(1) InventoryFingerprint_snd [OF c(1)] by (simp add: NormalizeInventory_idem_aux)
  have "header_ok received r \<longleftrightarrow>
    ValidUUID (cf_AgentID config) \<and> \<not> blank (ai_Hostname (r_Agent r)) \<and> \<not> blank (ai_OSName (r_Agent r)) \<and>
    \<not> blank (al_GOARCH lib) \<and> \<not> blank (al_AgentVersion lib) \<and>
    fst (ho_now h) \<noteq> zeroTime \<and> received - 24 * Hour \<le> fst (ho_now h) \<and> fst (ho_now h) \<le> received + 5 * Minute \<and>
    \<not> cm_UsagePercent (m_CPU (r_Metrics r)) < Fin 0 \<and> \<not> cm_UsagePercent (m_CPU (r_Metrics r)) > Fin 100 \<and>
    \<not> cm_Load1 (m_CPU (r_Metrics r)) < Fin 0 \<and> \<not> cm_Load5 (m_CPU (r_Metrics r)) < Fin 0 \<and>
    \<not> cm_Load15 (m_CPU (r_Metrics r)) < Fin 0"
    using preferredBridgeIPv4_parses [of networkInterfaces "ho_isBridge h"] intervalSeconds_range [of d]
    by (auto simp: header_ok_def c(2-5) agentInfo_def Version_def classifyMachineType_def Let_def)
  then show ?thesis
    using validateMetrics_iff [OF inventory_ok_gpu_distinct, of "r_Inventory r" "r_Metrics r"]
    by (auto simp: Validate_None fp validateInventory_iff)
qed

theorem Collect_accepted_witness:
  "\<exists>r collector'. Collect_report sampleAgentLibrary sampleHost sampleConfiguration NewCollector = (Inr r, collector') \<and>
     fst (Validate sampleDigest sampleMarshal (sampleNow + Second) r) = None"
proof -
  obtain r collector' where c: "Collect_report sampleAgentLibrary sampleHost sampleConfiguration NewCollector = (Inr r, collector')"
    by (rule sample_success) blast
  have lib: "al_sha256 sampleAgentLibrary = sampleDigest" "al_marshal sampleAgentLibrary = sampleMarshal"
    "al_GOARCH sampleAgentLibrary = ''amd64''" "al_AgentVersion sampleAgentLibrary = ''v1.2.3''" "fst (ho_now sampleHost) = sampleNow"
    by (simp_all add: sampleAgentLibrary_def sampleHost_def)
  have "ValidUUID (cf_AgentID sampleConfiguration)" "\<not> blank ''amd64''" "\<not> blank ''v1.2.3''" "\<not> blank ''web-1''" "\<not> blank ''debian''"
    by code_simp+
  moreover have "sampleNow \<noteq> zeroTime" by (simp add: sampleNow_def time_defs)
  ultimately have "fst (Validate (al_sha256 sampleAgentLibrary) (al_marshal sampleAgentLibrary) (sampleNow + Second) r) = None"
    unfolding Collect_accepted [OF c] using sample_collected by (simp add: c lib Minute_def Hour_def Second_def)
  then show ?thesis using c by (simp add: lib)
qed

text \<open>
  C29: the metrics of a collected report refer to its inventory: filesystems, network interfaces and
  GPUs have one metric each under the same key, every assessed disk is a block device and is
  assessed once, and no filesystem is listed twice. Hence the server never meets a metric of an
  unknown or repeated resource in a report whose inventory it accepts.
\<close>

theorem Collect_refers:
  assumes "Collect_report lib h config collector = (Inr r, collector')"
  shows "mset (map fm_FilesystemKey (m_Filesystems (r_Metrics r))) = mset (map fs_Key (inv_Filesystems (r_Inventory r))) \<and>
    mset (map nm_InterfaceKey (m_Network (r_Metrics r))) = mset (map ni_Key (inv_NetworkInterfaces (r_Inventory r))) \<and>
    mset (map gm_GPUKey (m_GPUs (r_Metrics r))) = mset (map gpu_Key (inv_GPUs (r_Inventory r))) \<and>
    sh_BlockDeviceKey ` set (m_StorageHealth (r_Metrics r)) \<subseteq> bd_Key ` set (inv_BlockDevices (r_Inventory r)) \<and>
    distinct (map sh_BlockDeviceKey (m_StorageHealth (r_Metrics r))) \<and>
    distinct (map fs_Key (inv_Filesystems (r_Inventory r)))"
proof -
  obtain rd :: readings and blockDevices collector1 filesystems networkInterfaces collector2 gpus inventory where c:
    "storageHealth lib h (rd_blockDevices rd) = (blockDevices, m_StorageHealth (r_Metrics r))"
    "collectFilesystems (ho_EvalSymlinks h) (ho_byUUID h) (ho_partitions h) (ho_usageFor h) =
       Some (filesystems, m_Filesystems (r_Metrics r))"
    "collectNetwork (al_uni lib) (ho_files h) (ho_interfaces h) (ho_netCounters h) collector1 =
       (Some (networkInterfaces, m_Network (r_Metrics r)), collector2)"
    "collectNVIDIAGPUs (al_ParseFloat lib) (al_readCSV lib) (ho_nvidiaSMI h) = (gpus, m_GPUs (r_Metrics r))"
    and inventory: "inventory = \<lparr>inv_CPUPackages = rd_cpuInventory rd, inv_MemoryModules = memoryModules lib h (rd_memory rd),
       inv_BlockDevices = blockDevices, inv_Filesystems = filesystems,
       inv_NetworkInterfaces = networkInterfaces, inv_GPUs = gpus\<rparr>"
    and fp: "InventoryFingerprint (al_sha256 lib) (al_marshal lib) (NormalizeInventory inventory) =
       (Inr (r_InventoryFingerprint r), r_Inventory r)"
    by (rule Collect_success [OF assms]) blast
  have r: "r_Inventory r = NormalizeInventory inventory"
    using InventoryFingerprint_snd [OF fp] by (simp add: NormalizeInventory_idem_aux)
  show ?thesis
    using filesystem_keys [OF c(2)] network_keys [OF c(3)] gpu_keys [OF c(4)] storage_keys [OF c(1)]
    by (simp add: r inventory)
qed

theorem Collect_refers_witness:
  "\<exists>r collector'. Collect_report sampleAgentLibrary sampleHost sampleConfiguration NewCollector = (Inr r, collector') \<and>
     mset (map fs_Key (inv_Filesystems (r_Inventory r))) = {#''/dev/sda1|/''#}"
proof -
  obtain r collector' where c: "Collect_report sampleAgentLibrary sampleHost sampleConfiguration NewCollector = (Inr r, collector')"
    by (rule sample_success) blast
  have "map fm_FilesystemKey (m_Filesystems (r_Metrics r)) = [''/dev/sda1|/'']" using sample_collected by (simp add: c)
  with Collect_refers [OF c] c show ?thesis by (metis mset.simps)
qed

end
