(* ===== verification/Windows_Collector.thy ===== *)
theory Windows_Collector
  imports Agent_Counters
begin

unbundle bit_operations_syntax

text \<open>
  The collector of the Windows agent (src/windows-agent: collector_windows.go, fingerprint.go,
  windows_version.go, config.go). What the Windows API, the registry and package net return is the
  record \<open>windowsHost\<close>; the arithmetic of floating-point numbers, the encoders, \<open>url.Parse\<close> and the
  case tables of package unicode are arguments. The counters of an interface have 32 bits and wrap around; the collector
  keeps 64-bit totals of the octets.

  The file health.go of the Windows agent repeats that of the Linux agent with the same behaviour, so that
  \<open>collectStorageHealth\<close> of theory \<open>Agent_Health\<close> stands for it.
\<close>

type_synonym u32 = "32 word"

section \<open>Configuration\<close>

record windowsConfig =
  wc_ServerURL :: string
  wc_AgentID :: string
  wc_Token :: string
  wc_IntervalSeconds :: int
  wc_Labels :: "(string \<rightharpoonup> string) option"

datatype windows_config_error = ConfigUnreadable | ConfigUndecodable | BadServerURL | BadID | NoToken | BadIntervalSeconds | ConfigUnencodable | ConfigUnwritable

definition windowsUUIDPattern :: "(char \<Rightarrow> bool) list" where
  "windowsUUIDPattern =
     replicate 8 is_hex @ [\<lambda>c. c = CHR ''-''] @ replicate 4 is_hex @ [\<lambda>c. c = CHR ''-''] @
     [\<lambda>c. CHR ''1'' \<le> c \<and> c \<le> CHR ''5''] @ replicate 3 is_hex @ [\<lambda>c. c = CHR ''-''] @
     [\<lambda>c. c \<in> set ''89abAB''] @ replicate 3 is_hex @ [\<lambda>c. c = CHR ''-''] @ replicate 12 is_hex"

definition applyDefaults :: "windowsConfig \<Rightarrow> windowsConfig" where
  "applyDefaults config = config\<lparr>
     wc_ServerURL := TrimRightByte (TrimSpace (wc_ServerURL config)) CHR ''/'',
     wc_AgentID := TrimSpace (wc_AgentID config),
     wc_Token := TrimSpace (wc_Token config),
     wc_IntervalSeconds := (if wc_IntervalSeconds config = 0 then 60 else wc_IntervalSeconds config),
     wc_Labels := (case wc_Labels config of None \<Rightarrow> Some Map.empty | Some labels \<Rightarrow> Some labels)\<rparr>"

text \<open>\<open>urlParts\<close> is the scheme and the host that \<open>url.Parse\<close> finds. The receiver is a pointer, so the defaults stay.\<close>

definition validateConfig :: "(string \<Rightarrow> (string \<times> string) option) \<Rightarrow> windowsConfig \<Rightarrow> windows_config_error + windowsConfig" where
  "validateConfig urlParts config =
     (let config = applyDefaults config in
      if (case urlParts (wc_ServerURL config) of
            None \<Rightarrow> True | Some (scheme, hostPart) \<Rightarrow> scheme \<noteq> ''http'' \<and> scheme \<noteq> ''https'' \<or> hostPart = []) then Inl BadServerURL
      else if \<not> list_all2 (\<lambda>p c. p c) windowsUUIDPattern (wc_AgentID config) then Inl BadID
      else if wc_Token config = [] then Inl NoToken
      else if wc_IntervalSeconds config < 10 \<or> wc_IntervalSeconds config > 3600 then Inl BadIntervalSeconds
      else Inr config)"

definition loadConfig ::
  "(string \<Rightarrow> (string \<times> string) option) \<Rightarrow> (string \<Rightarrow> windowsConfig option) \<Rightarrow> (string \<rightharpoonup> string) \<Rightarrow> string \<Rightarrow> windows_config_error + windowsConfig" where
  "loadConfig urlParts unmarshal files path =
     (case files path of
        None \<Rightarrow> Inl ConfigUnreadable
      | Some content \<Rightarrow>
          (case unmarshal content of None \<Rightarrow> Inl ConfigUndecodable | Some config \<Rightarrow> validateConfig urlParts config))"

definition writeConfig ::
  "(string \<Rightarrow> (string \<times> string) option) \<Rightarrow> (windowsConfig \<Rightarrow> string option) \<Rightarrow> bool \<Rightarrow> (string \<rightharpoonup> string) \<Rightarrow> string \<Rightarrow> windowsConfig \<Rightarrow>
   windows_config_error option \<times> (string \<rightharpoonup> string)" where
  "writeConfig urlParts marshalIndent writable files path config =
     (case validateConfig urlParts config of
        Inl e \<Rightarrow> (Some e, files)
      | Inr config \<Rightarrow>
          (case marshalIndent config of
             None \<Rightarrow> (Some ConfigUnencodable, files)
           | Some content \<Rightarrow>
               if writable then (None, files(path \<mapsto> content @ [CHR 0x0D, CHR 0x0A])) else (Some ConfigUnwritable, files)))"

section \<open>Version and memory\<close>

definition windowsProductName :: "string \<Rightarrow> u32 \<Rightarrow> u32 \<Rightarrow> string" where
  "windowsProductName productName major minor =
     (let productName = TrimSpace productName in
      if productName \<noteq> [] then productName
      else if major = 5 \<and> minor = 2 then ''Windows Server 2003''
      else if major = 6 \<and> minor = 0 then ''Windows Server 2008''
      else if major = 6 \<and> minor = 1 then ''Windows Server 2008 R2''
      else if major = 6 \<and> minor = 2 then ''Windows Server 2012''
      else if major = 6 \<and> minor = 3 then ''Windows Server 2012 R2''
      else ''Windows'')"

record osVersionInfo =
  ov_MajorVersion :: u32
  ov_MinorVersion :: u32
  ov_BuildNumber :: u32
  ov_ServicePack :: string

definition readWindowsProductName :: "string option \<Rightarrow> string" where
  "readWindowsProductName registryValue = (case registryValue of None \<Rightarrow> [] | Some value \<Rightarrow> TrimSpace value)"

definition readWindowsVersion :: "string option \<Rightarrow> osVersionInfo option \<Rightarrow> string \<times> string \<times> string" where
  "readWindowsVersion registryValue info =
     (let productName = readWindowsProductName registryValue in
      case info of
        None \<Rightarrow> (if productName \<noteq> [] then productName else ''Windows'', ''unknown'', ''unknown'')
      | Some v \<Rightarrow>
          (windowsProductName productName (ov_MajorVersion v) (ov_MinorVersion v),
           Itoa (unat (ov_MajorVersion v)) @ ''.'' @ Itoa (unat (ov_MinorVersion v)) @
             (if ov_ServicePack v \<noteq> [] then '' '' @ ov_ServicePack v else []),
           Itoa (unat (ov_BuildNumber v))))"

record memoryStatus =
  mst_TotalPhysical :: u64
  mst_AvailablePhysical :: u64
  mst_TotalPageFile :: u64

definition readMemoryStatus :: "memoryStatus option \<Rightarrow> memoryStatus option" where
  "readMemoryStatus status =
     (case status of
        None \<Rightarrow> None
      | Some s \<Rightarrow> if mst_TotalPhysical s = 0 \<or> mst_AvailablePhysical s > mst_TotalPhysical s then None else Some s)"

section \<open>Processor usage\<close>

record cpuTimes =
  ct_idle :: u64
  ct_kernel :: u64
  ct_user :: u64

text \<open>The operations of float64: conversion from uint64, product and quotient.\<close>

record floatOps =
  fo_of :: "u64 \<Rightarrow> f64"
  fo_mul :: "f64 \<Rightarrow> f64 \<Rightarrow> f64"
  fo_div :: "f64 \<Rightarrow> f64 \<Rightarrow> f64"

definition cpuUsage :: "floatOps \<Rightarrow> cpuTimes \<Rightarrow> cpuTimes \<Rightarrow> f64" where
  "cpuUsage ops current previous =
     (if ct_kernel current < ct_kernel previous \<or> ct_user current < ct_user previous \<or> ct_idle current < ct_idle previous then Fin 0
      else let elapsed = (ct_kernel current - ct_kernel previous) + (ct_user current - ct_user previous);
               idle = ct_idle current - ct_idle previous in
        if elapsed = 0 \<or> idle > elapsed then Fin 0
        else let usage = fo_div ops (fo_mul ops (fo_of ops (elapsed - idle)) (Fin 100)) (fo_of ops elapsed) in
          if usage < Fin 0 then Fin 0 else if usage > Fin 100 then Fin 100 else usage)"

text \<open>
  The state: the times of the last collection, \<^const>\<open>None\<close> when there were none. The first collection reads the times twice,
  a second apart; it keeps the first reading when the second fails.
\<close>

definition readCPUUsage ::
  "floatOps \<Rightarrow> cpuTimes option \<Rightarrow> cpuTimes option \<Rightarrow> cpuTimes option \<Rightarrow> f64 option \<times> cpuTimes option" where
  "readCPUUsage ops first second previousCPU =
     (case first of
        None \<Rightarrow> (None, previousCPU)
      | Some current \<Rightarrow>
          (case previousCPU of
             Some previous \<Rightarrow> (Some (cpuUsage ops current previous), Some current)
           | None \<Rightarrow>
               (case second of
                  None \<Rightarrow> (None, Some current)
                | Some later \<Rightarrow> (Some (cpuUsage ops later current), Some later))))"

section \<open>Volumes\<close>

text \<open>The strings between zeros, and the rest behind the last one.\<close>

fun splitUTF16 :: "16 word list \<Rightarrow> 16 word list \<Rightarrow> 16 word list list" where
  "splitUTF16 current [] = (if current = [] then [] else [current])"
| "splitUTF16 current (value # values) =
     (if value = 0 then (if current = [] then splitUTF16 [] values else current # splitUTF16 [] values)
      else splitUTF16 (current @ [value]) values)"

definition splitUTF16Strings :: "(16 word list \<Rightarrow> string) \<Rightarrow> 16 word list \<Rightarrow> string list" where
  "splitUTF16Strings UTF16ToString values = map UTF16ToString (splitUTF16 [] values)"

record volumeSpace =
  vs_available :: u64
  vs_total :: u64
  vs_free :: u64

text \<open>The format \<open>%08x\<close> of a 32-bit number.\<close>

definition hex8 :: "u32 \<Rightarrow> string" where
  "hex8 n = map (\<lambda>i. hex_digit (unat n div 16 ^ i mod 16)) [7, 6, 5, 4, 3, 2, 1, 0]"

record volumes =
  vo_length :: nat
  vo_buffer :: "16 word list"
  vo_decode :: "16 word list \<Rightarrow> string"
  vo_upper :: "string \<Rightarrow> string"
  vo_driveType :: "string \<Rightarrow> nat"
  vo_space :: "string \<Rightarrow> volumeSpace option"
  vo_information :: "string \<Rightarrow> (string \<times> u32) option"

definition volumeInformation :: "volumes \<Rightarrow> string \<Rightarrow> string \<times> u32" where
  "volumeInformation vo dir = (case vo_information vo dir of None \<Rightarrow> ([], 0) | Some info \<Rightarrow> info)"

definition volume :: "volumes \<Rightarrow> string \<Rightarrow> (Filesystem \<times> FilesystemMetrics) option" where
  "volume vo dir =
     (if CHR 0x00 \<in> set dir \<or> vo_driveType vo dir \<in> {0, 1, 5} then None
      else case vo_space vo dir of
             None \<Rightarrow> None
           | Some sp \<Rightarrow>
               if vs_total sp = 0 \<or> vs_free sp > vs_total sp then None
               else (case volumeInformation vo dir of (filesystemType, serial) \<Rightarrow>
                 let key = hex8 serial @ ''|'' @ vo_upper vo dir in
                 Some (\<lparr>fs_Key = key, fs_UUID = hex8 serial, fs_DeviceName = dir,
                        fs_FilesystemType = (if filesystemType = [] then ''unknown'' else filesystemType),
                        fs_MountPoint = dir, fs_MountOptions = []\<rparr>,
                       \<lparr>fm_FilesystemKey = key, fm_TotalBytes = vs_total sp, fm_UsedBytes = vs_total sp - vs_free sp,
                        fm_AvailableBytes = vs_available sp, fm_TotalInodes = 0, fm_UsedInodes = 0\<rparr>)))"

definition collectVolumes :: "volumes \<Rightarrow> Filesystem list \<times> FilesystemMetrics list" where
  "collectVolumes vo =
     (if vo_length vo = 0 \<or> vo_length vo \<ge> 512 then ([], [])
      else let found = List.map_filter (volume vo) (splitUTF16Strings (vo_decode vo) (take (vo_length vo) (vo_buffer vo)))
           in (map fst found, map snd found))"

section \<open>Network interfaces\<close>

record mibIfRow =
  row_Speed :: u32
  row_OperStatus :: u32
  row_InOctets :: u32
  row_InUcastPackets :: u32
  row_InNUcastPackets :: u32
  row_InDiscards :: u32
  row_InErrors :: u32
  row_OutOctets :: u32
  row_OutUcastPackets :: u32
  row_OutNUcastPackets :: u32
  row_OutDiscards :: u32
  row_OutErrors :: u32

record networkCounterState =
  nc_initialized :: bool
  nc_inOctets :: u32
  nc_outOctets :: u32
  nc_inPackets :: u32
  nc_outPackets :: u32
  nc_inErrors :: u32
  nc_outErrors :: u32
  nc_inDiscards :: u32
  nc_outDiscards :: u32
  nc_totalIn :: u64
  nc_totalOut :: u64

definition zeroState :: networkCounterState where
  "zeroState = \<lparr>nc_initialized = False, nc_inOctets = 0, nc_outOctets = 0, nc_inPackets = 0, nc_outPackets = 0, nc_inErrors = 0,
     nc_outErrors = 0, nc_inDiscards = 0, nc_outDiscards = 0, nc_totalIn = 0, nc_totalOut = 0\<rparr>"

definition counterDelta32 :: "u32 \<Rightarrow> u32 \<Rightarrow> u64" where
  "counterDelta32 current previous =
     (if current \<ge> previous then ucast (current - previous)
      else ucast current + push_bit 32 1 - ucast previous)"

definition isPrivateIP :: "nat list \<Rightarrow> bool" where
  "isPrivateIP ip =
     (case To4 ip of
        Some v \<Rightarrow> v ! 0 = 10 \<or> v ! 0 = 172 \<and> v ! 1 \<ge> 16 \<and> v ! 1 \<le> 31 \<or> v ! 0 = 192 \<and> v ! 1 = 168
      | None \<Rightarrow> length ip = 16 \<and> ip ! 0 AND 0xfe = 0xfc)"

definition windowsAddressScope :: "nat list \<Rightarrow> string" where
  "windowsAddressScope ip =
     (if IsLoopback ip then ''host''
      else if IsLinkLocalUnicast ip \<or> IsLinkLocalMulticast ip then ''link''
      else if isPrivateIP ip then ''private''
      else if IsMulticast ip then ''multicast''
      else ''global'')"

text \<open>An interface as package net lists it: \<open>wi_Addrs\<close> are the addresses, none when they cannot be read.\<close>

record windowsInterface =
  wi_Name :: string
  wi_Index :: int
  wi_MTU :: int
  wi_HardwareAddr :: "nat list"
  wi_Loopback :: bool
  wi_Up :: bool
  wi_Addrs :: "string list"

definition macAddress :: "(string \<Rightarrow> string) \<Rightarrow> windowsInterface \<Rightarrow> string" where
  "macAddress uni item = (if length (wi_HardwareAddr item) = 6 then ToLower uni (mac_string (wi_HardwareAddr item)) else [])"

definition windowsInterfaceKey :: "(string \<Rightarrow> string) \<Rightarrow> windowsInterface \<Rightarrow> string" where
  "windowsInterfaceKey uni item =
     (if macAddress uni item \<noteq> [] then wi_Name item @ ''|'' @ macAddress uni item else wi_Name item)"

text \<open>The loop over the addresses: the entries and the primary address so far.\<close>

definition addAddress :: "string \<Rightarrow> NetworkAddress list \<times> string \<Rightarrow> NetworkAddress list \<times> string" where
  "addAddress address acc =
     (case ParseCIDR address of
        None \<Rightarrow> acc
      | Some (ip, _) \<Rightarrow>
          (case acc of (addresses, primaryIP) \<Rightarrow>
            (addresses @ [\<lparr>na_Address = address, na_Scope = windowsAddressScope ip\<rparr>],
             case To4 ip of
               Some v \<Rightarrow> if primaryIP = [] \<and> \<not> IsLoopback ip \<and> \<not> IsLinkLocalUnicast ip then ipv4_string v else primaryIP
             | None \<Rightarrow> primaryIP)))"

definition interfaceAddresses :: "windowsInterface \<Rightarrow> string \<Rightarrow> NetworkAddress list \<times> string" where
  "interfaceAddresses item primaryIP = fold addAddress (wi_Addrs item) ([], primaryIP)"

definition windowsEntry :: "(string \<Rightarrow> string) \<Rightarrow> windowsInterface \<Rightarrow> mibIfRow option \<Rightarrow> NetworkAddress list \<Rightarrow> NetworkInterface" where
  "windowsEntry uni item r addresses =
     \<lparr>ni_Key = windowsInterfaceKey uni item, ni_Name = wi_Name item, ni_MACAddress = macAddress uni item, ni_MTU = wi_MTU item,
      ni_LinkSpeedMbps = (case r of None \<Rightarrow> 0 | Some r \<Rightarrow> uint (row_Speed r div 1000000)), ni_Addresses = addresses\<rparr>"

text \<open>What a row of the interface table makes of the state of its interface.\<close>

definition countRow :: "mibIfRow \<Rightarrow> networkCounterState \<Rightarrow> networkCounterState" where
  "countRow r state =
     \<lparr>nc_initialized = True, nc_inOctets = row_InOctets r, nc_outOctets = row_OutOctets r,
      nc_inPackets = row_InUcastPackets r + row_InNUcastPackets r, nc_outPackets = row_OutUcastPackets r + row_OutNUcastPackets r,
      nc_inErrors = row_InErrors r, nc_outErrors = row_OutErrors r, nc_inDiscards = row_InDiscards r, nc_outDiscards = row_OutDiscards r,
      nc_totalIn = (if nc_initialized state then nc_totalIn state + counterDelta32 (row_InOctets r) (nc_inOctets state) else ucast (row_InOctets r)),
      nc_totalOut = (if nc_initialized state then nc_totalOut state + counterDelta32 (row_OutOctets r) (nc_outOctets state) else ucast (row_OutOctets r))\<rparr>"

definition windowsMetric :: "string \<Rightarrow> windowsInterface \<Rightarrow> mibIfRow option \<Rightarrow> networkCounterState \<Rightarrow> NetworkMetrics" where
  "windowsMetric key item r state =
     (case r of
        None \<Rightarrow> \<lparr>nm_InterfaceKey = key, nm_LinkUp = wi_Up item, nm_RXBytesTotal = 0, nm_TXBytesTotal = 0, nm_RXBytesDelta = 0,
                 nm_TXBytesDelta = 0, nm_RXPacketsDelta = 0, nm_TXPacketsDelta = 0, nm_RXErrorsDelta = 0, nm_TXErrorsDelta = 0,
                 nm_RXDroppedDelta = 0, nm_TXDroppedDelta = 0\<rparr>
      | Some r \<Rightarrow>
          (let delta = (\<lambda>current previous. if nc_initialized state then counterDelta32 current previous else 0) in
           \<lparr>nm_InterfaceKey = key, nm_LinkUp = (row_OperStatus r = 5),
            nm_RXBytesTotal = nc_totalIn (countRow r state), nm_TXBytesTotal = nc_totalOut (countRow r state),
            nm_RXBytesDelta = delta (row_InOctets r) (nc_inOctets state), nm_TXBytesDelta = delta (row_OutOctets r) (nc_outOctets state),
            nm_RXPacketsDelta = delta (row_InUcastPackets r + row_InNUcastPackets r) (nc_inPackets state),
            nm_TXPacketsDelta = delta (row_OutUcastPackets r + row_OutNUcastPackets r) (nc_outPackets state),
            nm_RXErrorsDelta = delta (row_InErrors r) (nc_inErrors state), nm_TXErrorsDelta = delta (row_OutErrors r) (nc_outErrors state),
            nm_RXDroppedDelta = delta (row_InDiscards r) (nc_inDiscards state), nm_TXDroppedDelta = delta (row_OutDiscards r) (nc_outDiscards state)\<rparr>))"

fun interfacesLoop ::
  "(string \<Rightarrow> string) \<Rightarrow> (int \<rightharpoonup> mibIfRow) \<Rightarrow> string \<Rightarrow> (int \<Rightarrow> networkCounterState) \<Rightarrow> windowsInterface list \<Rightarrow>
   (NetworkInterface \<times> NetworkMetrics) list \<times> string \<times> (int \<Rightarrow> networkCounterState)" where
  "interfacesLoop uni rows primaryIP network [] = ([], primaryIP, network)"
| "interfacesLoop uni rows primaryIP network (item # items) =
     (if wi_Loopback item then interfacesLoop uni rows primaryIP network items
      else let (addresses, primaryIP) = interfaceAddresses item primaryIP;
               r = rows (wi_Index item); state = network (wi_Index item);
               entry = (windowsEntry uni item r addresses, windowsMetric (windowsInterfaceKey uni item) item r state);
               network = (case r of None \<Rightarrow> network | Some r \<Rightarrow> network(wi_Index item := countRow r state));
               (entries, rest) = interfacesLoop uni rows primaryIP network items
           in (entry # entries, rest))"

text \<open>The map of the states has the zero state for an index it lacks.\<close>

definition collectNetworkInterfaces ::
  "(string \<Rightarrow> string) \<Rightarrow> windowsInterface list option \<Rightarrow> (int \<rightharpoonup> mibIfRow) \<Rightarrow> (int \<Rightarrow> networkCounterState) \<Rightarrow>
   NetworkInterface list \<times> NetworkMetrics list \<times> string \<times> (int \<Rightarrow> networkCounterState)" where
  "collectNetworkInterfaces uni interfaces rows network =
     (case interfaces of
        None \<Rightarrow> ([], [], [], network)
      | Some items \<Rightarrow>
          (case interfacesLoop uni rows [] network items of
             (entries, primaryIP, network) \<Rightarrow> (map fst entries, map snd entries, primaryIP, network)))"

section \<open>The collection\<close>

record windowsHost =
  wh_now :: "Time \<times> Time"
  wh_hostname :: "string option"
  wh_memory :: "memoryStatus option"
  wh_times :: "cpuTimes option"
  wh_laterTimes :: "cpuTimes option"
  wh_volumes :: volumes
  wh_interfaces :: "windowsInterface list option"
  wh_rows :: "int \<rightharpoonup> mibIfRow"
  wh_smartctl :: "(string list \<Rightarrow> string) option"
  wh_NumCPU :: int
  wh_processor :: string
  wh_product :: "string option"
  wh_version :: "osVersionInfo option"
  wh_tick64 :: "(u64 \<times> u64) option"
  wh_tick :: u32
  wh_wide :: bool

text \<open>\<open>wl_halfUp\<close> is \<open>int(d.Seconds() + 0.5)\<close> in floating-point arithmetic.\<close>

record windowsLibrary =
  wl_uni :: "string \<Rightarrow> string"
  wl_float :: floatOps
  wl_halfUp :: "Duration \<Rightarrow> int"
  wl_unmarshalScan :: "string \<Rightarrow> smartDevice list option"
  wl_unmarshalDocument :: "string \<Rightarrow> smartctlDocument option"
  wl_sha256 :: digest_fun
  wl_marshal :: inventory_encoder
  wl_GOARCH :: string
  wl_Version :: string

record WindowsCollector =
  ws_previousCPU :: "cpuTimes option"
  ws_network :: "int \<Rightarrow> networkCounterState"
  ws_lastCollection :: "Time \<times> Time"

definition newWindowsCollector :: WindowsCollector where
  "newWindowsCollector = \<lparr>ws_previousCPU = None, ws_network = (\<lambda>_. zeroState), ws_lastCollection = (zeroTime, 0)\<rparr>"

text \<open>The value of GetTickCount64 comes in two halves where a word has 32 bits.\<close>

definition readUptimeSeconds :: "windowsHost \<Rightarrow> u64" where
  "readUptimeSeconds h =
     (case wh_tick64 h of
        Some (low, high) \<Rightarrow> if \<not> wh_wide h then (push_bit 32 high OR low) div 1000 else low div 1000
      | None \<Rightarrow> ucast (wh_tick h) div 1000)"

definition windowsInterval :: "windowsLibrary \<Rightarrow> windowsConfig \<Rightarrow> Time \<times> Time \<Rightarrow> Time \<times> Time \<Rightarrow> int" where
  "windowsInterval lib config now lastCollection =
     (let seconds = (if IsZero (fst lastCollection) then wc_IntervalSeconds config else wl_halfUp lib (Sub now lastCollection))
      in if seconds < 1 then 1 else if seconds > 3600 then 3600 else seconds)"

definition normalizeInventory :: "Inventory \<Rightarrow> Inventory" where
  "normalizeInventory iv =
     \<lparr>inv_CPUPackages = sort_slice cpu_Key (inv_CPUPackages iv), inv_MemoryModules = sort_slice mm_Key (inv_MemoryModules iv),
      inv_BlockDevices = sort_slice bd_Key (inv_BlockDevices iv),
      inv_Filesystems = map (\<lambda>f. f\<lparr>fs_MountOptions := sort (fs_MountOptions f)\<rparr>) (sort_slice fs_Key (inv_Filesystems iv)),
      inv_NetworkInterfaces = map (\<lambda>n. n\<lparr>ni_Addresses := sort_slice na_Address (ni_Addresses n)\<rparr>) (sort_slice ni_Key (inv_NetworkInterfaces iv)),
      inv_GPUs = sort_slice gpu_Key (inv_GPUs iv)\<rparr>"

definition inventoryFingerprint :: "digest_fun \<Rightarrow> inventory_encoder \<Rightarrow> Inventory \<Rightarrow> string option" where
  "inventoryFingerprint sha256 marshal inventory = map_option (\<lambda>encoded. hex_encode (sha256 encoded)) (marshal (normalizeInventory inventory))"

definition windowsInventory ::
  "windowsHost \<Rightarrow> memoryStatus \<Rightarrow> BlockDevice list \<Rightarrow> Filesystem list \<Rightarrow> NetworkInterface list \<Rightarrow> Inventory" where
  "windowsInventory h memory blockDevices filesystems interfaces =
     (let logicalProcessors = (if wh_NumCPU h < 1 then 1 else wh_NumCPU h); model = TrimSpace (wh_processor h) in
      \<lparr>inv_CPUPackages = [\<lparr>cpu_Key = ''cpu-package-0'', cpu_PackageIndex = 0, cpu_Vendor = [],
         cpu_ModelName = (if model = [] then ''Windows Processor'' else model), cpu_PhysicalCores = logicalProcessors,
         cpu_LogicalThreads = logicalProcessors, cpu_PerformanceCores = 0, cpu_EfficiencyCores = 0, cpu_MaxFrequencyMHz = Fin 0\<rparr>],
       inv_MemoryModules = [\<lparr>mm_Key = ''system-memory-aggregate'', mm_SlotName = ''aggregate'', mm_Manufacturer = [],
         mm_ModelName = ''System Memory (Windows aggregate)'', mm_PartNumber = [], mm_SerialNumber = [], mm_MemoryType = [],
         mm_SizeBytes = mst_TotalPhysical memory, mm_SpeedMTs = 0\<rparr>],
       inv_BlockDevices = blockDevices, inv_Filesystems = filesystems, inv_NetworkInterfaces = interfaces, inv_GPUs = []\<rparr>)"

definition windowsMemory :: "windowsHost \<Rightarrow> memoryStatus \<Rightarrow> MemoryMetrics" where
  "windowsMemory h memory =
     \<lparr>me_TotalBytes = mst_TotalPhysical memory, me_UsedBytes = mst_TotalPhysical memory - mst_AvailablePhysical memory,
      me_AvailableBytes = mst_AvailablePhysical memory, me_CachedBytes = 0, me_BuffersBytes = 0,
      me_SwapTotalBytes = (if mst_TotalPageFile memory > mst_TotalPhysical memory
                           then mst_TotalPageFile memory - mst_TotalPhysical memory else 0),
      me_SwapUsedBytes = 0, me_UptimeSeconds = readUptimeSeconds h\<rparr>"

datatype windows_error = HostnameUnreadable | MemoryUnreadable | TimesUnreadable | FingerprintFailed

definition windowsCollect :: "windowsLibrary \<Rightarrow> windowsHost \<Rightarrow> windowsConfig \<Rightarrow> WindowsCollector \<Rightarrow> (windows_error + Report) \<times> WindowsCollector" where
  "windowsCollect lib h config collector =
     (case (wh_hostname h, readMemoryStatus (wh_memory h)) of
        (None, _) \<Rightarrow> (Inl HostnameUnreadable, collector)
      | (Some _, None) \<Rightarrow> (Inl MemoryUnreadable, collector)
      | (Some hostname, Some memory) \<Rightarrow>
      (case readCPUUsage (wl_float lib) (wh_times h) (wh_laterTimes h) (ws_previousCPU collector) of
        (None, previousCPU) \<Rightarrow> (Inl TimesUnreadable, collector\<lparr>ws_previousCPU := previousCPU\<rparr>)
      | (Some usage, previousCPU) \<Rightarrow>
      (case collectVolumes (wh_volumes h) of (filesystems, filesystemMetrics) \<Rightarrow>
      (case collectNetworkInterfaces (wl_uni lib) (wh_interfaces h) (wh_rows h) (ws_network collector) of
        (interfaces, networkMetrics, primaryIP, network) \<Rightarrow>
      (let (blockDevices, diskHealth) =
             (case wh_smartctl h of
                None \<Rightarrow> ([], [])
              | Some smartctl \<Rightarrow> collectStorageHealth (wl_uni lib) (wl_unmarshalScan lib) (wl_unmarshalDocument lib) smartctl []);
           interval = windowsInterval lib config (wh_now h) (ws_lastCollection collector);
           collector = \<lparr>ws_previousCPU = previousCPU, ws_network = network, ws_lastCollection = wh_now h\<rparr>;
           inventory = normalizeInventory (windowsInventory h memory blockDevices filesystems interfaces);
           (osName, osVersion, kernelVersion) = readWindowsVersion (wh_product h) (wh_version h)
       in case inventoryFingerprint (wl_sha256 lib) (wl_marshal lib) inventory of
            None \<Rightarrow> (Inl FingerprintFailed, collector)
          | Some fingerprint \<Rightarrow>
              (Inr \<lparr>r_Version = 1, r_CollectedAt = fst (wh_now h), r_IntervalSeconds = interval, r_InventoryFingerprint = fingerprint,
                    r_Agent = \<lparr>ai_ID = wc_AgentID config, ai_Hostname = hostname, ai_OSName = osName, ai_OSVersion = osVersion,
                      ai_KernelVersion = kernelVersion, ai_Architecture = wl_GOARCH lib, ai_AgentVersion = wl_Version lib,
                      ai_MachineType = [], ai_SystemModel = [], ai_PrimaryIP = primaryIP,
                      ai_Labels = (case wc_Labels config of None \<Rightarrow> Map.empty | Some labels \<Rightarrow> labels)\<rparr>,
                    r_Inventory = inventory,
                    r_Metrics = \<lparr>m_CPU = \<lparr>cm_UsagePercent = usage, cm_Load1 = Fin 0, cm_Load5 = Fin 0, cm_Load15 = Fin 0\<rparr>,
                      m_Memory = windowsMemory h memory, m_Disk = noDiskMetrics, m_Filesystems = filesystemMetrics,
                      m_Network = networkMetrics, m_GPUs = [], m_Temperatures = [], m_StorageHealth = diskHealth\<rparr>\<rparr>, collector))))))"

section \<open>Wrapping counters\<close>

lemma counterDelta32_uint: "uint (counterDelta32 current previous) = (uint current - uint previous) mod 2 ^ 32"
proof -
  have b: "uint current < 2 ^ 32" "uint previous < 2 ^ 32" "0 \<le> uint current" "0 \<le> uint previous"
    using uint_lt2p [of current] uint_lt2p [of previous] by simp_all
  show ?thesis
  proof (cases "previous \<le> current")
    case True
    then have "uint previous \<le> uint current" by (simp add: word_le_def)
    moreover from this have "(uint current - uint previous) mod 2 ^ 32 = uint current - uint previous"
      using b by (intro mod_pos_pos_trivial; linarith)
    ultimately show ?thesis using True by (simp add: counterDelta32_def uint_up_ucast is_up uint_sub_if')
  next
    case False
    then have less: "uint current < uint previous" by (simp add: word_le_def not_le)
    have "uint (ucast current + push_bit 32 1 - ucast previous :: u64) = (uint current + 2 ^ 32 - uint previous) mod 2 ^ 64"
      by (simp add: uint_word_ariths uint_up_ucast is_up mod_simps)
    also have "\<dots> = uint current + 2 ^ 32 - uint previous"
    proof (rule mod_pos_pos_trivial)
      have "(2::int) ^ 32 < 2 ^ 64" by simp
      then show "uint current + 2 ^ 32 - uint previous < 2 ^ 64" "0 \<le> uint current + 2 ^ 32 - uint previous"
        using less b by linarith+
    qed
    also have "\<dots> = (uint current - uint previous) mod 2 ^ 32"
      using less b by (smt (verit) mod_add_self2 mod_pos_pos_trivial)
    finally show ?thesis using False by (simp add: counterDelta32_def)
  qed
qed

lemma counterDelta32_true:
  assumes "u \<le> t" "t - u < 2 ^ 32"
  shows "unat (counterDelta32 (of_nat t) (of_nat u)) = t - u"
proof -
  have "uint (counterDelta32 (of_nat t) (of_nat u)) = (int t - int u) mod 2 ^ 32"
    by (simp add: counterDelta32_uint unsigned_of_nat take_bit_eq_mod zmod_int mod_simps)
  also have "\<dots> = int (t - u)" using assms by (simp add: of_nat_diff)
  finally show ?thesis by (metis nat_int unat_eq_nat_uint)
qed

text \<open>The total that results from the readings of a counter, the newest first.\<close>

fun tracked :: "u32 list \<Rightarrow> u64" where
  "tracked [] = 0"
| "tracked [x] = ucast x"
| "tracked (x # y # ys) = tracked (y # ys) + counterDelta32 x y"

text \<open>The values of a counter that never wraps around and that advances by less than \<open>2 ^ 32\<close> between two readings.\<close>

definition advancing :: "nat list \<Rightarrow> bool" where
  "advancing ts \<longleftrightarrow> successively (\<lambda>new old. old \<le> new \<and> new - old < 2 ^ 32) ts"

lemma advancing_last: "advancing ts \<Longrightarrow> ts \<noteq> [] \<Longrightarrow> last ts \<le> hd ts"
  by (induction ts rule: induct_list012) (auto simp: advancing_def)

lemma tracked_true:
  assumes "advancing ts" "ts \<noteq> []" "hd ts < 2 ^ 64"
  shows "unat (tracked (map of_nat ts)) = hd ts - last ts + last ts mod 2 ^ 32"
  using assms
proof (induction ts rule: induct_list012)
  case (2 x)
  then show ?case by (simp add: unsigned_ucast_eq unsigned_of_nat take_bit_eq_mod)
next
  case (3 x y ys)
  have le: "y \<le> x" "x - y < 2 ^ 32" and adv: "advancing (y # ys)" using "3.prems"(1) by (simp_all add: advancing_def)
  have IH: "unat (tracked (map of_nat (y # ys))) = y - last (y # ys) + last (y # ys) mod 2 ^ 32"
    using "3.IH"(2) adv le "3.prems"(3) by simp
  have "last (y # ys) \<le> y" using advancing_last [OF adv] by simp
  then have s: "unat (tracked (map of_nat (y # ys))) + (x - y) = x - last (y # ys) + last (y # ys) mod 2 ^ 32"
    unfolding IH using le by simp
  moreover have "\<dots> \<le> x"
    using \<open>last (y # ys) \<le> y\<close> le(1) mod_less_eq_dividend [of "last (y # ys)" "2 ^ 32"] by linarith
  ultimately have "unat (tracked (map of_nat (y # ys))) + unat (counterDelta32 (of_nat x) (of_nat y)) < 2 ^ 64"
    using "3.prems"(3) counterDelta32_true [OF le] by simp
  then show ?case
    using s counterDelta32_true [OF le] by (simp add: unat_add_lem [THEN iffD1])
qed simp

lemma delta_true:
  assumes "map f (r # old) = map of_nat ts" "advancing ts"
  shows "unat (if old \<noteq> [] then counterDelta32 (f r) (f (hd old)) else 0) = hd ts - hd (tl ts @ [hd ts])"
proof -
  consider x where "ts = [x]" | x y ys where "ts = x # y # ys"
    using assms(1) by (metis Nil_is_map_conv list.distinct(1) remdups_adj.cases)
  then show ?thesis
  proof cases
    case (2 x y ys)
    then have "old \<noteq> []" "f r = of_nat x" "f (hd old) = of_nat y" using assms(1) by (auto simp: hd_map [symmetric])
    moreover have "y \<le> x" "x - y < 2 ^ 32" using assms(2) by (simp_all add: 2 advancing_def)
    ultimately show ?thesis by (simp add: counterDelta32_true 2)
  qed (use assms in simp)
qed

section \<open>The state after rounds\<close>

text \<open>Rounds are listed with the newest first. What a round shows of an interface is its row of the table.\<close>

type_synonym windows_round = "windowsInterface list option \<times> (int \<rightharpoonup> mibIfRow)"

fun afterNetwork :: "(string \<Rightarrow> string) \<Rightarrow> windows_round list \<Rightarrow> int \<Rightarrow> networkCounterState" where
  "afterNetwork uni [] = (\<lambda>_. zeroState)"
| "afterNetwork uni ((interfaces, rows) # older) =
     snd (snd (snd (collectNetworkInterfaces uni interfaces rows (afterNetwork uni older))))"

definition listed :: "windowsInterface list \<Rightarrow> int list" where
  "listed items = map wi_Index (filter (\<lambda>item. \<not> wi_Loopback item) items)"

fun observed :: "int \<Rightarrow> windows_round list \<Rightarrow> mibIfRow list" where
  "observed i [] = []"
| "observed i ((interfaces, rows) # older) =
     (case (interfaces, rows i) of
        (Some items, Some r) \<Rightarrow> (if i \<in> set (listed items) then r # observed i older else observed i older)
      | _ \<Rightarrow> observed i older)"

definition distinctIndexes :: "windows_round \<Rightarrow> bool" where
  "distinctIndexes rnd = (case fst rnd of None \<Rightarrow> True | Some items \<Rightarrow> distinct (listed items))"

lemma interfacesLoop_state:
  "distinct (listed items) \<Longrightarrow>
   snd (snd (interfacesLoop uni rows primaryIP network items)) i =
     (case rows i of Some r \<Rightarrow> if i \<in> set (listed items) then countRow r (network i) else network i | None \<Rightarrow> network i)"
proof (induction items arbitrary: primaryIP network)
  case (Cons item items)
  show ?case
  proof (cases "wi_Loopback item")
    case True
    then have "listed (item # items) = listed items" by (simp add: listed_def)
    then show ?thesis using Cons True by (simp split: option.splits)
  next
    case False
    then have l: "listed (item # items) = wi_Index item # listed items" by (simp add: listed_def)
    let ?n = "case rows (wi_Index item) of None \<Rightarrow> network | Some r \<Rightarrow> network(wi_Index item := countRow r (network (wi_Index item)))"
    have "snd (snd (interfacesLoop uni rows primaryIP network (item # items))) =
        snd (snd (interfacesLoop uni rows (snd (interfaceAddresses item primaryIP)) ?n items))"
      using False by (simp add: Let_def case_prod_beta)
    moreover have "distinct (listed items)" "wi_Index item \<notin> set (listed items)" using Cons.prems by (simp_all add: l)
    ultimately show ?thesis using Cons.IH by (auto simp: l split: option.splits)
  qed
qed (simp add: listed_def split: option.splits)

lemma collectNetworkInterfaces_state:
  "distinctIndexes (interfaces, rows) \<Longrightarrow>
   snd (snd (snd (collectNetworkInterfaces uni interfaces rows network))) i =
     (case (interfaces, rows i) of
        (Some items, Some r) \<Rightarrow> (if i \<in> set (listed items) then countRow r (network i) else network i)
      | _ \<Rightarrow> network i)"
  by (cases interfaces; cases "rows i")
    (simp_all add: collectNetworkInterfaces_def distinctIndexes_def case_prod_beta interfacesLoop_state)

lemma afterNetwork_observed:
  assumes "list_all distinctIndexes rounds"
  shows "let state = afterNetwork uni rounds i; rs = observed i rounds in
    nc_initialized state = (rs \<noteq> []) \<and>
    nc_totalIn state = tracked (map row_InOctets rs) \<and> nc_totalOut state = tracked (map row_OutOctets rs) \<and>
    (rs \<noteq> [] \<longrightarrow> nc_inOctets state = row_InOctets (hd rs) \<and> nc_outOctets state = row_OutOctets (hd rs))"
  using assms
proof (induction rounds)
  case Nil
  then show ?case by (simp add: zeroState_def)
next
  case (Cons rnd older)
  obtain interfaces rows where r: "rnd = (interfaces, rows)" by (cases rnd)
  show ?case
    using Cons
    by (cases "observed i older")
      (auto simp: r collectNetworkInterfaces_state countRow_def Let_def add.commute split: option.splits)
qed

lemma interfacesLoop_metric:
  assumes "distinct (listed items)" "item \<in> set items" "\<not> wi_Loopback item"
  shows "windowsMetric (windowsInterfaceKey uni item) item (rows (wi_Index item)) (network (wi_Index item))
    \<in> snd ` set (fst (interfacesLoop uni rows primaryIP network items))"
  using assms
proof (induction items arbitrary: primaryIP network)
  case (Cons x items)
  show ?case
  proof (cases "wi_Loopback x")
    case True
    then have "listed (x # items) = listed items" by (simp add: listed_def)
    then show ?thesis using Cons True by auto
  next
    case False
    then have l: "wi_Index x \<notin> set (listed items)" "distinct (listed items)" using Cons.prems(1) by (auto simp: listed_def)
    let ?n = "case rows (wi_Index x) of None \<Rightarrow> network | Some r \<Rightarrow> network(wi_Index x := countRow r (network (wi_Index x)))"
    have step: "fst (interfacesLoop uni rows primaryIP network (x # items)) =
        (windowsEntry uni x (rows (wi_Index x)) (fst (interfaceAddresses x primaryIP)),
         windowsMetric (windowsInterfaceKey uni x) x (rows (wi_Index x)) (network (wi_Index x))) #
        fst (interfacesLoop uni rows (snd (interfaceAddresses x primaryIP)) ?n items)"
      using False by (simp add: Let_def case_prod_beta)
    show ?thesis
    proof (cases "item = x")
      case True
      then show ?thesis unfolding step by simp
    next
      case False
      then have i: "item \<in> set items" using Cons.prems(2) by simp
      then have "wi_Index item \<in> set (listed items)" using Cons.prems(3) by (simp add: listed_def)
      then have "wi_Index item \<noteq> wi_Index x" using l(1) by metis
      then have "?n (wi_Index item) = network (wi_Index item)" by (simp split: option.splits)
      then show ?thesis using Cons.IH [OF l(2) i Cons.prems(3), of ?n] unfolding step by (simp add: image_iff)
    qed
  qed
qed simp

section \<open>What the server sees\<close>

lemma normalizeInventory_same: "normalizeInventory iv = NormalizeInventory iv"
  by (simp add: normalizeInventory_def NormalizeInventory_def sortMountOptions_def [abs_def] sortAddresses_def [abs_def] sort_slice_def id_def)

lemma inventoryFingerprint_same:
  "inventoryFingerprint sha256 marshal iv = Some fp \<Longrightarrow> InventoryFingerprint sha256 marshal iv = (Inr fp, NormalizeInventory iv)"
  by (auto simp: inventoryFingerprint_def InventoryFingerprint_def normalizeInventory_same Let_def)

lemma windowsUUID_valid: "list_all2 (\<lambda>p c. p c) windowsUUIDPattern s = ValidUUID s"
  by (simp add: ValidUUID_def windowsUUIDPattern_def uuidPattern_def)

lemma validateConfig_id: "validateConfig urlParts config = Inr config' \<Longrightarrow> ValidUUID (wc_AgentID config')"
  by (auto simp: validateConfig_def windowsUUID_valid Let_def split: if_splits option.splits)

lemma windowsInterval_range: "1 \<le> windowsInterval lib config now before \<and> windowsInterval lib config now before \<le> 3600"
  by (simp add: windowsInterval_def Let_def)

lemma default_names:
  "TrimSpace ''Windows'' \<noteq> []" "TrimSpace ''Windows Server 2003'' \<noteq> []" "TrimSpace ''Windows Server 2008'' \<noteq> []"
  "TrimSpace ''Windows Server 2008 R2'' \<noteq> []" "TrimSpace ''Windows Server 2012'' \<noteq> []" "TrimSpace ''Windows Server 2012 R2'' \<noteq> []"
  by code_simp+

lemma windowsProductName_not_blank: "TrimSpace (windowsProductName name major minor) \<noteq> []"
  using default_names by (simp add: windowsProductName_def Let_def)

lemma osName_not_blank: "\<not> blank (fst (readWindowsVersion product info))"
  using windowsProductName_not_blank default_names(1)
  by (auto simp: readWindowsVersion_def readWindowsProductName_def blank_def Let_def split: option.splits)

lemma cpuUsage_range: "\<not> cpuUsage ops current previous < Fin 0" "\<not> cpuUsage ops current previous > Fin 100"
  by (simp_all add: cpuUsage_def Let_def)

lemma readCPUUsage_range:
  "readCPUUsage ops first second previous = (Some usage, p) \<Longrightarrow> \<not> usage < Fin 0 \<and> \<not> usage > Fin 100"
  using cpuUsage_range by (auto simp: readCPUUsage_def split: option.splits)

lemma addAddress_primary:
  assumes "snd acc = [] \<or> ParseIP (snd acc) \<noteq> None"
  shows "snd (addAddress address acc) = [] \<or> ParseIP (snd (addAddress address acc)) \<noteq> None"
proof (cases "ParseCIDR address")
  case (Some p)
  obtain ip n where p: "p = (ip, n)" by (cases p)
  have "octet_list 16 ip" using ParseCIDR_octets [of address ip n] Some p by simp
  then have "octet_list 4 v" if "To4 ip = Some v" for v
    using that by (auto simp: To4_def octet_list_def list_all_iff split: if_splits dest: in_set_dropD)
  then show ?thesis
    using assms by (auto simp: addAddress_def Some p ParseIP_ipv4_string split: option.splits prod.splits)
qed (use assms in \<open>simp add: addAddress_def\<close>)

lemma interfaceAddresses_primary:
  "primaryIP = [] \<or> ParseIP primaryIP \<noteq> None \<Longrightarrow>
   snd (interfaceAddresses item primaryIP) = [] \<or> ParseIP (snd (interfaceAddresses item primaryIP)) \<noteq> None"
proof -
  have "snd acc = [] \<or> ParseIP (snd acc) \<noteq> None \<Longrightarrow>
      snd (fold addAddress as acc) = [] \<or> ParseIP (snd (fold addAddress as acc)) \<noteq> None" for as acc
    by (induction as arbitrary: acc) (use addAddress_primary in auto)
  from this [of "([], primaryIP)" "wi_Addrs item"]
  show "primaryIP = [] \<or> ParseIP primaryIP \<noteq> None \<Longrightarrow> ?thesis" by (simp add: interfaceAddresses_def)
qed

lemma interfacesLoop_primary:
  "primaryIP = [] \<or> ParseIP primaryIP \<noteq> None \<Longrightarrow> interfacesLoop uni rows primaryIP network items = (entries, ip, network') \<Longrightarrow>
   ip = [] \<or> ParseIP ip \<noteq> None"
proof (induction items arbitrary: primaryIP network entries)
  case (Cons item items)
  then show ?case
    using interfaceAddresses_primary [OF Cons.prems(1), of item]
    by (cases "wi_Loopback item") (auto simp: Let_def case_prod_beta prod_eq_iff)
qed simp

text \<open>What a collection that succeeds puts into the report.\<close>

lemma windowsCollect_success:
  assumes "windowsCollect lib h config collector = (Inr r, collector')"
  shows "\<not> cm_UsagePercent (m_CPU (r_Metrics r)) < Fin 0 \<and> \<not> cm_UsagePercent (m_CPU (r_Metrics r)) > Fin 100"
    "ai_PrimaryIP (r_Agent r) = [] \<or> ParseIP (ai_PrimaryIP (r_Agent r)) \<noteq> None"
    "r_Version r = 1" "r_CollectedAt r = fst (wh_now h)"
    "inventoryFingerprint (wl_sha256 lib) (wl_marshal lib) (r_Inventory r) = Some (r_InventoryFingerprint r)"
    "r_IntervalSeconds r = windowsInterval lib config (wh_now h) (ws_lastCollection collector)"
    "ai_ID (r_Agent r) = wc_AgentID config" "ai_OSName (r_Agent r) = fst (readWindowsVersion (wh_product h) (wh_version h))"
    "ai_Architecture (r_Agent r) = wl_GOARCH lib" "ai_AgentVersion (r_Agent r) = wl_Version lib" "ai_MachineType (r_Agent r) = []"
    "cm_Load1 (m_CPU (r_Metrics r)) = Fin 0" "cm_Load5 (m_CPU (r_Metrics r)) = Fin 0" "cm_Load15 (m_CPU (r_Metrics r)) = Fin 0"
proof -
  obtain hostname memory where h: "wh_hostname h = Some hostname" "readMemoryStatus (wh_memory h) = Some memory"
    using assms by (auto simp: windowsCollect_def split: option.splits)
  let ?u = "readCPUUsage (wl_float lib) (wh_times h) (wh_laterTimes h) (ws_previousCPU collector)"
  obtain usage previousCPU where u: "?u = (Some usage, previousCPU)"
    using assms by (cases ?u; cases "fst ?u") (simp_all add: windowsCollect_def h)
  obtain filesystems fm where f: "collectVolumes (wh_volumes h) = (filesystems, fm)" by fastforce
  obtain interfaces nm ip network where n:
    "collectNetworkInterfaces (wl_uni lib) (wh_interfaces h) (wh_rows h) (ws_network collector) = (interfaces, nm, ip, network)"
    by (metis prod.exhaust)
  have ip: "ip = [] \<or> ParseIP ip \<noteq> None"
    using n interfacesLoop_primary [of "[]" "wl_uni lib" "wh_rows h" "ws_network collector"]
    by (auto simp: collectNetworkInterfaces_def split: option.splits prod.splits)
  note R = assms [unfolded windowsCollect_def h u f n prod.case option.case Let_def case_prod_beta]
  show "\<not> cm_UsagePercent (m_CPU (r_Metrics r)) < Fin 0 \<and> \<not> cm_UsagePercent (m_CPU (r_Metrics r)) > Fin 100"
    using R readCPUUsage_range [OF u] by (auto split: option.splits)
  show "ai_PrimaryIP (r_Agent r) = [] \<or> ParseIP (ai_PrimaryIP (r_Agent r)) \<noteq> None"
    using R ip by (auto split: option.splits)
  show "r_Version r = 1" "r_CollectedAt r = fst (wh_now h)"
    "inventoryFingerprint (wl_sha256 lib) (wl_marshal lib) (r_Inventory r) = Some (r_InventoryFingerprint r)"
    "r_IntervalSeconds r = windowsInterval lib config (wh_now h) (ws_lastCollection collector)"
    "ai_ID (r_Agent r) = wc_AgentID config" "ai_OSName (r_Agent r) = fst (readWindowsVersion (wh_product h) (wh_version h))"
    "ai_Architecture (r_Agent r) = wl_GOARCH lib" "ai_AgentVersion (r_Agent r) = wl_Version lib" "ai_MachineType (r_Agent r) = []"
    "cm_Load1 (m_CPU (r_Metrics r)) = Fin 0" "cm_Load5 (m_CPU (r_Metrics r)) = Fin 0" "cm_Load15 (m_CPU (r_Metrics r)) = Fin 0"
    using R by (auto split: option.splits)
qed

section \<open>A sample host\<close>

definition sampleRow :: "u32 \<Rightarrow> mibIfRow" where
  "sampleRow received = \<lparr>row_Speed = 1000000000, row_OperStatus = 5, row_InOctets = received, row_InUcastPackets = 0, row_InNUcastPackets = 0,
     row_InDiscards = 0, row_InErrors = 0, row_OutOctets = 5, row_OutUcastPackets = 0, row_OutNUcastPackets = 0, row_OutDiscards = 0,
     row_OutErrors = 0\<rparr>"

definition sampleWindowsInterface :: windowsInterface where
  "sampleWindowsInterface = \<lparr>wi_Name = ''Ethernet'', wi_Index = 7, wi_MTU = 1500, wi_HardwareAddr = [2, 0, 0, 0, 0, 1], wi_Loopback = False,
     wi_Up = True, wi_Addrs = [''10.0.0.6/24'']\<rparr>"

definition exactFloat :: floatOps where
  "exactFloat = \<lparr>fo_of = (\<lambda>n. Fin (of_int (uint n))),
     fo_mul = (\<lambda>x y. case (x, y) of (Fin a, Fin b) \<Rightarrow> Fin (a * b) | _ \<Rightarrow> NaN),
     fo_div = (\<lambda>x y. case (x, y) of (Fin a, Fin b) \<Rightarrow> if b = 0 then NaN else Fin (a / b) | _ \<Rightarrow> NaN)\<rparr>"

definition sampleWindowsLibrary :: windowsLibrary where
  "sampleWindowsLibrary = \<lparr>wl_uni = (\<lambda>s. s), wl_float = exactFloat, wl_halfUp = (\<lambda>d. (d + 500000000) div Second),
     wl_unmarshalScan = (\<lambda>_. None), wl_unmarshalDocument = (\<lambda>_. None), wl_sha256 = sampleDigest, wl_marshal = sampleMarshal,
     wl_GOARCH = ''amd64'', wl_Version = ''windows-legacy-1.2.3''\<rparr>"

definition sampleWindowsHost :: windowsHost where
  "sampleWindowsHost =
     \<lparr>wh_now = (sampleNow, 5), wh_hostname = Some ''WIN-1'',
      wh_memory = Some \<lparr>mst_TotalPhysical = 100, mst_AvailablePhysical = 40, mst_TotalPageFile = 150\<rparr>,
      wh_times = Some \<lparr>ct_idle = 10, ct_kernel = 20, ct_user = 5\<rparr>, wh_laterTimes = Some \<lparr>ct_idle = 15, ct_kernel = 28, ct_user = 7\<rparr>,
      wh_volumes = \<lparr>vo_length = 0, vo_buffer = [], vo_decode = (\<lambda>_. []), vo_upper = (\<lambda>s. s), vo_driveType = (\<lambda>_. 3),
        vo_space = (\<lambda>_. None), vo_information = (\<lambda>_. None)\<rparr>,
      wh_interfaces = None, wh_rows = Map.empty, wh_smartctl = None, wh_NumCPU = 4, wh_processor = [],
      wh_product = None, wh_version = None, wh_tick64 = Some (5000, 0), wh_tick = 0, wh_wide = True\<rparr>"

definition sampleWindowsConfig :: windowsConfig where
  "sampleWindowsConfig = \<lparr>wc_ServerURL = ''https://status.example/'', wc_AgentID = ''123e4567-e89b-42d3-a456-426614174000'', wc_Token = ''t'',
     wc_IntervalSeconds = 0, wc_Labels = None\<rparr>"

definition sampleWindowsReport :: "windows_error + Report" where
  "sampleWindowsReport =
     (case validateConfig (\<lambda>_. Some (''https'', ''status.example'')) sampleWindowsConfig of
        Inl _ \<Rightarrow> Inl HostnameUnreadable
      | Inr config \<Rightarrow> fst (windowsCollect sampleWindowsLibrary sampleWindowsHost config newWindowsCollector))"

lemma sample_windows_collected:
  "case sampleWindowsReport of
     Inl _ \<Rightarrow> False
   | Inr r \<Rightarrow> ai_Hostname (r_Agent r) = ''WIN-1'' \<and> cm_UsagePercent (m_CPU (r_Metrics r)) = Fin 50 \<and> r_IntervalSeconds r = 60 \<and>
       validateInventory (r_Inventory r) = None \<and> validateMetrics (r_Inventory r) (r_Metrics r) = None"
  by code_simp

lemma sample_windows_success:
  obtains config r collector' where "validateConfig (\<lambda>_. Some (''https'', ''status.example'')) sampleWindowsConfig = Inr config"
    "windowsCollect sampleWindowsLibrary sampleWindowsHost config newWindowsCollector = (Inr r, collector')"
    "sampleWindowsReport = Inr r"
proof (cases "validateConfig (\<lambda>_. Some (''https'', ''status.example'')) sampleWindowsConfig")
  case (Inl e)
  then show ?thesis using sample_windows_collected by (simp add: sampleWindowsReport_def)
next
  case (Inr config)
  then show ?thesis
    using sample_windows_collected that
    by (cases "windowsCollect sampleWindowsLibrary sampleWindowsHost config newWindowsCollector")
      (auto simp: sampleWindowsReport_def split: sum.splits)
qed

section \<open>Properties\<close>

text \<open>
  C30: what the server can still object to in a report of the Windows agent. With a configuration that
  was accepted, the version, the agent's id, the name of the system, the primary address, the interval, the processor
  usage and the fingerprint, which the agent computes with its own copy of the normalisation, always
  pass; the server refuses the report exactly when the host name, the architecture or the agent's version is blank, the clocks
  are too far apart, or the inventory or the metrics are refused.
\<close>

theorem windows_report_accepted:
  assumes "validateConfig urlParts config0 = Inr config" "windowsCollect lib h config collector = (Inr r, collector')"
  shows "fst (Validate (wl_sha256 lib) (wl_marshal lib) received r) = None \<longleftrightarrow>
    \<not> blank (ai_Hostname (r_Agent r)) \<and> \<not> blank (wl_GOARCH lib) \<and> \<not> blank (wl_Version lib) \<and>
    fst (wh_now h) \<noteq> zeroTime \<and> received - 24 * Hour \<le> fst (wh_now h) \<and> fst (wh_now h) \<le> received + 5 * Minute \<and>
    validateInventory (r_Inventory r) = None \<and> validateMetrics (r_Inventory r) (r_Metrics r) = None"
proof -
  note c = windowsCollect_success [OF assms(2)]
  show ?thesis
    using validateMetrics_iff [OF inventory_ok_gpu_distinct, of "r_Inventory r" "r_Metrics r"] c(1,2)
      validateConfig_id [OF assms(1)] osName_not_blank [of "wh_product h" "wh_version h"]
      windowsInterval_range [of lib config "wh_now h" "ws_lastCollection collector"]
    by (auto simp: Validate_None validateInventory_iff header_ok_def c(3-) inventoryFingerprint_same [OF c(5)] Let_def)
qed


theorem windows_report_accepted_witness:
  "\<exists>r. sampleWindowsReport = Inr r \<and> fst (Validate sampleDigest sampleMarshal (sampleNow + Second) r) = None"
proof -
  obtain config r collector' where c: "validateConfig (\<lambda>_. Some (''https'', ''status.example'')) sampleWindowsConfig = Inr config"
    "windowsCollect sampleWindowsLibrary sampleWindowsHost config newWindowsCollector = (Inr r, collector')"
    "sampleWindowsReport = Inr r"
    by (rule sample_windows_success)
  have lib: "wl_sha256 sampleWindowsLibrary = sampleDigest" "wl_marshal sampleWindowsLibrary = sampleMarshal"
    "wl_GOARCH sampleWindowsLibrary = ''amd64''" "wl_Version sampleWindowsLibrary = ''windows-legacy-1.2.3''" "fst (wh_now sampleWindowsHost) = sampleNow"
    by (simp_all add: sampleWindowsLibrary_def sampleWindowsHost_def)
  have "\<not> blank ''amd64''" "\<not> blank ''windows-legacy-1.2.3''" "\<not> blank ''WIN-1''" by code_simp+
  moreover have "sampleNow \<noteq> zeroTime" by (simp add: sampleNow_def time_defs)
  ultimately have "fst (Validate (wl_sha256 sampleWindowsLibrary) (wl_marshal sampleWindowsLibrary) (sampleNow + Second) r) = None"
    unfolding windows_report_accepted [OF c(1,2)] using sample_windows_collected by (simp add: c(3) lib Minute_def Hour_def Second_def)
  then show ?thesis using c(3) unfolding lib by blast
qed

text \<open>
  C13: the totals and deltas of an interface follow its true traffic although its counters
  have 32 bits. When the true number of received octets advanced by less than 4 GiB between any two
  rounds that showed the interface, the reported total is the octets received since the first of
  them plus the counter's value then, and the delta is the octets received since the round before, over any
  number of wrap-arounds and with rounds in between that fail or miss the interface. The same holds for sent octets.
\<close>

theorem windows_totals:
  assumes "list_all distinctIndexes ((Some items, rows) # older)"
    and "item \<in> set items" "\<not> wi_Loopback item" "rows (wi_Index item) = Some r"
    and "collectNetworkInterfaces uni (Some items) rows (afterNetwork uni older) = (inventory, metrics, primaryIP, network)"
    and "map row_InOctets (observed (wi_Index item) ((Some items, rows) # older)) = map of_nat received" "advancing received" "hd received < 2 ^ 64"
    and "map row_OutOctets (observed (wi_Index item) ((Some items, rows) # older)) = map of_nat sent" "advancing sent" "hd sent < 2 ^ 64"
  shows "\<exists>m \<in> set metrics. nm_InterfaceKey m = windowsInterfaceKey uni item \<and>
    unat (nm_RXBytesTotal m) = hd received - last received + last received mod 2 ^ 32 \<and>
    unat (nm_TXBytesTotal m) = hd sent - last sent + last sent mod 2 ^ 32 \<and>
    unat (nm_RXBytesDelta m) = hd received - hd (tl received @ [hd received]) \<and>
    unat (nm_TXBytesDelta m) = hd sent - hd (tl sent @ [hd sent])"
proof -
  let ?i = "wi_Index item"
  let ?state = "afterNetwork uni older ?i" and ?old = "observed ?i older"
  define m where "m = windowsMetric (windowsInterfaceKey uni item) item (Some r) ?state"
  have d: "distinct (listed items)" using assms(1) by (simp add: distinctIndexes_def)
  have "?i \<in> set (listed items)" using assms(2,3) by (auto simp: listed_def)
  then have obs: "observed ?i ((Some items, rows) # older) = r # ?old" using assms(4) by simp
  have st: "nc_initialized ?state = (?old \<noteq> [])" "nc_totalIn ?state = tracked (map row_InOctets ?old)"
    "nc_totalOut ?state = tracked (map row_OutOctets ?old)"
    "?old \<noteq> [] \<Longrightarrow> nc_inOctets ?state = row_InOctets (hd ?old)" "?old \<noteq> [] \<Longrightarrow> nc_outOctets ?state = row_OutOctets (hd ?old)"
    using afterNetwork_observed [of older uni ?i] assms(1) by (simp_all add: Let_def)
  have "metrics = map snd (fst (interfacesLoop uni rows [] (afterNetwork uni older) items))"
    using assms(5) by (auto simp: collectNetworkInterfaces_def case_prod_beta)
  then have "m \<in> set metrics"
    using interfacesLoop_metric [OF d assms(2,3), of uni rows "afterNetwork uni older" "[]"] assms(4) by (simp add: m_def)
  have totals: "nm_RXBytesTotal m = tracked (map of_nat received)" "nm_TXBytesTotal m = tracked (map of_nat sent)"
    unfolding assms(6,9) [symmetric] obs
    by (cases ?old; simp add: m_def windowsMetric_def countRow_def st Let_def)+
  have shape: "received \<noteq> []" "sent \<noteq> []"
    using assms(6,9) unfolding obs by auto
  have "nm_RXBytesDelta m = (if ?old \<noteq> [] then counterDelta32 (row_InOctets r) (row_InOctets (hd ?old)) else 0)"
    "nm_TXBytesDelta m = (if ?old \<noteq> [] then counterDelta32 (row_OutOctets r) (row_OutOctets (hd ?old)) else 0)"
    "nm_InterfaceKey m = windowsInterfaceKey uni item"
    using st by (simp_all add: m_def windowsMetric_def Let_def)
  with totals shape show ?thesis
    using tracked_true [OF assms(7) _ assms(8)] tracked_true [OF assms(10) _ assms(11)]
      delta_true [OF assms(6) [unfolded obs] assms(7)] delta_true [OF assms(9) [unfolded obs] assms(10)]
    by (intro bexI [OF _ \<open>m \<in> set metrics\<close>]) simp
qed

text \<open>The counter wraps around between the two rounds.\<close>

theorem windows_totals_witness:
  "\<exists>m \<in> set (fst (snd (collectNetworkInterfaces id (Some [sampleWindowsInterface]) [7 \<mapsto> sampleRow 10]
       (afterNetwork id [(Some [sampleWindowsInterface], [7 \<mapsto> sampleRow 4294967290])])))).
     unat (nm_RXBytesTotal m) = 4294967306 \<and> unat (nm_RXBytesDelta m) = 16"
proof -
  let ?old = "[(Some [sampleWindowsInterface], [7 \<mapsto> sampleRow 4294967290])]"
  let ?new = "collectNetworkInterfaces id (Some [sampleWindowsInterface]) [7 \<mapsto> sampleRow 10] (afterNetwork id ?old)"
  have "list_all distinctIndexes ((Some [sampleWindowsInterface], [7 \<mapsto> sampleRow 10]) # ?old)"
    by (simp add: distinctIndexes_def listed_def)
  moreover have "?new = (fst ?new, fst (snd ?new), fst (snd (snd ?new)), snd (snd (snd ?new)))" by simp
  moreover have "advancing [4294967306, 4294967290]" "advancing [5, 5]" by (simp_all add: advancing_def)
  moreover have "map row_InOctets (observed (wi_Index sampleWindowsInterface) ((Some [sampleWindowsInterface], [7 \<mapsto> sampleRow 10]) # ?old)) =
      map of_nat [4294967306, 4294967290]"
    "map row_OutOctets (observed (wi_Index sampleWindowsInterface) ((Some [sampleWindowsInterface], [7 \<mapsto> sampleRow 10]) # ?old)) = map of_nat [5, 5]"
    by (simp_all add: sampleWindowsInterface_def listed_def sampleRow_def)
  ultimately show ?thesis
    using windows_totals [of "[sampleWindowsInterface]" "[7 \<mapsto> sampleRow 10]" ?old sampleWindowsInterface "sampleRow 10" id
        "fst ?new" "fst (snd ?new)" "fst (snd (snd ?new))" "snd (snd (snd ?new))" "[4294967306, 4294967290]" "[5, 5]"]
    by (auto simp: sampleWindowsInterface_def)
qed

end
