(* ===== verification/Windows_Client.thy ===== *)
theory Windows_Client
  imports Report_Delivery Windows_Collector
begin

text \<open>
  The reporting side of the Windows agent (src/windows-agent/client.go and run.go). It differs from the
  Linux client in that waiting cannot be cancelled, a request that fails is always retried, status 425 is
  not, and nothing of the receipt but its status is used. The network is that of theory \<open>Agent_Client\<close>. The
  last section bounds the attempts of both clients.
\<close>

section \<open>The client\<close>

definition windowsPost :: "string \<Rightarrow> Client \<Rightarrow> string \<Rightarrow> http_request" where
  "windowsPost version client body =
     \<lparr>rq_header = (\<lambda>k. if k = ''Authorization'' then ''Bearer '' @ cl_token client
                      else if k = ''Content-Type'' then ''application/json''
                      else if k = ''User-Agent'' then ''server-status-windows-agent/'' @ version else []),
      rq_path_value = (\<lambda>_. []), rq_query = (\<lambda>_. []), rq_body = body\<rparr>"

definition newClient :: "string \<Rightarrow> string \<Rightarrow> Client" where
  "newClient serverURL token = \<lparr>cl_endpoint = serverURL @ ''/api/v1/reports'', cl_token = token\<rparr>"

definition windowsRetryable :: "nat \<Rightarrow> bool" where
  "windowsRetryable status \<longleftrightarrow> status = 408 \<or> status = 429 \<or> status \<ge> 500"

text \<open>\<^const>\<open>None\<close> is success; an error comes with the flag that says whether to try again.\<close>

definition windowsSendOnce :: "'s network \<Rightarrow> Client \<Rightarrow> string \<Rightarrow> nat \<Rightarrow> 's \<Rightarrow> (send_error \<times> bool) option \<times> 's" where
  "windowsSendOnce nw client body attempt s =
     (if nw_badURL nw (cl_endpoint client) then (Some (CreateFailed, False), s)
      else case nw_exchange nw attempt (cl_endpoint client) (windowsPost (nw_agentVersion nw) client body) s of
             (NoReply, s') \<Rightarrow> (Some (SendFailed, True), s')
           | (Reply status response, s') \<Rightarrow>
               (let responseBody = take 4096 response in
                if status \<noteq> 202 then (Some (ServerReturned status (TrimSpace responseBody), windowsRetryable status), s')
                else case nw_unmarshal nw responseBody of
                       None \<Rightarrow> (Some (ReceiptUndecodable, False), s')
                     | Some receipt \<Rightarrow>
                         if rr_Status receipt \<noteq> ''accepted'' then (Some (ReceiptStatus (rr_Status receipt), False), s')
                         else (None, s')))"

fun windowsSendLoop :: "'s network \<Rightarrow> Client \<Rightarrow> string \<Rightarrow> send_error option \<Rightarrow> nat list \<Rightarrow> 's \<Rightarrow> send_error option \<times> 's" where
  "windowsSendLoop nw client body lastErr [] s = (Some (GaveUp lastErr), s)"
| "windowsSendLoop nw client body lastErr (attempt # attempts) s =
     (case windowsSendOnce nw client body attempt s of
        (None, s') \<Rightarrow> (None, s')
      | (Some (e, retry), s') \<Rightarrow>
          if \<not> retry then (Some e, s') else windowsSendLoop nw client body (Some e) attempts s')"

definition windowsSend :: "(Report \<Rightarrow> string option) \<Rightarrow> 's network \<Rightarrow> Client \<Rightarrow> Report \<Rightarrow> 's \<Rightarrow> send_error option \<times> 's" where
  "windowsSend marshal nw client payload s =
     (case marshal payload of
        None \<Rightarrow> (Some EncodeFailed, s)
      | Some body \<Rightarrow> windowsSendLoop nw client body None [0..<3] s)"

section \<open>The loop\<close>

text \<open>What one turn meets; the loop ends when it is told to stop while it waits.\<close>

record 's windowsTurn =
  wt_host :: windowsHost
  wt_network :: "'s network"
  wt_elapsed :: Duration

text \<open>The delays, the state of the world and of the collector after the turns.\<close>

fun windowsTurns ::
  "(Report \<Rightarrow> string option) \<Rightarrow> windowsLibrary \<Rightarrow> windowsConfig \<Rightarrow> Client \<Rightarrow> 's windowsTurn list \<Rightarrow> WindowsCollector \<Rightarrow> 's \<Rightarrow>
   Duration list \<times> WindowsCollector \<times> 's" where
  "windowsTurns marshal lib config client [] collector s = ([], collector, s)"
| "windowsTurns marshal lib config client (t # ts) collector s =
     (let (collected, collector') = windowsCollect lib (wt_host t) config collector;
          s' = (case collected of
                  Inl _ \<Rightarrow> s
                | Inr payload \<Rightarrow> snd (windowsSend marshal (wt_network t) client payload s));
          delay = wc_IntervalSeconds config * Second - wt_elapsed t;
          (delays, rest) = windowsTurns marshal lib config client ts collector' s'
      in ((if delay < 0 then 0 else delay) # delays, rest))"

definition runAgent ::
  "(Report \<Rightarrow> string option) \<Rightarrow> windowsLibrary \<Rightarrow> windowsConfig \<Rightarrow> 's windowsTurn list \<Rightarrow> WindowsCollector \<Rightarrow> 's \<Rightarrow>
   Duration list \<times> WindowsCollector \<times> 's" where
  "runAgent marshal lib config turns collector s =
     windowsTurns marshal lib config (newClient (wc_ServerURL config) (wc_Token config)) turns collector s"

section \<open>Retries on an idempotent service\<close>

context idempotent_service
begin

lemma windowsSendOnce_effect:
  assumes "windowsSendOnce nw client body attempt s = (e, s')" "s = s0 \<or> applied s0 s"
    and "nw_exchange nw = overNetwork handle dropped lost" "windowsPost (nw_agentVersion nw) client body = request"
  shows "(s' = s0 \<or> applied s0 s') \<and> (e = None \<longrightarrow> applied s0 s')"
proof (cases "nw_badURL nw (cl_endpoint client)")
  case False
  obtain ans s1 where x: "overNetwork handle dropped lost attempt (cl_endpoint client) request s = (ans, s1)" by fastforce
  have "s' = s1 \<and> (e = None \<longrightarrow> (\<exists>response. ans = Reply 202 response))"
    using assms(1) False by (cases ans) (auto simp: windowsSendOnce_def assms(3,4) x Let_def split: if_splits option.splits)
  then show ?thesis using exchange_effect [OF x assms(2)] by blast
qed (use assms in \<open>auto simp: windowsSendOnce_def\<close>)

lemma windowsSendLoop_effect:
  assumes "nw_exchange nw = overNetwork handle dropped lost" "windowsPost (nw_agentVersion nw) client body = request"
  shows "windowsSendLoop nw client body e attempts s = (r, s') \<Longrightarrow> s = s0 \<or> applied s0 s \<Longrightarrow>
    (s' = s0 \<or> applied s0 s') \<and> (r = None \<longrightarrow> applied s0 s')"
proof (induction attempts arbitrary: s e)
  case (Cons attempt attempts)
  obtain e1 s1 where o: "windowsSendOnce nw client body attempt s = (e1, s1)" by fastforce
  note O = windowsSendOnce_effect [OF o Cons.prems(2) assms]
  show ?case
    using Cons.prems(1) o O Cons.IH [of _ s1] by (auto split: option.splits prod.splits if_splits)
qed auto

lemma windowsSend_effect:
  assumes "windowsSend marshal nw client payload s = (r, s')" "nw_exchange nw = overNetwork handle dropped lost"
    and "\<And>body. marshal payload = Some body \<Longrightarrow> windowsPost (nw_agentVersion nw) client body = request"
  shows "(s' = s \<or> applied s s') \<and> (r = None \<longrightarrow> applied s s')"
proof (cases "marshal payload")
  case (Some body)
  then show ?thesis using assms(1) windowsSendLoop_effect [OF assms(2) assms(3) [OF Some]] by (simp add: windowsSend_def)
qed (use assms(1) in \<open>auto simp: windowsSend_def\<close>)

end

section \<open>The number of attempts\<close>

text \<open>The network that counts its exchanges.\<close>

definition counted :: "'s network \<Rightarrow> (nat \<times> 's) network" where
  "counted nw = \<lparr>nw_agentVersion = nw_agentVersion nw, nw_badURL = nw_badURL nw,
     nw_exchange = (\<lambda>n url request (k, s). case nw_exchange nw n url request s of (ans, s') \<Rightarrow> (ans, (Suc k, s'))),
     nw_doneWaiting = nw_doneWaiting nw, nw_doneSending = nw_doneSending nw, nw_unmarshal = nw_unmarshal nw\<rparr>"

lemma sendOnce_counted:
  "sendOnce (counted nw) client body attempt (k, s) =
     (case sendOnce nw client body attempt s of (r, s') \<Rightarrow> (r, (if nw_badURL nw (cl_endpoint client) then k else Suc k, s')))"
  by (auto simp: sendOnce_def counted_def Let_def split: prod.splits answer.splits option.splits)

lemma windowsSendOnce_counted:
  "windowsSendOnce (counted nw) client body attempt (k, s) =
     (case windowsSendOnce nw client body attempt s of (r, s') \<Rightarrow> (r, (if nw_badURL nw (cl_endpoint client) then k else Suc k, s')))"
  by (auto simp: windowsSendOnce_def counted_def Let_def split: prod.splits answer.splits option.splits)

lemma sendLoop_counted:
  "sendLoop (counted nw) client body e attempts (k, s) = (r, (k', s')) \<Longrightarrow>
   sendLoop nw client body e attempts s = (r, s') \<and> k \<le> k' \<and> k' \<le> k + length attempts"
proof (induction attempts arbitrary: e k s)
  case (Cons attempt attempts)
  have w: "nw_doneWaiting (counted nw) = nw_doneWaiting nw" by (simp add: counted_def)
  show ?case
    using Cons.prems Cons.IH
    by (fastforce simp: w sendOnce_counted split: if_splits prod.splits sum.splits)
qed auto

lemma windowsSendLoop_counted:
  "windowsSendLoop (counted nw) client body e attempts (k, s) = (r, (k', s')) \<Longrightarrow>
   windowsSendLoop nw client body e attempts s = (r, s') \<and> k \<le> k' \<and> k' \<le> k + length attempts"
proof (induction attempts arbitrary: e k s)
  case (Cons attempt attempts)
  show ?case
    using Cons.prems Cons.IH
    by (fastforce simp: windowsSendOnce_counted split: if_splits prod.splits option.splits)
qed auto

section \<open>Properties\<close>

text \<open>
  A report of the Windows agent is ingested once, however often it is sent. Whatever requests are
  dropped, whatever answers are lost and whatever fails in the server, afterwards the server's state is
  the one before, or the database holds the inventory, the samples and the keys of the node samples as
  after exactly one ingestion; and when the client reports success it is the latter.
\<close>

theorem windows_send_once:
  assumes "inj (pg_gen pg)" and "distinct (map nd_agent_id (db_nodes (sv_store s)))"
    and "nw_exchange nw = overNetwork (reportService pg lib adminToken serverVersion message encode env now) dropped lost"
    and json: "marshal payload = Some body"
      "decodeJSON (lb_decodeReport lib) (windowsPost (nw_agentVersion nw) client body) = Inr payload"
    and "windowsSend marshal nw client payload s = (r, s')"
    and once: "once = (\<exists>auth fault t d. Ingest pg fault t auth
        (payload\<lparr>r_Inventory := NormalizeInventory (r_Inventory payload)\<rparr>) (sv_store s) = (Inr (), d) \<and>
      same_report_data d (sv_store s'))"
  shows "(s' = s \<or> once) \<and> (r = None \<longrightarrow> once)"
proof -
  let ?request = "windowsPost (nw_agentVersion nw) client body"
  have "(s' = s \<or> ingested pg lib ?request s s') \<and> (r = None \<longrightarrow> ingested pg lib ?request s s')"
    by (rule rs.windowsSend_effect [OF assms(6,3)]) (simp add: json)
  moreover have "ingested pg lib ?request s s' \<Longrightarrow> once"
    unfolding ingested_def once using assms(1,2) json(2) by auto
  ultimately show ?thesis by blast
qed


text \<open>A network that answers nothing.\<close>

definition deadNetwork :: "unit network" where
  "deadNetwork = \<lparr>nw_agentVersion = [], nw_badURL = (\<lambda>_. False), nw_exchange = (\<lambda>_ _ _ s. (NoReply, s)),
     nw_doneWaiting = (\<lambda>_. False), nw_doneSending = (\<lambda>_. False), nw_unmarshal = (\<lambda>_. None)\<rparr>"


end
