(* ===== verification/Windows_Install.thy ===== *)
theory Windows_Install
  imports Release_Cache
begin

text \<open>
  How the Windows agent gets smartctl (src/windows-agent/release_asset.go and the functions
  \<open>prepareSmartctl\<close> and \<open>activateSmartctl\<close> of install_windows.go): an installer of pinned digest is downloaded from the
  central server, run into a staging directory, and the staged directory replaces the installed one.

  The calls of the operating system and of the network that may fail are the record \<open>installEnv\<close>; a
  directory tree is a value of type \<open>'t\<close>. Timeouts are left out: the attempts to rename a directory that is in use are a list of
  outcomes.
\<close>

section \<open>Names\<close>

definition smartctlReleaseAsset :: string where
  "smartctlReleaseAsset = ''server-status-smartctl-windows-setup.exe''"

definition smartctlReleaseSHA256 :: string where
  "smartctlReleaseSHA256 = ''896337fcc253220614cf8cdbd5cf2321c5aa326a37a04160a672a281e6104c70''"

definition maxDependencyBytes :: nat where
  "maxDependencyBytes = 67108864"

text \<open>The submatch of \<open>releasedWindowsAgentPattern\<close>: behind the name, the three numbers and the optional suffix.\<close>

definition releasedWindowsAgent :: "string \<Rightarrow> string option" where
  "releasedWindowsAgent value =
     (if prefix ''windows-legacy-'' value
      then let version = drop (length ''windows-legacy-'') value in
        if \<not> prefix ''v'' version \<and> pattern_match version \<noteq> None then Some version else None
      else None)"

definition smartctlReleaseVersion :: "string \<Rightarrow> string" where
  "smartctlReleaseVersion agentVersion =
     (case releasedWindowsAgent (TrimSpace agentVersion) of Some version \<Rightarrow> CHR ''v'' # version | None \<Rightarrow> ''latest'')"

definition smartctlInstallerArguments :: "(string \<Rightarrow> string) \<Rightarrow> string \<Rightarrow> string \<Rightarrow> string list" where
  "smartctlInstallerArguments Clean architecture directory =
     [''/S'', ''/SO'', ''smartctl,drivedb,doc,'' @ (if architecture = ''386'' then ''x32'' else ''x64''), ''/D='' @ Clean directory]"

definition child :: "string \<Rightarrow> string \<Rightarrow> string" where
  "child directory name = directory @ [CHR 0x5C] @ name"

definition smartctlExecutableIn :: "string \<Rightarrow> string" where
  "smartctlExecutableIn directory = child (child directory ''bin'') ''smartctl.exe''"

definition smartctlExecutablePath :: "string \<Rightarrow> string" where
  "smartctlExecutablePath directory = smartctlExecutableIn (child directory ''smartmontools'')"

section \<open>The download\<close>

datatype install_error =
    DigestInvalid | DirectoryFailed | TemporaryFailed | RequestFailed | DownloadFailed | AnsweredStatus nat | AnnouncedTooLarge
  | SaveFailed | InvalidSize nat | DigestMismatch | SyncFailed | CloseFailed | StagingBusy | InstallerFailed | NothingInstalled
  | BackupBusy | BackupFailed | InspectFailed | ActivationFailed | ProtectFailed string

record 't installEnv =
  ie_sha256 :: digest_fun
  ie_temporary :: "string option"
  ie_mkdir :: bool
  ie_badURL :: "string \<Rightarrow> bool"
  ie_get :: "string \<Rightarrow> (nat \<times> int \<times> string \<times> bool) option"
  ie_sync :: bool
  ie_close :: bool
  ie_clean :: "string \<Rightarrow> string"
  ie_GOARCH :: string
  ie_clearStaging :: bool
  ie_run :: "string \<Rightarrow> string list \<Rightarrow> 't option"
  ie_hasSmartctl :: "'t \<Rightarrow> bool"
  ie_clearBackup :: bool
  ie_statFails :: bool
  ie_backups :: "bool list"
  ie_activate :: bool
  ie_restore :: bool
  ie_dropBackup :: bool
  ie_exists :: "string \<Rightarrow> bool"
  ie_protect :: "string \<Rightarrow> bool"

text \<open>
  An answer is its status, the announced length, the body and whether it broke off behind it. The temporary file is
  removed unless everything succeeded.
\<close>

definition downloadReleaseAsset ::
  "'t installEnv \<Rightarrow> string \<Rightarrow> string \<Rightarrow> string \<Rightarrow> string \<Rightarrow> (string \<rightharpoonup> string) \<Rightarrow> (install_error + string) \<times> (string \<rightharpoonup> string)" where
  "downloadReleaseAsset env serverURL version asset expectedSHA256 files =
     (if length expectedSHA256 \<noteq> 64 \<or> \<not> hex_decodes expectedSHA256 then (Inl DigestInvalid, files)
      else if \<not> ie_mkdir env then (Inl DirectoryFailed, files)
      else case ie_temporary env of
        None \<Rightarrow> (Inl TemporaryFailed, files)
      | Some path \<Rightarrow>
      (let endpoint = TrimRightByte serverURL CHR ''/'' @ ''/agent/releases/'' @ version @ ''/'' @ asset;
           files' = files(path := None) in
       if ie_badURL env endpoint then (Inl RequestFailed, files')
       else case ie_get env endpoint of
         None \<Rightarrow> (Inl DownloadFailed, files')
       | Some (status, announced, body, broken) \<Rightarrow>
           (let content = take (maxDependencyBytes + 1) body; written = length content in
            if status \<noteq> 200 then (Inl (AnsweredStatus status), files')
            else if announced > int maxDependencyBytes then (Inl AnnouncedTooLarge, files')
            else if broken \<and> length body \<le> maxDependencyBytes then (Inl SaveFailed, files')
            else if written = 0 \<or> written > maxDependencyBytes then (Inl (InvalidSize written), files')
            else if \<not> EqualFold (hex_encode (ie_sha256 env content)) expectedSHA256 then (Inl DigestMismatch, files')
            else if \<not> ie_sync env then (Inl SyncFailed, files')
            else if \<not> ie_close env then (Inl CloseFailed, files')
            else (Inr path, files(path \<mapsto> content)))))"

section \<open>Staging and activation\<close>

text \<open>The trees below the install directory, by their paths. The installer is removed after it ran.\<close>

definition prepareSmartctl ::
  "'t installEnv \<Rightarrow> string \<Rightarrow> string \<Rightarrow> string \<Rightarrow> (string \<rightharpoonup> string) \<Rightarrow> (string \<rightharpoonup> 't) \<Rightarrow>
   (install_error + string) \<times> (string \<rightharpoonup> string) \<times> (string \<rightharpoonup> 't)" where
  "prepareSmartctl env agentVersion serverURL directory files trees =
     (case downloadReleaseAsset env serverURL (smartctlReleaseVersion agentVersion) smartctlReleaseAsset smartctlReleaseSHA256 files of
        (Inl e, files) \<Rightarrow> (Inl e, files, trees)
      | (Inr installer, files) \<Rightarrow>
          (let staged = child directory ''smartmontools.new''; files' = files(installer := None) in
           if \<not> ie_clearStaging env then (Inl StagingBusy, files', trees)
           else case ie_run env (the (files installer)) (smartctlInstallerArguments (ie_clean env) (ie_GOARCH env) staged) of
                  None \<Rightarrow> (Inl InstallerFailed, files', trees(staged := None))
                | Some tree \<Rightarrow>
                    if \<not> ie_hasSmartctl env tree then (Inl NothingInstalled, files', trees(staged := None))
                    else (Inr staged, files', trees(staged \<mapsto> tree))))"

text \<open>The attempts to move the installed directory away, until one succeeds or the deadline has passed.\<close>

definition backedUp :: "'t installEnv \<Rightarrow> bool" where
  "backedUp env \<longleftrightarrow> True \<in> set (ie_backups env)"

fun protectPaths :: "'t installEnv \<Rightarrow> string list \<Rightarrow> install_error option" where
  "protectPaths env [] = None"
| "protectPaths env (path # paths) =
     (if ie_exists env path \<and> \<not> ie_protect env path then Some (ProtectFailed path) else protectPaths env paths)"

definition renameTree :: "string \<Rightarrow> string \<Rightarrow> (string \<rightharpoonup> 't) \<Rightarrow> (string \<rightharpoonup> 't)" where
  "renameTree source target trees = trees(source := None, target := trees source)"

definition activateSmartctl ::
  "'t installEnv \<Rightarrow> string \<Rightarrow> string \<Rightarrow> (string \<rightharpoonup> 't) \<Rightarrow> install_error option \<times> (string \<rightharpoonup> 't)" where
  "activateSmartctl env staged directory trees =
     (let target = child directory ''smartmontools''; backup = child directory ''smartmontools.old'' in
      if \<not> ie_clearBackup env then (Some BackupBusy, trees)
      else let trees = trees(backup := None) in
      if ie_statFails env then (Some InspectFailed, trees)
      else let hadTarget = (trees target \<noteq> None) in
      if hadTarget \<and> \<not> backedUp env then (Some BackupFailed, trees)
      else let trees = (if hadTarget then renameTree target backup trees else trees) in
      if \<not> ie_activate env
      then (Some ActivationFailed, if hadTarget \<and> ie_restore env then renameTree backup target trees else trees)
      else let trees = renameTree staged target trees;
               trees = (if ie_dropBackup env then trees(backup := None) else trees)
           in (protectPaths env [target, smartctlExecutablePath directory, child (child target ''bin'') ''drivedb.h'',
                 child (child target ''doc'') ''COPYING.txt''], trees))"

text \<open>The part of \<open>installService\<close> that updates smartctl: failures are reported and otherwise ignored, the staging directory is removed at the end.\<close>

definition updateSmartctl ::
  "'t installEnv \<Rightarrow> string \<Rightarrow> string \<Rightarrow> string \<Rightarrow> (string \<rightharpoonup> string) \<Rightarrow> (string \<rightharpoonup> 't) \<Rightarrow> (string \<rightharpoonup> string) \<times> (string \<rightharpoonup> 't)" where
  "updateSmartctl env agentVersion serverURL directory files trees =
     (case prepareSmartctl env agentVersion serverURL directory files trees of
        (Inl _, files, trees) \<Rightarrow> (files, trees)
      | (Inr staged, files, trees) \<Rightarrow>
          (case activateSmartctl env staged directory trees of (_, trees) \<Rightarrow> (files, trees(staged := None))))"

section \<open>Lemmas\<close>

lemma download_result:
  assumes "downloadReleaseAsset env serverURL version asset expected files = (r, files')"
    and "\<forall>path. ie_temporary env = Some path \<longrightarrow> files path = None"
  shows "case r of
      Inl _ \<Rightarrow> files' = files
    | Inr path \<Rightarrow> files path = None \<and> (\<exists>content. files' = files(path \<mapsto> content) \<and> 0 < length content \<and> length content \<le> maxDependencyBytes \<and>
        EqualFold (hex_encode (ie_sha256 env content)) expected)"
proof -
  have "files(path := None) = files" if "ie_temporary env = Some path" for path
    using assms(2) that by (simp add: fun_upd_idem)
  then show ?thesis
    using assms by (auto simp: downloadReleaseAsset_def Let_def not_less split: if_splits option.splits prod.splits)
qed

lemma child_simps [simp]: "child d a = child d b \<longleftrightarrow> a = b"
  by (simp add: child_def)

lemma activate_result:
  assumes "activateSmartctl env (child directory ''smartmontools.new'') directory trees = (e, trees')" "ie_restore env"
  shows "trees' (child directory ''smartmontools'') \<in>
    {trees (child directory ''smartmontools''), trees (child directory ''smartmontools.new'')}"
proof -
  define T B S where "T = child directory ''smartmontools''" and "B = child directory ''smartmontools.old''"
    and "S = child directory ''smartmontools.new''"
  have ne: "T \<noteq> B" "T \<noteq> S" "B \<noteq> S" by (simp_all add: T_def B_def S_def)
  note A = assms(1) [unfolded activateSmartctl_def Let_def, folded T_def B_def S_def]
  show ?thesis
    unfolding T_def [symmetric] S_def [symmetric]
    using A assms(2) ne by (auto simp: renameTree_def simp del: protectPaths.simps split: if_splits)
qed

section \<open>Properties\<close>


definition sampleInstallEnv :: "nat installEnv" where
  "sampleInstallEnv =
     \<lparr>ie_sha256 = (\<lambda>_. [0x89, 0x63, 0x37, 0xfc, 0xc2, 0x53, 0x22, 0x06, 0x14, 0xcf, 0x8c, 0xdb, 0xd5, 0xcf, 0x23, 0x21,
        0xc5, 0xaa, 0x32, 0x6a, 0x37, 0xa0, 0x41, 0x60, 0xa6, 0x72, 0xa2, 0x81, 0xe6, 0x10, 0x4c, 0x70]),
      ie_temporary = Some ''setup'', ie_mkdir = True, ie_badURL = (\<lambda>_. False), ie_get = (\<lambda>_. Some (200, 3, ''exe'', False)),
      ie_sync = True, ie_close = True, ie_clean = (\<lambda>s. s), ie_GOARCH = ''amd64'', ie_clearStaging = True, ie_run = (\<lambda>_ _. Some 7),
      ie_hasSmartctl = (\<lambda>_. True), ie_clearBackup = True, ie_statFails = False, ie_backups = [False, True], ie_activate = True,
      ie_restore = True, ie_dropBackup = True, ie_exists = (\<lambda>_. True), ie_protect = (\<lambda>_. True)\<rparr>"


text \<open>
  The release the installer asks for is one that the server serves: whatever the version of the
  agent, unless its name is longer than 78 characters, the version and the asset of the request
  pass the checks of the release cache.
\<close>

theorem smartctl_release_served:
  assumes "length agentVersion \<le> 78"
  shows "validReleaseVersion (smartctlReleaseVersion agentVersion) \<and> validReleaseAsset smartctlReleaseAsset"
proof (cases "releasedWindowsAgent (TrimSpace agentVersion)")
  case None
  then show ?thesis by (simp add: smartctlReleaseVersion_def validReleaseVersion_def validReleaseAsset_def releaseAssets_def smartctlReleaseAsset_def)
next
  case (Some version)
  then have v: "\<not> prefix ''v'' version" "pattern_match version \<noteq> None" "TrimSpace agentVersion = ''windows-legacy-'' @ version"
    by (auto simp: releasedWindowsAgent_def Let_def prefix_def split: if_splits)
  have "length (TrimSpace agentVersion) \<le> length agentVersion"
    using sublist_length_le [OF TrimSpace_sublist] .
  then have "length version \<le> 63" using assms v(3) by simp
  moreover have "pattern_match (CHR ''v'' # version) = pattern_match version"
    using v(1) by (simp add: pattern_match_def TrimPrefix_def)
  ultimately show ?thesis
    using v(2) Some
    by (simp add: smartctlReleaseVersion_def validReleaseVersion_def releaseVersionPattern_def validReleaseAsset_def releaseAssets_def smartctlReleaseAsset_def)
qed

theorem smartctl_release_served_witness:
  "smartctlReleaseVersion '' windows-legacy-1.4.0-rc.1 '' = ''v1.4.0-rc.1'' \<and>
   validReleaseVersion (smartctlReleaseVersion '' windows-legacy-1.4.0-rc.1 '') \<and> smartctlReleaseVersion ''windows-legacy-dev'' = ''latest''"
proof -
  have "smartctlReleaseVersion '' windows-legacy-1.4.0-rc.1 '' = ''v1.4.0-rc.1''" "smartctlReleaseVersion ''windows-legacy-dev'' = ''latest''"
    by code_simp+
  then show ?thesis using smartctl_release_served [of "'' windows-legacy-1.4.0-rc.1 ''"] by simp
qed

end
