(* ===== verification/Windows_Setup.thy ===== *)
theory Windows_Setup
  imports Windows_Install Windows_Collector
begin

text \<open>
  Installing, upgrading and removing the Windows service (\<open>installService\<close>, \<open>removeService\<close>, \<open>serviceCommand\<close> and
  \<open>replaceExecutableAfterStop\<close> of src/windows-agent/install_windows.go, \<open>installCommand\<close> and \<open>upgradeCommand\<close> of
  main_windows.go).

  A machine is its files, the directory trees of theory \<open>Windows_Install\<close>, the paths whose access is restricted and the
  commands given to sc.exe. What sc.exe answers is an argument, which may depend on the commands before; warnings
  on the console, pauses and the parsing of flags are left out.
\<close>

section \<open>Machine and environment\<close>

record 't machine =
  mc_files :: "string \<rightharpoonup> string"
  mc_trees :: "string \<rightharpoonup> 't"
  mc_protected :: "string list"
  mc_commands :: "string list list"

text \<open>
  An attempt to replace the executable: it succeeds, or the copy fails and may leave a part of the file
  behind, or the copy cannot be renamed; whether the copy can then be removed is the last argument.
\<close>

datatype attempt = Replaced | CopyFailed "string option" bool | RenameFailed bool

datatype setup_error =
    InstallDirectoryFailed | ProtectDirectoryFailed | WriteConfigFailed windows_config_error | ProtectConfigFailed
  | NoExecutable | ReplaceFailed | ProtectExecutableFailed | UpdateServiceFailed | CreateServiceFailed
  | StartServiceFailed | DeleteServiceFailed | PurgeFailed | UnsupportedAction | CommandFailed | BadConfig windows_config_error

record 't setupEnv =
  su_smartctl :: "'t installEnv"
  su_ProgramFiles :: string
  su_Version :: string
  su_urlParts :: "string \<Rightarrow> (string \<times> string) option"
  su_marshalIndent :: "windowsConfig \<Rightarrow> string option"
  su_unmarshal :: "string \<Rightarrow> windowsConfig option"
  su_mkdir :: bool
  su_writable :: bool
  su_Executable :: "string option"
  su_Abs :: "string \<Rightarrow> string"
  su_equalFold :: "string \<Rightarrow> string \<Rightarrow> bool"
  su_attempts :: "attempt list"
  su_sc :: "string list list \<Rightarrow> string list \<Rightarrow> bool"
  su_purge :: "(string \<rightharpoonup> string) \<Rightarrow> (string \<rightharpoonup> 't) \<Rightarrow> bool \<times> (string \<rightharpoonup> string) \<times> (string \<rightharpoonup> 't)"

definition serviceName :: string where
  "serviceName = ''ServerStatusAgent''"

definition defaultInstallDirectory :: "'t setupEnv \<Rightarrow> string" where
  "defaultInstallDirectory env =
     (let programFiles = TrimSpace (su_ProgramFiles env) in
      ie_clean (su_smartctl env)
        (child (if programFiles = [] then ''C:'' @ [CHR 0x5C] @ ''Program Files'' else programFiles) ''ServerStatus''))"

definition defaultConfigPath :: "'t setupEnv \<Rightarrow> string" where
  "defaultConfigPath env = child (defaultInstallDirectory env) ''agent.json''"

definition samePath :: "'t setupEnv \<Rightarrow> string \<Rightarrow> string \<Rightarrow> bool" where
  "samePath env first second = su_equalFold env (su_Abs env first) (su_Abs env second)"

definition protectPath :: "'t setupEnv \<Rightarrow> string \<Rightarrow> 't machine \<Rightarrow> bool \<times> 't machine" where
  "protectPath env path m =
     (if ie_protect (su_smartctl env) path then (True, m\<lparr>mc_protected := mc_protected m @ [path]\<rparr>) else (False, m))"

text \<open>One command of sc.exe.\<close>

definition sc :: "'t setupEnv \<Rightarrow> string list \<Rightarrow> 't machine \<Rightarrow> bool \<times> 't machine" where
  "sc env arguments m = (su_sc env (mc_commands m) arguments, m\<lparr>mc_commands := mc_commands m @ [arguments]\<rparr>)"

section \<open>Replacing the executable\<close>

text \<open>What an attempt that failed leaves behind.\<close>

definition afterFailure :: "string \<Rightarrow> string \<Rightarrow> attempt \<Rightarrow> (string \<rightharpoonup> string) \<Rightarrow> (string \<rightharpoonup> string)" where
  "afterFailure program copy attempt files =
     (case attempt of
        Replaced \<Rightarrow> files
      | CopyFailed part ok \<Rightarrow>
          (let fs = (case part of None \<Rightarrow> files | Some p \<Rightarrow> files(copy \<mapsto> p)) in if ok then fs(copy := None) else fs)
      | RenameFailed ok \<Rightarrow> (let fs = files(copy \<mapsto> program) in if ok then fs(copy := None) else fs))"

text \<open>The attempts until one succeeds or the deadline has passed; a source that cannot be read fails every one.\<close>

fun replaceExecutableAfterStop ::
  "string \<Rightarrow> string \<Rightarrow> attempt list \<Rightarrow> (string \<rightharpoonup> string) \<Rightarrow> setup_error option \<times> (string \<rightharpoonup> string)" where
  "replaceExecutableAfterStop source target [] files = (Some ReplaceFailed, files)"
| "replaceExecutableAfterStop source target (attempt # attempts) files =
     (case files source of
        None \<Rightarrow> replaceExecutableAfterStop source target attempts files
      | Some program \<Rightarrow>
          if attempt = Replaced then (None, files(target @ ''.new'' := None, target \<mapsto> program))
          else replaceExecutableAfterStop source target attempts (afterFailure program (target @ ''.new'') attempt files))"

section \<open>Installing\<close>

definition serviceArguments :: "string \<Rightarrow> string \<Rightarrow> string \<Rightarrow> string list" where
  "serviceArguments command target configPath =
     [command, serviceName, ''binPath='', [CHR 0x22] @ target @ [CHR 0x22] @ '' service --config '' @ [CHR 0x22] @ configPath @ [CHR 0x22],
      ''start='', ''auto'', ''DisplayName='', ''Server Status Agent'']"

definition describeService :: "string list" where
  "describeService = [''description'', serviceName, ''Collects Windows server status and reports it to the central service.'']"

text \<open>Registering and starting the service.\<close>

definition activateService ::
  "'t setupEnv \<Rightarrow> string \<Rightarrow> string \<Rightarrow> bool \<Rightarrow> 't machine \<Rightarrow> setup_error option \<times> 't machine" where
  "activateService env target configPath serviceExists m =
     (case sc env (serviceArguments (if serviceExists then ''config'' else ''create'') target configPath) m of
        (False, m) \<Rightarrow> (Some (if serviceExists then UpdateServiceFailed else CreateServiceFailed), m)
      | (True, m) \<Rightarrow>
      (case sc env describeService m of (_, m) \<Rightarrow>
      (case sc env [''start'', serviceName] m of
         (False, m) \<Rightarrow> (Some StartServiceFailed, m)
       | (True, m) \<Rightarrow> (None, m))))"

text \<open>What follows the preparation of smartctl, of which \<open>prepared\<close> is the result.\<close>

definition setupExecutable ::
  "'t setupEnv \<Rightarrow> string \<Rightarrow> string \<Rightarrow> install_error + string \<Rightarrow> 't machine \<Rightarrow> setup_error option \<times> 't machine" where
  "setupExecutable env directory configPath prepared m =
     (case su_Executable env of
        None \<Rightarrow> (Some NoExecutable, m)
      | Some executable \<Rightarrow>
      (let executable = su_Abs env executable; target = child directory ''server-status-agent.exe'' in
      case sc env [''query'', serviceName] m of (serviceExists, m) \<Rightarrow>
      let m = (if serviceExists then snd (sc env [''stop'', serviceName] m) else m) in
      case (if samePath env executable target then (None, mc_files m)
            else replaceExecutableAfterStop executable target (su_attempts env) (mc_files m)) of
        (Some e, files) \<Rightarrow> (Some e, m\<lparr>mc_files := files\<rparr>)
      | (None, files) \<Rightarrow>
      (case protectPath env target (m\<lparr>mc_files := files\<rparr>) of
         (False, m) \<Rightarrow> (Some ProtectExecutableFailed, m)
       | (True, m) \<Rightarrow>
           (let m = (case prepared of
                       Inl _ \<Rightarrow> m
                     | Inr staged \<Rightarrow> m\<lparr>mc_trees := snd (activateSmartctl (su_smartctl env) staged directory (mc_trees m))\<rparr>)
            in activateService env target configPath serviceExists m))))"

definition installService :: "'t setupEnv \<Rightarrow> windowsConfig \<Rightarrow> 't machine \<Rightarrow> setup_error option \<times> 't machine" where
  "installService env config m =
     (let directory = defaultInstallDirectory env; configPath = defaultConfigPath env in
      if \<not> su_mkdir env then (Some InstallDirectoryFailed, m)
      else case protectPath env directory m of
        (False, m) \<Rightarrow> (Some ProtectDirectoryFailed, m)
      | (True, m) \<Rightarrow>
      (case writeConfig (su_urlParts env) (su_marshalIndent env) (su_writable env) (mc_files m) configPath config of
         (Some e, files) \<Rightarrow> (Some (WriteConfigFailed e), m\<lparr>mc_files := files\<rparr>)
       | (None, files) \<Rightarrow>
      (case protectPath env configPath (m\<lparr>mc_files := files\<rparr>) of
         (False, m) \<Rightarrow> (Some ProtectConfigFailed, m)
       | (True, m) \<Rightarrow>
      (case prepareSmartctl (su_smartctl env) (su_Version env) (wc_ServerURL config) directory (mc_files m) (mc_trees m) of
         (prepared, files, trees) \<Rightarrow>
      (case setupExecutable env directory configPath prepared (m\<lparr>mc_files := files, mc_trees := trees\<rparr>) of
         (e, m) \<Rightarrow>
           (e, case prepared of Inl _ \<Rightarrow> m | Inr staged \<Rightarrow> m\<lparr>mc_trees := (mc_trees m)(staged := None)\<rparr>))))))"

section \<open>The other commands\<close>

definition removeService :: "'t setupEnv \<Rightarrow> bool \<Rightarrow> 't machine \<Rightarrow> setup_error option \<times> 't machine" where
  "removeService env purge m =
     (case sc env [''stop'', serviceName] m of (_, m) \<Rightarrow>
      case sc env [''delete'', serviceName] m of
        (False, m) \<Rightarrow> (Some DeleteServiceFailed, m)
      | (True, m) \<Rightarrow>
          if \<not> purge then (None, m)
          else case su_purge env (mc_files m) (mc_trees m) of
                 (ok, files, trees) \<Rightarrow> (if ok then None else Some PurgeFailed, m\<lparr>mc_files := files, mc_trees := trees\<rparr>))"

definition serviceCommand :: "'t setupEnv \<Rightarrow> string \<Rightarrow> 't machine \<Rightarrow> setup_error option \<times> 't machine" where
  "serviceCommand env action m =
     (if action = ''start'' \<or> action = ''stop'' \<or> action = ''status''
      then case sc env [if action = ''status'' then ''query'' else action, serviceName] m of
             (ok, m) \<Rightarrow> (if ok then None else Some CommandFailed, m)
      else (Some UnsupportedAction, m))"

definition upgradeCommand :: "'t setupEnv \<Rightarrow> string \<Rightarrow> 't machine \<Rightarrow> setup_error option \<times> 't machine" where
  "upgradeCommand env configPath m =
     (case loadConfig (su_urlParts env) (su_unmarshal env) (mc_files m) configPath of
        Inl e \<Rightarrow> (Some (BadConfig e), m)
      | Inr config \<Rightarrow> installService env config m)"

definition installCommand ::
  "'t setupEnv \<Rightarrow> string \<Rightarrow> string \<Rightarrow> string \<Rightarrow> string \<Rightarrow> int \<Rightarrow> 't machine \<Rightarrow> setup_error option \<times> 't machine" where
  "installCommand env serverURL agentID token environment interval m =
     (case validateConfig (su_urlParts env)
             \<lparr>wc_ServerURL = serverURL, wc_AgentID = agentID, wc_Token = token, wc_IntervalSeconds = interval,
              wc_Labels = Some [''environment'' \<mapsto> environment]\<rparr> of
        Inl e \<Rightarrow> (Some (BadConfig e), m)
      | Inr config \<Rightarrow> installService env config m)"

section \<open>Lemmas\<close>

lemma afterFailure_frame: "path \<noteq> copy \<Longrightarrow> afterFailure program copy attempt files path = files path"
  by (cases attempt) (simp_all add: afterFailure_def Let_def split: option.split)

lemma replace_result:
  assumes "replaceExecutableAfterStop source target attempts files = (e, files')" "files source = Some program" "source \<noteq> target @ ''.new''"
  shows "(e = None \<longrightarrow> files' target = Some program) \<and>
    (e \<noteq> None \<longrightarrow> e = Some ReplaceFailed \<and> files' target = files target) \<and>
    (\<forall>path. path \<notin> {target, target @ ''.new''} \<longrightarrow> files' path = files path)"
  using assms
proof (induction attempts arbitrary: files)
  case (Cons attempt attempts)
  have IH: ?case
    if "replaceExecutableAfterStop source target attempts files1 = (e, files')"
      and "\<forall>path. path \<noteq> target @ ''.new'' \<longrightarrow> files1 path = files path" for files1
  proof -
    have "files1 source = Some program" "files1 target = files target" using that(2) Cons.prems(2,3) by simp_all
    then show ?thesis using Cons.IH [OF that(1) _ Cons.prems(3)] that(2) by simp
  qed
  show ?case
  proof (cases "attempt = Replaced")
    case False
    then show ?thesis
      using Cons.prems(1,2) by (intro IH [of "afterFailure program (target @ ''.new'') attempt files"]) (simp_all add: afterFailure_frame)
  qed (use Cons.prems(1,2) in auto)
qed auto

lemma prepare_files:
  assumes "prepareSmartctl env version serverURL directory files trees = (r, files', trees')"
    and "\<forall>path. ie_temporary env = Some path \<longrightarrow> files path = None"
  shows "files' = files"
proof -
  obtain d files1 where d: "downloadReleaseAsset env serverURL (smartctlReleaseVersion version) smartctlReleaseAsset smartctlReleaseSHA256 files = (d, files1)"
    by fastforce
  show ?thesis
    using download_result [OF d assms(2)] d assms(1)
    by (cases d) (auto simp: prepareSmartctl_def Let_def fun_upd_idem split: if_splits option.splits)
qed

lemma target_names [simp]:
  "child d ''server-status-agent.exe'' @ ''.new'' \<noteq> child d ''agent.json''"
  "child d ''agent.json'' \<noteq> child d ''server-status-agent.exe'' @ ''.new''"
  by (simp_all add: child_def)

text \<open>The commands up to the moment the service is stopped.\<close>

definition stopped :: "'t setupEnv \<Rightarrow> string list list \<Rightarrow> string list list" where
  "stopped env before = before @ [[''query'', serviceName]] @ (if su_sc env before [''query'', serviceName] then [[''stop'', serviceName]] else [])"

lemma activateService_result:
  assumes "activateService env target configPath serviceExists m = (e, m')"
  shows "mc_files m' = mc_files m \<and> mc_protected m' = mc_protected m \<and> mc_trees m' = mc_trees m \<and>
    (e = None \<longrightarrow> mc_commands m' = mc_commands m @
       [serviceArguments (if serviceExists then ''config'' else ''create'') target configPath, describeService, [''start'', serviceName]]) \<and>
    e \<in> {None, Some UpdateServiceFailed, Some CreateServiceFailed, Some StartServiceFailed}"
  using assms by (auto simp: activateService_def sc_def split: bool.splits)

lemma setupExecutable_result:
  assumes "setupExecutable env directory configPath prepared m = (e, m')"
    and "su_Executable env = Some raw" "mc_files m (su_Abs env raw) = Some program" "su_Abs env raw \<noteq> target @ ''.new''"
    and target: "target = child directory ''server-status-agent.exe''"
  shows "(\<forall>path. path \<notin> {target, target @ ''.new''} \<longrightarrow> mc_files m' path = mc_files m path) \<and>
    set (mc_protected m) \<subseteq> set (mc_protected m') \<and>
    (e = None \<longrightarrow> target \<in> set (mc_protected m') \<and> (\<not> samePath env (su_Abs env raw) target \<longrightarrow> mc_files m' target = Some program) \<and>
       mc_commands m' = stopped env (mc_commands m) @
         [serviceArguments (if su_sc env (mc_commands m) [''query'', serviceName] then ''config'' else ''create'') target configPath,
          describeService, [''start'', serviceName]]) \<and>
    (e = Some ReplaceFailed \<longrightarrow> mc_commands m' = stopped env (mc_commands m) \<and> mc_files m' target = mc_files m target) \<and>
    e \<notin> {Some NoExecutable, Some InstallDirectoryFailed, Some ProtectDirectoryFailed, Some ProtectConfigFailed} \<and> (\<forall>x. e \<noteq> Some (WriteConfigFailed x))"
proof -
  let ?exists = "su_sc env (mc_commands m) [''query'', serviceName]"
  define m1 where "m1 = m\<lparr>mc_commands := stopped env (mc_commands m)\<rparr>"
  have m1: "(if ?exists then snd (sc env [''stop'', serviceName] (m\<lparr>mc_commands := mc_commands m @ [[''query'', serviceName]]\<rparr>))
      else m\<lparr>mc_commands := mc_commands m @ [[''query'', serviceName]]\<rparr>) = m1"
    by (simp add: m1_def stopped_def sc_def)
  obtain e1 files where r: "(if samePath env (su_Abs env raw) target then (None, mc_files m)
      else replaceExecutableAfterStop (su_Abs env raw) target (su_attempts env) (mc_files m)) = (e1, files)" by fastforce
  have R: "(e1 = None \<longrightarrow> \<not> samePath env (su_Abs env raw) target \<longrightarrow> files target = Some program) \<and>
    (e1 \<noteq> None \<longrightarrow> e1 = Some ReplaceFailed \<and> files target = mc_files m target) \<and>
    (\<forall>path. path \<notin> {target, target @ ''.new''} \<longrightarrow> files path = mc_files m path)"
    using r replace_result [of "su_Abs env raw" target "su_attempts env" "mc_files m" e1 files program] assms(3,4) by (auto split: if_splits)
  define trees where "trees = (case prepared of Inl _ \<Rightarrow> mc_trees m
      | Inr staged \<Rightarrow> snd (activateSmartctl (su_smartctl env) staged directory (mc_trees m)))"
  define m2 where "m2 = m1\<lparr>mc_files := files, mc_protected := mc_protected m @ [target], mc_trees := trees\<rparr>"
  have E: "(e, m') = (case e1 of Some x \<Rightarrow> (Some x, m1\<lparr>mc_files := files\<rparr>)
      | None \<Rightarrow> if ie_protect (su_smartctl env) target then activateService env target configPath ?exists m2
                else (Some ProtectExecutableFailed, m1\<lparr>mc_files := files\<rparr>))"
  proof -
    have q: "sc env [''query'', serviceName] m = (?exists, m\<lparr>mc_commands := mc_commands m @ [[''query'', serviceName]]\<rparr>)"
      by (simp add: sc_def)
    have "mc_files m1 = mc_files m" by (simp add: m1_def)
    note S = assms(1) [unfolded setupExecutable_def assms(2) option.case Let_def q prod.case m1 target [symmetric] this r]
    show ?thesis
      unfolding S [symmetric] by (cases e1; cases prepared) (simp_all add: protectPath_def m2_def trees_def m1_def)
  qed
  obtain e2 m3 where a: "activateService env target configPath ?exists m2 = (e2, m3)" by fastforce
  show ?thesis
  proof (cases "e1 = None \<and> ie_protect (su_smartctl env) target")
    case True
    then have "e = e2" "m' = m3" using E a by simp_all
    then show ?thesis using True R activateService_result [OF a] by (auto simp: m1_def m2_def)
  next
    case False
    then show ?thesis using E R by (cases e1) (auto simp: m1_def)
  qed
qed

section \<open>Properties\<close>

text \<open>
  C20: what an installation or upgrade leaves behind. When it succeeds, the configuration file holds the
  validated configuration, the directory, this file and the executable are protected, the installed executable is the program that
  ran the installation, and the service was stopped if it existed, configured or created, and started, in
  this order. When it fails before the executable is touched, no command was given to the service
  manager. When the executable cannot be replaced, the installed one is unchanged, but the service, if
  it existed, was stopped and is not started again.
\<close>

theorem install_service:
  assumes "installService env config m = (e, m')" "su_Executable env = Some raw"
    and names: "directory = defaultInstallDirectory env" "configPath = child directory ''agent.json''" "target = child directory ''server-status-agent.exe''"
    and program: "mc_files m (su_Abs env raw) = Some program" "su_Abs env raw \<notin> {configPath, target @ ''.new''}"
    and fresh: "\<forall>path. ie_temporary (su_smartctl env) = Some path \<longrightarrow> mc_files m path = None \<and> path \<noteq> configPath"
  shows "(e = None \<longrightarrow>
      (\<exists>valid content. validateConfig (su_urlParts env) config = Inr valid \<and> su_marshalIndent env valid = Some content \<and>
         mc_files m' configPath = Some (content @ [CHR 0x0D, CHR 0x0A])) \<and>
      {directory, configPath, target} \<subseteq> set (mc_protected m') \<and>
      (\<not> samePath env (su_Abs env raw) target \<longrightarrow> mc_files m' target = Some program) \<and>
      mc_commands m' = stopped env (mc_commands m) @
        [serviceArguments (if su_sc env (mc_commands m) [''query'', serviceName] then ''config'' else ''create'') target configPath,
         describeService, [''start'', serviceName]]) \<and>
    (e \<in> {Some InstallDirectoryFailed, Some ProtectDirectoryFailed, Some ProtectConfigFailed} \<or> (\<exists>x. e = Some (WriteConfigFailed x)) \<longrightarrow>
      mc_commands m' = mc_commands m) \<and>
    (e = Some ReplaceFailed \<longrightarrow> mc_files m' target = mc_files m target \<and> mc_commands m' = stopped env (mc_commands m))"
proof -
  note I = assms(1) [unfolded installService_def Let_def defaultConfigPath_def names(1) [symmetric] names(2) [symmetric]]
  show ?thesis
  proof (cases "su_mkdir env \<and> ie_protect (su_smartctl env) directory \<and> ie_protect (su_smartctl env) configPath \<and>
      fst (writeConfig (su_urlParts env) (su_marshalIndent env) (su_writable env) (mc_files m) configPath config) = None")
    case False
    then show ?thesis
      using I by (auto simp: protectPath_def split: if_splits prod.splits option.splits)
  next
    case True
    then obtain valid content where w: "validateConfig (su_urlParts env) config = Inr valid" "su_marshalIndent env valid = Some content"
      "writeConfig (su_urlParts env) (su_marshalIndent env) (su_writable env) (mc_files m) configPath config =
         (None, (mc_files m)(configPath \<mapsto> content @ [CHR 0x0D, CHR 0x0A]))"
      by (auto simp: writeConfig_def split: sum.splits option.splits if_splits)
    let ?files = "(mc_files m)(configPath \<mapsto> content @ [CHR 0x0D, CHR 0x0A])"
    obtain prepared files trees where p: "prepareSmartctl (su_smartctl env) (su_Version env) (wc_ServerURL config) directory ?files (mc_trees m) = (prepared, files, trees)"
      by (rule prod_cases3)
    have files: "files = ?files" using prepare_files [OF p] fresh by auto
    define m1 where "m1 = m\<lparr>mc_protected := mc_protected m @ [directory, configPath], mc_files := ?files, mc_trees := trees\<rparr>"
    obtain e1 m2 where s: "setupExecutable env directory configPath prepared m1 = (e1, m2)" by fastforce
    have r: "e = e1" "mc_files m' = mc_files m2" "mc_protected m' = mc_protected m2" "mc_commands m' = mc_commands m2"
      using I True w(3) p s files by (auto simp: protectPath_def m1_def split: sum.splits)
    have "mc_files m1 (su_Abs env raw) = Some program" using program by (simp add: m1_def)
    note S = setupExecutable_result [OF s assms(2) this _ names(3)]
    have ne: "configPath \<notin> {target, target @ ''.new''}" "target \<noteq> configPath" by (simp_all add: names)
    show ?thesis
      using S program(2) w(1,2) ne unfolding r by (auto simp: m1_def)
  qed
qed

definition setupSample :: "nat setupEnv" where
  "setupSample =
     \<lparr>su_smartctl = sampleInstallEnv, su_ProgramFiles = ''C:'', su_Version = ''windows-legacy-1.4.0'',
      su_urlParts = (\<lambda>_. Some (''https'', ''status.example'')), su_marshalIndent = (\<lambda>_. Some ''json''), su_unmarshal = (\<lambda>_. None),
      su_mkdir = True, su_writable = True, su_Executable = Some ''D:agent.exe'', su_Abs = (\<lambda>path. path), su_equalFold = (=),
      su_attempts = [RenameFailed True], su_sc = (\<lambda>_ _. True), su_purge = (\<lambda>f t. (True, f, t))\<rparr>"

text \<open>An upgrade whose new executable cannot be moved into place: the service is left stopped.\<close>

theorem install_service_witness:
  "let r = installService setupSample sampleWindowsConfig \<lparr>mc_files = [''D:agent.exe'' \<mapsto> ''new''], mc_trees = Map.empty, mc_protected = [], mc_commands = []\<rparr>
   in fst r = Some ReplaceFailed \<and> mc_commands (snd r) = [[''query'', serviceName], [''stop'', serviceName]]"
proof -
  let ?m = "\<lparr>mc_files = [''D:agent.exe'' \<mapsto> ''new''], mc_trees = Map.empty, mc_protected = [], mc_commands = []\<rparr>"
  let ?r = "installService setupSample sampleWindowsConfig ?m"
  have e: "fst ?r = Some ReplaceFailed" by code_simp
  have "stopped setupSample [] = [[''query'', serviceName], [''stop'', serviceName]]" by (simp add: stopped_def setupSample_def)
  then have "mc_commands (snd ?r) = [[''query'', serviceName], [''stop'', serviceName]]"
    using install_service [OF surjective_pairing [of ?r] _ refl refl refl, of "''D:agent.exe''" "''new''"] e
    by (simp add: setupSample_def sampleInstallEnv_def defaultInstallDirectory_def child_def)
  with e show ?thesis by (simp add: Let_def)
qed

end
