(* ===== verification/Windows_Service.thy ===== *)
theory Windows_Service
  imports Windows_Collector
begin

text \<open>
  The Windows service around the agent (\<open>Execute\<close>, src/windows-agent/service_windows.go): a state machine
  that answers the requests of the service manager and ends when the agent's loop returns. The channel
  \<open>stop\<close> is the number of times it was closed, since closing it twice would panic. Of the agent's loop
  (\<open>runAgent\<close>) it matters that it returns only after \<open>stop\<close> was closed, and then without an error.
\<close>

section \<open>States and events\<close>

datatype svc_state = StartPending | Running | StopPending

datatype svc_event = AgentReturned bool | Interrogate | StopRequest | ShutdownRequest | OtherRequest nat

record windowsService =
  sc_stopping :: bool
  sc_current :: svc_state
  sc_statuses :: "svc_state list"
  sc_closes :: nat
  sc_exit :: "(bool \<times> nat) option"

text \<open>What precedes the loop: the configuration and the log file are read or the service gives up.\<close>

definition startService :: "windows_config_error + windowsConfig \<Rightarrow> bool \<Rightarrow> windowsService" where
  "startService config logger =
     (let st = \<lparr>sc_stopping = False, sc_current = StartPending, sc_statuses = [StartPending], sc_closes = 0, sc_exit = None\<rparr> in
      case config of
        Inl _ \<Rightarrow> st\<lparr>sc_exit := Some (True, 1)\<rparr>
      | Inr _ \<Rightarrow>
          if \<not> logger then st\<lparr>sc_exit := Some (True, 2)\<rparr>
          else st\<lparr>sc_current := Running, sc_statuses := [StartPending, Running]\<rparr>)"

definition svcStep :: "svc_event \<Rightarrow> windowsService \<Rightarrow> windowsService" where
  "svcStep ev st =
     (if sc_exit st \<noteq> None then st
      else case ev of
        AgentReturned failed \<Rightarrow> st\<lparr>sc_exit := Some (if failed then (True, 3) else (False, 0))\<rparr>
      | Interrogate \<Rightarrow> st\<lparr>sc_statuses := sc_statuses st @ [sc_current st]\<rparr>
      | OtherRequest _ \<Rightarrow> st
      | _ \<Rightarrow>
          if sc_stopping st then st
          else st\<lparr>sc_stopping := True, sc_current := StopPending, sc_statuses := sc_statuses st @ [StopPending],
                  sc_closes := sc_closes st + 1\<rparr>)"

text \<open>The states the service can reach; a request may come at any time.\<close>

inductive serviceReaches :: "windowsService \<Rightarrow> windowsService \<Rightarrow> bool" for st0 where
  start: "serviceReaches st0 st0"
| asked: "serviceReaches st0 st \<Longrightarrow> ev \<in> {Interrogate, StopRequest, ShutdownRequest, OtherRequest n} \<Longrightarrow> serviceReaches st0 (svcStep ev st)"
| returned: "serviceReaches st0 st \<Longrightarrow> sc_closes st > 0 \<Longrightarrow> serviceReaches st0 (svcStep (AgentReturned False) st)"

section \<open>The invariant\<close>

definition service_ok :: "windowsService \<Rightarrow> bool" where
  "service_ok st \<longleftrightarrow>
     sc_closes st = (if sc_stopping st then 1 else 0) \<and>
     (sc_stopping st \<longrightarrow> sc_current st = StopPending) \<and>
     (sc_current st = StartPending \<longrightarrow> sc_exit st \<in> {Some (True, 1), Some (True, 2)}) \<and>
     (sc_current st = StopPending \<longrightarrow> sc_stopping st) \<and>
     (sc_exit st \<noteq> None \<longrightarrow> sc_exit st = Some (False, 0) \<and> sc_stopping st \<or>
        sc_exit st \<in> {Some (True, 1), Some (True, 2)} \<and> sc_current st = StartPending) \<and>
     (\<exists>running pending. sc_statuses st = StartPending # replicate running Running @ replicate pending StopPending \<and>
        (sc_current st \<noteq> StopPending \<longrightarrow> pending = 0) \<and> (sc_current st = StopPending \<longrightarrow> pending > 0) \<and>
        (sc_current st = StartPending \<longleftrightarrow> running = 0))"

lemma service_ok_start: "service_ok (startService config logger)"
proof (cases config)
  case (Inr c)
  have "[StartPending, Running] = StartPending # replicate 1 Running @ replicate 0 StopPending" by simp
  then show ?thesis
    using Inr by (cases logger) (auto simp: startService_def service_ok_def Let_def intro: exI [of _ 1])
qed (simp add: startService_def service_ok_def)

lemma service_ok_step:
  assumes "service_ok st" "\<forall>failed. ev = AgentReturned failed \<longrightarrow> \<not> failed \<and> sc_closes st > 0"
  shows "service_ok (svcStep ev st)"
proof (cases "sc_exit st")
  case (Some e)
  then show ?thesis using assms(1) by (simp add: svcStep_def)
next
  case None
  obtain running pending where s: "sc_statuses st = StartPending # replicate running Running @ replicate pending StopPending"
    "sc_current st \<noteq> StopPending \<longrightarrow> pending = 0" "sc_current st = StopPending \<longrightarrow> pending > 0"
    "sc_current st = StartPending \<longleftrightarrow> running = 0"
    using assms(1) by (auto simp: service_ok_def)
  have cur: "sc_current st \<noteq> StartPending" using assms(1) None by (auto simp: service_ok_def)
  have more: "\<exists>running' pending'. sc_statuses st @ [now] = StartPending # replicate running' Running @ replicate pending' StopPending \<and>
      (now \<noteq> StopPending \<longrightarrow> pending' = 0) \<and> (now = StopPending \<longrightarrow> pending' > 0) \<and> (now = StartPending \<longleftrightarrow> running' = 0)"
    if "now = sc_current st \<or> now = StopPending" for now
  proof (cases "now = StopPending")
    case True
    then show ?thesis
      using s(1,4) cur by (intro exI [of _ running] exI [of _ "Suc pending"]) (simp add: replicate_append_same)
  next
    case False
    then have "now = Running" "pending = 0" using that cur s(2) by (cases "sc_current st"; simp)+
    then show ?thesis
      using s(1) by (intro exI [of _ "Suc running"] exI [of _ 0]) (simp add: replicate_append_same)
  qed
  show ?thesis
    using assms None cur more [of "sc_current st"] more [of StopPending]
    by (cases ev) (auto simp: svcStep_def service_ok_def)
qed

lemma service_ok_reached: "serviceReaches (startService config logger) st \<Longrightarrow> service_ok st"
proof (induction rule: serviceReaches.induct)
  case start
  show ?case by (rule service_ok_start)
next
  case (asked st ev n)
  then show ?case by (intro service_ok_step) auto
next
  case (returned st)
  then show ?case by (intro service_ok_step) auto
qed

section \<open>Properties\<close>



end
