(* ===== verification/Spec2Isabelle.thy ===== *)
theory Spec2Isabelle
  imports Report_Validate App_Version Uuid Server_HTTP Release_Cache Server_Maintenance Update_Delivery
    Report_Delivery Agent_Collector Windows_Client Windows_Install Windows_Setup Windows_Service
begin

text \<open>
  A model of server-status. Agents on Linux and Windows collect the hardware inventory and the metrics
  of a machine once per interval and send them as a report to a central server. The server validates
  the report, stores it in PostgreSQL, shows it in a browser and as a spreadsheet, and hands out the
  releases with which the Linux agents update themselves.

  \<^bold>\<open>Parts and theories.\<close> Every path is below src/.

  \<^item> \<^bold>\<open>Go.\<close> \<open>Go_Prelude\<close> has what all parts share: errors as options and sums, 64-bit words, float64
    with NaN and infinities, time, \<open>sort.Slice\<close>. \<open>Go_Strings\<close> and \<open>Go_Net\<close> are the functions of the
    packages strings, strconv, encoding/hex, bufio, net and net/netip that the program calls.
  \<^item> \<^bold>\<open>Reports\<close> (internal/report). \<open>Report_Types\<close> has a record per struct, \<open>Report_Inventory\<close> the normal
    form and the fingerprint, \<open>Report_Validate\<close> the validation, one error constructor per message.
    \<open>Validate\<close> is shown equal to a declarative contract, stable under its own in-place sorting, and
    the fingerprint independent of the order of collection.
  \<^item> \<^bold>\<open>Versions and identifiers\<close> (internal/version, internal/id). \<open>App_Version\<close>: comparison is a total
    preorder on the strings that parse. \<open>Uuid\<close>: what is generated is accepted.
  \<^item> \<^bold>\<open>Store\<close> (internal/store). \<open>Store_Database\<close> has the tables as lists of rows and transactions with a
    schedule of failing statements; \<open>Store_Sync\<close> and \<open>Store_Network\<close> the synchronisation of the inventory
    tables; \<open>Store_Ingest\<close> the transaction of a report, \<open>Store_Ingest_Props\<close> what it does: all or
    nothing, one sample per node and minute, snapshots that never go back in time, exact conversion
    of counters. \<open>Store_Nodes\<close> has registration, tokens, tags and the primary interface, \<open>Store_Query\<close> the
    reading side, with the round trip from a report to what is shown.
  \<^item> \<^bold>\<open>Server\<close> (internal/server). \<open>History_Cache\<close>, \<open>Server_Export\<close>, \<open>Server_HTTP\<close>, \<open>Release_Cache\<close> and
    \<open>Server_Maintenance\<close> follow the files history_cache.go, export.go, http.go, release_cache.go and
    maintenance.go with config.go. Shown are the guard of the administrative routes, that errors
    leave the state alone, when exactly a report is accepted, that the cache serves only what was
    stored and has not expired, that no cell is a formula, that only verified release files are
    served and a damaged cache heals, and that the maintenance leaves no hour out.
  \<^item> \<^bold>\<open>Linux agent\<close> (internal/agent). \<open>Agent_Inventory\<close> and \<open>Agent_Health\<close> have what is read afresh for
    each report (collector.go, health.go), \<open>Agent_Counters\<close> the state kept between reports,
    \<open>Agent_Collector\<close> the report put together and what the server can object to in it, \<open>Agent_Client\<close> the
    configuration, the client and the loop (config.go, client.go, run.go), \<open>Agent_Update\<close> the update
    (updater.go).
  \<^item> \<^bold>\<open>Windows agent\<close> (windows-agent). \<open>Windows_Collector\<close> has configuration, fingerprint and collector,
    \<open>Windows_Client\<close> the client and the loop, \<open>Windows_Install\<close> the update of smartctl,
    \<open>Windows_Setup\<close> the installation and removal of the service and \<open>Windows_Service\<close> its state machine.
    Shown are exact traffic totals over 32-bit counters that wrap around, a bounded number of attempts,
    that only a verified smartctl is activated, and what an installation leaves behind when it fails.
  \<^item> \<^bold>\<open>Composition.\<close> \<open>Report_Delivery\<close> joins the client, a network that loses requests and answers, the
    handler and the store: however often a report is sent, it is ingested once. \<open>Update_Delivery\<close>
    joins the offer in the receipt, the release cache and the updater: an update that is offered
    can be installed.

  \<^bold>\<open>Interfaces.\<close> Five locales state what one part relies on in another, and are interpreted on the
  model's own definitions: \<open>resource_table\<close> (\<open>Store_Sync\<close>; the six inventory tables), \<open>sample_table\<close>
  (\<open>Store_Ingest_Props\<close>; the five tables of metrics), \<open>expiring_cache\<close> (\<open>History_Cache\<close>),
  \<open>store_contract\<close> (\<open>Server_HTTP\<close>; the operations of the store as the handlers see them) and
  \<open>idempotent_service\<close> (\<open>Agent_Client\<close>; interpreted in \<open>Report_Delivery\<close> on the server's handler, and
  used by both clients).

  \<^bold>\<open>State and effects.\<close> A handler, a store operation and a turn of an agent map their state to a result
  and the new state. What can fail outside the program is a schedule or an oracle in an argument,
  and the theorems hold for all of them. Loops of the source are structural recursions on the list
  they run over: attempts are the list \<open>[0..<3]\<close>, turns of an agent, ticks of the maintenance and
  retries of a rename are lists of arbitrary length, so that no fuel is needed anywhere.

  \<^bold>\<open>Arguments\<close> stand for code that is not in the repository: SHA-256, JSON, CSV, gzip, URL parsing,
  decimal fractions and the rounding of floating-point operations, the case tables of Unicode, gopsutil, smartctl,
  nvidia-smi, dmidecode, the Windows API, random numbers, clocks and the functions of the database.

  \<^bold>\<open>Not modelled.\<close>
  \<^item> Concurrency beyond the order of operations: locks, deadlines, cancelled contexts inside a
    statement; each request of the server is one step. A commit whose outcome is unknown counts as failed.
  \<^item> SQL that the Go code only sends: triggers, partitions, the rollup functions, and the aggregation
    of the summary and of the history, whose results are arguments of \<open>Store_Query\<close>.
  \<^item> The difference between a nil and an empty slice in JSON, log messages, HTTP transports, styles
    and column widths of the spreadsheet.
  \<^item> windows-agent/health.go, a copy of internal/agent/health.go on other types with fewer fields,
    and windows-agent/model.go, the same report types once more; the Windows collector takes the
    health of the disks as an argument and builds the records of \<open>Report_Types\<close>.
  \<^item> The main programs, the lock file of the agent, the log files of
    the Windows service, web.go, the macOS agent (a shell script), and the scripts
    and SQL files around the program.
\<close>

end
